(* ===== verification/Prelude.thy ===== *)
theory Prelude
  imports Main "HOL-Library.Word"
begin

text \<open>
  Shared ground of the development: the machine types, the collections of facts the
  component theories fill (\<open>run_simps\<close> for executing the models, \<open>keeps_intros\<close>
  for invariants of error-raising state transformers), results with errors as values, and
  generic lemmas on lists, words and folds that more than one component uses.
\<close>

unbundle bit_operations_syntax

type_synonym u8 = "8 word"
type_synonym u16 = "16 word"
type_synonym u32 = "32 word"
type_synonym u64 = "64 word"
type_synonym bytes = "8 word list"

named_theorems run_simps \<open>equations that execute the models\<close>
named_theorems keeps_intros \<open>introduction rules for preserved invariants\<close>

section \<open>Results: errors as values\<close>

definition bindE :: "'e + 'a \<Rightarrow> ('a \<Rightarrow> 'e + 'b) \<Rightarrow> 'e + 'b" where
  "bindE r f = (case r of Inl e \<Rightarrow> Inl e | Inr x \<Rightarrow> f x)"

lemma bindE_simps [simp]:
  "bindE (Inl e) f = Inl e"
  "bindE (Inr x) f = f x"
  by (simp_all add: bindE_def)

lemma bindE_eq_Inr: "bindE r f = Inr y \<longleftrightarrow> (\<exists>x. r = Inr x \<and> f x = Inr y)"
  by (cases r) simp_all

lemma bindE_assoc: "bindE (bindE r f) g = bindE r (\<lambda>x. bindE (f x) g)"
  by (cases r) simp_all

definition isOk :: "'e + 'a \<Rightarrow> bool" where
  "isOk r = (case r of Inl _ \<Rightarrow> False | Inr _ \<Rightarrow> True)"

lemma isOk_simps [simp]: "\<not> isOk (Inl e)" "isOk (Inr x)"
  by (simp_all add: isOk_def)

lemma isOk_iff: "isOk r \<longleftrightarrow> (\<exists>x. r = Inr x)"
  by (cases r) simp_all

text \<open>A loop over a list whose body may fail: the first error stops it.\<close>

fun foldE :: "('a \<Rightarrow> 's \<Rightarrow> 'e + 's) \<Rightarrow> 'a list \<Rightarrow> 's \<Rightarrow> 'e + 's" where
  "foldE f [] s = Inr s"
| "foldE f (x # xs) s = bindE (f x s) (foldE f xs)"

lemma foldE_append: "foldE f (xs @ ys) s = bindE (foldE f xs s) (foldE f ys)"
  by (induction xs arbitrary: s) (simp_all add: bindE_def split: sum.splits)

lemma foldE_total:
  "(\<And>x s. x \<in> set xs \<Longrightarrow> f x s = Inr (g x s)) \<Longrightarrow> foldE f xs s = Inr (fold g xs s)"
  by (induction xs arbitrary: s) simp_all

section \<open>Invariants of state transformers\<close>

text \<open>\<open>hoare P f Q\<close>: started in \<open>P\<close>, a run of \<open>f\<close> that returns ends in \<open>Q\<close>.\<close>

definition hoare :: "('s \<Rightarrow> bool) \<Rightarrow> ('s \<Rightarrow> 'e + 't) \<Rightarrow> ('t \<Rightarrow> bool) \<Rightarrow> bool" where
  "hoare P f Q \<longleftrightarrow> (\<forall>s t. P s \<longrightarrow> f s = Inr t \<longrightarrow> Q t)"

lemma hoareI: "(\<And>s t. P s \<Longrightarrow> f s = Inr t \<Longrightarrow> Q t) \<Longrightarrow> hoare P f Q"
  by (simp add: hoare_def)

lemma hoareD: "hoare P f Q \<Longrightarrow> P s \<Longrightarrow> f s = Inr t \<Longrightarrow> Q t"
  by (simp add: hoare_def)

lemma hoare_bindE: "hoare P f Q \<Longrightarrow> hoare Q g R \<Longrightarrow> hoare P (\<lambda>s. bindE (f s) g) R"
  by (fastforce simp: hoare_def bindE_eq_Inr)

lemma hoare_return [keeps_intros]: "(\<And>s. P s \<Longrightarrow> Q (f s)) \<Longrightarrow> hoare P (\<lambda>s. Inr (f s)) Q"
  by (simp add: hoare_def)

lemma hoare_fail [keeps_intros]: "hoare P (\<lambda>s. Inl (e s)) Q"
  by (simp add: hoare_def)

lemma hoare_if [keeps_intros]:
  "hoare P f Q \<Longrightarrow> hoare P g Q \<Longrightarrow> hoare P (\<lambda>s. if c then f s else g s) Q"
  by (simp add: hoare_def)

lemma hoare_weaken: "hoare P' f Q' \<Longrightarrow> (\<And>s. P s \<Longrightarrow> P' s) \<Longrightarrow> (\<And>t. Q' t \<Longrightarrow> Q t) \<Longrightarrow> hoare P f Q"
  by (auto simp: hoare_def)

lemma hoare_foldE:
  "(\<And>x. x \<in> set xs \<Longrightarrow> hoare I (f x) I) \<Longrightarrow> hoare I (foldE f xs) I"
proof (induction xs)
  case Nil
  then show ?case by (simp add: hoare_def)
next
  case (Cons x xs)
  then have "hoare I (f x) I" and "hoare I (foldE f xs) I" by simp_all
  then have "hoare I (\<lambda>s. bindE (f x s) (foldE f xs)) I" by (rule hoare_bindE)
  then show ?case by (simp add: hoare_def)
qed

section \<open>A loop of steps that keep a contract\<close>

text \<open>
  The interface between a driver loop (the debugger's command loop, the listing of all
  processes) and the step it repeats: the step keeps an invariant. The driver's
  lemmas are proved here once; each component interprets the locale on its own step.
\<close>

locale stepper =
  fixes inv :: "'s \<Rightarrow> bool"
    and step :: "'a \<Rightarrow> 's \<Rightarrow> 'e + 's"
  assumes step_keeps: "inv s \<Longrightarrow> step a s = Inr s' \<Longrightarrow> inv s'"
begin

lemma stepper_run_keeps: "inv s \<Longrightarrow> foldE step as s = Inr s' \<Longrightarrow> inv s'"
  by (induction as arbitrary: s) (auto simp: bindE_eq_Inr intro: step_keeps)

lemma stepper_prefix_keeps:
  assumes "inv s" and "foldE step (as @ bs) s = Inr s'"
  shows "\<exists>m. foldE step as s = Inr m \<and> inv m \<and> foldE step bs m = Inr s'"
  using assms by (auto simp: foldE_append bindE_eq_Inr dest: stepper_run_keeps)

end

section \<open>Lists\<close>

lemma butlast_last_snoc: "xs \<noteq> [] \<Longrightarrow> butlast xs @ [last xs] = xs"
  by simp

lemma dropWhile_length_le: "length (dropWhile P xs) \<le> length xs"
  by (induction xs) simp_all

lemma takeWhile_not_Nil: "xs \<noteq> [] \<Longrightarrow> P (hd xs) \<Longrightarrow> takeWhile P xs \<noteq> []"
  by (cases xs) simp_all

lemma dropWhile_Cons_head: "dropWhile P xs = y # ys \<Longrightarrow> \<not> P y"
  by (induction xs) (auto split: if_splits)

lemma filter_id_conv': "(\<And>x. x \<in> set xs \<Longrightarrow> P x) \<Longrightarrow> filter P xs = xs"
  by simp

lemma nth_delete:
  "i < length xs \<Longrightarrow> k < length xs - 1 \<Longrightarrow>
   (take i xs @ drop (Suc i) xs) ! k = (if k < i then xs ! k else xs ! Suc k)"
  by (auto simp: nth_append min_def)

lemma distinct_split_neq:
  assumes "xs = a @ y # b" and "distinct (map f xs)"
  shows "\<forall>x \<in> set a \<union> set b. f x \<noteq> f y"
  using assms by (auto simp: image_iff dest: sym)

lemma set_delete_distinct:
  assumes "distinct (map f xs)" and "i < length xs"
  shows "set (take i xs @ drop (Suc i) xs) = {x \<in> set xs. f x \<noteq> f (xs ! i)}"
proof -
  have split: "xs = take i xs @ xs ! i # drop (Suc i) xs"
    using assms(2) by (rule id_take_nth_drop)
  have "set xs = insert (xs ! i) (set (take i xs) \<union> set (drop (Suc i) xs))"
    by (rule trans [OF arg_cong [where f = set, OF split]]) simp
  with distinct_split_neq [OF split assms(1)] show ?thesis by auto
qed

section \<open>Bytes of words\<close>

definition byte_of :: "nat \<Rightarrow> u64 \<Rightarrow> u8" where
  "byte_of i w = ucast (drop_bit (8 * i) w)"

lemma bit_byte_of: "bit (byte_of i w) n \<longleftrightarrow> n < 8 \<and> bit w (8 * i + n)"
  by (simp add: byte_of_def bit_simps)

definition le_bytes :: "u64 \<Rightarrow> bytes" where
  "le_bytes w = map (\<lambda>i. byte_of i w) [0..<8]"

lemma length_le_bytes [simp]: "length (le_bytes w) = 8"
  by (simp add: le_bytes_def)

lemma nth_le_bytes: "i < 8 \<Longrightarrow> le_bytes w ! i = byte_of i w"
  by (simp add: le_bytes_def)

lemma word64_eq_bytes: "(\<And>i. i < 8 \<Longrightarrow> byte_of i v = byte_of i w) \<Longrightarrow> v = w"
proof (rule bit_word_eqI)
  fix n :: nat
  assume eq: "\<And>i. i < 8 \<Longrightarrow> byte_of i v = byte_of i w" and n: "n < LENGTH(64)"
  have "n div 8 < 8" using n by simp
  then have "bit (byte_of (n div 8) v) (n mod 8) = bit (byte_of (n div 8) w) (n mod 8)"
    using eq by simp
  then show "bit v n = bit w n" by (simp add: bit_byte_of)
qed

text \<open>The value of a little-endian field of any width.\<close>

fun le_value :: "bytes \<Rightarrow> nat" where
  "le_value [] = 0"
| "le_value (b # bs) = unat b + 256 * le_value bs"

lemma le_value_bound: "le_value bs < 256 ^ length bs"
proof (induction bs)
  case Nil
  then show ?case by simp
next
  case (Cons b bs)
  have "unat b < 256" using unsigned_less [of b] by simp
  with Cons show ?case by simp
qed

fun le_encode :: "nat \<Rightarrow> nat \<Rightarrow> bytes" where
  "le_encode 0 n = []"
| "le_encode (Suc k) n = of_nat (n mod 256) # le_encode k (n div 256)"

lemma length_le_encode [simp]: "length (le_encode k n) = k"
  by (induction k arbitrary: n) simp_all

lemma le_value_encode: "le_value (le_encode k n) = n mod 256 ^ k"
proof (induction k arbitrary: n)
  case 0
  then show ?case by simp
next
  case (Suc k)
  have "unat (of_nat (n mod 256) :: u8) = n mod 256"
    by (simp add: unat_of_nat)
  with Suc show ?case by (simp add: mod_mult2_eq)
qed

text \<open>Reading eight bytes as a word and taking the word's bytes again gives the same bytes.\<close>

lemma le_value_nth: "i < length bs \<Longrightarrow> le_value bs div 256 ^ i mod 256 = unat (bs ! i)"
proof (induction bs arbitrary: i)
  case Nil
  then show ?case by simp
next
  case (Cons b bs)
  have "unat b < 256" using unsigned_less [of b] by simp
  with Cons show ?case by (cases i) (simp_all add: div_mult2_eq)
qed

lemma byte_of_of_nat: "i < 8 \<Longrightarrow> byte_of i (of_nat n) = of_nat (n div 256 ^ i)"
proof (rule bit_word_eqI)
  fix m :: nat
  assume i: "i < 8" and m: "m < LENGTH(8)"
  have "(256 :: nat) ^ i = 2 ^ (8 * i)" by (simp add: power_mult)
  then have "n div 256 ^ i = drop_bit (8 * i) n" by (simp add: drop_bit_eq_div)
  then show "bit (byte_of i (of_nat n)) m = bit (of_nat (n div 256 ^ i) :: u8) m"
    using i m by (simp add: bit_byte_of bit_simps)
qed

lemma byte_of_le_value:
  assumes "i < 8" and "i < length bs"
  shows "byte_of i (of_nat (le_value bs)) = bs ! i"
proof -
  have "(of_nat (le_value bs div 256 ^ i) :: u8) = of_nat (le_value bs div 256 ^ i mod 256)"
    unfolding word_unat_eq_iff by (simp add: unat_of_nat)
  then show ?thesis using assms by (simp add: byte_of_of_nat le_value_nth)
qed

end
