(* ===== verification/CText.thy ===== *)
theory CText
  imports Prelude
begin

text \<open>
  The text routines of the C and C++ standard libraries that the four programs use, as
  executable functions on character lists: number printing (the printf conversions
  \<open>%d\<close>, \<open>%x\<close>, \<open>%o\<close>, \<open>%016llx\<close>), number scanning (\<open>strtol\<close>, \<open>strtoul\<close>, \<open>atoi\<close> with their
  base detection and their saturation), \<open>strtok\<close>, \<open>fgets\<close>, \<open>isprint\<close> and the
  \<open>find\<close>/\<open>erase\<close> members of \<open>std::string\<close>. The lemmas give what the components rely on:
  printing and scanning are inverse, tokens contain no delimiter, \<open>fgets\<close> loses nothing.
\<close>

section \<open>Characters\<close>

abbreviation nl :: string where "nl \<equiv> [CHR 0x0A]"
abbreviation tab :: string where "tab \<equiv> [CHR 0x09]"
abbreviation quote :: string where "quote \<equiv> [CHR 0x22]"
abbreviation NUL :: char where "NUL \<equiv> CHR 0x00"

definition byte_char :: "u8 \<Rightarrow> char" where
  "byte_char b = char_of (unat b)"

definition char_byte :: "char \<Rightarrow> u8" where
  "char_byte c = of_nat (of_char c)"

lemma byte_char_inverse [simp]: "byte_char (char_byte c) = c"
  by (simp add: byte_char_def char_byte_def unat_of_nat)

lemma char_byte_inverse [simp]: "char_byte (byte_char b) = b"
proof -
  have "unat b < 256" using unsigned_less [of b] by simp
  then show ?thesis by (simp add: byte_char_def char_byte_def)
qed

text \<open>\<open>isprint\<close> in the C locale.\<close>

definition isprint :: "u8 \<Rightarrow> bool" where
  "isprint b \<longleftrightarrow> 32 \<le> unat b \<and> unat b \<le> 126"

text \<open>\<open>isspace\<close> in the C locale.\<close>

definition isspace :: "char \<Rightarrow> bool" where
  "isspace c \<longleftrightarrow> c \<in> {CHR 0x20, CHR 0x09, CHR 0x0A, CHR 0x0B, CHR 0x0C, CHR 0x0D}"

definition isdigit :: "char \<Rightarrow> bool" where
  "isdigit c \<longleftrightarrow> 48 \<le> (of_char c :: nat) \<and> (of_char c :: nat) \<le> 57"

text \<open>A C string ends at its first NUL.\<close>

definition c_str :: "string \<Rightarrow> string" where
  "c_str s = takeWhile (\<lambda>c. c \<noteq> NUL) s"

section \<open>Printing numbers\<close>

definition digit_char :: "nat \<Rightarrow> char" where
  "digit_char d = char_of (if d < 10 then 48 + d else 87 + d)"

function to_base :: "nat \<Rightarrow> nat \<Rightarrow> string" where
  "to_base b n =
     (if n < b \<or> b < 2 then [digit_char n] else to_base b (n div b) @ [digit_char (n mod b)])"
  by pat_completeness auto
termination
  by (relation "measure snd") auto

declare to_base.simps [simp del]

lemma to_base_not_Nil [simp]: "to_base b n \<noteq> []"
  by (subst to_base.simps) simp

text \<open>\<open>%llx\<close>, \<open>%llu\<close>, \<open>%o\<close>; \<open>%d\<close> and \<open>%lld\<close> print the signed reading.\<close>

definition hex :: "nat \<Rightarrow> string" where "hex n = to_base 16 n"
definition dec :: "nat \<Rightarrow> string" where "dec n = to_base 10 n"
definition oct :: "nat \<Rightarrow> string" where "oct n = to_base 8 n"

definition sdec :: "int \<Rightarrow> string" where
  "sdec i = (if i < 0 then ''-'' @ dec (nat (- i)) else dec (nat i))"

definition zero_pad :: "nat \<Rightarrow> string \<Rightarrow> string" where
  "zero_pad k s = replicate (k - length s) (CHR ''0'') @ s"

section \<open>Scanning numbers\<close>

definition digit_val :: "char \<Rightarrow> nat option" where
  "digit_val c = (let n = (of_char c :: nat) in
     if 48 \<le> n \<and> n \<le> 57 then Some (n - 48)
     else if 97 \<le> n \<and> n \<le> 122 then Some (n - 87)
     else if 65 \<le> n \<and> n \<le> 90 then Some (n - 55)
     else None)"

fun read_digits :: "nat \<Rightarrow> nat \<Rightarrow> string \<Rightarrow> nat" where
  "read_digits b acc [] = acc"
| "read_digits b acc (c # cs) =
     (case digit_val c of
        None \<Rightarrow> acc
      | Some d \<Rightarrow> if d < b then read_digits b (acc * b + d) cs else acc)"

definition is_digit_in :: "nat \<Rightarrow> string \<Rightarrow> bool" where
  "is_digit_in b s = (case s of [] \<Rightarrow> False | c # _ \<Rightarrow>
     (case digit_val c of None \<Rightarrow> False | Some d \<Rightarrow> d < b))"

text \<open>
  The prefix rules of \<open>strtol\<close>: a \<open>0x\<close> before a hexadecimal digit is skipped when the
  base is 0 or 16; base 0 then means 16 after that prefix, 8 after a \<open>0\<close>, 10 otherwise.
\<close>

definition has_hex_prefix :: "string \<Rightarrow> bool" where
  "has_hex_prefix s = (case s of
      z # x # rest \<Rightarrow> z = CHR ''0'' \<and> (x = CHR ''x'' \<or> x = CHR ''X'') \<and> is_digit_in 16 rest
    | _ \<Rightarrow> False)"

definition scan_magnitude :: "nat \<Rightarrow> string \<Rightarrow> nat" where
  "scan_magnitude base s =
     (if (base = 0 \<or> base = 16) \<and> has_hex_prefix s then read_digits 16 0 (drop 2 s)
      else if base = 0 then
        (if s \<noteq> [] \<and> hd s = CHR ''0'' then read_digits 8 0 s else read_digits 10 0 s)
      else read_digits base 0 s)"

definition scan_sign :: "string \<Rightarrow> bool \<times> string" where
  "scan_sign s = (case s of
      [] \<Rightarrow> (False, [])
    | c # cs \<Rightarrow> if c = CHR ''-'' then (True, cs) else if c = CHR ''+'' then (False, cs) else (False, s))"

definition long_max :: int where "long_max = 9223372036854775807"
definition long_min :: int where "long_min = - 9223372036854775808"

text \<open>\<open>strtol (s, NULL, base)\<close>: saturating at the ends of \<open>long\<close>.\<close>

definition strtol :: "string \<Rightarrow> nat \<Rightarrow> int" where
  "strtol s base = (let (neg, rest) = scan_sign (dropWhile isspace s);
                        m = int (scan_magnitude base rest)
                    in if neg then max long_min (- m) else min long_max m)"

text \<open>\<open>strtoul (s, NULL, base)\<close>: saturating at \<open>ULONG_MAX\<close>, negation wraps.\<close>

definition strtoul :: "string \<Rightarrow> nat \<Rightarrow> u64" where
  "strtoul s base = (let (neg, rest) = scan_sign (dropWhile isspace s);
                         m = scan_magnitude base rest
                     in if m \<ge> 2 ^ 64 then - 1 else if neg then - of_nat m else of_nat m)"

text \<open>\<open>atoi\<close> of glibc: \<open>(int) strtol (s, NULL, 10)\<close>.\<close>

definition atoi :: "string \<Rightarrow> int" where
  "atoi s = sint (word_of_int (strtol s 10) :: 32 word)"

section \<open>strtok\<close>

text \<open>
  The successive results of \<open>strtok\<close>: the maximal runs of characters that are not
  delimiters. The call after the last one returns \<open>NULL\<close>, read here as running past
  the end of the list.
\<close>

function tokens :: "char list \<Rightarrow> string \<Rightarrow> string list" where
  "tokens D s =
     (let t = dropWhile (\<lambda>c. c \<in> set D) s in
      if t = [] then []
      else takeWhile (\<lambda>c. c \<notin> set D) t # tokens D (dropWhile (\<lambda>c. c \<notin> set D) t))"
  by pat_completeness auto
termination
proof (relation "measure (\<lambda>(D, s). length s)", goal_cases)
  case 1
  show ?case by simp
next
  case (2 D s t)
  then obtain c cs where t: "t = c # cs" by (meson neq_Nil_conv)
  then have "c \<notin> set D" using 2 by (metis dropWhile_Cons_head)
  then have "length (dropWhile (\<lambda>c. c \<notin> set D) t) < length t"
    using t dropWhile_length_le [of "\<lambda>c. c \<notin> set D" cs] by simp
  also have "length t \<le> length s" using 2 dropWhile_length_le by simp
  finally show ?case by simp
qed

declare tokens.simps [simp del]

section \<open>fgets\<close>

text \<open>
  The successive buffers of \<open>fgets (buf, size, fp)\<close> over a stream: each holds at most
  \<open>size - 1\<close> characters and ends after a newline.
\<close>

definition fgets_one :: "nat \<Rightarrow> string \<Rightarrow> string" where
  "fgets_one cap s =
     (let line = takeWhile (\<lambda>c. c \<noteq> CHR 0x0A) s;
          full = (if length line < length s then line @ nl else line)
      in take (cap - 1) full)"

function fgets_all :: "nat \<Rightarrow> string \<Rightarrow> string list" where
  "fgets_all cap s =
     (if s = [] \<or> cap < 2 then []
      else fgets_one cap s # fgets_all cap (drop (length (fgets_one cap s)) s))"
  by pat_completeness auto
termination
proof (relation "measure (\<lambda>(cap, s). length s)", goal_cases)
  case 1
  show ?case by simp
next
  case (2 cap s)
  then have "fgets_one cap s \<noteq> []"
    by (cases s) (auto simp: fgets_one_def Let_def)
  then show ?case using 2 by (cases s) auto
qed

declare fgets_all.simps [simp del]

section \<open>std::string members\<close>

fun find_sub :: "string \<Rightarrow> string \<Rightarrow> nat option" where
  "find_sub pat [] = (if pat = [] then Some 0 else None)"
| "find_sub pat (c # cs) =
     (if take (length pat) (c # cs) = pat then Some 0
      else map_option Suc (find_sub pat cs))"

definition erase_at :: "nat \<Rightarrow> nat \<Rightarrow> string \<Rightarrow> string" where
  "erase_at pos len s = take pos s @ drop (pos + len) s"

text \<open>\<open>find (c, pos)\<close> on characters, with \<open>None\<close> for \<open>npos\<close>.\<close>

fun find_char :: "char \<Rightarrow> string \<Rightarrow> nat option" where
  "find_char d [] = None"
| "find_char d (c # cs) = (if c = d then Some 0 else map_option Suc (find_char d cs))"

definition find_from :: "char \<Rightarrow> string \<Rightarrow> nat \<Rightarrow> nat option" where
  "find_from d s pos = map_option (\<lambda>k. pos + k) (find_char d (drop pos s))"

section \<open>Lemmas: printing and scanning are inverse\<close>

lemma char_of_48 [simp]: "char_of (48 :: nat) = CHR ''0''"
proof -
  have "of_char (CHR ''0'') = (48 :: nat)" by simp
  then show ?thesis by (metis char_of_char)
qed

lemma digit_val_digit_char: "d < 36 \<Longrightarrow> digit_val (digit_char d) = Some d"
  by (auto simp: digit_val_def digit_char_def Let_def)

lemma read_digits_to_base:
  assumes "2 \<le> b" and "b \<le> 36"
  shows "read_digits b acc (to_base b n @ rest) =
         read_digits b (acc * b ^ length (to_base b n) + n) rest"
  using assms
proof (induction b n arbitrary: rest rule: to_base.induct)
  case (1 b n)
  show ?case
  proof (cases "n < b")
    case True
    then show ?thesis using "1.prems" by (simp add: to_base.simps [of b n] digit_val_digit_char)
  next
    case False
    then have unfold: "to_base b n = to_base b (n div b) @ [digit_char (n mod b)]"
      using "1.prems" by (simp add: to_base.simps [of b n])
    have "n mod b < b" using "1.prems" by simp
    have lt: "n mod b < b" using "1.prems" by simp
    then have "n mod b < 36" using "1.prems" by linarith
    then have "digit_val (digit_char (n mod b)) = Some (n mod b)"
      by (rule digit_val_digit_char)
    moreover have "(acc * b ^ length (to_base b (n div b)) + n div b) * b + n mod b
      = acc * b ^ Suc (length (to_base b (n div b))) + n"
      by (simp add: algebra_simps)
    ultimately show ?thesis
      using 1 False lt by (simp add: unfold)
  qed
qed

lemma read_digits_to_base_0:
  "2 \<le> b \<Longrightarrow> b \<le> 36 \<Longrightarrow> read_digits b 0 (to_base b n) = n"
  using read_digits_to_base [of b 0 n "[]"] by simp

lemma to_base_head:
  assumes "2 \<le> b"
  shows "\<exists>d cs. to_base b n = digit_char d # cs \<and> d < b \<and> (0 < n \<longrightarrow> 0 < d)"
  using assms
proof (induction b n rule: to_base.induct)
  case (1 b n)
  show ?case
  proof (cases "n < b")
    case True
    then have "to_base b n = digit_char n # [] \<and> n < b" by (simp add: to_base.simps [of b n])
    then show ?thesis by blast
  next
    case False
    then have "0 < n div b" using "1.prems" by (simp add: div_greater_zero_iff)
    then show ?thesis using 1 False by (auto simp: to_base.simps [of b n])
  qed
qed

lemma to_base_chars:
  assumes "2 \<le> b" and "c \<in> set (to_base b n)"
  shows "\<exists>d < b. c = digit_char d"
  using assms
proof (induction b n rule: to_base.induct)
  case (1 b n)
  show ?case
  proof (cases "n < b")
    case True
    then show ?thesis using "1.prems" by (auto simp: to_base.simps [of b n])
  next
    case False
    then have "c \<in> set (to_base b (n div b)) \<or> c = digit_char (n mod b)"
      using "1.prems"(2) "1.prems"(1) by (auto simp: to_base.simps [of b n])
    moreover have "n mod b < b" using "1.prems" by simp
    moreover have "\<not> (n < b \<or> b < 2)" using False "1.prems" by simp
    ultimately show ?thesis using "1.IH" "1.prems" by blast
  qed
qed

lemma of_char_digit_char: "d < 36 \<Longrightarrow> (of_char (digit_char d) :: nat) = (if d < 10 then 48 + d else 87 + d)"
  by (simp add: digit_char_def)

lemma digit_char_plain:
  assumes "d < 33"
  shows "\<not> isspace (digit_char d)" "digit_char d \<noteq> CHR ''-''" "digit_char d \<noteq> CHR ''+''"
    "digit_char d \<noteq> CHR ''x''" "digit_char d \<noteq> CHR ''X''"
    "digit_char d = CHR ''0'' \<longleftrightarrow> d = 0"
proof -
  have c: "(of_char (digit_char d) :: nat) = (if d < 10 then 48 + d else 87 + d)"
    using assms by (simp add: of_char_digit_char)
  then have ne: "digit_char d \<noteq> ch" if "(of_char ch :: nat) \<noteq> (if d < 10 then 48 + d else 87 + d)" for ch
    using that by metis
  show "\<not> isspace (digit_char d)"
    using c by (auto simp: isspace_def split: if_splits)
  show "digit_char d \<noteq> CHR ''-''" "digit_char d \<noteq> CHR ''+''"
    "digit_char d \<noteq> CHR ''x''" "digit_char d \<noteq> CHR ''X''"
    by (rule ne, use assms in simp)+
  show "digit_char d = CHR ''0'' \<longleftrightarrow> d = 0"
  proof
    assume "digit_char d = CHR ''0''"
    with c show "d = 0" by (simp split: if_splits)
  qed (simp add: digit_char_def)
qed

lemma no_hex_prefix_to_base:
  assumes "2 \<le> b" and "b \<le> 16"
  shows "\<not> has_hex_prefix (to_base b n)"
proof
  assume "has_hex_prefix (to_base b n)"
  then obtain x where "x \<in> set (to_base b n)" and x: "x = CHR ''x'' \<or> x = CHR ''X''"
    by (auto simp: has_hex_prefix_def split: list.splits)
  then obtain d where "d < b" and "x = digit_char d"
    using to_base_chars assms(1) by blast
  with x digit_char_plain [of d] assms(2) show False by auto
qed

lemma scan_sign_to_base:
  assumes "2 \<le> b" and "b \<le> 16"
  shows "scan_sign (dropWhile isspace (to_base b n)) = (False, to_base b n)"
proof -
  obtain d cs where "to_base b n = digit_char d # cs" and "d < b"
    using to_base_head assms(1) by blast
  with digit_char_plain [of d] assms(2) show ?thesis by (simp add: scan_sign_def)
qed

lemma scan_hex: "scan_magnitude 0 (''0x'' @ hex n) = n"
proof -
  obtain d cs where d: "to_base 16 n = digit_char d # cs" "d < 16"
    using to_base_head [of 16 n] by auto
  then have "is_digit_in 16 (to_base 16 n)"
    by (simp add: is_digit_in_def digit_val_digit_char)
  then have "has_hex_prefix (''0x'' @ hex n)"
    by (simp add: has_hex_prefix_def hex_def)
  then show ?thesis
    by (simp add: scan_magnitude_def hex_def read_digits_to_base_0)
qed

lemma strtol_hex: "strtol (''0x'' @ hex n) 0 = min long_max (int n)"
proof -
  have "scan_sign (dropWhile isspace (''0x'' @ hex n)) = (False, ''0x'' @ hex n)"
    by (simp add: scan_sign_def isspace_def)
  then show ?thesis using scan_hex [of n] by (simp add: strtol_def)
qed

lemma scan_dec: "scan_magnitude 0 (dec n) = n" "scan_magnitude 10 (dec n) = n"
proof -
  obtain d cs where d: "to_base 10 n = digit_char d # cs" "d < 10" "0 < n \<longrightarrow> 0 < d"
    using to_base_head [of 10 n] by auto
  have "hd (dec n) = CHR ''0'' \<Longrightarrow> n = 0"
    using d digit_char_plain(6) [of d] by (auto simp: dec_def)
  moreover have "n = 0 \<Longrightarrow> dec n = ''0''"
    by (simp add: dec_def to_base.simps digit_char_def)
  ultimately show "scan_magnitude 0 (dec n) = n"
    using no_hex_prefix_to_base [of 10 n]
    by (auto simp: scan_magnitude_def read_digits_to_base_0 digit_val_def dec_def)
  show "scan_magnitude 10 (dec n) = n"
    by (simp add: scan_magnitude_def dec_def read_digits_to_base_0)
qed

lemma strtol_dec: "strtol (dec n) 0 = min long_max (int n)" "strtol (dec n) 10 = min long_max (int n)"
  using scan_sign_to_base [of 10 n] scan_dec [of n] by (simp_all add: strtol_def dec_def)

lemma atoi_dec:
  assumes "n < 2 ^ 31"
  shows "atoi (dec n) = int n"
proof -
  have "strtol (dec n) 10 = int n"
    using assms by (simp add: strtol_dec long_max_def)
  then have "atoi (dec n) = sint (word_of_int (int n) :: 32 word)"
    by (simp only: atoi_def)
  also have "\<dots> = signed_take_bit 31 (int n)"
    by (subst sint_sbintrunc') simp
  also have "\<dots> = int n"
    using assms by (intro signed_take_bit_int_eq_self) simp_all
  finally show ?thesis .
qed

lemma strtoul_hex:
  assumes "n < 2 ^ 64"
  shows "strtoul (hex n) 16 = of_nat n"
proof -
  have "scan_magnitude 16 (hex n) = n"
    using no_hex_prefix_to_base [of 16 n]
    by (simp add: scan_magnitude_def hex_def read_digits_to_base_0)
  then show ?thesis
    using assms scan_sign_to_base [of 16 n] by (simp add: strtoul_def hex_def)
qed

section \<open>Lemmas: tokens, lines, searches\<close>

lemma tokens_Nil [simp]: "tokens D [] = []"
  by (simp add: tokens.simps)

lemma tokens_delim: "c \<in> set D \<Longrightarrow> tokens D (c # s) = tokens D s"
  by (subst (1 2) tokens.simps) simp

lemma tokens_word:
  assumes "w \<noteq> []" and "set w \<inter> set D = {}" and "rest = [] \<or> hd rest \<in> set D"
  shows "tokens D (w @ rest) = w # tokens D rest"
proof -
  obtain c cs where w: "w = c # cs" using assms(1) by (cases w) auto
  have "dropWhile (\<lambda>c. c \<in> set D) (w @ rest) = w @ rest"
    using assms(2) w by auto
  moreover have "takeWhile (\<lambda>c. c \<notin> set D) (w @ rest) = w"
    using assms(2,3) by (cases rest) (auto simp: takeWhile_append)
  moreover have "dropWhile (\<lambda>c. c \<notin> set D) (w @ rest) = rest"
    using assms(2,3) by (cases rest) (auto simp: dropWhile_append)
  ultimately show ?thesis using assms(1) by (simp add: tokens.simps [of D "w @ rest"])
qed

lemma tokens_clean:
  "t \<in> set (tokens D s) \<Longrightarrow> t \<noteq> [] \<and> set t \<inter> set D = {}"
proof (induction D s rule: tokens.induct)
  case (1 D s)
  define u where "u = dropWhile (\<lambda>c. c \<in> set D) s"
  show ?case
  proof (cases "u = []")
    case True
    then show ?thesis using "1.prems" by (simp add: tokens.simps [of D s] u_def)
  next
    case False
    then have "hd u \<notin> set D" unfolding u_def by (rule hd_dropWhile)
    then have "takeWhile (\<lambda>c. c \<notin> set D) u \<noteq> []"
      using False by (simp add: takeWhile_not_Nil)
    moreover have "set (takeWhile (\<lambda>c. c \<notin> set D) u) \<inter> set D = {}"
      by (auto dest: set_takeWhileD)
    ultimately show ?thesis
      using "1.prems" "1.IH" [OF u_def] False
      by (auto simp: tokens.simps [of D s] u_def [symmetric])
  qed
qed

lemma fgets_one_bounds:
  assumes "s \<noteq> []" and "2 \<le> cap"
  shows "fgets_one cap s \<noteq> []" "length (fgets_one cap s) < cap"
    "fgets_one cap s @ drop (length (fgets_one cap s)) s = s"
proof -
  define line where "line = takeWhile (\<lambda>c. c \<noteq> CHR 0x0A) s"
  define full where "full = (if length line < length s then line @ nl else line)"
  define tail where "tail = dropWhile (\<lambda>c. c \<noteq> CHR 0x0A) s"
  have s: "s = line @ tail" by (simp add: line_def tail_def)
  have "\<exists>r. s = full @ r"
  proof (cases tail)
    case Nil
    then show ?thesis using s by (simp add: full_def)
  next
    case (Cons c cs)
    then have "c = CHR 0x0A" unfolding tail_def by (auto dest: dropWhile_Cons_head)
    then show ?thesis using s Cons by (simp add: full_def)
  qed
  then obtain r where r: "s = full @ r" by blast
  have one: "fgets_one cap s = take (cap - 1) full"
    by (simp add: fgets_one_def line_def full_def Let_def)
  have "full \<noteq> []"
    using assms(1) by (cases s) (auto simp: full_def line_def)
  then show "fgets_one cap s \<noteq> []" using one assms(2) by simp
  show "length (fgets_one cap s) < cap" using one assms(2) by simp
  show "fgets_one cap s @ drop (length (fgets_one cap s)) s = s"
    unfolding one by (subst r, subst r) (simp add: min_def)
qed

lemma fgets_all_Nil [simp]: "fgets_all cap [] = []"
  by (simp add: fgets_all.simps)

lemma fgets_all_concat: "2 \<le> cap \<Longrightarrow> concat (fgets_all cap s) = s"
proof (induction cap s rule: fgets_all.induct)
  case (1 cap s)
  then show ?case
    using fgets_one_bounds(3) [of s cap]
    by (cases "s = []") (simp_all add: fgets_all.simps [of cap s])
qed

lemma fgets_all_lengths: "l \<in> set (fgets_all cap s) \<Longrightarrow> l \<noteq> [] \<and> length l < cap"
proof (induction cap s rule: fgets_all.induct)
  case (1 cap s)
  then show ?case
    using fgets_one_bounds(1,2) [of s cap]
    by (cases "s = [] \<or> cap < 2") (auto simp: fgets_all.simps [of cap s])
qed

lemma find_sub_Some:
  "find_sub pat s = Some k \<Longrightarrow>
   take (length pat) (drop k s) = pat \<and> (\<forall>j < k. take (length pat) (drop j s) \<noteq> pat)"
proof (induction s arbitrary: k)
  case Nil
  then show ?case by (simp split: if_splits)
next
  case (Cons c cs)
  show ?case
  proof (cases "take (length pat) (c # cs) = pat")
    case True
    then show ?thesis using Cons.prems by simp
  next
    case False
    then obtain m where "find_sub pat cs = Some m" and k: "k = Suc m"
      using Cons.prems by auto
    with Cons.IH have "take (length pat) (drop m cs) = pat"
      and "\<forall>j < m. take (length pat) (drop j cs) \<noteq> pat" by auto
    with False k show ?thesis by (auto simp: less_Suc_eq_0_disj)
  qed
qed

lemma find_sub_append: "pat \<noteq> [] \<Longrightarrow> find_sub pat (a @ pat @ b) \<noteq> None"
proof (induction a)
  case Nil
  then show ?case by (cases pat) simp_all
qed simp

lemma find_sub_None_prefix: "find_sub pat (s @ t) = None \<Longrightarrow> find_sub pat s = None"
proof (induction s)
  case Nil
  then show ?case by (cases t) (auto split: if_splits)
next
  case (Cons c cs)
  have "take (length pat) (c # cs @ t) = pat" if "take (length pat) (c # cs) = pat"
  proof -
    have "length pat \<le> length (c # cs)" using that by (metis length_take min.cobounded1 min.commute)
    then show ?thesis using that take_append [of "length pat" "c # cs" t] by simp
  qed
  with Cons show ?case by (auto split: if_splits)
qed

lemma find_char_Some:
  "find_char d s = Some k \<Longrightarrow> k < length s \<and> s ! k = d \<and> d \<notin> set (take k s)"
  by (induction s arbitrary: k) (auto split: if_splits)

lemma find_char_None: "find_char d s = None \<longleftrightarrow> d \<notin> set s"
  by (induction s) auto

lemma find_char_append: "d \<notin> set w \<Longrightarrow> find_char d (w @ d # r) = Some (length w)"
  by (induction w) auto

end
