(* ===== verification/Platform.thy ===== *)
theory Platform
  imports CText
begin

text \<open>
  The ways a process stops running its program, which all models share, and
  what the debugger (hw4) reaches outside its own sources: the \<open>ptrace\<close>, \<open>fork\<close>, \<open>execvp\<close>
  and \<open>waitpid\<close> system calls, the capstone disassembler and the files it opens. All of it
  is a record of functions over a kernel state \<open>'k\<close> that the debugger's definitions take as
  an argument; nothing is assumed of it here. What a property needs of it is a named
  hypothesis, stated at the end: the documented reading and writing of a tracee's memory
  and registers.
\<close>

section \<open>Ways a process stops running the program\<close>

datatype halt =
    Abort
  | OutOfBounds
  | Uninitialised
  | SignedOverflow
  | Uncaught
  | NullPointer
  | ImageReplaced
  | Exit int

section \<open>Registers\<close>

text \<open>
  \<open>struct user_regs_struct\<close>: the fields the debugger names; the rest, which it only carries
  from \<open>GETREGS\<close> to \<open>SETREGS\<close>, is one list.
\<close>

record user_regs =
  rg_r15 :: u64
  rg_r14 :: u64
  rg_r13 :: u64
  rg_r12 :: u64
  rg_r11 :: u64
  rg_r10 :: u64
  rg_r9 :: u64
  rg_r8 :: u64
  rg_rbp :: u64
  rg_rsp :: u64
  rg_rsi :: u64
  rg_rdi :: u64
  rg_rip :: u64
  rg_rax :: u64
  rg_rbx :: u64
  rg_rcx :: u64
  rg_rdx :: u64
  rg_eflags :: u64
  rg_others :: "u64 list"

section \<open>The platform\<close>

text \<open>A decoded instruction: what the debugger reads of \<open>cs_insn\<close>.\<close>

record cs_insn =
  insn_address :: u64
  insn_size :: nat
  insn_mnemonic :: string
  insn_op_str :: string

text \<open>
  A call that can fail returns \<open>None\<close> for its error return and leaves the kernel state as it
  was. \<open>ptrace_peektext\<close> returns the word itself, since the code never looks at \<open>errno\<close>
  (an unreadable address reads as all ones). \<open>sys_fork\<close> returns -1, 0 in the child, or the
  child's pid. \<open>sys_execvp\<close> succeeds with \<open>Some\<close>, when the caller is gone.
  \<open>cs_disasm\<close> decodes the first instruction of the bytes, if there is one.
\<close>

record 'k platform =
  ptrace_peektext :: "'k \<Rightarrow> int \<Rightarrow> u64 \<Rightarrow> u64"
  ptrace_poketext :: "'k \<Rightarrow> int \<Rightarrow> u64 \<Rightarrow> u64 \<Rightarrow> 'k option"
  ptrace_getregs :: "'k \<Rightarrow> int \<Rightarrow> user_regs option"
  ptrace_setregs :: "'k \<Rightarrow> int \<Rightarrow> user_regs \<Rightarrow> 'k option"
  ptrace_singlestep :: "'k \<Rightarrow> int \<Rightarrow> 'k option"
  ptrace_cont :: "'k \<Rightarrow> int \<Rightarrow> 'k option"
  ptrace_setoptions :: "'k \<Rightarrow> int \<Rightarrow> 'k"
  ptrace_traceme :: "'k \<Rightarrow> 'k option"
  sys_fork :: "'k \<Rightarrow> int \<times> 'k"
  sys_execvp :: "'k \<Rightarrow> string \<Rightarrow> 'k option"
  sys_waitpid :: "'k \<Rightarrow> int \<Rightarrow> (u32 \<times> 'k) option"
  cs_open :: "'k \<Rightarrow> bool"
  cs_disasm :: "'k \<Rightarrow> bytes \<Rightarrow> u64 \<Rightarrow> cs_insn option"
  open_read :: "'k \<Rightarrow> string \<Rightarrow> bytes option"

text \<open>The status macros of \<open>sys/wait.h\<close>.\<close>

definition WIFEXITED :: "u32 \<Rightarrow> bool" where
  "WIFEXITED st \<longleftrightarrow> st AND 0x7f = 0"

definition WIFSTOPPED :: "u32 \<Rightarrow> bool" where
  "WIFSTOPPED st \<longleftrightarrow> st AND 0xff = 0x7f"

definition WEXITSTATUS :: "u32 \<Rightarrow> u32" where
  "WEXITSTATUS st = drop_bit 8 (st AND 0xff00)"

section \<open>What the process writes\<close>

datatype emission =
    Stdout string
  | Stderr string
  | Perror string

section \<open>Hypotheses on the platform\<close>

text \<open>
  A tracee's memory as \<open>ptrace\<close> documents it. \<open>mem k p a\<close> is the byte mapped at address
  \<open>a\<close> of process \<open>p\<close>, \<open>None\<close> where nothing is mapped. A peek of eight mapped bytes is their
  little-endian word; a poke that succeeds had eight mapped bytes, stores the word there
  and changes nothing else; register access does not touch memory; \<open>SETREGS\<close> is read back
  by \<open>GETREGS\<close>, and a poke leaves registers alone.
\<close>

type_synonym 'k memory = "'k \<Rightarrow> int \<Rightarrow> u64 \<Rightarrow> u8 option"

definition mapped_word :: "'k memory \<Rightarrow> 'k \<Rightarrow> int \<Rightarrow> u64 \<Rightarrow> bool" where
  "mapped_word mem k p a \<longleftrightarrow> (\<forall>i < 8. mem k p (a + of_nat i) \<noteq> None)"

definition store_word :: "(u64 \<Rightarrow> u8 option) \<Rightarrow> u64 \<Rightarrow> u64 \<Rightarrow> (u64 \<Rightarrow> u8 option)" where
  "store_word m a w = (\<lambda>b. if unat (b - a) < 8 then Some (byte_of (unat (b - a)) w) else m b)"

definition ptrace_memory :: "'k platform \<Rightarrow> 'k memory \<Rightarrow> bool" where
  "ptrace_memory P mem \<longleftrightarrow>
     (\<forall>k p a i. mapped_word mem k p a \<longrightarrow> i < 8 \<longrightarrow>
        mem k p (a + of_nat i) = Some (byte_of i (ptrace_peektext P k p a))) \<and>
     (\<forall>k k' p a w. ptrace_poketext P k p a w = Some k' \<longrightarrow>
        mapped_word mem k p a \<and> mem k' p = store_word (mem k p) a w \<and>
        ptrace_getregs P k' p = ptrace_getregs P k p) \<and>
     (\<forall>k k' p r. ptrace_setregs P k p r = Some k' \<longrightarrow>
        mem k' p = mem k p \<and> ptrace_getregs P k' p = Some r)"

lemma ptrace_peekD:
  "ptrace_memory P mem \<Longrightarrow> mapped_word mem k p a \<Longrightarrow> i < 8 \<Longrightarrow>
   mem k p (a + of_nat i) = Some (byte_of i (ptrace_peektext P k p a))"
  by (simp add: ptrace_memory_def)

lemma ptrace_pokeD:
  "ptrace_memory P mem \<Longrightarrow> ptrace_poketext P k p a w = Some k' \<Longrightarrow>
   mapped_word mem k p a \<and> mem k' p = store_word (mem k p) a w \<and>
   ptrace_getregs P k' p = ptrace_getregs P k p"
  by (simp add: ptrace_memory_def)

lemma ptrace_setregsD:
  "ptrace_memory P mem \<Longrightarrow> ptrace_setregs P k p r = Some k' \<Longrightarrow>
   mem k' p = mem k p \<and> ptrace_getregs P k' p = Some r"
  by (simp add: ptrace_memory_def)

section \<open>Patching the low byte of a word\<close>

text \<open>
  The debugger always patches one byte by writing a whole word back: the eight bytes it
  read with the lowest one replaced. In memory that is a one-byte update.
\<close>

definition patch_low :: "u64 \<Rightarrow> u64 \<Rightarrow> u64" where
  "patch_low w c = (w AND 0xffffffffffffff00) OR (c AND 0xff)"

lemma patch_low_mask: "patch_low w c = (w AND NOT (mask 8)) OR (c AND mask 8)"
proof -
  have "(mask 8 :: u64) = 0xff" and "NOT (mask 8 :: u64) = 0xffffffffffffff00"
    by (simp_all add: mask_eq_exp_minus_1)
  then show ?thesis by (simp only: patch_low_def)
qed

lemma byte_of_patch_low: "byte_of i (patch_low w c) = (if i = 0 then byte_of 0 c else byte_of i w)"
proof (rule bit_word_eqI)
  fix n :: nat
  assume "n < LENGTH(8)"
  then show "bit (byte_of i (patch_low w c)) n = bit (if i = 0 then byte_of 0 c else byte_of i w) n"
    by (auto simp: bit_byte_of patch_low_mask bit_and_iff bit_or_iff bit_not_iff bit_mask_iff
        dest: bit_imp_le_length)
qed

lemma patch_low_cc: "(w AND 0xffffffffffffff00) OR 0xcc = patch_low w 0xcc"
  by (simp add: patch_low_def)

lemma byte_of_cc [simp]: "byte_of 0 0xcc = 0xcc"
  by (simp add: byte_of_def)

lemma store_patch_low:
  assumes "\<And>i. i < 8 \<Longrightarrow> m (a + of_nat i) = Some (byte_of i w)"
  shows "store_word m a (patch_low w c) = m(a \<mapsto> byte_of 0 c)"
proof (rule ext)
  fix b :: u64
  show "store_word m a (patch_low w c) b = (m(a \<mapsto> byte_of 0 c)) b"
  proof (cases "unat (b - a) < 8")
    case True
    obtain i where i: "unat (b - a) = i" by blast
    then have "b - a = of_nat i" by auto
    then have b: "b = a + of_nat i" by (simp add: algebra_simps)
    have "i < 8" using True i by simp
    then have m: "m b = Some (byte_of i w)" unfolding b by (rule assms)
    have "b = a \<longleftrightarrow> i = 0" using i by (metis eq_iff_diff_eq_0 unat_eq_0)
    then show ?thesis
      using True m by (auto simp: store_word_def i byte_of_patch_low)
  next
    case False
    then have "b \<noteq> a" by auto
    with False show ?thesis by (simp add: store_word_def)
  qed
qed

lemma poke_patch:
  assumes "ptrace_memory P mem"
    and "ptrace_poketext P k p a (patch_low (ptrace_peektext P k p a) c) = Some k'"
  shows "mem k' p = (mem k p)(a \<mapsto> byte_of 0 c)"
proof -
  have mapped: "mapped_word mem k p a"
    and st: "mem k' p = store_word (mem k p) a (patch_low (ptrace_peektext P k p a) c)"
    using ptrace_pokeD [OF assms] by simp_all
  show ?thesis
    unfolding st by (rule store_patch_low) (rule ptrace_peekD [OF assms(1) mapped])
qed

lemma mem_low_byte:
  "ptrace_memory P mem \<Longrightarrow> mapped_word mem k p a \<Longrightarrow>
   mem k p a = Some (byte_of 0 (ptrace_peektext P k p a))"
  using ptrace_peekD [of P mem k p a 0] by simp

end
