(* ===== verification/Breakpoints.thy ===== *)
theory Breakpoints
  imports Platform
begin

text \<open>
  hw4/breakpoint.hpp: the disassembler's \<open>translate\<close> and the breakpoint table, a vector of
  (code, addr) pairs looked up by address or by index. The table's contract with the
  debugger is the locale \<open>address_table\<close>: for tables that hold an address at most once,
  the interface refines a finite map from addresses to saved code.
\<close>

section \<open>disassembler::translate\<close>

text \<open>Two hexadecimal digits, the printf conversion of one byte.\<close>

definition hex2 :: "u8 \<Rightarrow> string" where
  "hex2 b = zero_pad 2 (hex (unat b))"

definition byte_cells :: "bytes \<Rightarrow> string" where
  "byte_cells bs = concat (map (\<lambda>b. hex2 b @ '' '') bs)"

text \<open>
  \<open>sizeof(code)-1\<close> is the size of a pointer less one, so capstone sees seven of the eight
  bytes. The result is the instruction's size, or all ones (-1 as \<open>size_t\<close>) after an error.
\<close>

definition translate :: "'k platform \<Rightarrow> 'k \<Rightarrow> u64 \<Rightarrow> u64 \<Rightarrow> u64 \<times> emission list" where
  "translate P k addr code =
     (if \<not> cs_open P k then (- 1, [Stderr (''disasm cs_open error'' @ nl)])
      else case cs_disasm P k (take 7 (le_bytes code)) addr of
        None \<Rightarrow> (- 1, [Stderr (''** cs_disasm reads no instruction'' @ nl)])
      | Some ins \<Rightarrow>
          (of_nat (insn_size ins),
           [Stdout (tab @ '' '' @ hex (unat (insn_address ins)) @ '': ''
              @ byte_cells (take (insn_size ins) (le_bytes code))
              @ tab @ insn_mnemonic ins @ tab @ insn_op_str ins @ nl)]))"

section \<open>breakpoint_table\<close>

record breakpoint_info =
  bp_code :: u64
  bp_addr :: u64

type_synonym breakpoint_table = "breakpoint_info list"

definition bpt_size :: "breakpoint_table \<Rightarrow> int" where
  "bpt_size data = int (length data)"

fun addr2idx_from :: "breakpoint_table \<Rightarrow> u64 \<Rightarrow> int \<Rightarrow> int" where
  "addr2idx_from [] addr i = - 1"
| "addr2idx_from (b # bs) addr i = (if bp_addr b = addr then i else addr2idx_from bs addr (i + 1))"

definition dict_addr2idx :: "breakpoint_table \<Rightarrow> u64 \<Rightarrow> int" where
  "dict_addr2idx data addr = addr2idx_from data addr 0"

text \<open>The two \<open>operator[]\<close>: \<open>None\<close> where \<open>&data[i]\<close> is outside the vector.\<close>

definition at_idx :: "breakpoint_table \<Rightarrow> int \<Rightarrow> breakpoint_info option" where
  "at_idx data i = (if 0 \<le> i \<and> i < int (length data) then Some (data ! nat i) else None)"

definition at_addr :: "breakpoint_table \<Rightarrow> u64 \<Rightarrow> breakpoint_info option" where
  "at_addr data addr = at_idx data (dict_addr2idx data addr)"

definition bpt_add :: "u64 \<Rightarrow> u64 \<Rightarrow> breakpoint_table \<Rightarrow> breakpoint_table" where
  "bpt_add addr code data = data @ [\<lparr>bp_code = code, bp_addr = addr\<rparr>]"

definition bpt_del :: "int \<Rightarrow> breakpoint_table \<Rightarrow> (breakpoint_table \<times> emission list) option" where
  "bpt_del i data =
     (case at_idx data i of
        None \<Rightarrow> None
      | Some b \<Rightarrow> Some (take (nat i) data @ drop (Suc (nat i)) data,
          [Stdout (''** delete breakpoint '' @ sdec i @ '' @ 0x'' @ hex (unat (bp_addr b)) @ nl)]))"

definition include_idx :: "breakpoint_table \<Rightarrow> int \<Rightarrow> bool" where
  "include_idx data i = (if 0 \<le> i \<and> i < int (length data) then True else False)"

definition include_addr :: "breakpoint_table \<Rightarrow> u64 \<Rightarrow> bool" where
  "include_addr data addr = include_idx data (dict_addr2idx data addr)"

fun show_from :: "breakpoint_table \<Rightarrow> nat \<Rightarrow> emission list" where
  "show_from [] i = []"
| "show_from (b # bs) i =
     Stdout (dec i @ '': '' @ hex (unat (bp_addr b)) @ nl) # show_from bs (Suc i)"

definition bpt_show :: "breakpoint_table \<Rightarrow> emission list" where
  "bpt_show data = show_from data 0"

section \<open>Lookup\<close>

lemma addr2idx_from_range:
  "addr2idx_from data addr i = - 1 \<or> (i \<le> addr2idx_from data addr i \<and> addr2idx_from data addr i < i + int (length data))"
  by (induction data arbitrary: i) (auto, force+)

lemma addr2idx_from_hit:
  "0 \<le> i \<Longrightarrow> addr \<in> bp_addr ` set data \<Longrightarrow>
   i \<le> addr2idx_from data addr i \<and>
   nat (addr2idx_from data addr i - i) < length data \<and>
   bp_addr (data ! nat (addr2idx_from data addr i - i)) = addr"
proof (induction data arbitrary: i)
  case Nil
  then show ?case by simp
next
  case (Cons b bs)
  show ?case
  proof (cases "bp_addr b = addr")
    case True
    then show ?thesis by simp
  next
    case False
    then have "addr \<in> bp_addr ` set bs" using Cons.prems by auto
    with Cons.IH [of "i + 1"] Cons.prems
    have IH: "i + 1 \<le> addr2idx_from bs addr (i + 1)"
      "nat (addr2idx_from bs addr (i + 1) - (i + 1)) < length bs"
      "bp_addr (bs ! nat (addr2idx_from bs addr (i + 1) - (i + 1))) = addr" by simp_all
    then have "nat (addr2idx_from bs addr (i + 1) - i) = Suc (nat (addr2idx_from bs addr (i + 1) - (i + 1)))"
      by simp
    with IH False show ?thesis by simp
  qed
qed

lemma addr2idx_from_miss:
  "0 \<le> i \<Longrightarrow> addr2idx_from data addr i = - 1 \<longleftrightarrow> addr \<notin> bp_addr ` set data"
  by (induction data arbitrary: i) auto

lemma include_addr_iff [simp]: "include_addr data addr \<longleftrightarrow> addr \<in> bp_addr ` set data"
proof (cases "addr \<in> bp_addr ` set data")
  case True
  then show ?thesis
    using addr2idx_from_hit [of 0 addr data]
    by (simp add: include_addr_def include_idx_def dict_addr2idx_def) linarith
next
  case False
  then have "dict_addr2idx data addr = - 1"
    using addr2idx_from_miss [of 0 data addr] by (simp add: dict_addr2idx_def)
  with False show ?thesis by (simp add: include_addr_def include_idx_def)
qed

lemma include_idx_iff: "include_idx data i \<longleftrightarrow> 0 \<le> i \<and> i < int (length data)"
  by (simp add: include_idx_def)

lemma at_addr_hit:
  assumes "addr \<in> bp_addr ` set data"
  shows "\<exists>b \<in> set data. at_addr data addr = Some b \<and> bp_addr b = addr"
proof -
  have "0 \<le> addr2idx_from data addr 0" "nat (addr2idx_from data addr 0) < length data"
    "bp_addr (data ! nat (addr2idx_from data addr 0)) = addr"
    using addr2idx_from_hit [of 0 addr data] assms by auto
  then show ?thesis by (auto simp: at_addr_def at_idx_def dict_addr2idx_def)
qed

lemma at_addr_None: "at_addr data addr = None \<longleftrightarrow> addr \<notin> bp_addr ` set data"
proof
  assume "at_addr data addr = None"
  then show "addr \<notin> bp_addr ` set data" using at_addr_hit by fastforce
next
  assume "addr \<notin> bp_addr ` set data"
  then show "at_addr data addr = None"
    using addr2idx_from_miss [of 0 data addr] by (simp add: at_addr_def at_idx_def dict_addr2idx_def)
qed

lemma at_addr_Some: "at_addr data addr = Some b \<Longrightarrow> b \<in> set data \<and> bp_addr b = addr"
  using at_addr_hit [of addr data] at_addr_None [of data addr] by fastforce

lemma at_idx_Some: "at_idx data i = Some b \<Longrightarrow> b \<in> set data \<and> 0 \<le> i \<and> i < int (length data) \<and> b = data ! nat i"
  by (auto simp: at_idx_def split: if_splits)

lemma at_idx_None: "at_idx data i = None \<longleftrightarrow> \<not> include_idx data i"
  by (simp add: at_idx_def include_idx_def)

lemma at_addr_append:
  "at_addr (data @ [b]) addr =
     (if addr \<in> bp_addr ` set data then at_addr data addr
      else if bp_addr b = addr then Some b else None)"
proof -
  have "addr2idx_from (xs @ [b]) addr i =
      (if addr \<in> bp_addr ` set xs then addr2idx_from xs addr i
       else if bp_addr b = addr then i + int (length xs) else - 1)" for xs i
    by (induction xs arbitrary: i) auto
  moreover have "addr \<in> bp_addr ` set data \<Longrightarrow> nat (addr2idx_from data addr 0) < length data"
    using addr2idx_from_hit [of 0 addr data] by simp
  ultimately show ?thesis
    by (auto simp: at_addr_def at_idx_def dict_addr2idx_def nth_append)
qed

lemma show_from_nth:
  "j < length data \<Longrightarrow>
   show_from data i ! j = Stdout (dec (i + j) @ '': '' @ hex (unat (bp_addr (data ! j))) @ nl)"
  by (induction data arbitrary: i j) (auto simp: nth_Cons split: nat.splits)

lemma length_show_from [simp]: "length (show_from data i) = length data"
  by (induction data arbitrary: i) simp_all

section \<open>The table's contract\<close>

text \<open>
  What the debugger relies on, for tables without a repeated address (\<open>inv\<close>): \<open>member\<close> and
  \<open>lookup\<close> agree with a finite map \<open>abs\<close>, adding an address that is not there extends it,
  and removing by index drops exactly the address at that index.
\<close>

locale address_table =
  fixes inv :: "'t \<Rightarrow> bool"
    and abs :: "'t \<Rightarrow> (u64 \<Rightarrow> u64 option)"
    and member :: "'t \<Rightarrow> u64 \<Rightarrow> bool"
    and lookup :: "'t \<Rightarrow> u64 \<Rightarrow> breakpoint_info option"
    and nth_entry :: "'t \<Rightarrow> int \<Rightarrow> breakpoint_info option"
    and add :: "u64 \<Rightarrow> u64 \<Rightarrow> 't \<Rightarrow> 't"
    and del :: "int \<Rightarrow> 't \<Rightarrow> ('t \<times> emission list) option"
  assumes member_abs: "inv t \<Longrightarrow> member t a \<longleftrightarrow> abs t a \<noteq> None"
    and lookup_abs: "inv t \<Longrightarrow> map_option bp_code (lookup t a) = abs t a"
    and add_inv: "inv t \<Longrightarrow> abs t a = None \<Longrightarrow> inv (add a c t)"
    and add_abs: "inv t \<Longrightarrow> abs t a = None \<Longrightarrow> abs (add a c t) = (abs t)(a \<mapsto> c)"
    and nth_abs: "inv t \<Longrightarrow> nth_entry t i = Some b \<Longrightarrow> abs t (bp_addr b) = Some (bp_code b)"
    and del_defined: "del i t = None \<longleftrightarrow> nth_entry t i = None"
    and del_inv: "inv t \<Longrightarrow> del i t = Some (t', os) \<Longrightarrow> inv t'"
    and del_abs: "inv t \<Longrightarrow> nth_entry t i = Some b \<Longrightarrow> del i t = Some (t', os) \<Longrightarrow>
       abs t' = (abs t)(bp_addr b := None)"
begin

lemma table_member_add: "inv t \<Longrightarrow> abs t a = None \<Longrightarrow> member (add a c t) b \<longleftrightarrow> b = a \<or> member t b"
  by (simp add: member_abs add_inv add_abs)

lemma table_lookup_add: "inv t \<Longrightarrow> abs t a = None \<Longrightarrow>
   map_option bp_code (lookup (add a c t) b) = (if b = a then Some c else map_option bp_code (lookup t b))"
  by (simp add: lookup_abs add_inv add_abs)

lemma table_del_member:
  assumes "inv t" and "nth_entry t i = Some b" and "del i t = Some (t', os)"
  shows "member t' a \<longleftrightarrow> member t a \<and> a \<noteq> bp_addr b"
  using del_abs [OF assms] del_inv [OF assms(1,3)] assms(1)
  by (simp add: member_abs)

lemma table_add_del:
  assumes "inv t" and "abs t a = None"
    and "nth_entry (add a c t) i = Some b" and "bp_addr b = a"
    and "del i (add a c t) = Some (t', os)"
  shows "abs t' = abs t"
  using del_abs [OF add_inv [OF assms(1,2)] assms(3,5)] assms(2,4)
  by (simp add: add_abs [OF assms(1,2)] fun_eq_iff)

end

definition bpt_inv :: "breakpoint_table \<Rightarrow> bool" where
  "bpt_inv data \<longleftrightarrow> distinct (map bp_addr data)"

definition bpt_abs :: "breakpoint_table \<Rightarrow> (u64 \<Rightarrow> u64 option)" where
  "bpt_abs data = (\<lambda>a. map_option bp_code (at_addr data a))"

lemma bpt_abs_None: "bpt_abs data a = None \<longleftrightarrow> a \<notin> bp_addr ` set data"
  by (simp add: bpt_abs_def at_addr_None)

lemma bpt_abs_entry:
  assumes "bpt_inv data" and "b \<in> set data"
  shows "bpt_abs data (bp_addr b) = Some (bp_code b)"
proof -
  have "bp_addr b \<in> bp_addr ` set data" using assms(2) by (rule imageI)
  then obtain c where "c \<in> set data" "at_addr data (bp_addr b) = Some c" "bp_addr c = bp_addr b"
    using at_addr_hit by blast
  moreover from this have "c = b"
    using assms by (auto simp: bpt_inv_def distinct_map inj_on_def)
  ultimately show ?thesis by (simp add: bpt_abs_def)
qed

lemma bpt_abs_eqI:
  assumes "bpt_inv data"
    and "\<And>b. b \<in> set data \<Longrightarrow> m (bp_addr b) = Some (bp_code b)"
    and "\<And>a. a \<notin> bp_addr ` set data \<Longrightarrow> m a = None"
  shows "bpt_abs data = m"
proof (rule ext)
  fix a
  show "bpt_abs data a = m a"
  proof (cases "a \<in> bp_addr ` set data")
    case True
    then obtain b where "b \<in> set data" "a = bp_addr b" by blast
    then show ?thesis using assms(1,2) bpt_abs_entry by simp
  qed (simp add: assms(3) bpt_abs_None)
qed

lemma bpt_del_Some:
  "bpt_del i data = Some (data', os) \<longleftrightarrow>
   (\<exists>b. at_idx data i = Some b \<and> data' = take (nat i) data @ drop (Suc (nat i)) data \<and>
     os = [Stdout (''** delete breakpoint '' @ sdec i @ '' @ 0x'' @ hex (unat (bp_addr b)) @ nl)])"
  by (auto simp: bpt_del_def split: option.splits)

lemma bpt_inv_delete:
  assumes "bpt_inv data"
  shows "bpt_inv (take i data @ drop (Suc i) data)"
proof (cases "i < length data")
  case True
  then have "data = take i data @ data ! i # drop (Suc i) data" by (rule id_take_nth_drop)
  then have "distinct (map bp_addr (take i data @ data ! i # drop (Suc i) data))"
    using assms by (simp add: bpt_inv_def)
  then show ?thesis unfolding bpt_inv_def by simp
next
  case False
  then show ?thesis using assms by simp
qed

lemma set_bpt_delete:
  assumes "bpt_inv data" and "at_idx data i = Some b"
  shows "set (take (nat i) data @ drop (Suc (nat i)) data) = {x \<in> set data. bp_addr x \<noteq> bp_addr b}"
proof -
  have "nat i < length data" "b = data ! nat i"
    using at_idx_Some [OF assms(2)] by auto
  then show ?thesis
    using set_delete_distinct [of bp_addr data "nat i"] assms(1) by (simp add: bpt_inv_def)
qed

interpretation bpt: address_table bpt_inv bpt_abs include_addr at_addr at_idx bpt_add bpt_del
proof (unfold_locales, goal_cases)
  case (1 t a)
  then show ?case by (simp add: bpt_abs_None)
next
  case (2 t a)
  then show ?case by (simp add: bpt_abs_def)
next
  case (3 t a c)
  then show ?case by (auto simp: bpt_inv_def bpt_add_def bpt_abs_None)
next
  case (4 t a c)
  then show ?case
    by (auto simp: fun_eq_iff bpt_abs_def bpt_add_def at_addr_append at_addr_None)
next
  case (5 t i b)
  then show ?case using at_idx_Some bpt_abs_entry by blast
next
  case (6 i t)
  then show ?case by (simp add: bpt_del_def split: option.splits)
next
  case (7 t i t' os)
  then show ?case by (auto simp: bpt_del_Some bpt_inv_delete)
next
  case (8 t i b t' os)
  then have t': "t' = take (nat i) t @ drop (Suc (nat i)) t" by (simp add: bpt_del_Some)
  have s: "set t' = {x \<in> set t. bp_addr x \<noteq> bp_addr b}"
    unfolding t' by (rule set_bpt_delete) (use 8 in auto)
  have "bpt_inv t'" unfolding t' by (rule bpt_inv_delete) (use 8 in auto)
  then show ?case
  proof (rule bpt_abs_eqI)
    show "((bpt_abs t)(bp_addr b := None)) (bp_addr x) = Some (bp_code x)" if "x \<in> set t'" for x
      using that s bpt_abs_entry [of t x] 8 by auto
    show "((bpt_abs t)(bp_addr b := None)) a = None" if "a \<notin> bp_addr ` set t'" for a
      using that s bpt_abs_None [of t a] by auto
  qed
qed

end
