(* ===== verification/Parser.thy ===== *)
theory Parser
  imports Platform
begin

text \<open>
  hw4/parser.hpp and hw4/utils.hpp: the command-line splitter \<open>dbgcmd_parser\<close>, the option
  parser \<open>arg_parser\<close>, the reader of \<open>/proc/<pid>/maps\<close> and the reader of ELF headers. The
  file readers work on the bytes of the file; reading a stack variable the file was too
  short to fill, writing past one and running off the section name table are values
  of \<open>halt\<close>.
\<close>

section \<open>ull2hexstr\<close>

definition ull2hexstr :: "u64 \<Rightarrow> string" where
  "ull2hexstr v = hex (unat v)"

section \<open>dbgcmd_parser\<close>

function dbgcmd_loop :: "string \<Rightarrow> char \<Rightarrow> nat \<Rightarrow> string list \<Rightarrow> string list" where
  "dbgcmd_loop line delimiter pos1 result =
     (case find_from delimiter line pos1 of
        None \<Rightarrow> result @ [drop pos1 line]
      | Some pos2 \<Rightarrow>
          let word = take (pos2 - pos1) (drop pos1 line) in
          if word = [] then dbgcmd_loop line delimiter (pos1 + 1) result
          else dbgcmd_loop line delimiter (pos2 + 1) (result @ [word]))"
  by pat_completeness auto
termination
proof (relation "measure (\<lambda>(line, d, pos1, result). Suc (length line) - pos1)", goal_cases)
  case 1
  show ?case by simp
next
  case (2 line d pos1 result pos2 word)
  then have "pos1 < length line" by (auto simp: find_from_def dest: find_char_Some)
  then show ?case by simp
next
  case (3 line d pos1 result pos2 word)
  then have "pos1 < length line" "pos1 \<le> pos2" by (auto simp: find_from_def dest: find_char_Some)
  then show ?case by simp
qed

declare dbgcmd_loop.simps [simp del]

definition dbgcmd_parser :: "string \<Rightarrow> char \<Rightarrow> string list" where
  "dbgcmd_parser line delimiter = dbgcmd_loop line delimiter 0 []"

text \<open>Reference: cut at every delimiter, then drop the empty pieces except the last one.\<close>

fun pieces :: "char \<Rightarrow> string \<Rightarrow> string list" where
  "pieces d [] = [[]]"
| "pieces d (c # cs) =
     (if c = d then [] # pieces d cs else (c # hd (pieces d cs)) # tl (pieces d cs))"

definition command_words :: "char \<Rightarrow> string \<Rightarrow> string list" where
  "command_words d line =
     filter (\<lambda>w. w \<noteq> []) (butlast (pieces d line)) @ [last (pieces d line)]"

lemma pieces_not_Nil [simp]: "pieces d s \<noteq> []"
  by (cases s) auto

lemma pieces_None: "d \<notin> set s \<Longrightarrow> pieces d s = [s]"
  by (induction s) auto

lemma pieces_word: "d \<notin> set w \<Longrightarrow> pieces d (w @ d # r) = w # pieces d r"
  by (induction w) auto

lemma pieces_find:
  assumes "find_char d s = Some k"
  shows "pieces d s = take k s # pieces d (drop (Suc k) s)"
proof -
  have k: "k < length s" "s ! k = d" "d \<notin> set (take k s)"
    using find_char_Some [OF assms] by simp_all
  then have "s = take k s @ d # drop (Suc k) s" using id_take_nth_drop [of k s] by simp
  with pieces_word [OF k(3)] show ?thesis by metis
qed

lemma command_words_Nil_piece:
  "pieces d s = [] # pieces d r \<Longrightarrow> command_words d s = command_words d r"
  by (simp add: command_words_def)

lemma command_words_word_piece:
  "pieces d s = w # pieces d r \<Longrightarrow> w \<noteq> [] \<Longrightarrow> command_words d s = w # command_words d r"
  by (simp add: command_words_def)

lemma dbgcmd_loop_eq:
  "dbgcmd_loop line d pos1 result = result @ command_words d (drop pos1 line)"
proof (induction line d pos1 result rule: dbgcmd_loop.induct)
  case (1 line d pos1 result)
  show ?case
  proof (cases "find_char d (drop pos1 line)")
    case None
    then have "d \<notin> set (drop pos1 line)" by (simp add: find_char_None)
    with None show ?thesis
      by (simp add: dbgcmd_loop.simps [of line d pos1] find_from_def command_words_def pieces_None)
  next
    case (Some k)
    then have ff: "find_from d line pos1 = Some (pos1 + k)" by (simp add: find_from_def)
    have p: "pieces d (drop pos1 line) = take k (drop pos1 line) # pieces d (drop (Suc (pos1 + k)) line)"
      using pieces_find [OF Some] by (simp add: add.commute)
    have k: "k < length (drop pos1 line)" using find_char_Some [OF Some] by simp
    show ?thesis
    proof (cases "k = 0")
      case True
      then have "command_words d (drop pos1 line) = command_words d (drop (Suc pos1) line)"
        using p by (intro command_words_Nil_piece) simp
      with 1(1) [OF ff refl] True ff show ?thesis
        by (simp add: dbgcmd_loop.simps [of line d pos1])
    next
      case False
      then have ne: "take k (drop pos1 line) \<noteq> []" using k by auto
      then have "command_words d (drop pos1 line)
          = take k (drop pos1 line) # command_words d (drop (Suc (pos1 + k)) line)"
        using p by (intro command_words_word_piece)
      with 1(2) [OF ff refl] ne ff show ?thesis
        by (simp add: dbgcmd_loop.simps [of line d pos1])
    qed
  qed
qed

lemma dbgcmd_parser_eq: "dbgcmd_parser line d = command_words d line"
  by (simp add: dbgcmd_parser_def dbgcmd_loop_eq)

lemma command_words_not_Nil [simp]: "command_words d line \<noteq> []"
  by (simp add: command_words_def)

lemma command_words_join:
  "\<forall>w \<in> set ws. w \<noteq> [] \<and> d \<notin> set w \<Longrightarrow> d \<notin> set v \<Longrightarrow>
   command_words d (concat (map (\<lambda>w. w @ [d]) ws) @ v) = ws @ [v]"
proof (induction ws)
  case Nil
  then show ?case by (simp add: command_words_def pieces_None)
next
  case (Cons w ws)
  have "pieces d (concat (map (\<lambda>w. w @ [d]) (w # ws)) @ v)
      = w # pieces d (concat (map (\<lambda>w. w @ [d]) ws) @ v)"
    using Cons.prems pieces_word [of d w] by simp
  then show ?case using Cons command_words_word_piece by simp
qed

section \<open>arg_parser\<close>

text \<open>
  The results of \<open>getopt (argc, argv, "s:")\<close> are a list of (option, argument) pairs and the
  remaining arguments: \<open>getopt\<close> itself belongs to the C library.
\<close>

type_synonym options = "(char \<times> string) list"

fun arg_options :: "options \<Rightarrow> string \<Rightarrow> string" where
  "arg_options [] script = script"
| "arg_options ((opt, optarg) # rest) script =
     (if opt = CHR ''s'' then arg_options rest optarg else arg_options rest script)"

definition arg_parser :: "options \<Rightarrow> string list \<Rightarrow> string \<Rightarrow> string \<Rightarrow> string \<times> string" where
  "arg_parser opts argv script program =
     (arg_options opts script, if 0 < length argv then hd argv else program)"

section \<open>maps_parser\<close>

datatype range_t = Range (range_begin: u64) (range_end: u64)

text \<open>\<open>operator<\<close> on ranges, which is the strict part of an order.\<close>

definition range_less :: "range_t \<Rightarrow> range_t \<Rightarrow> bool" where
  "range_less r1 r2 =
     (if range_begin r1 < range_begin r2 \<and> range_end r1 < range_end r2 then True else False)"

instantiation range_t :: order
begin

definition less_range_t :: "range_t \<Rightarrow> range_t \<Rightarrow> bool" where
  "less_range_t r1 r2 \<longleftrightarrow> range_less r1 r2"

definition less_eq_range_t :: "range_t \<Rightarrow> range_t \<Rightarrow> bool" where
  "less_eq_range_t r1 r2 \<longleftrightarrow> r1 = r2 \<or> r1 < r2"

instance
proof
  fix x y z :: range_t
  show "(x < y) = (x \<le> y \<and> \<not> y \<le> x)"
    by (auto simp: less_eq_range_t_def less_range_t_def range_less_def)
  show "x \<le> x" by (simp add: less_eq_range_t_def)
  show "x \<le> y \<Longrightarrow> y \<le> z \<Longrightarrow> x \<le> z"
    by (auto simp: less_eq_range_t_def less_range_t_def range_less_def split: if_splits)
  show "x \<le> y \<Longrightarrow> y \<le> x \<Longrightarrow> x = y"
    by (auto simp: less_eq_range_t_def less_range_t_def range_less_def split: if_splits)
qed

end

record map_entry =
  me_range :: range_t
  me_perm :: string
  me_offset :: int
  me_name :: string

text \<open>
  \<open>loaded[m.range] = m\<close>: a key is found when neither compares below the other; its entry is
  replaced, otherwise a new one is added.
\<close>

type_synonym loaded_map = "(range_t \<times> map_entry) list"

fun map_assign :: "range_t \<Rightarrow> map_entry \<Rightarrow> loaded_map \<Rightarrow> loaded_map" where
  "map_assign r m [] = [(r, m)]"
| "map_assign r m ((k, v) # rest) =
     (if \<not> k < r \<and> \<not> r < k then (k, m) # rest else (k, v) # map_assign r m rest)"

definition hex16 :: "u64 \<Rightarrow> string" where
  "hex16 v = zero_pad 16 (hex (unat v))"

definition map_line :: "map_entry \<Rightarrow> string" where
  "map_line m = hex16 (range_begin (me_range m)) @ ''-'' @ hex16 (range_end (me_range m)) @ '' ''
     @ me_perm m @ tab @ sdec (me_offset m) @ tab @ me_name m @ nl"

text \<open>
  One buffer of the loop: \<open>None\<close> for a line with fewer than six fields (\<open>continue\<close>). A first
  field without a dash leaves the range uninitialised, and a permission field shorter than
  three characters makes \<open>args[1][3] = 0\<close> write outside it.
\<close>

definition parse_map_line :: "string \<Rightarrow> halt + map_entry option" where
  "parse_map_line buf =
     (let args = take 8 (tokens [CHR 0x20, CHR 0x09, CHR 0x0A, CHR 0x0D] (c_str buf)) in
      if length args < 6 then Inr None
      else case find_char (CHR ''-'') (args ! 0) of
        None \<Rightarrow> Inl Uninitialised
      | Some k \<Rightarrow>
          if length (args ! 1) < 3 then Inl OutOfBounds
          else Inr (Some \<lparr>me_range = Range (strtoul (take k (args ! 0)) 16)
                                            (strtoul (drop (Suc k) (args ! 0)) 16),
                          me_perm = take 3 (args ! 1),
                          me_offset = strtol (args ! 2) 16,
                          me_name = args ! 5\<rparr>))"

definition maps_step :: "string \<Rightarrow> loaded_map \<times> emission list \<Rightarrow> halt + loaded_map \<times> emission list" where
  "maps_step buf st =
     bindE (parse_map_line buf) (\<lambda>r. case r of
        None \<Rightarrow> Inr st
      | Some m \<Rightarrow> Inr (map_assign (me_range m) m (fst st), snd st @ [Stdout (map_line m)]))"

definition maps_parser :: "bytes option \<Rightarrow> loaded_map \<Rightarrow> halt + int \<times> loaded_map \<times> emission list" where
  "maps_parser file loaded =
     (case file of
        None \<Rightarrow> Inr (- 1, loaded, [])
      | Some content \<Rightarrow>
          bindE (foldE maps_step (fgets_all 256 (map byte_char content)) (loaded, []))
            (\<lambda>(l, os). Inr (int (length l), l, os)))"

definition maps_path :: "int \<Rightarrow> string" where
  "maps_path p = ''/proc/'' @ dec (unat (word_of_int p :: u32)) @ ''/maps''"

end
