(* ===== verification/Elf.thy ===== *)
theory Elf
  imports Platform
begin

text \<open>
  \<open>elf64_parser\<close> of hw4/parser.hpp on the bytes of the program file: the entry point from the
  ELF header, the address range of the first section named .text from the section
  headers. The file position is explicit (a \<open>fseek\<close> to a negative offset fails and leaves
  it), a variable the file is too short to fill is \<open>Uninitialised\<close> when it is read, and a
  section header larger than \<open>Elf64_Shdr\<close> runs over the stack variable it is read into.
  \<open>elf_sections\<close> is the reference reading of the section table, and \<open>wf_elf\<close> says when a file
  has one.
\<close>

section \<open>Files\<close>

definition fread_at :: "bytes \<Rightarrow> nat \<Rightarrow> nat \<Rightarrow> bytes" where
  "fread_at img pos n = take n (drop pos img)"

definition fseek_set :: "nat \<Rightarrow> u64 \<Rightarrow> nat" where
  "fseek_set pos off = (if sint off < 0 then pos else unat off)"

definition le_field :: "nat \<Rightarrow> nat \<Rightarrow> bytes \<Rightarrow> nat" where
  "le_field off n bs = le_value (take n (drop off bs))"

text \<open>The offsets of \<open>Elf64_Ehdr\<close> and \<open>Elf64_Shdr\<close> (64 bytes each).\<close>

definition e_entry :: "bytes \<Rightarrow> u64" where "e_entry h = of_nat (le_field 24 8 h)"
definition e_shoff :: "bytes \<Rightarrow> u64" where "e_shoff h = of_nat (le_field 40 8 h)"
definition e_shentsize :: "bytes \<Rightarrow> nat" where "e_shentsize h = le_field 58 2 h"
definition e_shnum :: "bytes \<Rightarrow> nat" where "e_shnum h = le_field 60 2 h"
definition e_shstrndx :: "bytes \<Rightarrow> nat" where "e_shstrndx h = le_field 62 2 h"

definition sh_name :: "bytes \<Rightarrow> nat" where "sh_name s = le_field 0 4 s"
definition sh_addr :: "bytes \<Rightarrow> u64" where "sh_addr s = of_nat (le_field 16 8 s)"
definition sh_offset :: "bytes \<Rightarrow> u64" where "sh_offset s = of_nat (le_field 24 8 s)"
definition sh_size :: "bytes \<Rightarrow> u64" where "sh_size s = of_nat (le_field 32 8 s)"

definition ELFMAG :: bytes where "ELFMAG = [0x7f, 0x45, 0x4c, 0x46]"

text \<open>\<open>strcmp (p, q) == 0\<close>: \<open>None\<close> when it would read past the bytes at \<open>p\<close>.\<close>

fun strcmp_is :: "bytes \<Rightarrow> bytes \<Rightarrow> bool option" where
  "strcmp_is bs [] = Some True"
| "strcmp_is [] (q # qs) = None"
| "strcmp_is (b # bs) (q # qs) = (if b \<noteq> q then Some False else strcmp_is bs qs)"

definition text_name :: bytes where "text_name = [0x2e, 0x74, 0x65, 0x78, 0x74]"

section \<open>The section loop\<close>

text \<open>
  Iteration \<open>i\<close> with \<open>n\<close> to go. \<open>i * e_shentsize\<close> is an \<open>int\<close> product. \<open>fread\<close> gets
  \<open>e_shentsize\<close> bytes for a 64-byte variable.
\<close>

fun elf_scan :: "bytes \<Rightarrow> u64 \<Rightarrow> nat \<Rightarrow> bytes \<Rightarrow> nat \<Rightarrow> nat \<Rightarrow> nat \<Rightarrow> u64 \<times> u64 \<Rightarrow> halt + u64 \<times> u64" where
  "elf_scan img shoff entsize strtab pos i 0 rng = Inr rng"
| "elf_scan img shoff entsize strtab pos i (Suc n) rng =
     (if i * entsize \<ge> 2 ^ 31 then Inl SignedOverflow
      else
        let pos = fseek_set pos (shoff + of_nat (i * entsize));
            cur = fread_at img pos entsize
        in if length cur > 64 then Inl OutOfBounds
           else if length cur < 4 then Inl Uninitialised
           else case strcmp_is (drop (sh_name cur) strtab) (text_name @ [0]) of
             None \<Rightarrow> Inl OutOfBounds
           | Some False \<Rightarrow> elf_scan img shoff entsize strtab (pos + length cur) (Suc i) n rng
           | Some True \<Rightarrow>
               if length cur < 40 then Inl Uninitialised
               else Inr (sh_addr cur, sh_addr cur + sh_size cur - 1))"

section \<open>elf64_parser\<close>

type_synonym elf_info = "u64 \<times> u64 \<times> u64"

definition elf64_parser :: "bytes option \<Rightarrow> elf_info \<Rightarrow> halt + int \<times> elf_info \<times> emission list" where
  "elf64_parser file info =
     (case file of
        None \<Rightarrow> Inr (- 1, info, [Perror ''** fopen''])
      | Some img \<Rightarrow>
          let hdr = fread_at img 0 64 in
          if length hdr < 4 then Inl Uninitialised
          else if take 4 hdr \<noteq> ELFMAG then Inr (- 1, info, [Stderr (''** invalid elf file'' @ nl)])
          else if length hdr < 64 then Inl Uninitialised
          else
            let pos = fseek_set 64 (e_shoff hdr);
                pos = pos + length (fread_at img pos 64) in
            if e_shstrndx hdr * e_shentsize hdr \<ge> 2 ^ 31 then Inl SignedOverflow
            else
              let pos = fseek_set pos (e_shoff hdr + of_nat (e_shstrndx hdr * e_shentsize hdr));
                  shstr = fread_at img pos 64;
                  pos = pos + length shstr in
              if length shstr < 40 then Inl Uninitialised
              else
                let pos = fseek_set pos (sh_offset shstr);
                    strtab = fread_at img pos (unat (sh_size shstr));
                    pos = pos + length strtab in
                bindE (elf_scan img (e_shoff hdr) (e_shentsize hdr) strtab pos 0 (e_shnum hdr) (snd info))
                  (\<lambda>rng. Inr (0, (e_entry hdr, rng), [])))"

section \<open>The reference reading of a section table\<close>

definition elf_section :: "bytes \<Rightarrow> nat \<Rightarrow> bytes" where
  "elf_section img i = fread_at img (unat (e_shoff img) + i * 64) 64"

definition elf_strtab :: "bytes \<Rightarrow> bytes" where
  "elf_strtab img = (let s = elf_section img (e_shstrndx img)
                     in fread_at img (unat (sh_offset s)) (unat (sh_size s)))"

definition elf_name :: "bytes \<Rightarrow> nat \<Rightarrow> bytes" where
  "elf_name img i = takeWhile (\<lambda>b. b \<noteq> 0) (drop (sh_name (elf_section img i)) (elf_strtab img))"

definition elf_text :: "bytes \<Rightarrow> nat option" where
  "elf_text img = find (\<lambda>i. elf_name img i = text_name) [0..<e_shnum img]"

text \<open>
  A file with a section table: the magic number, section headers of the size the parser
  reads lying inside the file, a string table inside the file that ends in NUL, every
  section's name inside it.
\<close>

definition wf_elf :: "bytes \<Rightarrow> bool" where
  "wf_elf img \<longleftrightarrow>
     64 \<le> length img \<and> length img < 2 ^ 62 \<and> take 4 img = ELFMAG \<and>
     e_shentsize img = 64 \<and>
     unat (e_shoff img) + e_shnum img * 64 \<le> length img \<and>
     e_shstrndx img < e_shnum img \<and>
     (let s = elf_section img (e_shstrndx img) in
        unat (sh_offset s) + unat (sh_size s) \<le> length img) \<and>
     elf_strtab img \<noteq> [] \<and> last (elf_strtab img) = 0 \<and>
     (\<forall>i < e_shnum img. sh_name (elf_section img i) < length (elf_strtab img))"

section \<open>Lemmas\<close>

lemma le_field_bound: "le_field off n bs < 256 ^ n"
proof -
  have "le_field off n bs < 256 ^ length (take n (drop off bs))"
    unfolding le_field_def by (rule le_value_bound)
  also have "\<dots> \<le> 256 ^ n" by (intro power_increasing) auto
  finally show ?thesis .
qed

lemma le_field_prefix: "off + n \<le> k \<Longrightarrow> le_field off n (take k bs) = le_field off n bs"
  by (simp add: le_field_def drop_take min_def)

lemma strcmp_is_name:
  "0 \<in> set bs \<Longrightarrow> 0 \<notin> set q \<Longrightarrow>
   strcmp_is bs (q @ [0]) = Some (takeWhile (\<lambda>b. b \<noteq> 0) bs = q)"
proof (induction q arbitrary: bs)
  case Nil
  then show ?case by (cases bs) auto
next
  case (Cons c q)
  then show ?case by (cases bs) auto
qed

lemma fseek_set_inside: "n < 2 ^ 63 \<Longrightarrow> fseek_set pos (of_nat n) = n"
proof -
  assume n: "n < 2 ^ 63"
  then have u: "unat (of_nat n :: u64) = n" by (simp add: unat_of_nat)
  have "sint (word_of_int (int n) :: u64) = int n"
    using n by (subst sint_sbintrunc') (simp add: signed_take_bit_int_eq_self)
  then have "\<not> sint (of_nat n :: u64) < 0" by simp
  with u show ?thesis by (simp add: fseek_set_def)
qed

lemma fseek_section:
  assumes "unat off + m < 2 ^ 62"
  shows "fseek_set pos (off + of_nat m) = unat off + m"
proof -
  have "off + of_nat m = of_nat (unat off + m)" by simp
  then show ?thesis using fseek_set_inside [of "unat off + m" pos] assms by simp
qed

lemma wf_elf_header:
  assumes "wf_elf img"
  defines "hdr \<equiv> fread_at img 0 64"
  shows "length hdr = 64" "take 4 hdr = ELFMAG" "e_entry hdr = e_entry img" "e_shoff hdr = e_shoff img"
    "e_shentsize hdr = 64" "e_shnum hdr = e_shnum img" "e_shstrndx hdr = e_shstrndx img"
  using assms
  by (simp_all add: wf_elf_def fread_at_def e_entry_def e_shoff_def e_shentsize_def e_shnum_def
      e_shstrndx_def le_field_prefix)

lemma e_shnum_small: "e_shnum img < 65536"
  using le_field_bound [of 60 2 img] by (simp add: e_shnum_def)

lemma wf_elf_section_inside:
  assumes "wf_elf img" and "i < e_shnum img"
  shows "unat (e_shoff img) + i * 64 + 64 \<le> length img"
proof -
  have "i * 64 + 64 \<le> e_shnum img * 64" using assms(2) by simp
  then show ?thesis using assms(1) by (simp add: wf_elf_def)
qed

lemma wf_elf_section:
  assumes "wf_elf img" and "i < e_shnum img"
  shows "fseek_set pos (e_shoff img + of_nat (i * 64)) = unat (e_shoff img) + i * 64"
    and "length (elf_section img i) = 64"
proof -
  note inside = wf_elf_section_inside [OF assms]
  moreover have "length img < 2 ^ 62" using assms(1) by (simp add: wf_elf_def)
  ultimately have "unat (e_shoff img) + i * 64 < 2 ^ 62" by linarith
  then show "fseek_set pos (e_shoff img + of_nat (i * 64)) = unat (e_shoff img) + i * 64"
    by (rule fseek_section)
  show "length (elf_section img i) = 64"
    using inside by (simp add: elf_section_def fread_at_def)
qed

lemma wf_elf_name:
  assumes "wf_elf img" and "i < e_shnum img"
  shows "strcmp_is (drop (sh_name (elf_section img i)) (elf_strtab img)) (text_name @ [0])
         = Some (elf_name img i = text_name)"
proof -
  let ?d = "drop (sh_name (elf_section img i)) (elf_strtab img)"
  have "sh_name (elf_section img i) < length (elf_strtab img)" "last (elf_strtab img) = 0"
    using assms by (simp_all add: wf_elf_def)
  then have "?d \<noteq> []" and "last ?d = 0" by simp_all
  then have "0 \<in> set ?d" using last_in_set by metis
  moreover have "0 \<notin> set text_name" by (simp add: text_name_def)
  ultimately show ?thesis by (simp add: strcmp_is_name elf_name_def)
qed

definition text_range :: "bytes \<Rightarrow> nat option \<Rightarrow> u64 \<times> u64 \<Rightarrow> u64 \<times> u64" where
  "text_range img found rng = (case found of
      None \<Rightarrow> rng
    | Some i \<Rightarrow> let s = elf_section img i in (sh_addr s, sh_addr s + sh_size s - 1))"

lemma elf_scan_wf:
  assumes "wf_elf img" and "i + n = e_shnum img"
  shows "elf_scan img (e_shoff img) 64 (elf_strtab img) pos i n rng
         = Inr (text_range img (find (\<lambda>j. elf_name img j = text_name) [i..<e_shnum img]) rng)"
  using assms(2)
proof (induction n arbitrary: i pos)
  case 0
  then show ?case by (simp add: text_range_def)
next
  case (Suc n)
  then have i: "i < e_shnum img" by simp
  have small: "i * 64 < 2 ^ 31" using i e_shnum_small [of img] by simp
  have cur: "fread_at img (unat (e_shoff img) + i * 64) 64 = elf_section img i"
    by (simp add: elf_section_def)
  have split: "[i..<e_shnum img] = i # [Suc i..<e_shnum img]"
    using i by (rule upt_conv_Cons)
  show ?case
    using Suc.IH [of "Suc i"] Suc.prems small
    by (simp add: wf_elf_section [OF assms(1) i] cur wf_elf_name [OF assms(1) i] split
        text_range_def Let_def del: of_nat_mult split: if_splits)
qed

lemma elf64_parser_wf:
  assumes "wf_elf img"
  shows "elf64_parser (Some img) info =
     Inr (0, (e_entry img, text_range img (elf_text img) (snd info)), [])"
proof -
  note hdr = wf_elf_header [OF assms]
  have idx: "e_shstrndx img < e_shnum img" using assms by (simp add: wf_elf_def)
  then have small: "e_shstrndx img * 64 < 2 ^ 31" using e_shnum_small [of img] by simp
  let ?s = "elf_section img (e_shstrndx img)"
  have len: "length img < 2 ^ 62" "unat (sh_offset ?s) + unat (sh_size ?s) \<le> length img"
    using assms by (simp_all add: wf_elf_def Let_def)
  have seek: "fseek_set pos (sh_offset ?s) = unat (sh_offset ?s)" for pos
    using fseek_section [of "sh_offset ?s" 0] len by simp
  have sec: "fread_at img (unat (e_shoff img) + e_shstrndx img * 64) 64 = ?s"
    by (simp add: elf_section_def)
  have tab: "fread_at img (unat (sh_offset ?s)) (unat (sh_size ?s)) = elf_strtab img"
    by (simp add: elf_strtab_def Let_def)
  have scan: "elf_scan img (e_shoff img) 64 (elf_strtab img) pos 0 (e_shnum img) r
      = Inr (text_range img (elf_text img) r)" for pos r
    using elf_scan_wf [OF assms, of 0 "e_shnum img"] by (simp add: elf_text_def)
  show ?thesis
    using small
    by (simp add: elf64_parser_def hdr wf_elf_section [OF assms idx] sec seek tab scan Let_def
        del: of_nat_mult)
qed

end
