(* ===== verification/Debugger.thy ===== *)
theory Debugger
  imports Breakpoints Parser Elf
begin

text \<open>
  The class \<open>debugger\<close> of hw4/command.hpp: its fields as the record \<open>debugger\<close>, extended in
  \<open>session\<close> by the kernel state and by what has been written so far, and one definition per
  member function. A command maps a session to a session, or to \<open>Inl\<close> with the reason the
  process stopped running the debugger and the session at that point (a failed assertion,
  a lookup outside the table, the process image replaced by \<open>execvp\<close>). Every early return
  of the source is a branch.
\<close>

section \<open>State\<close>

datatype state_t = LOADED | NOLOAD | RUNNING
datatype candbp_t = FOR_CONT | FOR_SINGLESTEP | FOR_START

record debugger =
  last_cmd_is_set_rip :: bool
  bptab :: breakpoint_table
  prog_path :: string
  entry_point :: u64
  text_begin :: u64
  text_end :: u64
  pid :: int
  state :: state_t

record 'k session = debugger +
  kern :: 'k
  outs :: "emission list"

type_synonym 'k result = "(halt \<times> 'k session) + 'k session"

definition say :: "emission list \<Rightarrow> 'k session \<Rightarrow> 'k session" where
  "say os s = s\<lparr>outs := outs s @ os\<rparr>"

definition err :: "string \<Rightarrow> 'k session \<Rightarrow> 'k session" where
  "err msg s = say [Stderr (''** '' @ msg @ nl)] s"

definition init_debugger :: debugger where
  "init_debugger = \<lparr>last_cmd_is_set_rip = False, bptab = [], prog_path = [], entry_point = - 1,
     text_begin = - 1, text_end = - 1, pid = - 1, state = NOLOAD\<rparr>"

definition new_session :: "'k \<Rightarrow> 'k session" where
  "new_session k = debugger.extend init_debugger \<lparr>kern = k, outs = []\<rparr>"

definition release :: "'k session \<Rightarrow> 'k session" where
  "release s = s\<lparr>pid := - 1, last_cmd_is_set_rip := False, state := LOADED\<rparr>"

text \<open>An argument read as an address or a value: \<open>strtol (arg, NULL, 0)\<close> as unsigned.\<close>

definition arg_value :: "string \<Rightarrow> u64" where
  "arg_value arg = word_of_int (strtol (c_str arg) 0)"

section \<open>list, dump, help\<close>

definition list_cmd :: "'k session \<Rightarrow> 'k session" where
  "list_cmd s = say (bpt_show (bptab s)) s"

definition dump_word_hex :: "u64 \<Rightarrow> string" where
  "dump_word_hex code = concat (map (\<lambda>b. hex2 b @ '' '') (le_bytes code))"

definition dump_word_chars :: "u64 \<Rightarrow> string" where
  "dump_word_chars code =
     map (\<lambda>b. if \<not> isprint b then CHR ''.'' else byte_char b) (le_bytes code)"

definition dump_line :: "'k platform \<Rightarrow> 'k \<Rightarrow> int \<Rightarrow> u64 \<Rightarrow> string" where
  "dump_line P k p tar_addr =
     (let ws = map (\<lambda>j. ptrace_peektext P k p (tar_addr + of_nat j * 8)) [0..<2]
      in tab @ ''0x'' @ hex (unat tar_addr) @ '': '' @ concat (map dump_word_hex ws)
         @ tab @ '' |'' @ concat (map dump_word_chars ws) @ ''|'' @ nl)"

text \<open>\<open>for (i = 0; i < 80; i += 16)\<close> runs five times.\<close>

fun dump_lines :: "'k platform \<Rightarrow> 'k \<Rightarrow> int \<Rightarrow> nat \<Rightarrow> u64 \<Rightarrow> emission list" where
  "dump_lines P k p 0 tar_addr = []"
| "dump_lines P k p (Suc n) tar_addr =
     Stdout (dump_line P k p tar_addr) # dump_lines P k p n (tar_addr + 2 * 8)"

definition dump :: "'k platform \<Rightarrow> string list \<Rightarrow> 'k session \<Rightarrow> 'k session" where
  "dump P cmds s =
     (if state s \<noteq> RUNNING then err ''state must be RUNNING'' s
      else if length cmds < 2 then err ''no addr is given'' s
      else say (dump_lines P (kern s) (pid s) (80 div 16) (arg_value (cmds ! 1))) s)"

definition help_text :: string where
  "help_text =
     ''- break {instruction-address}: add a break point'' @ nl @
     ''- cont: continue execution'' @ nl @
     ''- delete {break-point-id}: remove a break point'' @ nl @
     ''- disasm addr: disassemble instructions in a file or a memory region'' @ nl @
     ''- dump addr: dump memory content'' @ nl @
     ''- exit: terminate the debugger'' @ nl @
     ''- get reg: get a single value from a register'' @ nl @
     ''- getregs: show registers'' @ nl @
     ''- help: show this message'' @ nl @
     ''- list: list break points'' @ nl @
     ''- load {path/to/a/program}: load a program'' @ nl @
     ''- run: run the program'' @ nl @
     ''- vmmap: show memory layout'' @ nl @
     ''- set reg val: get a single value to a register'' @ nl @
     ''- si: step into instruction'' @ nl @
     ''- start: start the program and stop at the first instruction'' @ nl"

definition help_cmd :: "'k session \<Rightarrow> 'k session" where
  "help_cmd s = say [Stdout help_text] s"

section \<open>Registers\<close>

definition reg_cell :: "string \<Rightarrow> u64 \<Rightarrow> string" where
  "reg_cell name v = name @ tab @ hex (unat v) @ tab"

definition regs_report :: "user_regs \<Rightarrow> emission list" where
  "regs_report r =
     [Stdout (reg_cell ''RAX'' (rg_rax r) @ reg_cell ''RBX'' (rg_rbx r) @ reg_cell ''RCX'' (rg_rcx r)
        @ reg_cell ''RDX'' (rg_rdx r) @ nl),
      Stdout (reg_cell ''R8'' (rg_r8 r) @ reg_cell ''R9'' (rg_r9 r) @ reg_cell ''R10'' (rg_r10 r)
        @ reg_cell ''R11'' (rg_r11 r) @ nl),
      Stdout (reg_cell ''R12'' (rg_r12 r) @ reg_cell ''R13'' (rg_r13 r) @ reg_cell ''R14'' (rg_r14 r)
        @ reg_cell ''R15'' (rg_r15 r) @ nl),
      Stdout (reg_cell ''RDI'' (rg_rdi r) @ reg_cell ''RSI'' (rg_rsi r) @ reg_cell ''RBP'' (rg_rbp r)
        @ reg_cell ''RSP'' (rg_rsp r) @ nl),
      Stdout (reg_cell ''RIP'' (rg_rip r) @ ''FLAGS'' @ tab @ zero_pad 16 (hex (unat (rg_eflags r))) @ nl)]"

definition get_all_regs :: "'k platform \<Rightarrow> 'k session \<Rightarrow> 'k session" where
  "get_all_regs P s =
     (case ptrace_getregs P (kern s) (pid s) of
        None \<Rightarrow> say [Perror ''** ptrace GETREGS''] s
      | Some regs \<Rightarrow> say (regs_report regs) s)"

text \<open>
  The pointer \<open>tar_reg\<close> into the register struct, as what reading and writing through it
  does.
\<close>

definition reg_pointer :: "string \<Rightarrow> ((user_regs \<Rightarrow> u64) \<times> (u64 \<Rightarrow> user_regs \<Rightarrow> user_regs)) option" where
  "reg_pointer name =
     (if name = ''r15'' then Some (rg_r15, \<lambda>v. rg_r15_update (\<lambda>_. v))
      else if name = ''r14'' then Some (rg_r14, \<lambda>v. rg_r14_update (\<lambda>_. v))
      else if name = ''r13'' then Some (rg_r13, \<lambda>v. rg_r13_update (\<lambda>_. v))
      else if name = ''r12'' then Some (rg_r12, \<lambda>v. rg_r12_update (\<lambda>_. v))
      else if name = ''r11'' then Some (rg_r11, \<lambda>v. rg_r11_update (\<lambda>_. v))
      else if name = ''r10'' then Some (rg_r10, \<lambda>v. rg_r10_update (\<lambda>_. v))
      else if name = ''r9'' then Some (rg_r9, \<lambda>v. rg_r9_update (\<lambda>_. v))
      else if name = ''r8'' then Some (rg_r8, \<lambda>v. rg_r8_update (\<lambda>_. v))
      else if name = ''rbp'' then Some (rg_rbp, \<lambda>v. rg_rbp_update (\<lambda>_. v))
      else if name = ''rsp'' then Some (rg_rsp, \<lambda>v. rg_rsp_update (\<lambda>_. v))
      else if name = ''rsi'' then Some (rg_rsi, \<lambda>v. rg_rsi_update (\<lambda>_. v))
      else if name = ''rdi'' then Some (rg_rdi, \<lambda>v. rg_rdi_update (\<lambda>_. v))
      else if name = ''rip'' then Some (rg_rip, \<lambda>v. rg_rip_update (\<lambda>_. v))
      else if name = ''rax'' then Some (rg_rax, \<lambda>v. rg_rax_update (\<lambda>_. v))
      else if name = ''rbx'' then Some (rg_rbx, \<lambda>v. rg_rbx_update (\<lambda>_. v))
      else if name = ''rcx'' then Some (rg_rcx, \<lambda>v. rg_rcx_update (\<lambda>_. v))
      else if name = ''rdx'' then Some (rg_rdx, \<lambda>v. rg_rdx_update (\<lambda>_. v))
      else if name = ''flags'' then Some (rg_eflags, \<lambda>v. rg_eflags_update (\<lambda>_. v))
      else None)"

text \<open>The result value, the registers (passed by reference) and what it wrote.\<close>

definition reg_handler :: "string \<Rightarrow> u64 \<Rightarrow> user_regs \<Rightarrow> u64 \<times> user_regs \<times> emission list" where
  "reg_handler tar_reg_t input_val regs =
     (case reg_pointer tar_reg_t of
        None \<Rightarrow> (- 1, regs, [Stderr (''** no such register'' @ nl)])
      | Some (get, put) \<Rightarrow>
          if input_val = 0 then (get regs, regs, []) else (0, put input_val regs, []))"

definition get_single_reg :: "'k platform \<Rightarrow> string list \<Rightarrow> 'k session \<Rightarrow> 'k session" where
  "get_single_reg P cmds s =
     (if state s \<noteq> RUNNING then err ''state must be RUNNING'' s
      else if length cmds < 2 then err ''no register is given'' s
      else case ptrace_getregs P (kern s) (pid s) of
        None \<Rightarrow> say [Perror ''** ptrace GETREGS''] s
      | Some regs \<Rightarrow>
          (let tar_reg_t = cmds ! 1;
               (tar_reg_val, regs, os) = reg_handler tar_reg_t 0 regs;
               s = say os s
           in if tar_reg_val = - 1 then s
              else say [Stdout (c_str tar_reg_t @ '' = '' @ sdec (sint tar_reg_val) @ '' (0x''
                          @ hex (unat tar_reg_val) @ '')'' @ nl)] s))"

definition set_reg :: "'k platform \<Rightarrow> string list \<Rightarrow> 'k session \<Rightarrow> 'k session" where
  "set_reg P cmds s =
     (if state s \<noteq> RUNNING then err ''state must be RUNNING'' s
      else if length cmds < 3 then err ''Not enough input arguments'' s
      else
        let tar_reg_t = cmds ! 1; input_val = arg_value (cmds ! 2) in
        case ptrace_getregs P (kern s) (pid s) of
          None \<Rightarrow> say [Perror ''** ptrace GETREGS''] s
        | Some regs \<Rightarrow>
            (let (ret, regs, os) = reg_handler tar_reg_t input_val regs; s = say os s in
             if ret = - 1 then s
             else case ptrace_setregs P (kern s) (pid s) regs of
               None \<Rightarrow> say [Perror ''** ptrace SETREGS''] s
             | Some k \<Rightarrow>
                 let s = s\<lparr>kern := k\<rparr> in
                 if tar_reg_t = ''rip'' then s\<lparr>last_cmd_is_set_rip := True\<rparr> else s))"

section \<open>Waiting, breakpoint reports\<close>

definition wait_then_check_exit :: "'k platform \<Rightarrow> 'k session \<Rightarrow> 'k result" where
  "wait_then_check_exit P s =
     (case sys_waitpid P (kern s) (pid s) of
        None \<Rightarrow> Inr (say [Perror ''** waitpid''] s)
      | Some (status, k) \<Rightarrow>
          let s = s\<lparr>kern := k\<rparr> in
          if WIFEXITED status then
            Inr (release (err (''child process '' @ sdec (pid s) @ '' terminiated normally (code ''
                   @ sdec (sint status) @ '')'') s))
          else if WIFSTOPPED status then Inr s
          else Inl (Abort, s))"

definition report_breakpoint :: "'k platform \<Rightarrow> u64 \<Rightarrow> 'k session \<Rightarrow> 'k result" where
  "report_breakpoint P addr s =
     (let s = say [Stdout ''** breakpoint @''] s in
      case at_addr (bptab s) addr of
        None \<Rightarrow> Inl (OutOfBounds, s)
      | Some b \<Rightarrow> Inr (say (snd (translate P (kern s) addr (bp_code b))) s))"

definition check_hit_break_point_or_not :: "'k platform \<Rightarrow> candbp_t \<Rightarrow> 'k session \<Rightarrow> 'k result" where
  "check_hit_break_point_or_not P cbpt s =
     (case ptrace_getregs P (kern s) (pid s) of
        None \<Rightarrow> Inr (say [Perror ''** ptrace GETREGS''] s)
      | Some regs \<Rightarrow>
          let addr = (if cbpt = FOR_CONT then rg_rip regs - 1 else rg_rip regs) in
          if \<not> include_addr (bptab s) addr then
            Inr (say [Stdout (''** hit no breakpoint'' @ nl)] s)
          else if cbpt = FOR_CONT then
            (case ptrace_setregs P (kern s) (pid s) (regs\<lparr>rg_rip := rg_rip regs - 1\<rparr>) of
               None \<Rightarrow> Inr (say [Perror ''** ptrace SETREGS''] s)
             | Some k \<Rightarrow> report_breakpoint P addr (s\<lparr>kern := k\<rparr>))
          else report_breakpoint P addr s)"

definition check_then_restore_si_reput :: "'k platform \<Rightarrow> u64 \<Rightarrow> 'k session \<Rightarrow> 'k result" where
  "check_then_restore_si_reput P addr s =
     (if \<not> include_addr (bptab s) addr then Inr s
      else
        let cur_code = ptrace_peektext P (kern s) (pid s) addr in
        case at_addr (bptab s) addr of
          None \<Rightarrow> Inl (OutOfBounds, s)
        | Some b \<Rightarrow>
          (case ptrace_poketext P (kern s) (pid s) addr
                  ((cur_code AND 0xffffffffffffff00) OR (bp_code b AND 0x00000000000000ff)) of
             None \<Rightarrow> Inr (say [Perror ''** ptrace POKETEXT''] s)
           | Some k \<Rightarrow>
               let s = s\<lparr>kern := k\<rparr> in
               (case ptrace_singlestep P (kern s) (pid s) of
                  None \<Rightarrow> Inr (say [Perror ''** ptrace SINGLESTEP''] s)
                | Some k \<Rightarrow>
                    bindE (wait_then_check_exit P (s\<lparr>kern := k\<rparr>)) (\<lambda>s.
                      if state s \<noteq> RUNNING then Inr s
                      else case ptrace_poketext P (kern s) (pid s) addr cur_code of
                        None \<Rightarrow> Inr (say [Perror ''** ptrace POKETEXT''] s)
                      | Some k \<Rightarrow> Inr (s\<lparr>kern := k\<rparr>)))))"

section \<open>vmmap, disasm, load\<close>

definition vmmap :: "'k platform \<Rightarrow> 'k session \<Rightarrow> 'k result" where
  "vmmap P s =
     (if state s \<noteq> RUNNING then Inr (err ''state must be RUNNING'' s)
      else case maps_parser (open_read P (kern s) (maps_path (pid s))) [] of
        Inl h \<Rightarrow> Inl (h, s)
      | Inr (ret, _, os) \<Rightarrow>
          (let s = say os s in
           if ret < 0 then Inr (err ''fail to load memory mappings'' s) else Inr s))"

definition in_text :: "'k session \<Rightarrow> u64 \<Rightarrow> bool" where
  "in_text s a \<longleftrightarrow> text_begin s \<le> a \<and> a \<le> text_end s"

definition range_message :: "'k session \<Rightarrow> string" where
  "range_message s = ''the address is out of the range of the text segment [0x''
     @ hex (unat (text_begin s)) @ '' - 0x'' @ hex (unat (text_end s)) @ '']''"

text \<open>The code shown at an address: the saved one under a breakpoint, else the memory.\<close>

definition shown_code :: "'k platform \<Rightarrow> 'k session \<Rightarrow> u64 \<Rightarrow> u64" where
  "shown_code P s a =
     (case at_addr (bptab s) a of
        Some b \<Rightarrow> bp_code b
      | None \<Rightarrow> ptrace_peektext P (kern s) (pid s) a)"

fun disasm_loop :: "'k platform \<Rightarrow> nat \<Rightarrow> u64 \<Rightarrow> 'k session \<Rightarrow> 'k session" where
  "disasm_loop P 0 tar_addr s = s"
| "disasm_loop P (Suc n) tar_addr s =
     (if in_text s tar_addr then
        let (count, os) = translate P (kern s) tar_addr (shown_code P s tar_addr)
        in disasm_loop P n (tar_addr + count) (say os s)
      else s)"

definition disasm :: "'k platform \<Rightarrow> string list \<Rightarrow> 'k session \<Rightarrow> 'k session" where
  "disasm P cmds s =
     (if state s \<noteq> RUNNING then err ''state must be RUNNING'' s
      else if length cmds < 2 then err ''no addr is given'' s
      else
        let tar_addr = arg_value (cmds ! 1) in
        if \<not> in_text s tar_addr then err (range_message s) s
        else disasm_loop P 10 tar_addr s)"

definition load :: "'k platform \<Rightarrow> string list \<Rightarrow> 'k session \<Rightarrow> 'k result" where
  "load P cmds s =
     (if state s = LOADED \<or> state s = RUNNING then Inr (err ''state must be NOT LOADED'' s)
      else if length cmds < 2 then Inr (err ''no program path is given'' s)
      else
        let s = s\<lparr>prog_path := cmds ! 1\<rparr> in
        case elf64_parser (open_read P (kern s) (c_str (prog_path s)))
               (entry_point s, text_begin s, text_end s) of
          Inl h \<Rightarrow> Inl (h, s)
        | Inr (ret, (ep, tb, te), os) \<Rightarrow>
            (let s = say os (s\<lparr>entry_point := ep, text_begin := tb, text_end := te\<rparr>) in
             if ret = - 1 then Inr s
             else Inr ((say [Stdout (''** program '' @ [CHR 0x27] @ c_str (prog_path s) @ [CHR 0x27]
                          @ '' loaded. entry point 0x'' @ hex (unat (entry_point s)) @ '' '' @ nl)] s)
                       \<lparr>state := LOADED, last_cmd_is_set_rip := False\<rparr>)))"

section \<open>start, si, cont, run\<close>

fun reput_loop :: "'k platform \<Rightarrow> u64 \<Rightarrow> breakpoint_table \<Rightarrow> 'k session \<Rightarrow> 'k session" where
  "reput_loop P begin_addr [] s = s"
| "reput_loop P begin_addr (b # bs) s =
     (if bp_addr b < begin_addr then reput_loop P begin_addr bs s
      else
        let code = ptrace_peektext P (kern s) (pid s) (bp_addr b) in
        case ptrace_poketext P (kern s) (pid s) (bp_addr b) ((code AND 0xffffffffffffff00) OR 0xcc) of
          None \<Rightarrow> say [Perror ''** ptrace POKETEXT''] s
        | Some k \<Rightarrow> reput_loop P begin_addr bs (s\<lparr>kern := k\<rparr>))"

definition reput_all_breakpoints_from :: "'k platform \<Rightarrow> u64 \<Rightarrow> 'k session \<Rightarrow> 'k session" where
  "reput_all_breakpoints_from P begin_addr s = reput_loop P begin_addr (bptab s) s"

text \<open>The child's side of \<open>fork\<close>; the two returns lead back to the command loop.\<close>

definition start_child :: "'k platform \<Rightarrow> 'k session \<Rightarrow> 'k result" where
  "start_child P s =
     (case ptrace_traceme P (kern s) of
        None \<Rightarrow> Inr (say [Perror ''** ptrace TRACEME''] s)
      | Some k \<Rightarrow>
          let s = s\<lparr>kern := k\<rparr> in
          case sys_execvp P (kern s) (c_str (prog_path s)) of
            Some k \<Rightarrow> Inl (ImageReplaced, s\<lparr>kern := k\<rparr>)
          | None \<Rightarrow> Inr (say [Perror ''** execvp''] s))"

definition start_parent :: "'k platform \<Rightarrow> 'k session \<Rightarrow> 'k result" where
  "start_parent P s =
     (case sys_waitpid P (kern s) (pid s) of
        None \<Rightarrow> Inr (say [Perror ''** waitpid''] s)
      | Some (status, k) \<Rightarrow>
          let s = s\<lparr>kern := k\<rparr> in
          if \<not> WIFSTOPPED status then Inl (Abort, s)
          else
            let s = s\<lparr>kern := ptrace_setoptions P (kern s) (pid s)\<rparr>;
                s = reput_all_breakpoints_from P (text_begin s) s
            in bindE (check_hit_break_point_or_not P FOR_START s) (\<lambda>s.
                 Inr ((say [Stdout (''** pid '' @ sdec (pid s) @ nl)] s)
                      \<lparr>state := RUNNING, last_cmd_is_set_rip := False\<rparr>)))"

definition start :: "'k platform \<Rightarrow> 'k session \<Rightarrow> 'k result" where
  "start P s =
     (if state s \<noteq> LOADED then Inr (err ''state must be LOADED'' s)
      else
        let (p, k) = sys_fork P (kern s); s = s\<lparr>pid := p, kern := k\<rparr> in
        if pid s = - 1 then Inr (say [Perror ''** fork''] s)
        else if pid s = 0 then start_child P s
        else start_parent P s)"

definition step_in :: "'k platform \<Rightarrow> 'k session \<Rightarrow> 'k result" where
  "step_in P s =
     (if state s \<noteq> RUNNING then Inr (err ''state must be RUNNING'' s)
      else case ptrace_getregs P (kern s) (pid s) of
        None \<Rightarrow> Inr (say [Perror ''** ptrace GETREGS''] s)
      | Some regs \<Rightarrow>
          let finish = (\<lambda>s. if state s \<noteq> RUNNING then Inr s
                            else bindE (check_hit_break_point_or_not P FOR_SINGLESTEP s)
                                   (\<lambda>s. Inr (s\<lparr>last_cmd_is_set_rip := False\<rparr>)))
          in if include_addr (bptab s) (rg_rip regs)
             then bindE (check_then_restore_si_reput P (rg_rip regs) s) finish
             else case ptrace_singlestep P (kern s) (pid s) of
               None \<Rightarrow> Inr (say [Perror ''** ptrace SINGLESTEP''] s)
             | Some k \<Rightarrow> bindE (wait_then_check_exit P (s\<lparr>kern := k\<rparr>)) finish)"

definition cont_resume :: "'k platform \<Rightarrow> 'k session \<Rightarrow> 'k result" where
  "cont_resume P s =
     (case ptrace_cont P (kern s) (pid s) of
        None \<Rightarrow> Inr (say [Perror ''** ptrace CONT''] s)
      | Some k \<Rightarrow>
          bindE (wait_then_check_exit P (s\<lparr>kern := k\<rparr>)) (\<lambda>s.
            if state s \<noteq> RUNNING then Inr s
            else bindE (check_hit_break_point_or_not P FOR_CONT s)
                   (\<lambda>s. Inr (s\<lparr>last_cmd_is_set_rip := False\<rparr>))))"

definition cont :: "'k platform \<Rightarrow> 'k session \<Rightarrow> 'k result" where
  "cont P s =
     (if state s \<noteq> RUNNING then Inr (err ''state must be RUNNING'' s)
      else case ptrace_getregs P (kern s) (pid s) of
        None \<Rightarrow> Inr (say [Perror ''** ptrace GETREGS''] s)
      | Some regs \<Rightarrow>
          if \<not> last_cmd_is_set_rip s \<and> include_addr (bptab s) (rg_rip regs)
          then bindE (check_then_restore_si_reput P (rg_rip regs) s)
                 (\<lambda>s. if state s \<noteq> RUNNING then Inr s else cont_resume P s)
          else cont_resume P s)"

definition run :: "'k platform \<Rightarrow> 'k session \<Rightarrow> 'k result" where
  "run P s =
     (if state s \<noteq> LOADED \<and> state s \<noteq> RUNNING then Inr (err ''state must be LOADED or RUNNING'' s)
      else
        let finish = (\<lambda>s. Inr (s\<lparr>last_cmd_is_set_rip := False\<rparr>)) in
        if state s = LOADED then bindE (bindE (start P s) (cont P)) finish
        else bindE (cont P (err (''program '' @ c_str (prog_path s) @ '' is already running'') s)) finish)"

section \<open>delete, break\<close>

definition delete_break_point :: "'k platform \<Rightarrow> string list \<Rightarrow> 'k session \<Rightarrow> 'k result" where
  "delete_break_point P cmds s =
     (if state s \<noteq> RUNNING then Inr (err ''state must be RUNNING'' s)
      else if length cmds < 2 then Inr (err ''no break-point-id is given'' s)
      else
        let tar_idx = atoi (c_str (cmds ! 1)) in
        if \<not> include_idx (bptab s) tar_idx then
          Inr (err (''breakpoint '' @ sdec tar_idx @ '' does not exist'') s)
        else case at_idx (bptab s) tar_idx of
          None \<Rightarrow> Inl (OutOfBounds, s)
        | Some b \<Rightarrow>
            (let cur_code = ptrace_peektext P (kern s) (pid s) (bp_addr b) in
             case ptrace_poketext P (kern s) (pid s) (bp_addr b)
                    ((cur_code AND 0xffffffffffffff00) OR (bp_code b AND 0x00000000000000ff)) of
               None \<Rightarrow> Inr (say [Perror ''** ptrace POKETEXT''] s)
             | Some k \<Rightarrow>
                 (case bpt_del tar_idx (bptab s) of
                    None \<Rightarrow> Inl (OutOfBounds, s)
                  | Some (data, os) \<Rightarrow> Inr (say os (s\<lparr>kern := k, bptab := data\<rparr>)))))"

definition set_break_point :: "'k platform \<Rightarrow> string list \<Rightarrow> 'k session \<Rightarrow> 'k session" where
  "set_break_point P cmds s =
     (if state s \<noteq> RUNNING then err ''state must be RUNNING'' s
      else if length cmds < 2 then err ''no address is given'' s
      else
        let tar_addr = arg_value (cmds ! 1) in
        if \<not> in_text s tar_addr then err (range_message s) s
        else
          let s = (if include_addr (bptab s) tar_addr
                   then err (''the breakpoint is already exists. (breakpoint ''
                          @ sdec (dict_addr2idx (bptab s) tar_addr) @ '')'') s
                   else s);
              code = ptrace_peektext P (kern s) (pid s) tar_addr in
          case ptrace_poketext P (kern s) (pid s) tar_addr ((code AND 0xffffffffffffff00) OR 0xcc) of
            None \<Rightarrow> say [Perror ''** ptrace POKETEXT''] s
          | Some k \<Rightarrow> s\<lparr>kern := k, bptab := bpt_add tar_addr code (bptab s)\<rparr>)"

end
