(* ===== verification/Shell.thy ===== *)
theory Shell
  imports Debugger
begin

text \<open>
  hw4/hw4.cpp: the command loop. \<open>exec_line\<close> is the body of the loop for one line (the
  chain of comparisons on the first word), \<open>sdb_step\<close> adds the prompt, \<open>sdb_main\<close> the
  start-up. Leaving the loop by \<open>exit\<close> is \<open>Inl (Exit 0, s)\<close>; reaching the end of the input
  is \<open>Inr\<close>.
\<close>

section \<open>getline\<close>

function getlines :: "string \<Rightarrow> string list" where
  "getlines s =
     (if s = [] then []
      else takeWhile (\<lambda>c. c \<noteq> CHR 0x0A) s # getlines (drop 1 (dropWhile (\<lambda>c. c \<noteq> CHR 0x0A) s)))"
  by pat_completeness auto
termination
proof (relation "measure length", goal_cases)
  case 1
  show ?case by simp
next
  case (2 s)
  then have "0 < length s" by simp
  with dropWhile_length_le [of "\<lambda>c. c \<noteq> CHR 0x0A" s]
  have "length (dropWhile (\<lambda>c. c \<noteq> CHR 0x0A) s) - 1 < length s" by linarith
  then show ?case by simp
qed

declare getlines.simps [simp del]

section \<open>The loop body\<close>

definition dispatch :: "'k platform \<Rightarrow> string \<Rightarrow> string list \<Rightarrow> 'k session \<Rightarrow> 'k result" where
  "dispatch P cmd cmds s =
     (if cmd = ''help'' \<or> cmd = ''h'' then Inr (help_cmd s)
      else if cmd = ''load'' then load P cmds s
      else if cmd = ''start'' then start P s
      else if cmd = ''cont'' \<or> cmd = ''c'' then cont P s
      else if cmd = ''break'' \<or> cmd = ''b'' then Inr (set_break_point P cmds s)
      else if cmd = ''list'' \<or> cmd = ''l'' then Inr (list_cmd s)
      else if cmd = ''si'' then step_in P s
      else if cmd = ''delete'' \<or> cmd = ''del'' then delete_break_point P cmds s
      else if cmd = ''get'' \<or> cmd = ''g'' then Inr (get_single_reg P cmds s)
      else if cmd = ''getregs'' then Inr (get_all_regs P s)
      else if cmd = ''set'' \<or> cmd = ''s'' then Inr (set_reg P cmds s)
      else if cmd = ''vmmap'' \<or> cmd = ''m'' then vmmap P s
      else if cmd = ''disasm'' \<or> cmd = ''d'' then Inr (disasm P cmds s)
      else if cmd = ''dump'' \<or> cmd = ''x'' then Inr (dump P cmds s)
      else if cmd = ''run'' \<or> cmd = ''r'' then run P s
      else Inr (err ''nothing happened'' s))"

definition exec_line :: "'k platform \<Rightarrow> string \<Rightarrow> 'k session \<Rightarrow> 'k result" where
  "exec_line P line s =
     (let cmds = dbgcmd_parser line (CHR 0x20) in
      case cmds of
        [] \<Rightarrow> Inl (Uncaught, s)
      | cmd # _ \<Rightarrow>
          if cmd = ''exit'' \<or> cmd = ''q'' then Inl (Exit 0, release s)
          else if line = [] then Inr s
          else dispatch P cmd cmds s)"

definition sdb_step :: "'k platform \<Rightarrow> bool \<Rightarrow> string \<Rightarrow> 'k session \<Rightarrow> 'k result" where
  "sdb_step P interactive line s =
     bindE (exec_line P line s) (\<lambda>s.
       Inr (if line \<noteq> [] \<and> interactive then say [Stdout ''sdb> ''] s else s))"

definition sdb_main :: "'k platform \<Rightarrow> options \<Rightarrow> string list \<Rightarrow> string \<Rightarrow> 'k \<Rightarrow> 'k result" where
  "sdb_main P opts argv input k =
     (let (script, program) = arg_parser opts argv [] [];
          text = (if script \<noteq> [] then
                    (case open_read P k (c_str script) of None \<Rightarrow> [] | Some f \<Rightarrow> map byte_char f)
                  else input);
          s = new_session k
      in bindE (if program \<noteq> []
                then load P (dbgcmd_parser (c_str (''load '' @ program)) (CHR 0x20)) s
                else Inr s)
           (\<lambda>s. foldE (sdb_step P (script = [])) (getlines text)
                  (if script = [] then say [Stdout ''sdb> ''] s else s)))"

lemma exec_line_first_word:
  "exec_line P line s =
     (let cmd = hd (command_words (CHR 0x20) line) in
      if cmd = ''exit'' \<or> cmd = ''q'' then Inl (Exit 0, release s)
      else if line = [] then Inr s
      else dispatch P cmd (command_words (CHR 0x20) line) s)"
proof -
  obtain cmd ws where "command_words (CHR 0x20) line = cmd # ws"
    using command_words_not_Nil [of "CHR 0x20" line] by (meson neq_Nil_conv)
  then show ?thesis by (simp only: exec_line_def dbgcmd_parser_eq Let_def list.case list.sel)
qed

end
