(* ===== verification/DebuggerInv.thy ===== *)
theory DebuggerInv
  imports Shell
begin

text \<open>
  Invariants of the debugger. \<open>same_dbg\<close> says that two sessions agree on the fields of the
  class \<open>debugger\<close>; every helper either keeps them or ends in \<open>release\<close>. \<open>dbg_inv\<close> is the
  class invariant: a debugger that has loaded nothing has no breakpoints and no child, a
  running one has a child, a pending \<open>set rip\<close> means it is running, every breakpoint lies
  in the text segment. Each command keeps it, hence so does each script (an
  interpretation of the locale \<open>stepper\<close>).
\<close>

section \<open>Frames\<close>

definition same_dbg :: "'k session \<Rightarrow> 'k session \<Rightarrow> bool" where
  "same_dbg s t \<longleftrightarrow> debugger.truncate s = debugger.truncate t"

lemma same_dbg_iff:
  "same_dbg s t \<longleftrightarrow>
     last_cmd_is_set_rip t = last_cmd_is_set_rip s \<and> bptab t = bptab s \<and> prog_path t = prog_path s \<and>
     entry_point t = entry_point s \<and> text_begin t = text_begin s \<and> text_end t = text_end s \<and>
     pid t = pid s \<and> state t = state s"
  by (auto simp: same_dbg_def debugger.truncate_def)

lemma same_dbg_refl [simp]: "same_dbg s s"
  by (simp add: same_dbg_iff)

lemma same_dbg_trans: "same_dbg s t \<Longrightarrow> same_dbg t u \<Longrightarrow> same_dbg s u"
  by (simp add: same_dbg_iff)

lemma same_dbg_say [simp]: "same_dbg s (say os t) \<longleftrightarrow> same_dbg s t"
  by (simp add: same_dbg_iff say_def)

lemma same_dbg_err [simp]: "same_dbg s (err m t) \<longleftrightarrow> same_dbg s t"
  by (simp add: err_def)

lemma same_dbg_kern [simp]: "same_dbg s (t\<lparr>kern := k\<rparr>) \<longleftrightarrow> same_dbg s t"
  by (simp add: same_dbg_iff)

lemma same_dbg_left [simp]:
  "same_dbg (say os s) t \<longleftrightarrow> same_dbg s t" "same_dbg (err m s) t \<longleftrightarrow> same_dbg s t"
  "same_dbg (s\<lparr>kern := k\<rparr>) t \<longleftrightarrow> same_dbg s t"
  by (simp_all add: same_dbg_iff say_def err_def)

lemma say_fields [simp]:
  "last_cmd_is_set_rip (say os s) = last_cmd_is_set_rip s" "bptab (say os s) = bptab s"
  "prog_path (say os s) = prog_path s" "entry_point (say os s) = entry_point s"
  "text_begin (say os s) = text_begin s" "text_end (say os s) = text_end s"
  "pid (say os s) = pid s" "state (say os s) = state s" "kern (say os s) = kern s"
  "outs (say os s) = outs s @ os"
  by (simp_all add: say_def)

lemma err_fields [simp]:
  "last_cmd_is_set_rip (err m s) = last_cmd_is_set_rip s" "bptab (err m s) = bptab s"
  "prog_path (err m s) = prog_path s" "entry_point (err m s) = entry_point s"
  "text_begin (err m s) = text_begin s" "text_end (err m s) = text_end s"
  "pid (err m s) = pid s" "state (err m s) = state s" "kern (err m s) = kern s"
  "outs (err m s) = outs s @ [Stderr (''** '' @ m @ nl)]"
  by (simp_all add: err_def)

lemma release_fields [simp]:
  "last_cmd_is_set_rip (release s) = False" "bptab (release s) = bptab s"
  "prog_path (release s) = prog_path s" "entry_point (release s) = entry_point s"
  "text_begin (release s) = text_begin s" "text_end (release s) = text_end s"
  "pid (release s) = - 1" "state (release s) = LOADED" "kern (release s) = kern s"
  "outs (release s) = outs s"
  by (simp_all add: release_def)

lemma in_text_cong: "same_dbg s t \<Longrightarrow> in_text t a = in_text s a"
  by (simp add: in_text_def same_dbg_iff)

text \<open>What a helper that waits for the child can do to the class.\<close>

definition kept_or_released :: "'k session \<Rightarrow> 'k session \<Rightarrow> bool" where
  "kept_or_released s t \<longleftrightarrow> same_dbg s t \<or> same_dbg (release s) t"

lemma kept_or_released_same: "same_dbg s t \<Longrightarrow> kept_or_released s t"
  by (simp add: kept_or_released_def)

lemma kept_or_released_running:
  "kept_or_released s t \<Longrightarrow> state t = RUNNING \<Longrightarrow> same_dbg s t"
  by (auto simp: kept_or_released_def same_dbg_iff)

lemma kept_or_released_stopped:
  "kept_or_released s t \<Longrightarrow> state s = RUNNING \<Longrightarrow> state t \<noteq> RUNNING \<Longrightarrow> same_dbg (release s) t"
  by (auto simp: kept_or_released_def same_dbg_iff)

lemma wait_frame: "wait_then_check_exit P s = Inr t \<Longrightarrow> kept_or_released s t"
  by (auto simp: wait_then_check_exit_def kept_or_released_def same_dbg_iff Let_def
      split: option.splits if_splits)

lemma report_frame: "report_breakpoint P a s = Inr t \<Longrightarrow> same_dbg s t \<and> kern t = kern s"
  by (auto simp: report_breakpoint_def same_dbg_iff Let_def split: option.splits)

lemma check_hit_frame: "check_hit_break_point_or_not P c s = Inr t \<Longrightarrow> same_dbg s t"
  by (auto simp: check_hit_break_point_or_not_def Let_def split: option.splits if_splits
      dest!: report_frame)

lemma step_over_frame: "check_then_restore_si_reput P a s = Inr t \<Longrightarrow> kept_or_released s t"
  by (auto simp: check_then_restore_si_reput_def Let_def bindE_eq_Inr
      split: option.splits if_splits dest!: wait_frame)
    (auto simp: kept_or_released_def same_dbg_iff)

lemma reput_frame: "same_dbg s (reput_loop P a bs s)"
proof (induction bs arbitrary: s)
  case Nil
  then show ?case by simp
next
  case (Cons b bs)
  have "same_dbg s (reput_loop P a bs (s\<lparr>kern := k\<rparr>))" for k
    using Cons.IH [of "s\<lparr>kern := k\<rparr>"] by simp
  with Cons.IH show ?case by (simp add: Let_def split: option.splits)
qed

lemma disasm_loop_frame: "same_dbg s (disasm_loop P n a s) \<and> kern (disasm_loop P n a s) = kern s"
proof (induction n arbitrary: a s)
  case (Suc n)
  have "same_dbg s (disasm_loop P n b (say os s)) \<and> kern (disasm_loop P n b (say os s)) = kern s" for b os
    using Suc.IH [of "say os s" b] by simp
  then show ?case by (simp add: Let_def split: prod.splits)
qed simp

section \<open>The class invariant\<close>

definition dbg_inv :: "'k session \<Rightarrow> bool" where
  "dbg_inv s \<longleftrightarrow>
     (state s = NOLOAD \<longrightarrow> bptab s = [] \<and> pid s = - 1) \<and>
     (state s = RUNNING \<longrightarrow> pid s \<noteq> - 1 \<and> pid s \<noteq> 0) \<and>
     (last_cmd_is_set_rip s \<longrightarrow> state s = RUNNING) \<and>
     (\<forall>b \<in> set (bptab s). in_text s (bp_addr b))"

lemma dbg_inv_new: "dbg_inv (new_session k)"
  by (simp add: dbg_inv_def new_session_def init_debugger_def debugger.extend_def)

lemma dbg_inv_same: "same_dbg s t \<Longrightarrow> dbg_inv s \<Longrightarrow> dbg_inv t"
  by (auto simp: dbg_inv_def same_dbg_iff in_text_def)

lemma dbg_inv_simps [simp]:
  "dbg_inv (say os s) = dbg_inv s" "dbg_inv (err m s) = dbg_inv s" "dbg_inv (s\<lparr>kern := k\<rparr>) = dbg_inv s"
  by (simp_all add: dbg_inv_def in_text_def)

lemma dbg_inv_release: "dbg_inv s \<Longrightarrow> dbg_inv (release s)"
  by (simp add: dbg_inv_def in_text_def)

lemma dbg_inv_kept: "kept_or_released s t \<Longrightarrow> dbg_inv s \<Longrightarrow> dbg_inv t"
  unfolding kept_or_released_def using dbg_inv_same dbg_inv_release by blast

lemma dbg_inv_clear_rip: "dbg_inv s \<Longrightarrow> dbg_inv (s\<lparr>last_cmd_is_set_rip := False\<rparr>)"
  by (simp add: dbg_inv_def in_text_def)

lemma dbg_inv_set_rip: "dbg_inv s \<Longrightarrow> state s = RUNNING \<Longrightarrow> dbg_inv (s\<lparr>last_cmd_is_set_rip := True\<rparr>)"
  by (simp add: dbg_inv_def in_text_def)

lemma pure_frames:
  "same_dbg s (help_cmd s)" "same_dbg s (list_cmd s)" "same_dbg s (dump P cmds s)"
  "same_dbg s (get_all_regs P s)" "same_dbg s (disasm P cmds s)" "same_dbg s (get_single_reg P cmds s)"
  by (simp_all add: help_cmd_def list_cmd_def dump_def get_all_regs_def disasm_def
      disasm_loop_frame Let_def get_single_reg_def split: option.splits prod.splits)

lemma vmmap_frame: "vmmap P s = Inr t \<Longrightarrow> same_dbg s t \<and> kern t = kern s"
  by (auto simp: vmmap_def Let_def split: if_splits sum.splits)

lemma set_reg_inv: "dbg_inv s \<Longrightarrow> dbg_inv (set_reg P cmds s)"
  by (simp add: set_reg_def Let_def dbg_inv_set_rip split: option.splits prod.splits)

lemma set_break_point_inv: "dbg_inv s \<Longrightarrow> dbg_inv (set_break_point P cmds s)"
  by (auto simp: set_break_point_def Let_def dbg_inv_def in_text_def bpt_add_def
      split: option.splits if_splits)

lemma bpt_del_subset: "bpt_del i data = Some (data', os) \<Longrightarrow> set data' \<subseteq> set data"
  by (auto simp: bpt_del_Some dest: in_set_takeD in_set_dropD)

lemma dbg_inv_fewer:
  "dbg_inv s \<Longrightarrow> state s = RUNNING \<Longrightarrow> set data \<subseteq> set (bptab s) \<Longrightarrow> dbg_inv (s\<lparr>kern := k, bptab := data\<rparr>)"
  by (auto simp: dbg_inv_def in_text_def)

lemma delete_break_point_inv: "dbg_inv s \<Longrightarrow> delete_break_point P cmds s = Inr t \<Longrightarrow> dbg_inv t"
  by (auto simp: delete_break_point_def Let_def split: option.splits if_splits
      dest!: bpt_del_subset intro: dbg_inv_fewer)

lemma load_inv: "dbg_inv s \<Longrightarrow> load P cmds s = Inr t \<Longrightarrow> dbg_inv t"
  by (cases "state s")
    (auto simp: load_def Let_def dbg_inv_def in_text_def split: if_splits sum.splits prod.splits)

lemma start_running_inv:
  assumes "dbg_inv s" and "same_dbg s t" and "state s = LOADED" and "pid s \<noteq> - 1" and "pid s \<noteq> 0"
  shows "dbg_inv (t\<lparr>state := RUNNING, last_cmd_is_set_rip := False\<rparr>)"
  using assms by (auto simp: dbg_inv_def in_text_def same_dbg_iff)

lemma start_parent_inv:
  assumes "dbg_inv s" and "state s = LOADED" and "pid s \<noteq> - 1" and "pid s \<noteq> 0"
    and "start_parent P s = Inr t"
  shows "dbg_inv t"
proof (cases "sys_waitpid P (kern s) (pid s)")
  case None
  then show ?thesis using assms by (auto simp: start_parent_def)
next
  case (Some r)
  obtain st k where r: "r = (st, k)" by (cases r)
  let ?s = "s\<lparr>kern := ptrace_setoptions P k (pid s)\<rparr>"
  obtain u where stop: "WIFSTOPPED st"
    and u: "check_hit_break_point_or_not P FOR_START (reput_all_breakpoints_from P (text_begin s) ?s) = Inr u"
    and t: "t = (say [Stdout (''** pid '' @ sdec (pid u) @ nl)] u)
                 \<lparr>state := RUNNING, last_cmd_is_set_rip := False\<rparr>"
    using assms(5) Some r by (auto simp: start_parent_def Let_def bindE_eq_Inr split: if_splits)
  have "same_dbg s u"
    using check_hit_frame [OF u] reput_frame [of ?s P "text_begin s" "bptab s"]
    by (auto simp: reput_all_breakpoints_from_def intro: same_dbg_trans)
  then show ?thesis
    unfolding t by (intro start_running_inv [OF assms(1) _ assms(2-4)]) simp
qed

lemma start_inv: "dbg_inv s \<Longrightarrow> start P s = Inr t \<Longrightarrow> dbg_inv t"
proof (cases "state s = LOADED")
  case False
  assume "dbg_inv s" and "start P s = Inr t"
  with False show ?thesis by (auto simp: start_def)
next
  case True
  assume inv: "dbg_inv s" and t: "start P s = Inr t"
  obtain p k where fork: "sys_fork P (kern s) = (p, k)" by fastforce
  let ?s = "s\<lparr>pid := p, kern := k\<rparr>"
  have inv': "dbg_inv ?s" using inv True by (auto simp: dbg_inv_def in_text_def)
  have "dbg_inv u" if "start_child P ?s = Inr u" for u
    using that inv' by (auto simp: start_child_def Let_def split: option.splits)
  then show ?thesis
    using t True fork inv' start_parent_inv [OF inv']
    by (auto simp: start_def Let_def split: if_splits)
qed

lemma check_hit_inv: "dbg_inv s \<Longrightarrow> check_hit_break_point_or_not P c s = Inr t \<Longrightarrow> dbg_inv t"
  using check_hit_frame dbg_inv_same by blast

lemma step_over_inv: "dbg_inv s \<Longrightarrow> check_then_restore_si_reput P a s = Inr t \<Longrightarrow> dbg_inv t"
  using step_over_frame dbg_inv_kept by blast

lemma wait_inv: "dbg_inv s \<Longrightarrow> wait_then_check_exit P s = Inr t \<Longrightarrow> dbg_inv t"
  using wait_frame dbg_inv_kept by blast

lemma step_in_inv: "dbg_inv s \<Longrightarrow> step_in P s = Inr t \<Longrightarrow> dbg_inv t"
  by (auto simp: step_in_def Let_def bindE_eq_Inr split: option.splits if_splits
      intro!: dbg_inv_clear_rip dest: step_over_inv wait_inv [rotated] check_hit_inv)

lemma cont_resume_inv: "dbg_inv s \<Longrightarrow> cont_resume P s = Inr t \<Longrightarrow> dbg_inv t"
  by (auto simp: cont_resume_def bindE_eq_Inr split: option.splits if_splits
      intro!: dbg_inv_clear_rip dest: wait_inv [rotated] check_hit_inv)

lemma cont_inv: "dbg_inv s \<Longrightarrow> cont P s = Inr t \<Longrightarrow> dbg_inv t"
  by (auto simp: cont_def bindE_eq_Inr split: option.splits if_splits
      dest: step_over_inv cont_resume_inv [rotated])

lemma run_inv: "dbg_inv s \<Longrightarrow> run P s = Inr t \<Longrightarrow> dbg_inv t"
  by (auto simp: run_def Let_def bindE_eq_Inr split: if_splits
      intro!: dbg_inv_clear_rip dest: start_inv cont_inv [rotated])

lemma pure_inv:
  "dbg_inv s \<Longrightarrow> dbg_inv (help_cmd s)" "dbg_inv s \<Longrightarrow> dbg_inv (list_cmd s)"
  "dbg_inv s \<Longrightarrow> dbg_inv (dump P cmds s)" "dbg_inv s \<Longrightarrow> dbg_inv (get_all_regs P s)"
  "dbg_inv s \<Longrightarrow> dbg_inv (disasm P cmds s)" "dbg_inv s \<Longrightarrow> dbg_inv (get_single_reg P cmds s)"
  using pure_frames dbg_inv_same by blast+

lemma vmmap_inv: "dbg_inv s \<Longrightarrow> vmmap P s = Inr t \<Longrightarrow> dbg_inv t"
  using vmmap_frame dbg_inv_same by blast

lemmas command_invs = load_inv start_inv cont_inv step_in_inv delete_break_point_inv run_inv
  vmmap_inv

lemma command_hoares [keeps_intros]:
  "hoare dbg_inv (load P cmds) dbg_inv" "hoare dbg_inv (start P) dbg_inv"
  "hoare dbg_inv (cont P) dbg_inv" "hoare dbg_inv (step_in P) dbg_inv"
  "hoare dbg_inv (delete_break_point P cmds) dbg_inv" "hoare dbg_inv (run P) dbg_inv"
  "hoare dbg_inv (vmmap P) dbg_inv"
  by (rule hoareI, erule (1) command_invs)+

lemma dispatch_hoare: "hoare dbg_inv (dispatch P cmd cmds) dbg_inv"
  unfolding dispatch_def [abs_def]
  by (intro keeps_intros) (simp_all add: pure_inv set_break_point_inv set_reg_inv)

lemma dispatch_inv: "dbg_inv s \<Longrightarrow> dispatch P cmd cmds s = Inr t \<Longrightarrow> dbg_inv t"
  by (rule hoareD [OF dispatch_hoare])

lemma sdb_step_inv: "dbg_inv s \<Longrightarrow> sdb_step P b line s = Inr t \<Longrightarrow> dbg_inv t"
  by (auto simp: sdb_step_def bindE_eq_Inr exec_line_first_word Let_def split: if_split_asm
      dest: dispatch_inv)

interpretation sdb: stepper dbg_inv "sdb_step P interactive" for P interactive
  by unfold_locales (rule sdb_step_inv)

end
