(* ===== verification/DebuggerMem.thy ===== *)
theory DebuggerMem
  imports DebuggerInv
begin

text \<open>
  What the debugger does to the tracee's memory. \<open>overlay orig A\<close> is the specification: the
  program's own bytes with 0xcc at the addresses in \<open>A\<close>. A session is \<open>consistent\<close> on a
  region when the tracee's memory there is the overlay of some original bytes with the
  breakpoints of the table, and each saved code holds the original byte. Setting (at a new
  address) and deleting keep the original bytes; stepping and continuing keep the overlay
  on code the tracee does not rewrite; starting a new process installs it.
\<close>

section \<open>The specification\<close>

definition overlay :: "(u64 \<Rightarrow> u8 option) \<Rightarrow> u64 set \<Rightarrow> (u64 \<Rightarrow> u8 option)" where
  "overlay orig A = (\<lambda>a. if a \<in> A then Some 0xcc else orig a)"

lemma overlay_insert: "overlay orig (insert a A) = (overlay orig A)(a \<mapsto> 0xcc)"
  by (auto simp: overlay_def fun_eq_iff)

lemma overlay_remove: "orig a = Some c \<Longrightarrow> (overlay orig A)(a \<mapsto> c) = overlay orig (A - {a})"
  by (auto simp: overlay_def fun_eq_iff)

definition bp_addrs :: "'k session \<Rightarrow> u64 set" where
  "bp_addrs s = bp_addr ` set (bptab s)"

lemma include_bp_addrs: "include_addr (bptab s) a \<longleftrightarrow> a \<in> bp_addrs s"
  by (simp add: bp_addrs_def)

definition consistent :: "'k memory \<Rightarrow> u64 set \<Rightarrow> (u64 \<Rightarrow> u8 option) \<Rightarrow> 'k session \<Rightarrow> bool" where
  "consistent mem T orig s \<longleftrightarrow>
     bpt_inv (bptab s) \<and>
     (\<forall>a \<in> T. mem (kern s) (pid s) a = overlay orig (bp_addrs s) a) \<and>
     (\<forall>b \<in> set (bptab s). bp_addr b \<in> T \<and> orig (bp_addr b) = Some (byte_of 0 (bp_code b)))"

lemma consistentD:
  assumes "consistent mem T orig s"
  shows "bpt_inv (bptab s)" "a \<in> T \<Longrightarrow> mem (kern s) (pid s) a = overlay orig (bp_addrs s) a"
    "b \<in> set (bptab s) \<Longrightarrow> bp_addr b \<in> T" "b \<in> set (bptab s) \<Longrightarrow> orig (bp_addr b) = Some (byte_of 0 (bp_code b))"
  using assms by (auto simp: consistent_def)

text \<open>Sessions with the same table, child and memory on the region are consistent together.\<close>

definition same_mem :: "'k memory \<Rightarrow> u64 set \<Rightarrow> 'k session \<Rightarrow> 'k session \<Rightarrow> bool" where
  "same_mem mem T s t \<longleftrightarrow> bptab t = bptab s \<and> pid t = pid s \<and>
     (\<forall>a \<in> T. mem (kern t) (pid s) a = mem (kern s) (pid s) a)"

lemma consistent_same_mem: "same_mem mem T s t \<Longrightarrow> consistent mem T orig s \<Longrightarrow> consistent mem T orig t"
  by (auto simp: consistent_def same_mem_def bp_addrs_def)

lemma same_mem_trans: "same_mem mem T s t \<Longrightarrow> same_mem mem T t u \<Longrightarrow> same_mem mem T s u"
  by (auto simp: same_mem_def)

lemma same_mem_frame: "same_dbg s t \<Longrightarrow> kern t = kern s \<Longrightarrow> same_mem mem T s t"
  by (simp add: same_mem_def same_dbg_iff)

lemma bpt_entry_at:
  assumes "consistent mem T orig s" and "at_addr (bptab s) a = Some b"
  shows "a \<in> T" "orig a = Some (byte_of 0 (bp_code b))" "a \<in> bp_addrs s"
  using assms consistentD [OF assms(1)] at_addr_Some [OF assms(2)] by (auto simp: bp_addrs_def)

section \<open>break\<close>

lemma break_poke:
  assumes "state s = RUNNING" and "2 \<le> length cmds" and "in_text s a" and "arg_value (cmds ! 1) = a"
    and "ptrace_poketext P (kern s) (pid s) a (patch_low (ptrace_peektext P (kern s) (pid s) a) 0xcc) = Some k"
  shows "bptab (set_break_point P cmds s) =
           bptab s @ [\<lparr>bp_code = ptrace_peektext P (kern s) (pid s) a, bp_addr = a\<rparr>]"
    and "kern (set_break_point P cmds s) = k" and "pid (set_break_point P cmds s) = pid s"
  using assms by (simp_all add: set_break_point_def Let_def patch_low_cc bpt_add_def)

lemma set_break_point_cases:
  obtains (refused) "same_dbg s (set_break_point P cmds s)" "kern (set_break_point P cmds s) = kern s"
  | (patched) a k where "state s = RUNNING" "2 \<le> length cmds" "in_text s a" "arg_value (cmds ! 1) = a"
      "ptrace_poketext P (kern s) (pid s) a (patch_low (ptrace_peektext P (kern s) (pid s) a) 0xcc) = Some k"
proof (cases "state s = RUNNING \<and> 2 \<le> length cmds \<and> in_text s (arg_value (cmds ! 1))")
  case False
  then show ?thesis by (intro refused) (auto simp: set_break_point_def Let_def)
next
  case True
  show ?thesis
  proof (cases "ptrace_poketext P (kern s) (pid s) (arg_value (cmds ! 1))
      (patch_low (ptrace_peektext P (kern s) (pid s) (arg_value (cmds ! 1))) 0xcc)")
    case None
    with True show ?thesis by (intro refused) (simp_all add: set_break_point_def Let_def patch_low_cc)
  next
    case (Some k)
    with True show ?thesis by (intro patched [of "arg_value (cmds ! 1)" k]) simp_all
  qed
qed

lemma set_break_point_consistent:
  assumes pm: "ptrace_memory P mem" and cons: "consistent mem T orig s"
    and inT: "\<And>a. in_text s a \<Longrightarrow> a \<in> T"
    and fresh: "\<not> include_addr (bptab s) (arg_value (cmds ! 1))"
  shows "consistent mem T orig (set_break_point P cmds s)"
proof (cases rule: set_break_point_cases [of s P cmds])
  case refused
  then show ?thesis using cons consistent_same_mem same_mem_frame by blast
next
  case (patched a k)
  note break_poke [OF patched]
  let ?code = "ptrace_peektext P (kern s) (pid s) a"
  have aT: "a \<in> T" using inT patched(3) .
  have new: "a \<notin> bp_addrs s" using fresh patched(4) by (simp add: bp_addrs_def)
  have mem: "mem k (pid s) = (mem (kern s) (pid s))(a \<mapsto> 0xcc)"
    using poke_patch [OF pm patched(5)] by simp
  have "mem (kern s) (pid s) a = Some (byte_of 0 ?code)"
    using ptrace_pokeD [OF pm patched(5)] by (intro mem_low_byte [OF pm]) simp
  then have orig: "orig a = Some (byte_of 0 ?code)"
    using consistentD(2) [OF cons aT] new by (simp add: overlay_def)
  show ?thesis
    using cons aT new orig \<open>kern (set_break_point P cmds s) = k\<close> mem
    unfolding consistent_def bp_addrs_def
    by (auto simp: \<open>bptab (set_break_point P cmds s) = _\<close> \<open>pid (set_break_point P cmds s) = _\<close>
        bpt_inv_def overlay_def)
qed

section \<open>delete\<close>

lemma delete_break_point_cases:
  assumes "delete_break_point P cmds s = Inr t"
  obtains (refused) "same_dbg s t" "kern t = kern s"
  | (deleted) i b k where "state s = RUNNING" "2 \<le> length cmds" "i = atoi (c_str (cmds ! 1))"
      "at_idx (bptab s) i = Some b"
      "ptrace_poketext P (kern s) (pid s) (bp_addr b)
         (patch_low (ptrace_peektext P (kern s) (pid s) (bp_addr b)) (bp_code b)) = Some k"
      "bptab t = take (nat i) (bptab s) @ drop (Suc (nat i)) (bptab s)" "kern t = k" "pid t = pid s"
  using assms
  by (auto simp: delete_break_point_def Let_def bpt_del_def patch_low_def [symmetric] split: if_splits option.splits)

lemma delete_break_point_consistent:
  assumes pm: "ptrace_memory P mem" and cons: "consistent mem T orig s"
    and del: "delete_break_point P cmds s = Inr t"
  shows "consistent mem T orig t"
proof (cases rule: delete_break_point_cases [OF del])
  case 1
  then show ?thesis using cons consistent_same_mem same_mem_frame by blast
next
  case (2 i b k)
  have b: "b \<in> set (bptab s)" using at_idx_Some [OF 2(4)] by blast
  have set: "set (bptab t) = {x \<in> set (bptab s). bp_addr x \<noteq> bp_addr b}"
    unfolding 2(6) by (rule set_bpt_delete [OF consistentD(1) [OF cons] 2(4)])
  then have addrs: "bp_addrs t = bp_addrs s - {bp_addr b}" by (auto simp: bp_addrs_def)
  have inv: "bpt_inv (bptab t)" unfolding 2(6) by (rule bpt_inv_delete [OF consistentD(1) [OF cons]])
  have mem: "mem k (pid s) = (mem (kern s) (pid s))(bp_addr b \<mapsto> byte_of 0 (bp_code b))"
    by (rule poke_patch [OF pm 2(5)])
  have "mem (kern t) (pid t) a = overlay orig (bp_addrs t) a" if "a \<in> T" for a
    using consistentD(2) [OF cons that] consistentD(4) [OF cons b] mem
    by (auto simp: 2(7,8) addrs overlay_def)
  then show ?thesis using inv set cons unfolding consistent_def by auto
qed

lemma consistent_say [simp]: "consistent mem T orig (say os s) = consistent mem T orig s"
  by (simp add: consistent_def bp_addrs_def)

lemma consistent_err [simp]: "consistent mem T orig (err m s) = consistent mem T orig s"
  by (simp add: err_def)

lemma consistent_clear [simp]:
  "consistent mem T orig (s\<lparr>last_cmd_is_set_rip := b\<rparr>) = consistent mem T orig s"
  by (simp add: consistent_def bp_addrs_def)

section \<open>Stepping and continuing\<close>

text \<open>
  What a property of running code needs of the platform beyond \<open>ptrace_memory\<close>: a poke
  of eight mapped bytes succeeds, and while the tracee runs it neither writes nor unmaps
  the region \<open>T\<close> (the text segment, which is mapped read-only).
\<close>

definition pokes_mapped :: "'k platform \<Rightarrow> 'k memory \<Rightarrow> bool" where
  "pokes_mapped P mem \<longleftrightarrow> (\<forall>k p a w. mapped_word mem k p a \<longrightarrow> ptrace_poketext P k p a w \<noteq> None)"

definition resumes :: "'k platform \<Rightarrow> int \<Rightarrow> 'k \<Rightarrow> 'k \<Rightarrow> bool" where
  "resumes P p k k' \<longleftrightarrow> ptrace_singlestep P k p = Some k' \<or> ptrace_cont P k p = Some k' \<or>
     (\<exists>st. sys_waitpid P k p = Some (st, k'))"

definition keeps_text :: "'k platform \<Rightarrow> 'k memory \<Rightarrow> u64 set \<Rightarrow> bool" where
  "keeps_text P mem T \<longleftrightarrow>
     (\<forall>p k k'. resumes P p k k' \<longrightarrow>
        (\<forall>a \<in> T. mem k' p a = mem k p a \<and> (mapped_word mem k p a \<longrightarrow> mapped_word mem k' p a)))"

lemma keeps_textD:
  "keeps_text P mem T \<Longrightarrow> resumes P p k k' \<Longrightarrow> a \<in> T \<Longrightarrow> mem k' p a = mem k p a"
  "keeps_text P mem T \<Longrightarrow> resumes P p k k' \<Longrightarrow> a \<in> T \<Longrightarrow> mapped_word mem k p a \<Longrightarrow> mapped_word mem k' p a"
  by (auto simp: keeps_text_def)

lemma wait_same_mem:
  assumes keeps: "keeps_text P mem T" and wait: "wait_then_check_exit P s = Inr t" and run: "state t = RUNNING"
  shows "same_mem mem T s t" and "a \<in> T \<Longrightarrow> mapped_word mem (kern s) (pid s) a \<Longrightarrow> mapped_word mem (kern t) (pid s) a"
proof -
  have "bptab t = bptab s \<and> pid t = pid s \<and> (kern t = kern s \<or> resumes P (pid s) (kern s) (kern t))"
    using wait run
    by (auto simp: wait_then_check_exit_def Let_def resumes_def release_def split: option.splits if_splits)
  then show "same_mem mem T s t"
    and "a \<in> T \<Longrightarrow> mapped_word mem (kern s) (pid s) a \<Longrightarrow> mapped_word mem (kern t) (pid s) a"
    using keeps_textD [OF keeps] by (auto simp: same_mem_def)
qed

lemma check_hit_same_mem:
  assumes "ptrace_memory P mem" and "check_hit_break_point_or_not P c s = Inr t"
  shows "same_mem mem T s t"
  using assms check_hit_frame [OF assms(2)]
  by (auto simp: check_hit_break_point_or_not_def Let_def same_mem_def same_dbg_iff
      split: option.splits if_splits dest!: report_frame ptrace_setregsD)

text \<open>The step over a breakpoint, when it does not fail on the way.\<close>

lemma step_over_steps:
  assumes "at_addr (bptab s) a = Some b"
    and poke: "ptrace_poketext P (kern s) (pid s) a
           (patch_low (ptrace_peektext P (kern s) (pid s) a) (bp_code b)) = Some k1"
    and step: "ptrace_singlestep P k1 (pid s) = Some k2"
    and result: "check_then_restore_si_reput P a s = Inr t" and "state t = RUNNING"
  obtains u where "wait_then_check_exit P (s\<lparr>kern := k2\<rparr>) = Inr u" "state u = RUNNING"
    "t = (case ptrace_poketext P (kern u) (pid u) a (ptrace_peektext P (kern s) (pid s) a) of
            None \<Rightarrow> say [Perror ''** ptrace POKETEXT''] u
          | Some k3 \<Rightarrow> u\<lparr>kern := k3\<rparr>)"
proof -
  have "include_addr (bptab s) a" using at_addr_None [of "bptab s" a] assms(1) by auto
  then show ?thesis
    using that assms
    by (auto simp: check_then_restore_si_reput_def Let_def patch_low_def [symmetric] bindE_eq_Inr
        split: option.splits if_splits)
qed

lemma step_over_original_byte:
  assumes "ptrace_memory P mem" and "consistent mem T orig s" and "at_addr (bptab s) a = Some b"
    and "ptrace_poketext P (kern s) (pid s) a
           (patch_low (ptrace_peektext P (kern s) (pid s) a) (bp_code b)) = Some k1"
  shows "x \<in> T \<Longrightarrow> mem k1 (pid s) x = overlay orig (bp_addrs s - {a}) x"
  using poke_patch [OF assms(1,4)] bpt_entry_at [OF assms(2,3)] consistentD(2) [OF assms(2)]
  by (auto simp: overlay_def)

lemma step_over_consistent:
  assumes pm: "ptrace_memory P mem" and pokes: "pokes_mapped P mem" and keeps: "keeps_text P mem T"
    and steps: "\<And>k. ptrace_singlestep P k (pid s) \<noteq> None"
    and cons: "consistent mem T orig s"
    and result: "check_then_restore_si_reput P a s = Inr t" and running: "state t = RUNNING"
  shows "consistent mem T orig t"
proof (cases "at_addr (bptab s) a")
  case None
  then have "t = s" using result by (simp add: check_then_restore_si_reput_def at_addr_None)
  then show ?thesis using cons by simp
next
  case (Some b)
  let ?w = "ptrace_peektext P (kern s) (pid s) a"
  show ?thesis
  proof (cases "ptrace_poketext P (kern s) (pid s) a (patch_low ?w (bp_code b))")
    case None
    have "include_addr (bptab s) a" using at_addr_None [of "bptab s" a] Some by auto
    then have "t = say [Perror ''** ptrace POKETEXT''] s"
      using result [unfolded check_then_restore_si_reput_def Let_def patch_low_def [symmetric]] None Some
      by (simp only: option.case if_False not_True_eq_False simp_thms sum.inject)
    then show ?thesis using cons by simp
  next
    case poke: (Some k1)
    obtain k2 where step: "ptrace_singlestep P k1 (pid s) = Some k2" using steps by blast
    obtain u where u: "wait_then_check_exit P (s\<lparr>kern := k2\<rparr>) = Inr u" "state u = RUNNING"
      and t: "t = (case ptrace_poketext P (kern u) (pid u) a ?w of
            None \<Rightarrow> say [Perror ''** ptrace POKETEXT''] u | Some k3 \<Rightarrow> u\<lparr>kern := k3\<rparr>)"
      by (rule step_over_steps [OF Some poke step result running])
    have aT: "a \<in> T" and a: "a \<in> bp_addrs s" using bpt_entry_at [OF cons Some] by simp_all
    have mapped: "mapped_word mem (kern s) (pid s) a" using ptrace_pokeD [OF pm poke] by simp
    have "mapped_word mem k1 (pid s) a"
      using mapped poke_patch [OF pm poke] by (auto simp: mapped_word_def)
    then have mapped2: "mapped_word mem k2 (pid s) a"
      using keeps_textD(2) [OF keeps _ aT] step by (auto simp: resumes_def)
    have same: "same_mem mem T (s\<lparr>kern := k2\<rparr>) u" and mapped3: "mapped_word mem (kern u) (pid s) a"
      using wait_same_mem [OF keeps u] mapped2 aT by simp_all
    have pid: "pid u = pid s" and tab: "bptab u = bptab s" using same by (auto simp: same_mem_def)
    obtain k3 where k3: "ptrace_poketext P (kern u) (pid u) a ?w = Some k3"
      using pokes mapped3 unfolding pokes_mapped_def pid by blast
    have mem3: "mem k3 (pid s) = store_word (mem (kern u) (pid s)) a ?w"
      using ptrace_pokeD [OF pm k3] by (simp add: pid)
    have "mem k3 (pid s) x = overlay orig (bp_addrs s) x" if x: "x \<in> T" for x
    proof (cases "unat (x - a) < 8")
      case True
      define i where "i = unat (x - a)"
      have xi: "x = a + of_nat i" by (simp add: i_def)
      have "mem (kern s) (pid s) (a + of_nat i) = Some (byte_of i ?w)"
        using ptrace_peekD [OF pm mapped, of i] True unfolding i_def by blast
      then show ?thesis
        using consistentD(2) [OF cons x] True by (simp add: mem3 store_word_def xi [symmetric] i_def)
    next
      case False
      then have "x \<noteq> a" by auto
      have "mem (kern u) (pid s) x = mem k1 (pid s) x"
        using same x keeps_textD(1) [OF keeps _ x, of "pid s" k1 k2] step
        by (auto simp: same_mem_def resumes_def)
      also have "\<dots> = overlay orig (bp_addrs s) x"
        using step_over_original_byte [OF pm cons Some poke x] \<open>x \<noteq> a\<close> by (auto simp: overlay_def)
      finally show ?thesis using False by (simp add: mem3 store_word_def)
    qed
    then show ?thesis
      using cons unfolding consistent_def bp_addrs_def t k3 by (simp add: tab pid)
  qed
qed

lemma check_hit_consistent:
  "ptrace_memory P mem \<Longrightarrow> consistent mem T orig s \<Longrightarrow> check_hit_break_point_or_not P c s = Inr t \<Longrightarrow>
   consistent mem T orig t"
  using check_hit_same_mem consistent_same_mem by blast

lemma finish_consistent:
  assumes pm: "ptrace_memory P mem" and cons: "consistent mem T orig u" and run: "state t = RUNNING"
    and fin: "(if state u \<noteq> RUNNING then Inr u
               else bindE (check_hit_break_point_or_not P c u) (\<lambda>s. Inr (s\<lparr>last_cmd_is_set_rip := False\<rparr>))) = Inr t"
  shows "consistent mem T orig t"
proof -
  have "state u = RUNNING" using fin run by (auto split: if_splits)
  with fin obtain v where "check_hit_break_point_or_not P c u = Inr v" and "t = v\<lparr>last_cmd_is_set_rip := False\<rparr>"
    by (auto simp: bindE_eq_Inr)
  then show ?thesis using check_hit_consistent [OF pm cons] by simp
qed

lemma resumed_consistent:
  assumes keeps: "keeps_text P mem T" and cons: "consistent mem T orig s"
    and k: "resumes P (pid s) (kern s) k"
    and wait: "wait_then_check_exit P (s\<lparr>kern := k\<rparr>) = Inr u" and run: "state u = RUNNING"
  shows "consistent mem T orig u"
proof -
  have "same_mem mem T s (s\<lparr>kern := k\<rparr>)" using keeps_textD(1) [OF keeps k] by (simp add: same_mem_def)
  then show ?thesis
    using wait_same_mem(1) [OF keeps wait run] cons same_mem_trans consistent_same_mem by meson
qed

lemma finish_running:
  "(if state u \<noteq> RUNNING then Inr u else m) = Inr t \<Longrightarrow> state t = RUNNING \<Longrightarrow> state u = RUNNING"
  by (auto split: if_splits)

lemma cont_resume_consistent:
  assumes pm: "ptrace_memory P mem" and keeps: "keeps_text P mem T"
    and cons: "consistent mem T orig s" and result: "cont_resume P s = Inr t" and run: "state t = RUNNING"
  shows "consistent mem T orig t"
proof (cases "ptrace_cont P (kern s) (pid s)")
  case None
  then show ?thesis using result cons by (auto simp: cont_resume_def)
next
  case (Some k)
  then obtain u where u: "wait_then_check_exit P (s\<lparr>kern := k\<rparr>) = Inr u"
    and fin: "(if state u \<noteq> RUNNING then Inr u
       else bindE (check_hit_break_point_or_not P FOR_CONT u) (\<lambda>s. Inr (s\<lparr>last_cmd_is_set_rip := False\<rparr>))) = Inr t"
    using result unfolding cont_resume_def by (auto simp only: option.case bindE_eq_Inr)
  have "resumes P (pid s) (kern s) k" using Some by (simp add: resumes_def)
  then have "consistent mem T orig u" by (rule resumed_consistent [OF keeps cons _ u finish_running [OF fin run]])
  then show ?thesis by (rule finish_consistent [OF pm _ run fin])
qed

lemma step_in_consistent:
  assumes pm: "ptrace_memory P mem" and pokes: "pokes_mapped P mem" and keeps: "keeps_text P mem T"
    and steps: "\<And>k. ptrace_singlestep P k (pid s) \<noteq> None"
    and cons: "consistent mem T orig s" and result: "step_in P s = Inr t" and run: "state t = RUNNING"
  shows "consistent mem T orig t"
proof (cases "state s = RUNNING \<and> ptrace_getregs P (kern s) (pid s) \<noteq> None")
  case False
  then show ?thesis using result cons by (auto simp: step_in_def split: if_splits)
next
  case True
  then obtain regs where regs: "ptrace_getregs P (kern s) (pid s) = Some regs" by blast
  obtain k where k: "ptrace_singlestep P (kern s) (pid s) = Some k" using steps by blast
  let ?m = "if include_addr (bptab s) (rg_rip regs) then check_then_restore_si_reput P (rg_rip regs) s
            else wait_then_check_exit P (s\<lparr>kern := k\<rparr>)"
  obtain u where u: "?m = Inr u"
    and fin: "(if state u \<noteq> RUNNING then Inr u
       else bindE (check_hit_break_point_or_not P FOR_SINGLESTEP u)
              (\<lambda>s. Inr (s\<lparr>last_cmd_is_set_rip := False\<rparr>))) = Inr t"
    using result True regs k
    by (cases "include_addr (bptab s) (rg_rip regs)") (auto simp: step_in_def Let_def bindE_eq_Inr)
  have "resumes P (pid s) (kern s) k" using k by (simp add: resumes_def)
  then have "consistent mem T orig u"
    using u step_over_consistent [OF pm pokes keeps steps cons _ finish_running [OF fin run]]
      resumed_consistent [OF keeps cons _ _ finish_running [OF fin run]]
    by (auto split: if_splits)
  then show ?thesis by (rule finish_consistent [OF pm _ run fin])
qed

lemma cont_consistent:
  assumes pm: "ptrace_memory P mem" and pokes: "pokes_mapped P mem" and keeps: "keeps_text P mem T"
    and steps: "\<And>k. ptrace_singlestep P k (pid s) \<noteq> None"
    and cons: "consistent mem T orig s" and result: "cont P s = Inr t" and run: "state t = RUNNING"
  shows "consistent mem T orig t"
proof (cases "state s = RUNNING \<and> ptrace_getregs P (kern s) (pid s) \<noteq> None")
  case False
  then show ?thesis using result cons by (auto simp: cont_def split: if_splits)
next
  case True
  then obtain regs where regs: "ptrace_getregs P (kern s) (pid s) = Some regs" by blast
  note resume = cont_resume_consistent [OF pm keeps _ _ run]
  show ?thesis
  proof (cases "\<not> last_cmd_is_set_rip s \<and> include_addr (bptab s) (rg_rip regs)")
    case False
    then have "cont_resume P s = Inr t" using result True regs by (auto simp: cont_def)
    then show ?thesis by (rule resume [OF cons])
  next
    case at: True
    obtain u where u: "check_then_restore_si_reput P (rg_rip regs) s = Inr u"
      and fin: "(if state u \<noteq> RUNNING then Inr u else cont_resume P u) = Inr t"
      using result True regs at unfolding cont_def by (auto simp: bindE_eq_Inr)
    have run': "state u = RUNNING" by (rule finish_running [OF fin run])
    have "consistent mem T orig u" by (rule step_over_consistent [OF pm pokes keeps steps cons u run'])
    moreover have "cont_resume P u = Inr t" using fin run' by simp
    ultimately show ?thesis by (rule resume)
  qed
qed

section \<open>Starting a process\<close>

text \<open>Where every poke succeeds, the loop of \<open>start\<close> writes 0xcc at every address it does not skip.\<close>

lemma reput_loop_overlay:
  assumes pm: "ptrace_memory P mem" and pokes: "pokes_mapped P mem"
    and "\<And>b. b \<in> set bs \<Longrightarrow> mapped_word mem (kern s) (pid s) (bp_addr b)"
    and "\<And>b. b \<in> set bs \<Longrightarrow> \<not> bp_addr b < begin_addr"
  shows "mem (kern (reput_loop P begin_addr bs s)) (pid s) = overlay (mem (kern s) (pid s)) (bp_addr ` set bs)"
  using assms(3,4)
proof (induction bs arbitrary: s)
  case Nil
  then show ?case by (simp add: overlay_def)
next
  case (Cons b bs)
  let ?w = "patch_low (ptrace_peektext P (kern s) (pid s) (bp_addr b)) 0xcc"
  obtain k where k: "ptrace_poketext P (kern s) (pid s) (bp_addr b) ?w = Some k"
    using pokes Cons.prems(1) [of b] unfolding pokes_mapped_def by (meson list.set_intros(1) not_None_eq)
  have mem: "mem k (pid s) = (mem (kern s) (pid s))(bp_addr b \<mapsto> 0xcc)"
    using poke_patch [OF pm k] by simp
  have "mapped_word mem k (pid s) (bp_addr c)" if "c \<in> set bs" for c
    using Cons.prems(1) [of c] that mem by (auto simp: mapped_word_def)
  then have "mem (kern (reput_loop P begin_addr bs (s\<lparr>kern := k\<rparr>))) (pid s)
      = overlay (mem k (pid s)) (bp_addr ` set bs)"
    using Cons.IH [of "s\<lparr>kern := k\<rparr>"] Cons.prems(2) by simp
  then show ?case
    using k Cons.prems(2) [of b] by (auto simp: Let_def patch_low_cc mem overlay_def fun_eq_iff)
qed

section \<open>Command lines\<close>

text \<open>
  \<open>guarded\<close> adds to \<open>consistent\<close> that the region covers the text range commands may name.
  \<open>rebreaks\<close> singles out a \<open>break\<close> at an address that has a breakpoint already, the one
  command that loses the original byte.
\<close>

definition guarded :: "'k memory \<Rightarrow> u64 set \<Rightarrow> (u64 \<Rightarrow> u8 option) \<Rightarrow> 'k session \<Rightarrow> bool" where
  "guarded mem T orig s \<longleftrightarrow> consistent mem T orig s \<and> (\<forall>a. in_text s a \<longrightarrow> a \<in> T)"

definition rebreaks :: "string list \<Rightarrow> 'k session \<Rightarrow> bool" where
  "rebreaks cmds s \<longleftrightarrow> (hd cmds = ''break'' \<or> hd cmds = ''b'') \<and> include_addr (bptab s) (arg_value (cmds ! 1))"

definition same_text :: "'k session \<Rightarrow> 'k session \<Rightarrow> bool" where
  "same_text s t \<longleftrightarrow> text_begin t = text_begin s \<and> text_end t = text_end s"

lemma same_text_dbg: "same_dbg s t \<Longrightarrow> same_text s t"
  by (simp add: same_text_def same_dbg_iff)

lemma same_text_kept: "kept_or_released s t \<Longrightarrow> same_text s t"
  by (auto simp: kept_or_released_def same_text_def same_dbg_iff)

lemma same_text_trans: "same_text s t \<Longrightarrow> same_text t u \<Longrightarrow> same_text s u"
  by (simp add: same_text_def)

lemma same_text_simps [simp]:
  "same_text s s" "same_text s (t\<lparr>last_cmd_is_set_rip := b\<rparr>) = same_text s t"
  "same_text s (t\<lparr>kern := k\<rparr>) = same_text s t" "same_text s (t\<lparr>bptab := bs\<rparr>) = same_text s t"
  "same_text s (say os t) = same_text s t" "same_text s (err m t) = same_text s t"
  "same_text (s\<lparr>kern := k\<rparr>) t = same_text s t" "same_text (say os s) t = same_text s t"
  "same_text (err m s) t = same_text s t"
  by (simp_all add: same_text_def)

lemma guarded_same_text:
  "guarded mem T orig s \<Longrightarrow> same_text s t \<Longrightarrow> consistent mem T orig t \<Longrightarrow> guarded mem T orig t"
  by (auto simp: guarded_def same_text_def in_text_def)

lemma set_reg_same_mem:
  assumes "ptrace_memory P mem"
  shows "same_mem mem T s (set_reg P cmds s)"
  using assms
  by (auto simp: set_reg_def Let_def same_mem_def dest: ptrace_setregsD split: option.splits prod.splits)

lemma set_reg_text: "same_text s (set_reg P cmds s)"
  by (auto simp: set_reg_def Let_def split: option.splits prod.splits)

lemma set_break_point_text: "same_text s (set_break_point P cmds s)"
  by (auto simp: set_break_point_def Let_def split: option.splits)

lemma delete_break_point_text: "delete_break_point P cmds s = Inr t \<Longrightarrow> same_text s t"
  by (auto simp: delete_break_point_def Let_def split: option.splits if_splits)

lemma wait_text: "wait_then_check_exit P s = Inr t \<Longrightarrow> same_text s t"
  by (intro same_text_kept wait_frame)

lemma check_hit_text: "check_hit_break_point_or_not P c s = Inr t \<Longrightarrow> same_text s t"
  by (intro same_text_dbg check_hit_frame)

lemma step_over_text: "check_then_restore_si_reput P a s = Inr t \<Longrightarrow> same_text s t"
  by (intro same_text_kept step_over_frame)

lemma step_in_text: "step_in P s = Inr t \<Longrightarrow> same_text s t"
  by (auto simp: step_in_def Let_def bindE_eq_Inr split: option.splits if_splits
      dest!: check_hit_text step_over_text wait_text intro: same_text_trans)

lemma cont_resume_text: "cont_resume P s = Inr t \<Longrightarrow> same_text s t"
  by (auto simp: cont_resume_def bindE_eq_Inr split: option.splits if_splits
      dest!: check_hit_text wait_text intro: same_text_trans)

lemma cont_text: "cont P s = Inr t \<Longrightarrow> same_text s t"
  by (auto simp: cont_def bindE_eq_Inr split: option.splits if_splits
      dest!: cont_resume_text step_over_text intro: same_text_trans)

lemma pure_kern:
  "kern (help_cmd s) = kern s" "kern (list_cmd s) = kern s" "kern (dump P cmds s) = kern s"
  "kern (get_all_regs P s) = kern s" "kern (disasm P cmds s) = kern s" "kern (get_single_reg P cmds s) = kern s"
  by (simp_all add: help_cmd_def list_cmd_def dump_def get_all_regs_def disasm_def
      disasm_loop_frame Let_def get_single_reg_def split: option.splits prod.splits)

lemma guarded_frame: "same_dbg s t \<Longrightarrow> kern t = kern s \<Longrightarrow> guarded mem T orig s \<Longrightarrow> guarded mem T orig t"
  by (meson consistent_same_mem guarded_def guarded_same_text same_mem_frame same_text_dbg)

lemma hoare_branch: "(c \<Longrightarrow> hoare P f Q) \<Longrightarrow> (\<not> c \<Longrightarrow> hoare P g Q) \<Longrightarrow> hoare P (\<lambda>s. if c then f s else g s) Q"
  by (cases c) simp_all

text \<open>The hypotheses on the platform together.\<close>

definition code_platform :: "'k platform \<Rightarrow> 'k memory \<Rightarrow> u64 set \<Rightarrow> bool" where
  "code_platform P mem T \<longleftrightarrow> ptrace_memory P mem \<and> pokes_mapped P mem \<and> keeps_text P mem T \<and>
     (\<forall>k p. ptrace_singlestep P k p \<noteq> None)"

lemma code_platformD:
  assumes "code_platform P mem T"
  shows "ptrace_memory P mem" "pokes_mapped P mem" "keeps_text P mem T" "ptrace_singlestep P k p \<noteq> None"
  using assms by (simp_all add: code_platform_def)

definition guarded_running :: "'k memory \<Rightarrow> u64 set \<Rightarrow> (u64 \<Rightarrow> u8 option) \<Rightarrow> 'k session \<Rightarrow> bool" where
  "guarded_running mem T orig s \<longleftrightarrow> guarded mem T orig s \<and> state s = RUNNING"

definition guarded_if_running :: "'k memory \<Rightarrow> u64 set \<Rightarrow> (u64 \<Rightarrow> u8 option) \<Rightarrow> 'k session \<Rightarrow> bool" where
  "guarded_if_running mem T orig s \<longleftrightarrow> (state s = RUNNING \<longrightarrow> guarded mem T orig s)"

lemma guarded_hoareI:
  assumes "\<And>s t. guarded mem T orig s \<Longrightarrow> state s = RUNNING \<Longrightarrow> f s = Inr t \<Longrightarrow> state t = RUNNING \<Longrightarrow>
      consistent mem T orig t \<and> same_text s t"
  shows "hoare (guarded_running mem T orig) f (guarded_if_running mem T orig)"
  using assms guarded_same_text by (fastforce simp: hoare_def guarded_running_def guarded_if_running_def)

lemma guarded_pure:
  assumes "\<And>s. state s = RUNNING \<Longrightarrow> same_dbg s (f s) \<and> kern (f s) = kern s"
  shows "hoare (guarded_running mem T orig) (\<lambda>s. Inr (f s)) (guarded_if_running mem T orig)"
  using assms guarded_frame by (fastforce simp: hoare_def guarded_running_def guarded_if_running_def)

lemma guarded_commands:
  assumes "code_platform P mem T"
  shows "hoare (guarded_running mem T orig) (load P cmds) (guarded_if_running mem T orig)"
    and "hoare (guarded_running mem T orig) (start P) (guarded_if_running mem T orig)"
    and "hoare (guarded_running mem T orig) (cont P) (guarded_if_running mem T orig)"
    and "hoare (guarded_running mem T orig) (step_in P) (guarded_if_running mem T orig)"
    and "hoare (guarded_running mem T orig) (delete_break_point P cmds) (guarded_if_running mem T orig)"
    and "hoare (guarded_running mem T orig) (vmmap P) (guarded_if_running mem T orig)"
    and "hoare (guarded_running mem T orig) (run P) (guarded_if_running mem T orig)"
    and "hoare (guarded_running mem T orig) (\<lambda>s. Inr (set_reg P cmds s)) (guarded_if_running mem T orig)"
proof -
  note pm = code_platformD(1) [OF assms] and keeps = code_platformD(3) [OF assms]
    and cp = code_platformD(1-4) [OF assms]
  have cont: "consistent mem T orig t \<and> same_text s t"
    if "guarded mem T orig s" "cont P s = Inr t" "state t = RUNNING" for s t
    using that cont_consistent [OF cp] cont_text unfolding guarded_def by blast
  show "hoare (guarded_running mem T orig) (load P cmds) (guarded_if_running mem T orig)"
    by (rule guarded_hoareI) (auto simp: load_def guarded_def)
  show "hoare (guarded_running mem T orig) (start P) (guarded_if_running mem T orig)"
    by (rule guarded_hoareI) (auto simp: start_def guarded_def)
  show "hoare (guarded_running mem T orig) (cont P) (guarded_if_running mem T orig)"
    by (rule guarded_hoareI) (rule cont)
  show "hoare (guarded_running mem T orig) (step_in P) (guarded_if_running mem T orig)"
    by (rule guarded_hoareI) (use step_in_consistent [OF cp] step_in_text in \<open>unfold guarded_def, blast\<close>)
  show "hoare (guarded_running mem T orig) (delete_break_point P cmds) (guarded_if_running mem T orig)"
    by (rule guarded_hoareI) (use delete_break_point_consistent [OF pm] delete_break_point_text in \<open>unfold guarded_def, blast\<close>)
  show "hoare (guarded_running mem T orig) (vmmap P) (guarded_if_running mem T orig)"
    by (rule guarded_hoareI)
      (use vmmap_frame consistent_same_mem same_mem_frame same_text_dbg in \<open>metis guarded_def\<close>)
  show "hoare (guarded_running mem T orig) (\<lambda>s. Inr (set_reg P cmds s)) (guarded_if_running mem T orig)"
    by (rule guarded_hoareI)
      (use consistent_same_mem [OF set_reg_same_mem [OF pm]] set_reg_text in \<open>auto simp: guarded_def\<close>)
  show "hoare (guarded_running mem T orig) (run P) (guarded_if_running mem T orig)"
  proof (rule guarded_hoareI)
    fix s t
    assume g: "guarded mem T orig s" and "state s = RUNNING" and "run P s = Inr t" and run: "state t = RUNNING"
    then obtain u where u: "cont P (err (''program '' @ c_str (prog_path s) @ '' is already running'') s) = Inr u"
      and t: "t = u\<lparr>last_cmd_is_set_rip := False\<rparr>"
      by (auto simp: run_def Let_def bindE_eq_Inr)
    have "guarded mem T orig (err (''program '' @ c_str (prog_path s) @ '' is already running'') s)"
      using g by (auto simp: guarded_def in_text_def)
    from cont [OF this u] run show "consistent mem T orig t \<and> same_text s t" by (simp add: t)
  qed
qed

lemma guarded_break:
  assumes "code_platform P mem T" and "cmd = ''break'' \<or> cmd = ''b''" and "hd cmds = cmd"
  shows "hoare (\<lambda>s. guarded_running mem T orig s \<and> \<not> rebreaks cmds s)
           (\<lambda>s. Inr (set_break_point P cmds s)) (guarded_if_running mem T orig)"
proof (rule hoareI)
  fix s t
  assume s: "guarded_running mem T orig s \<and> \<not> rebreaks cmds s" and "Inr (set_break_point P cmds s) = Inr t"
  then have t: "t = set_break_point P cmds s" by simp
  have g: "guarded mem T orig s" using s by (simp add: guarded_running_def)
  then have "consistent mem T orig t"
    unfolding t using s assms(2,3)
    by (intro set_break_point_consistent [OF code_platformD(1) [OF assms(1)]]) (auto simp: guarded_def rebreaks_def)
  then have "guarded mem T orig t"
    using g set_break_point_text unfolding t by (rule_tac guarded_same_text)
  then show "guarded_if_running mem T orig t" by (simp add: guarded_if_running_def)
qed

lemma hoare_pre: "hoare P f Q \<Longrightarrow> hoare (\<lambda>s. P s \<and> R s) f Q"
  unfolding hoare_def by blast

lemma dispatch_guarded:
  assumes "code_platform P mem T" and "hd cmds = cmd"
  shows "hoare (\<lambda>s. guarded_running mem T orig s \<and> \<not> rebreaks cmds s) (dispatch P cmd cmds)
           (guarded_if_running mem T orig)"
  unfolding dispatch_def [abs_def]
  by (intro hoare_branch)
    ((rule guarded_break [OF assms(1) _ assms(2)], assumption)
      | (rule hoare_pre, (rule guarded_commands [OF assms(1)]
          | (rule guarded_pure, simp add: pure_frames pure_kern))))+

lemma sdb_step_guarded:
  assumes "code_platform P mem T" and "guarded_running mem T orig s"
    and "\<not> rebreaks (dbgcmd_parser line (CHR 0x20)) s"
    and "sdb_step P b line s = Inr t" and "state t = RUNNING"
  shows "guarded_running mem T orig t"
proof -
  let ?ws = "command_words (CHR 0x20) line"
  obtain u where u: "exec_line P line s = Inr u"
    and t: "t = (if line \<noteq> [] \<and> b then say [Stdout ''sdb> ''] u else u)"
    using assms(4) by (auto simp: sdb_step_def bindE_eq_Inr)
  have run: "state u = RUNNING" using assms(5) by (simp add: t split: if_splits)
  have "u = s \<or> dispatch P (hd ?ws) ?ws s = Inr u"
    using u by (auto simp: exec_line_first_word Let_def split: if_splits)
  then have "guarded mem T orig u"
    using hoareD [OF dispatch_guarded [OF assms(1) refl, of orig ?ws]] assms(2,3) run
    by (auto simp: guarded_running_def guarded_if_running_def dbgcmd_parser_eq)
  then have "guarded mem T orig t" unfolding t by (auto simp: guarded_def in_text_def)
  then show ?thesis using assms(5) by (simp add: guarded_running_def)
qed

end
