(* ===== verification/SampleTracee.thy ===== *)
theory SampleTracee
  imports DebuggerMem
begin

text \<open>
  One concrete platform, to show that the hypotheses of the properties can hold and to
  evaluate the debugger's commands: a tracee with a byte memory and registers, every
  instruction one byte long, stopping after each resumption until its list of wait statuses
  says otherwise. It satisfies \<open>ptrace_memory\<close>, \<open>pokes_mapped\<close> and \<open>keeps_text\<close>.
\<close>

record tracee =
  tr_mem :: "u64 \<Rightarrow> u8 option"
  tr_regs :: user_regs
  tr_status :: "u32 list"
  tr_fork :: int
  tr_exec :: bool
  tr_files :: "string \<Rightarrow> bytes option"

definition tracee_mem :: "tracee memory" where
  "tracee_mem k p = tr_mem k"

definition mapped8 :: "(u64 \<Rightarrow> u8 option) \<Rightarrow> u64 \<Rightarrow> bool" where
  "mapped8 m a \<longleftrightarrow> list_all (\<lambda>i. m (a + of_nat i) \<noteq> None) [0..<8]"

definition peek8 :: "(u64 \<Rightarrow> u8 option) \<Rightarrow> u64 \<Rightarrow> u64" where
  "peek8 m a = (if mapped8 m a
     then of_nat (le_value (map (\<lambda>i. the (m (a + of_nat i))) [0..<8])) else - 1)"

definition advance :: "tracee \<Rightarrow> tracee" where
  "advance k = k\<lparr>tr_regs := rg_rip_update (\<lambda>v. v + 1) (tr_regs k)\<rparr>"

definition nop_insn :: "u64 \<Rightarrow> cs_insn" where
  "nop_insn a = \<lparr>insn_address = a, insn_size = 1, insn_mnemonic = ''nop'', insn_op_str = []\<rparr>"

definition sample :: "tracee platform" where
  "sample =
     \<lparr>ptrace_peektext = (\<lambda>k p a. peek8 (tr_mem k) a),
      ptrace_poketext = (\<lambda>k p a w.
        if mapped8 (tr_mem k) a then Some (k\<lparr>tr_mem := store_word (tr_mem k) a w\<rparr>) else None),
      ptrace_getregs = (\<lambda>k p. Some (tr_regs k)),
      ptrace_setregs = (\<lambda>k p r. Some (k\<lparr>tr_regs := r\<rparr>)),
      ptrace_singlestep = (\<lambda>k p. Some (advance k)),
      ptrace_cont = (\<lambda>k p. Some (advance k)),
      ptrace_setoptions = (\<lambda>k p. k),
      ptrace_traceme = (\<lambda>k. Some k),
      sys_fork = (\<lambda>k. (tr_fork k, k)),
      sys_execvp = (\<lambda>k path. if tr_exec k then Some k else None),
      sys_waitpid = (\<lambda>k p. case tr_status k of
          [] \<Rightarrow> Some (0x57f, k)
        | st # sts \<Rightarrow> Some (st, k\<lparr>tr_status := sts\<rparr>)),
      cs_open = (\<lambda>k. True),
      cs_disasm = (\<lambda>k bs a. if bs \<noteq> [] \<and> hd bs = 0x90 then Some (nop_insn a) else None),
      open_read = (\<lambda>k path. tr_files k path)\<rparr>"

lemma sample_simps [run_simps]:
  "ptrace_peektext sample k p a = peek8 (tr_mem k) a"
  "ptrace_poketext sample k p a w =
     (if mapped8 (tr_mem k) a then Some (k\<lparr>tr_mem := store_word (tr_mem k) a w\<rparr>) else None)"
  "ptrace_getregs sample k p = Some (tr_regs k)"
  "ptrace_setregs sample k p r = Some (k\<lparr>tr_regs := r\<rparr>)"
  "ptrace_singlestep sample k p = Some (advance k)"
  "ptrace_cont sample k p = Some (advance k)"
  "ptrace_setoptions sample k p = k"
  "ptrace_traceme sample k = Some k"
  "sys_fork sample k = (tr_fork k, k)"
  "sys_execvp sample k path = (if tr_exec k then Some k else None)"
  "sys_waitpid sample k p = (case tr_status k of
      [] \<Rightarrow> Some (0x57f, k) | st # sts \<Rightarrow> Some (st, k\<lparr>tr_status := sts\<rparr>))"
  "cs_open sample k = True"
  "cs_disasm sample k bs a = (if bs \<noteq> [] \<and> hd bs = 0x90 then Some (nop_insn a) else None)"
  "open_read sample k path = tr_files k path"
  by (simp_all add: sample_def)

lemma all_less_8: "(\<forall>i < 8. Q (i :: nat)) \<longleftrightarrow> list_all Q [0..<8]"
  by (auto simp: list_all_iff)

lemma mapped8_iff: "mapped8 m a \<longleftrightarrow> (\<forall>i < 8. m (a + of_nat i) \<noteq> None)"
  unfolding all_less_8 mapped8_def ..

lemma mapped_word_tracee: "mapped_word tracee_mem k p a \<longleftrightarrow> mapped8 (tr_mem k) a"
  by (simp add: mapped_word_def tracee_mem_def mapped8_iff)

lemma peek8_byte:
  assumes "mapped8 m a" and "i < 8"
  shows "m (a + of_nat i) = Some (byte_of i (peek8 m a))"
proof -
  let ?bs = "map (\<lambda>i. the (m (a + of_nat i))) [0..<8]"
  have "byte_of i (peek8 m a) = ?bs ! i"
    using assms by (simp add: peek8_def byte_of_le_value del: upt.simps)
  moreover have "m (a + of_nat i) \<noteq> None" using assms by (simp add: mapped8_iff)
  ultimately show ?thesis using assms(2) by (auto simp del: upt.simps)
qed

lemma advance_mem [simp]: "tr_mem (advance k) = tr_mem k"
  by (simp add: advance_def)

lemma sample_memory: "ptrace_memory sample tracee_mem"
  unfolding ptrace_memory_def
  by (auto simp: sample_simps mapped_word_tracee tracee_mem_def peek8_byte split: if_splits)

lemma sample_pokes: "pokes_mapped sample tracee_mem"
  by (simp add: pokes_mapped_def sample_simps mapped_word_tracee)

lemma sample_resumes: "resumes sample p k k' \<Longrightarrow> tr_mem k' = tr_mem k"
  by (auto simp: resumes_def sample_simps split: list.splits)

lemma sample_keeps: "keeps_text sample tracee_mem T"
  by (auto simp: keeps_text_def mapped_word_tracee tracee_mem_def dest: sample_resumes)

lemma sample_steps: "ptrace_singlestep sample k p \<noteq> None"
  by (simp add: sample_simps)

section \<open>A session on it\<close>

text \<open>Thirty-two bytes of nop at 0x401000, the first sixteen of them the text section.\<close>

definition nop_mem :: "u64 \<Rightarrow> u8 option" where
  "nop_mem = (\<lambda>a. if unat (a - 0x401000) < 32 then Some 0x90 else None)"

definition regs0 :: user_regs where
  "regs0 = \<lparr>rg_r15 = 15, rg_r14 = 0, rg_r13 = 0, rg_r12 = 0, rg_r11 = 0, rg_r10 = 0, rg_r9 = 0,
     rg_r8 = 0, rg_rbp = 0, rg_rsp = 0, rg_rsi = 0, rg_rdi = 0, rg_rip = 0x401000, rg_rax = 0,
     rg_rbx = - 1, rg_rcx = 0, rg_rdx = 0, rg_eflags = 0, rg_others = []\<rparr>"

definition tracee0 :: tracee where
  "tracee0 = \<lparr>tr_mem = nop_mem, tr_regs = regs0, tr_status = [], tr_fork = 7, tr_exec = False,
     tr_files = (\<lambda>_. None)\<rparr>"

definition text0 :: "u64 set" where
  "text0 = {0x401000..0x40100f}"

definition running0 :: "tracee session" where
  "running0 = \<lparr>last_cmd_is_set_rip = False, bptab = [], prog_path = ''prog'', entry_point = 0x401000,
     text_begin = 0x401000, text_end = 0x40100f, pid = 7, state = RUNNING, kern = tracee0, outs = []\<rparr>"

lemma running0_fields [simp]:
  "last_cmd_is_set_rip running0 = False" "bptab running0 = []" "prog_path running0 = ''prog''"
  "entry_point running0 = 0x401000" "text_begin running0 = 0x401000" "text_end running0 = 0x40100f"
  "pid running0 = 7" "state running0 = RUNNING" "kern running0 = tracee0" "outs running0 = []"
  by (simp_all add: running0_def)

lemma tracee0_fields [simp]:
  "tr_mem tracee0 = nop_mem" "tr_regs tracee0 = regs0" "tr_status tracee0 = []"
  "tr_fork tracee0 = 7" "tr_exec tracee0 = False"
  by (simp_all add: tracee0_def)

lemma consistent_running0: "consistent tracee_mem text0 nop_mem running0"
  by (simp add: consistent_def bpt_inv_def bp_addrs_def overlay_def tracee_mem_def)

lemma in_text_running0: "in_text running0 a \<longleftrightarrow> a \<in> text0"
  by (simp add: in_text_def text0_def)

text \<open>Reading the addresses the examples use.\<close>

lemma arg_value_examples [run_simps]:
  "arg_value ''0x401002'' = 0x401002" "arg_value ''0x401000'' = 0x401000" "arg_value ''0'' = 0" "arg_value ''5'' = 5"
  by (simp_all add: arg_value_def strtol_def c_str_def scan_sign_def scan_magnitude_def has_hex_prefix_def
      is_digit_in_def digit_val_def isspace_def long_max_def)

lemma upt8: "[0..<8] = [0, 1, 2, 3, 4, 5, 6, 7]"
  by (simp add: upt_rec)

lemma mapped8_nop: "mapped8 nop_mem 0x401002"
  by (simp add: mapped8_def nop_mem_def upt8)

lemma peek8_nop: "peek8 nop_mem 0x401002 = 0x9090909090909090"
  by (simp add: peek8_def mapped8_nop upt8) (simp add: nop_mem_def)

lemma store_nop: "store_word nop_mem 0x401002 0x90909090909090CC = nop_mem(0x401002 \<mapsto> 0xcc)"
  using store_patch_low [of nop_mem "0x401002" "0x9090909090909090" "0xcc"] peek8_byte [OF mapped8_nop] peek8_nop
  by (simp add: patch_low_def)

text \<open>After \<open>break 0x401002\<close>, and after a further \<open>si\<close>.\<close>

definition bp2 :: breakpoint_info where
  "bp2 = \<lparr>bp_code = 0x9090909090909090, bp_addr = 0x401002\<rparr>"

definition running2 :: "tracee session" where
  "running2 = running0\<lparr>kern := tracee0\<lparr>tr_mem := nop_mem(0x401002 \<mapsto> 0xcc)\<rparr>, bptab := [bp2]\<rparr>"

lemma bp2_fields [simp]: "bp_code bp2 = 0x9090909090909090" "bp_addr bp2 = 0x401002"
  by (simp_all add: bp2_def)

lemma running2_fields [simp]:
  "last_cmd_is_set_rip running2 = False" "bptab running2 = [bp2]" "prog_path running2 = ''prog''"
  "text_begin running2 = 0x401000" "text_end running2 = 0x40100f"
  "pid running2 = 7" "state running2 = RUNNING"
  "kern running2 = tracee0\<lparr>tr_mem := nop_mem(0x401002 \<mapsto> 0xcc)\<rparr>" "outs running2 = []"
  by (simp_all add: running2_def)

lemma break_sample: "set_break_point sample [''break'', ''0x401002''] running0 = running2"
  by (simp add: set_break_point_def Let_def run_simps in_text_running0 text0_def mapped8_nop peek8_nop
      store_nop bpt_add_def running2_def bp2_def)

lemma exec_break_sample: "exec_line sample ''break 0x401002'' running0 = Inr running2"
  by (simp add: exec_line_def dbgcmd_parser_eq command_words_def dispatch_def break_sample)

lemma consistent_running2: "consistent tracee_mem text0 nop_mem running2"
  by (simp add: consistent_def bpt_inv_def bp_addrs_def overlay_def tracee_mem_def text0_def nop_mem_def byte_of_def)

lemma in_text_running2: "in_text running2 a \<longleftrightarrow> a \<in> text0"
  by (simp add: in_text_def text0_def)

lemma at_addr_running2: "at_addr [bp2] 0x401002 = Some bp2"
  by (simp add: at_addr_def dict_addr2idx_def at_idx_def)

lemma sample_code_platform: "code_platform sample tracee_mem T"
  by (simp add: code_platform_def sample_memory sample_pokes sample_keeps sample_steps)

end
