(* ===== verification/BreakClaims.thy ===== *)
theory BreakClaims
  imports SampleTracee
begin

text \<open>
  The properties of the debugger that concern breakpoints and the tracee's code: what
  \<open>break\<close>, \<open>delete\<close>, \<open>disasm\<close>, \<open>dump\<close>, \<open>si\<close>, \<open>cont\<close> and \<open>start\<close> do to memory and show of it.
  Each property that has hypotheses is applied to the sample tracee by its witness.
\<close>

section \<open>Any session keeps the program's code\<close>

lemma session_guarded:
  assumes "code_platform P mem T" and "guarded_running mem T orig s"
    and "foldE (sdb_step P b) lines s = Inr t"
    and "\<And>i u. i \<le> length lines \<Longrightarrow> foldE (sdb_step P b) (take i lines) s = Inr u \<Longrightarrow> state u = RUNNING"
    and "\<And>i u. i < length lines \<Longrightarrow> foldE (sdb_step P b) (take i lines) s = Inr u \<Longrightarrow>
           \<not> rebreaks (dbgcmd_parser (lines ! i) (CHR 0x20)) u"
  shows "guarded_running mem T orig t"
  using assms(2-5)
proof (induction lines arbitrary: s)
  case Nil
  then show ?case by simp
next
  case (Cons l ls)
  obtain u where u: "sdb_step P b l s = Inr u" "foldE (sdb_step P b) ls u = Inr t"
    using Cons.prems(2) by (auto simp: bindE_eq_Inr)
  have "state u = RUNNING" using Cons.prems(3) [of 1 u] u by simp
  then have "guarded_running mem T orig u"
    using sdb_step_guarded [OF assms(1) Cons.prems(1) _ u(1)] Cons.prems(4) [of 0 s] by simp
  then show ?case
    using Cons.IH [OF _ u(2)] Cons.prems(3) [of "Suc i" for i] Cons.prems(4) [of "Suc i" for i] u(1)
    by simp
qed

text \<open>
  C1: Over any script of command lines during which the tracee stays alive and no line sets a
  breakpoint at an address that has one, the tracee's text is at the end the program's own
  bytes with 0xcc exactly at the listed breakpoints, and every saved code holds the
  program's byte.
\<close>

theorem session_keeps_code:
  assumes "code_platform P mem T"
    and "consistent mem T orig s" and "\<forall>a. in_text s a \<longrightarrow> a \<in> T" and "state s = RUNNING"
    and "foldE (sdb_step P interactive) lines s = Inr t"
    and "\<forall>i u. i \<le> length lines \<longrightarrow> foldE (sdb_step P interactive) (take i lines) s = Inr u \<longrightarrow> state u = RUNNING"
    and "\<forall>i u. i < length lines \<longrightarrow> foldE (sdb_step P interactive) (take i lines) s = Inr u \<longrightarrow>
           \<not> rebreaks (dbgcmd_parser (lines ! i) (CHR 0x20)) u"
  shows "(\<forall>a \<in> T. mem (kern t) (pid t) a = overlay orig (bp_addrs t) a) \<and>
         (\<forall>b \<in> set (bptab t). orig (bp_addr b) = Some (byte_of 0 (bp_code b))) \<and> bpt_inv (bptab t)"
proof -
  have "guarded_running mem T orig s" using assms(2-4) by (simp add: guarded_running_def guarded_def)
  then have "guarded_running mem T orig t" by (rule session_guarded [OF assms(1) _ assms(5)]) (use assms(6,7) in blast)+
  then show ?thesis by (simp add: guarded_running_def guarded_def consistent_def)
qed

lemma sample_script:
  "sdb_step sample False ''break 0x401002'' running0 = Inr running2"
  "sdb_step sample False ''list'' running2 = Inr (list_cmd running2)"
  by (simp_all add: sdb_step_def exec_break_sample exec_line_def dbgcmd_parser_eq command_words_def dispatch_def
      break_sample)

lemma sample_rebreaks:
  "\<not> rebreaks (dbgcmd_parser ''break 0x401002'' (CHR 0x20)) running0"
  "\<not> rebreaks (dbgcmd_parser ''list'' (CHR 0x20)) s"
  by (simp_all add: rebreaks_def dbgcmd_parser_eq command_words_def)

lemma session_keeps_code_witness:
  "tracee_mem (kern (list_cmd running2)) 7 0x401002 = Some 0xcc \<and>
   tracee_mem (kern (list_cmd running2)) 7 0x401003 = Some 0x90"
proof -
  have "\<forall>a \<in> text0. tracee_mem (kern (list_cmd running2)) (pid (list_cmd running2)) a
      = overlay nop_mem (bp_addrs (list_cmd running2)) a"
    using session_keeps_code [where lines = "[''break 0x401002'', ''list'']" and interactive = False,
        OF sample_code_platform consistent_running0, of "list_cmd running2"]
    by (auto simp: in_text_running0 sample_script sample_rebreaks le_Suc_eq less_Suc_eq list_cmd_def)
  then show ?thesis by (simp add: list_cmd_def text0_def overlay_def bp_addrs_def nop_mem_def)
qed

section \<open>break and delete\<close>

text \<open>
  C3: Setting a breakpoint at a fresh, mapped address of the text section puts 0xcc there, changes
  no other byte and no register, prints nothing, and records the address with a code word whose
  low byte is the byte that was there.
\<close>

theorem break_installs:
  assumes "ptrace_memory P mem" and "pokes_mapped P mem"
    and "state s = RUNNING" and "2 \<le> length cmds" and "arg_value (cmds ! 1) = a" and "in_text s a"
    and "mapped_word mem (kern s) (pid s) a" and "\<not> include_addr (bptab s) a"
  shows "\<exists>code. bptab (set_break_point P cmds s) = bptab s @ [\<lparr>bp_code = code, bp_addr = a\<rparr>] \<and>
           mem (kern s) (pid s) a = Some (byte_of 0 code) \<and>
           mem (kern (set_break_point P cmds s)) (pid s) = (mem (kern s) (pid s))(a \<mapsto> 0xcc) \<and>
           ptrace_getregs P (kern (set_break_point P cmds s)) (pid s) = ptrace_getregs P (kern s) (pid s) \<and>
           outs (set_break_point P cmds s) = outs s"
proof -
  let ?w = "ptrace_peektext P (kern s) (pid s) a"
  obtain k where k: "ptrace_poketext P (kern s) (pid s) a (patch_low ?w 0xcc) = Some k"
    using assms(2,7) unfolding pokes_mapped_def by (meson not_None_eq)
  note b = break_poke [OF assms(3,4,6,5) k]
  have "outs (set_break_point P cmds s) = outs s"
    using assms(3-6,8) k by (simp add: set_break_point_def Let_def patch_low_cc)
  then show ?thesis
    using b poke_patch [OF assms(1) k] ptrace_pokeD [OF assms(1) k] mem_low_byte [OF assms(1,7)]
    by simp
qed

lemma break_installs_witness:
  "mapped_word tracee_mem (kern running0) (pid running0) 0x401002 \<and>
   (\<exists>code. bptab (set_break_point sample [''break'', ''0x401002''] running0) =
        bptab running0 @ [\<lparr>bp_code = code, bp_addr = 0x401002\<rparr>] \<and>
      tracee_mem (kern running0) (pid running0) 0x401002 = Some (byte_of 0 code) \<and>
      tracee_mem (kern (set_break_point sample [''break'', ''0x401002''] running0)) (pid running0) =
        (tracee_mem (kern running0) (pid running0))(0x401002 \<mapsto> 0xcc) \<and>
      ptrace_getregs sample (kern (set_break_point sample [''break'', ''0x401002''] running0)) (pid running0) =
        ptrace_getregs sample (kern running0) (pid running0) \<and>
      outs (set_break_point sample [''break'', ''0x401002''] running0) = outs running0)"
  (is "?m \<and> ?c")
proof
  show m: ?m by (simp add: mapped_word_tracee mapped8_nop)
  show ?c
    by (rule break_installs [OF sample_memory sample_pokes _ _ _ _ m])
      (simp_all add: run_simps in_text_running0 text0_def)
qed

lemma c_str_dec [simp]: "c_str (dec n) = dec n"
proof -
  have "c \<noteq> NUL" if c: "c \<in> set (dec n)" for c
  proof -
    obtain d where "d < 10" and d: "c = digit_char d"
      using to_base_chars [of 10 c n] c by (auto simp: dec_def)
    then have "(of_char c :: nat) \<noteq> 0" using of_char_digit_char [of d] by simp
    then show ?thesis by auto
  qed
  then show ?thesis by (simp add: c_str_def)
qed

lemma delete_total:
  assumes pm: "ptrace_memory P mem" and pokes: "pokes_mapped P mem"
    and run: "state s = RUNNING" and b: "at_idx (bptab s) (int n) = Some b" and small: "n < 2 ^ 31"
    and mapped: "mapped_word mem (kern s) (pid s) (bp_addr b)"
  shows "\<exists>t. delete_break_point P [''delete'', dec n] s = Inr t \<and>
     bptab t = take n (bptab s) @ drop (Suc n) (bptab s) \<and> pid t = pid s \<and> state t = RUNNING \<and>
     mem (kern t) (pid s) = (mem (kern s) (pid s))(bp_addr b \<mapsto> byte_of 0 (bp_code b)) \<and>
     ptrace_getregs P (kern t) (pid s) = ptrace_getregs P (kern s) (pid s)"
proof -
  obtain k where k: "ptrace_poketext P (kern s) (pid s) (bp_addr b)
      (patch_low (ptrace_peektext P (kern s) (pid s) (bp_addr b)) (bp_code b)) = Some k"
    using pokes mapped unfolding pokes_mapped_def by (meson not_None_eq)
  have "include_idx (bptab s) (int n)" using at_idx_None [of "bptab s" "int n"] b by simp
  then show ?thesis
    using k b poke_patch [OF pm k] ptrace_pokeD [OF pm k]
    by (simp add: delete_break_point_def Let_def run atoi_dec [OF small] bpt_del_def patch_low_def [symmetric])
qed

lemma mapped_word_upd: "mapped_word mem k p a \<Longrightarrow> mem k' p = (mem k p)(x \<mapsto> v) \<Longrightarrow> mapped_word mem k' p a"
  by (auto simp: mapped_word_def)

lemma set_break_point_running: "state s = RUNNING \<Longrightarrow> state (set_break_point P cmds s) = RUNNING"
  by (simp add: set_break_point_def Let_def split: option.splits)

lemma at_idx_last: "at_idx (bs @ [b]) (int (length bs)) = Some b"
  by (simp add: at_idx_def)

text \<open>
  C4: \<open>break\<close> at a fresh address followed by \<open>delete\<close> of the new entry succeeds and is a round
  trip: the tracee's memory, its registers and the table are what they were.
\<close>

theorem break_delete_roundtrip:
  assumes pm: "ptrace_memory P mem" and pokes: "pokes_mapped P mem"
    and run: "state s = RUNNING" and addr: "arg_value x = a" and intext: "in_text s a"
    and mapped: "mapped_word mem (kern s) (pid s) a" and fresh: "\<not> include_addr (bptab s) a"
    and small: "length (bptab s) < 2 ^ 31"
  shows "\<exists>t. delete_break_point P [''delete'', dec (length (bptab s))] (set_break_point P [''break'', x] s) = Inr t \<and>
           mem (kern t) (pid t) = mem (kern s) (pid s) \<and>
           ptrace_getregs P (kern t) (pid t) = ptrace_getregs P (kern s) (pid s) \<and>
           bptab t = bptab s"
proof -
  let ?w = "ptrace_peektext P (kern s) (pid s) a"
  let ?b = "\<lparr>bp_code = ?w, bp_addr = a\<rparr>"
  let ?u = "set_break_point P [''break'', x] s"
  obtain k where k: "ptrace_poketext P (kern s) (pid s) a (patch_low ?w 0xcc) = Some k"
    using pokes mapped unfolding pokes_mapped_def by (meson not_None_eq)
  have k': "ptrace_poketext P (kern s) (pid s) a (patch_low (ptrace_peektext P (kern s) (pid s) a) 0xcc) = Some k"
    by (rule k)
  have u: "bptab ?u = bptab s @ [?b]" "kern ?u = k" "pid ?u = pid s"
    by (rule break_poke [OF run _ intext _ k']; simp add: addr)+
  have mem_k: "mem k (pid s) = (mem (kern s) (pid s))(a \<mapsto> 0xcc)" using poke_patch [OF pm k] by simp
  have at: "at_idx (bptab ?u) (int (length (bptab s))) = Some ?b" by (simp only: u at_idx_last)
  have "mapped_word mem (kern ?u) (pid ?u) (bp_addr ?b)"
    using mapped_word_upd [OF mapped mem_k] by (simp add: u)
  from delete_total [OF pm pokes set_break_point_running [OF run] at small this]
  obtain t where t: "delete_break_point P [''delete'', dec (length (bptab s))] ?u = Inr t" "bptab t = bptab s"
    "pid t = pid s" "mem (kern t) (pid s) = (mem k (pid s))(a \<mapsto> byte_of 0 ?w)"
    "ptrace_getregs P (kern t) (pid s) = ptrace_getregs P k (pid s)"
    by (auto simp: u)
  moreover have "mem (kern t) (pid s) = mem (kern s) (pid s)"
    using mem_low_byte [OF pm mapped] by (simp add: t mem_k map_upd_triv)
  ultimately show ?thesis using ptrace_pokeD [OF pm k] by simp
qed

lemma break_delete_roundtrip_witness:
  "\<exists>t. delete_break_point sample [''delete'', dec (length (bptab running0))]
          (set_break_point sample [''break'', ''0x401002''] running0) = Inr t \<and>
        tracee_mem (kern t) (pid t) = tracee_mem (kern running0) (pid running0) \<and>
        ptrace_getregs sample (kern t) (pid t) = ptrace_getregs sample (kern running0) (pid running0) \<and>
        bptab t = bptab running0"
  by (rule break_delete_roundtrip [OF sample_memory sample_pokes, where a = "0x401002"])
    (simp_all add: run_simps in_text_running0 text0_def mapped_word_tracee mapped8_nop)

section \<open>Looking at memory\<close>

text \<open>A line of the hexadecimal dump of sixteen bytes, as it should be.\<close>

definition hexdump_line :: "(u64 \<Rightarrow> u8 option) \<Rightarrow> u64 \<Rightarrow> string" where
  "hexdump_line m a =
     (let bs = map (\<lambda>i. the (m (a + of_nat i))) [0..<16]
      in tab @ ''0x'' @ hex (unat a) @ '': '' @ concat (map (\<lambda>b. hex2 b @ '' '') bs)
         @ tab @ '' |'' @ map (\<lambda>b. if isprint b then byte_char b else CHR ''.'') bs @ ''|'' @ nl)"

lemma le_bytes_memory:
  assumes "ptrace_memory P mem" and "mapped_word mem k p a"
  shows "le_bytes (ptrace_peektext P k p a) = map (\<lambda>i. the (mem k p (a + of_nat i))) [0..<8]"
  using ptrace_peekD [OF assms] by (simp add: le_bytes_def del: upt.simps)

lemma bytes_16: "map f [0..<16] = map f [0..<8] @ map (\<lambda>i. f (8 + i)) [0..<8]"
  by (simp add: upt_rec numeral_eq_Suc)

lemma dump_line_hexdump:
  assumes pm: "ptrace_memory P mem" and "mapped_word mem k p a" and "mapped_word mem k p (a + 8)"
  shows "dump_line P k p a = hexdump_line (mem k p) a"
proof -
  have two: "[0..<2] = [0, 1]" by (simp add: upt_rec)
  have "map (\<lambda>i. the (mem k p (a + of_nat i))) [0..<16] =
      le_bytes (ptrace_peektext P k p a) @ le_bytes (ptrace_peektext P k p (a + 8))"
    using assms by (simp add: bytes_16 le_bytes_memory [OF pm] add.assoc del: upt.simps)
  then show ?thesis
    by (simp add: dump_line_def hexdump_line_def Let_def two dump_word_hex_def dump_word_chars_def if_distrib
        cong: if_cong del: upt.simps)
qed

lemma dump_lines_hexdump:
  assumes pm: "ptrace_memory P mem"
    and "\<And>i. i < 2 * n \<Longrightarrow> mapped_word mem k p (a + 8 * of_nat i)"
  shows "dump_lines P k p n a = map (\<lambda>i. Stdout (hexdump_line (mem k p) (a + 16 * of_nat i))) [0..<n]"
  using assms(2)
proof (induction n arbitrary: a)
  case 0
  then show ?case by simp
next
  case (Suc n)
  have "mapped_word mem k p (a + 16 + 8 * of_nat i)" if "i < 2 * n" for i
    using Suc.prems [of "i + 2"] that by (simp add: algebra_simps)
  then have IH: "dump_lines P k p n (a + 16) =
      map (\<lambda>i. Stdout (hexdump_line (mem k p) (a + 16 + 16 * of_nat i))) [0..<n]"
    by (rule Suc.IH)
  have "dump_line P k p a = hexdump_line (mem k p) a"
    using Suc.prems [of 0] Suc.prems [of 1] by (intro dump_line_hexdump [OF pm]) simp_all
  then show ?case
    by (simp add: IH map_upt_Suc algebra_simps del: upt.simps)
qed

text \<open>
  C35: \<open>dump\<close> at an address given in hexadecimal shows exactly the tracee's eighty bytes there, as
  five dump lines, whatever breakpoints are set (0xcc is shown), and does nothing else.
\<close>

theorem dump_shows_memory:
  assumes "ptrace_memory P mem" and "state s = RUNNING" and "2 \<le> length cmds" and "arg_value (cmds ! 1) = a"
    and "\<forall>i < 10. mapped_word mem (kern s) (pid s) (a + 8 * of_nat i)"
  shows "dump P cmds s = say (map (\<lambda>i. Stdout (hexdump_line (mem (kern s) (pid s)) (a + 16 * of_nat i))) [0..<5]) s"
  using dump_lines_hexdump [OF assms(1), of 5 "kern s" "pid s" a] assms(2-5)
  by (simp add: dump_def del: upt.simps dump_lines.simps)

text \<open>A tracee with more memory than the sample session's.\<close>

definition wide0 :: "tracee session" where
  "wide0 = running0\<lparr>kern := tracee0\<lparr>tr_mem := (\<lambda>_. Some 0x41)\<rparr>\<rparr>"

lemma dump_shows_memory_witness:
  "dump sample [''dump'', ''0x401000''] wide0 =
   say (map (\<lambda>i. Stdout (hexdump_line (\<lambda>_. Some 0x41) (0x401000 + 16 * of_nat i))) [0..<5]) wide0"
  using dump_shows_memory [OF sample_memory, of wide0 "[''dump'', ''0x401000'']" "0x401000"]
  by (simp add: wide0_def run_simps mapped_word_tracee mapped8_iff tracee_mem_def del: upt.simps)



section \<open>Running over breakpoints\<close>

lemma report_total:
  "include_addr (bptab s) a \<Longrightarrow> \<exists>os. report_breakpoint P a s = Inr (say os s)"
proof -
  assume "include_addr (bptab s) a"
  then obtain b where "at_addr (bptab s) a = Some b" using at_addr_None [of "bptab s" a] by auto
  then show ?thesis by (auto simp: report_breakpoint_def Let_def say_def)
qed

lemma check_hit_total:
  assumes "c \<noteq> FOR_CONT"
  shows "\<exists>os. check_hit_break_point_or_not P c s = Inr (say os s)"
  using assms report_total [of s _ P]
  by (auto simp: check_hit_break_point_or_not_def Let_def simp del: include_addr_iff split: option.splits)

lemma wait_stopped:
  assumes "sys_waitpid P (kern s) (pid s) = Some (st, k)" and "WIFSTOPPED st"
  shows "wait_then_check_exit P s = Inr (s\<lparr>kern := k\<rparr>)"
proof -
  have "\<not> WIFEXITED st"
  proof
    assume "WIFEXITED st"
    then have "(st AND 0xff) AND 0x7f = 0" by (simp add: WIFEXITED_def and.assoc)
    with assms(2) show False by (simp add: WIFSTOPPED_def)
  qed
  with assms show ?thesis by (simp add: wait_then_check_exit_def Let_def)
qed

text \<open>
  C2: \<open>si\<close> on a breakpoint runs exactly one instruction of the program's own code and leaves every
  breakpoint installed: the tracee is single-stepped with the original byte under rip (all the
  other breakpoints still in place), then the word with 0xcc is written back.
\<close>

theorem step_executes_original:
  assumes plat: "code_platform P mem T" and cons: "consistent mem T orig s" and run: "state s = RUNNING"
    and regs: "ptrace_getregs P (kern s) (pid s) = Some regs" and hit: "include_addr (bptab s) (rg_rip regs)"
    and mapped: "mapped_word mem (kern s) (pid s) (rg_rip regs)"
    and stops: "\<forall>k. \<exists>st k'. sys_waitpid P k (pid s) = Some (st, k') \<and> WIFSTOPPED st"
  shows "\<exists>k1 k2 st k3 t.
     (\<forall>x \<in> T. mem k1 (pid s) x = overlay orig (bp_addrs s - {rg_rip regs}) x) \<and>
     ptrace_getregs P k1 (pid s) = Some regs \<and>
     ptrace_singlestep P k1 (pid s) = Some k2 \<and> sys_waitpid P k2 (pid s) = Some (st, k3) \<and>
     step_in P s = Inr t \<and> state t = RUNNING \<and> bptab t = bptab s \<and>
     ptrace_poketext P k3 (pid s) (rg_rip regs) (ptrace_peektext P (kern s) (pid s) (rg_rip regs)) = Some (kern t) \<and>
     (\<forall>x \<in> T. mem (kern t) (pid s) x = overlay orig (bp_addrs s) x)"
proof -
  note cp = code_platformD [OF plat]
  let ?a = "rg_rip regs"
  let ?w = "ptrace_peektext P (kern s) (pid s) ?a"
  obtain b where b: "at_addr (bptab s) ?a = Some b" using hit at_addr_None [of "bptab s" ?a] by auto
  obtain k1 where k1: "ptrace_poketext P (kern s) (pid s) ?a (patch_low ?w (bp_code b)) = Some k1"
    using cp(2) mapped unfolding pokes_mapped_def by (meson not_None_eq)
  obtain k2 where k2: "ptrace_singlestep P k1 (pid s) = Some k2" using cp(4) by (meson not_None_eq)
  obtain st k3 where w: "sys_waitpid P k2 (pid s) = Some (st, k3)" "WIFSTOPPED st" using stops by blast
  have aT: "?a \<in> T" using bpt_entry_at [OF cons b] by simp
  have "mapped_word mem k1 (pid s) ?a" using mapped poke_patch [OF cp(1) k1] by (auto simp: mapped_word_def)
  then have "mapped_word mem k3 (pid s) ?a"
    using keeps_textD(2) [OF cp(3) _ aT] k2 w(1) unfolding resumes_def by metis
  then obtain k4 where k4: "ptrace_poketext P k3 (pid s) ?a ?w = Some k4"
    using cp(2) unfolding pokes_mapped_def by (meson not_None_eq)
  have wait: "wait_then_check_exit P (s\<lparr>kern := k2\<rparr>) = Inr (s\<lparr>kern := k3\<rparr>)"
    using wait_stopped [of P "s\<lparr>kern := k2\<rparr>"] w by simp
  have over: "check_then_restore_si_reput P ?a s = Inr (s\<lparr>kern := k4\<rparr>)"
    using hit b k1 k2 wait k4 run
    by (simp add: check_then_restore_si_reput_def Let_def patch_low_def [symmetric] del: include_addr_iff)
  obtain os where "check_hit_break_point_or_not P FOR_SINGLESTEP (s\<lparr>kern := k4\<rparr>) = Inr (say os (s\<lparr>kern := k4\<rparr>))"
    using check_hit_total by blast
  then have t: "step_in P s = Inr ((say os (s\<lparr>kern := k4\<rparr>))\<lparr>last_cmd_is_set_rip := False\<rparr>)"
    using run regs hit over by (simp add: step_in_def del: include_addr_iff)
  have "consistent mem T orig ((say os (s\<lparr>kern := k4\<rparr>))\<lparr>last_cmd_is_set_rip := False\<rparr>)"
    by (rule step_in_consistent [OF cp(1,2,3,4) cons t]) (simp add: run)
  then have "\<forall>x \<in> T. mem k4 (pid s) x = overlay orig (bp_addrs s) x"
    by (simp add: consistent_def bp_addrs_def)
  moreover have "\<forall>x \<in> T. mem k1 (pid s) x = overlay orig (bp_addrs s - {?a}) x"
    using step_over_original_byte [OF cp(1) cons b k1] by blast
  moreover have "ptrace_getregs P k1 (pid s) = Some regs" using ptrace_pokeD [OF cp(1) k1] regs by simp
  ultimately show ?thesis using k2 w(1) t k4 run by fastforce
qed

definition at_bp :: "tracee session" where
  "at_bp = running2\<lparr>kern := (kern running2)\<lparr>tr_regs := regs0\<lparr>rg_rip := 0x401002\<rparr>\<rparr>\<rparr>"

lemma at_bp_fields [simp]:
  "bptab at_bp = [bp2]" "pid at_bp = 7" "state at_bp = RUNNING" "tr_regs (kern at_bp) = regs0\<lparr>rg_rip := 0x401002\<rparr>"
  "tr_mem (kern at_bp) = nop_mem(0x401002 \<mapsto> 0xcc)"
  by (simp_all add: at_bp_def)

lemma consistent_at_bp: "consistent tracee_mem text0 nop_mem at_bp"
  using consistent_running2 by (simp add: consistent_def bp_addrs_def tracee_mem_def)

text \<open>The sample platform with a tracee that never exits.\<close>

definition immortal :: "tracee platform" where
  "immortal = sample\<lparr>sys_waitpid := \<lambda>k p. Some (0x57f, k)\<rparr>"

lemma immortal_simps [run_simps]:
  "ptrace_peektext immortal = ptrace_peektext sample" "ptrace_poketext immortal = ptrace_poketext sample"
  "ptrace_getregs immortal = ptrace_getregs sample" "ptrace_setregs immortal = ptrace_setregs sample"
  "ptrace_singlestep immortal = ptrace_singlestep sample" "ptrace_cont immortal = ptrace_cont sample"
  "ptrace_setoptions immortal = ptrace_setoptions sample" "sys_fork immortal = sys_fork sample"
  "sys_waitpid immortal k p = Some (0x57f, k)"
  by (simp_all add: immortal_def)

lemma immortal_code_platform: "code_platform immortal tracee_mem T"
  using sample_code_platform [of T]
  by (auto simp: code_platform_def ptrace_memory_def pokes_mapped_def keeps_text_def resumes_def immortal_simps)

lemma step_executes_original_witness:
  "\<exists>k1 k2 t. tracee_mem k1 7 0x401002 = Some 0x90 \<and> ptrace_singlestep immortal k1 7 = Some k2 \<and>
     step_in immortal at_bp = Inr t \<and> state t = RUNNING \<and> tracee_mem (kern t) 7 0x401002 = Some 0xcc"
proof -
  let ?r = "regs0\<lparr>rg_rip := 0x401002\<rparr>"
  have regs: "ptrace_getregs immortal (kern at_bp) (pid at_bp) = Some ?r"
    and hit: "include_addr (bptab at_bp) (rg_rip ?r)"
    and mapped: "mapped_word tracee_mem (kern at_bp) (pid at_bp) (rg_rip ?r)"
    and stops: "\<forall>k. \<exists>st k'. sys_waitpid immortal k (pid at_bp) = Some (st, k') \<and> WIFSTOPPED st"
    by (simp_all add: run_simps mapped_word_tracee mapped8_def nop_mem_def upt8 WIFSTOPPED_def)
  obtain k1 k2 t where "\<forall>x \<in> text0. tracee_mem k1 (pid at_bp) x = overlay nop_mem (bp_addrs at_bp - {rg_rip ?r}) x"
    and k2: "ptrace_singlestep immortal k1 (pid at_bp) = Some k2" and t: "step_in immortal at_bp = Inr t" "state t = RUNNING"
    and "\<forall>x \<in> text0. tracee_mem (kern t) (pid at_bp) x = overlay nop_mem (bp_addrs at_bp) x"
    using step_executes_original [OF immortal_code_platform consistent_at_bp at_bp_fields(3) regs hit mapped stops]
    by blast
  moreover have "0x401002 \<in> text0" by (simp add: text0_def)
  ultimately have "tracee_mem k1 7 0x401002 = Some 0x90" "tracee_mem (kern t) 7 0x401002 = Some 0xcc"
    by (auto simp: overlay_def bp_addrs_def nop_mem_def)
  then show ?thesis using k2 t by (metis at_bp_fields(2))
qed

text \<open>
  C6: When \<open>cont\<close> resumes the tracee away from a breakpoint and the tracee stops just behind the
  0xcc of a breakpoint, \<open>cont\<close> moves rip back onto the breakpoint, changes nothing in memory, and
  prints the breakpoint with the decoding of its saved code.
\<close>

theorem cont_rewinds_to_breakpoint:
  assumes "ptrace_memory P mem" and "state s = RUNNING"
    and "ptrace_getregs P (kern s) (pid s) = Some r0"
    and "last_cmd_is_set_rip s \<or> \<not> include_addr (bptab s) (rg_rip r0)"
    and "ptrace_cont P (kern s) (pid s) = Some k1"
    and "sys_waitpid P k1 (pid s) = Some (st, k2)" and "WIFSTOPPED st"
    and "ptrace_getregs P k2 (pid s) = Some regs" and "at_addr (bptab s) (rg_rip regs - 1) = Some b"
    and "ptrace_setregs P k2 (pid s) (regs\<lparr>rg_rip := rg_rip regs - 1\<rparr>) = Some k3"
  shows "\<exists>t. cont P s = Inr t \<and> ptrace_getregs P (kern t) (pid s) = Some (regs\<lparr>rg_rip := bp_addr b\<rparr>) \<and>
     mem (kern t) (pid s) = mem k2 (pid s) \<and> same_dbg (s\<lparr>last_cmd_is_set_rip := False\<rparr>) t \<and>
     outs t = outs s @ Stdout ''** breakpoint @'' # snd (translate P k3 (bp_addr b) (bp_code b))"
proof -
  have b: "bp_addr b = rg_rip regs - 1" using at_addr_Some [OF assms(9)] by simp
  have "include_addr (bptab s) (rg_rip regs - 1)" using at_addr_None [of "bptab s" "rg_rip regs - 1"] assms(9) by auto
  then have hit: "check_hit_break_point_or_not P FOR_CONT (s\<lparr>kern := k2\<rparr>) =
      Inr (say (snd (translate P k3 (bp_addr b) (bp_code b))) (say [Stdout ''** breakpoint @''] (s\<lparr>kern := k3\<rparr>)))"
    using assms(8-10) b
    by (simp add: check_hit_break_point_or_not_def report_breakpoint_def Let_def del: include_addr_iff)
  have "wait_then_check_exit P (s\<lparr>kern := k1\<rparr>) = Inr (s\<lparr>kern := k2\<rparr>)"
    using wait_stopped [of P "s\<lparr>kern := k1\<rparr>"] assms(6,7) by simp
  then have "cont P s = Inr ((say (snd (translate P k3 (bp_addr b) (bp_code b)))
      (say [Stdout ''** breakpoint @''] (s\<lparr>kern := k3\<rparr>)))\<lparr>last_cmd_is_set_rip := False\<rparr>)"
    using assms(2-5) hit by (auto simp: cont_def cont_resume_def simp del: include_addr_iff)
  then show ?thesis
    using ptrace_setregsD [OF assms(1,10)] b by (simp add: same_dbg_iff)
qed

definition before_bp :: "tracee session" where
  "before_bp = running2\<lparr>kern := (kern running2)\<lparr>tr_regs := regs0\<lparr>rg_rip := 0x401002\<rparr>\<rparr>, last_cmd_is_set_rip := True\<rparr>"

lemma cont_rewinds_to_breakpoint_witness:
  "\<exists>t. cont sample before_bp = Inr t \<and>
     ptrace_getregs sample (kern t) (pid before_bp) = Some (regs0\<lparr>rg_rip := 0x401003, rg_rip := bp_addr bp2\<rparr>) \<and>
     tracee_mem (kern t) (pid before_bp) = tracee_mem (advance (kern before_bp)) (pid before_bp) \<and>
     same_dbg (before_bp\<lparr>last_cmd_is_set_rip := False\<rparr>) t \<and>
     outs t = outs before_bp @ Stdout ''** breakpoint @'' #
       snd (translate sample (advance (kern before_bp)\<lparr>tr_regs := regs0\<lparr>rg_rip := 0x401002\<rparr>\<rparr>) (bp_addr bp2) (bp_code bp2))"
  by (rule cont_rewinds_to_breakpoint [OF sample_memory])
    (auto simp: before_bp_def run_simps advance_def regs0_def WIFSTOPPED_def at_addr_running2 tracee0_def)

section \<open>A new process\<close>

lemma reput_running_frame: "same_dbg s (reput_all_breakpoints_from P a s)"
  by (simp add: reput_all_breakpoints_from_def reput_frame)

text \<open>
  C5: \<open>start\<close> installs the breakpoints kept from earlier runs in the new process: when every saved
  code holds the byte of the fresh image, \<open>start\<close> returns with a running, stopped tracee whose
  memory is the image with 0xcc at exactly the listed breakpoints, and a consistent table.
\<close>

theorem start_reinstalls:
  assumes pm: "ptrace_memory P mem" and pokes: "pokes_mapped P mem" and loaded: "state s = LOADED"
    and fork: "sys_fork P (kern s) = (p, k0)" and child: "0 < p"
    and stop: "sys_waitpid P k0 p = Some (st, k1)" "WIFSTOPPED st"
    and inv: "bpt_inv (bptab s)"
    and image: "\<forall>b \<in> set (bptab s). text_begin s \<le> bp_addr b \<and>
        mapped_word mem (ptrace_setoptions P k1 p) p (bp_addr b) \<and>
        mem (ptrace_setoptions P k1 p) p (bp_addr b) = Some (byte_of 0 (bp_code b))"
  shows "\<exists>t. start P s = Inr t \<and> state t = RUNNING \<and> pid t = p \<and> bptab t = bptab s \<and>
     \<not> last_cmd_is_set_rip t \<and> consistent mem UNIV (mem (ptrace_setoptions P k1 p) p) t"
proof -
  let ?k = "ptrace_setoptions P k1 p"
  let ?s = "s\<lparr>pid := p, kern := ?k\<rparr>"
  let ?u = "reput_all_breakpoints_from P (text_begin s) ?s"
  have mem: "mem (kern ?u) p = overlay (mem ?k p) (bp_addr ` set (bptab s))"
    using reput_loop_overlay [OF pm pokes, of "bptab s" ?s "text_begin s"] image
    by (simp add: reput_all_breakpoints_from_def linorder_not_less)
  have same: "same_dbg ?s ?u" by (rule reput_running_frame)
  obtain os where "check_hit_break_point_or_not P FOR_START ?u = Inr (say os ?u)"
    using check_hit_total [of FOR_START P ?u] by blast
  then have t: "start P s = Inr ((say [Stdout (''** pid '' @ sdec p @ nl)] (say os ?u))
      \<lparr>state := RUNNING, last_cmd_is_set_rip := False\<rparr>)"
    using loaded fork child stop same by (simp add: start_def start_parent_def same_dbg_iff)
  show ?thesis
    unfolding t using same mem inv image
    by (auto simp: consistent_def same_dbg_iff bp_addrs_def)
qed

definition loaded2 :: "tracee session" where
  "loaded2 = running2\<lparr>state := LOADED, pid := - 1, kern := tracee0\<rparr>"

lemma start_reinstalls_witness:
  "\<exists>t. start sample loaded2 = Inr t \<and> state t = RUNNING \<and> pid t = 7 \<and> bptab t = bptab loaded2 \<and>
     \<not> last_cmd_is_set_rip t \<and>
     consistent tracee_mem UNIV (tracee_mem (ptrace_setoptions sample tracee0 7) 7) t"
  by (rule start_reinstalls [OF sample_memory sample_pokes, where ?k0.0 = tracee0])
    (auto simp: loaded2_def run_simps WIFSTOPPED_def bpt_inv_def mapped_word_tracee mapped8_def upt8
      tracee_mem_def nop_mem_def byte_of_def)

section \<open>Setting a breakpoint twice\<close>

text \<open>
  C39: A second \<open>break\<close> at the address of an existing breakpoint reports that it exists and then
  records it again with 0xcc as the saved code. Deleting the first entry then leaves a listed
  breakpoint that is not installed, and deleting the second writes 0xcc over the program's byte
  for good: no breakpoint is listed there any more.
\<close>

theorem break_twice_loses_code:
  assumes pm: "ptrace_memory P mem" and pokes: "pokes_mapped P mem" and cons: "consistent mem T orig s"
    and run: "state s = RUNNING" and n: "length (bptab s) = Suc n" "Suc n < 2 ^ 31"
    and i: "at_idx (bptab s) (int i) = Some b" "bp_addr b = a" "i \<le> n"
    and addr: "arg_value x = a" "in_text s a" and mapped: "mapped_word mem (kern s) (pid s) a"
  shows "\<exists>t u. delete_break_point P [''delete'', dec i] (set_break_point P [''break'', x] s) = Inr t \<and>
       a \<in> bp_addrs t \<and> mem (kern t) (pid s) a = orig a \<and>
       delete_break_point P [''delete'', dec n] t = Inr u \<and>
       a \<notin> bp_addrs u \<and> mem (kern u) (pid s) a = Some 0xcc"
proof -
  let ?w = "ptrace_peektext P (kern s) (pid s) a"
  let ?c = "\<lparr>bp_code = ?w, bp_addr = a\<rparr>"
  let ?s = "set_break_point P [''break'', x] s"
  obtain k where k: "ptrace_poketext P (kern s) (pid s) a (patch_low ?w 0xcc) = Some k"
    using pokes mapped unfolding pokes_mapped_def by (meson not_None_eq)
  have k': "ptrace_poketext P (kern s) (pid s) a (patch_low (ptrace_peektext P (kern s) (pid s) a) 0xcc) = Some k"
    by (rule k)
  have s: "bptab ?s = bptab s @ [?c]" "kern ?s = k" "pid ?s = pid s"
    by (rule break_poke [OF run _ addr(2) _ k']; simp add: addr(1))+
  have b: "b \<in> set (bptab s)" and bi: "bptab s ! i = b" using at_idx_Some [OF i(1)] by auto
  have a: "a \<in> bp_addrs s" "a \<in> T" using b i(2) consistentD(3) [OF cons b] by (auto simp: bp_addrs_def)
  have orig: "orig a = Some (byte_of 0 (bp_code b))" using consistentD(4) [OF cons b] i(2) by simp
  have w: "byte_of 0 ?w = 0xcc"
    using mem_low_byte [OF pm mapped] consistentD(2) [OF cons a(2)] a(1) by (simp add: overlay_def)
  have mem_k: "mem k (pid s) = (mem (kern s) (pid s))(a \<mapsto> 0xcc)" using poke_patch [OF pm k] by simp
  have mapped_k: "mapped_word mem k (pid s) a" by (rule mapped_word_upd [OF mapped mem_k])
  have "at_idx (bptab ?s) (int i) = Some b"
    using i(3) n(1) bi by (simp add: s at_idx_def nth_append)
  from delete_total [OF pm pokes set_break_point_running [OF run] this]
  obtain t where t: "delete_break_point P [''delete'', dec i] ?s = Inr t"
    "bptab t = take i (bptab s) @ drop (Suc i) (bptab s) @ [?c]" "pid t = pid s" "state t = RUNNING"
    "mem (kern t) (pid s) = (mem k (pid s))(a \<mapsto> byte_of 0 (bp_code b))"
    using i(2,3) n mapped_k by (auto simp: s)
  have len: "length (take i (bptab s) @ drop (Suc i) (bptab s)) = n" using i(3) n(1) by simp
  then have at_t: "at_idx (bptab t) (int n) = Some ?c"
    using at_idx_last [of "take i (bptab s) @ drop (Suc i) (bptab s)" ?c] by (simp add: t(2))
  have "mapped_word mem (kern t) (pid t) (bp_addr ?c)"
    using mapped_word_upd [OF mapped_k t(5)] by (simp add: t(3))
  from delete_total [OF pm pokes t(4) at_t _ this] n(2)
  obtain u where u: "delete_break_point P [''delete'', dec n] t = Inr u"
    "bptab u = take n (bptab t) @ drop (Suc n) (bptab t)" "mem (kern u) (pid s) a = Some 0xcc"
    using w by (auto simp: t(3))
  have "bptab u = take i (bptab s) @ drop (Suc i) (bptab s)"
    using len i(3) unfolding u(2) t(2) append_assoc [symmetric] by (simp add: min_absorb2)
  moreover have "set (take i (bptab s) @ drop (Suc i) (bptab s)) = {y \<in> set (bptab s). bp_addr y \<noteq> a}"
    using set_bpt_delete [OF consistentD(1) [OF cons] i(1)] i(2) by simp
  ultimately have "a \<notin> bp_addrs u" by (auto simp: bp_addrs_def)
  moreover have "a \<in> bp_addrs t" by (simp add: bp_addrs_def t(2))
  ultimately show ?thesis using t(1,5) u(1,3) orig by auto
qed

lemma break_twice_loses_code_witness:
  "\<exists>t u. delete_break_point sample [''delete'', dec 0] (set_break_point sample [''break'', ''0x401002''] running2) = Inr t \<and>
     0x401002 \<in> bp_addrs t \<and> tracee_mem (kern t) (pid running2) 0x401002 = nop_mem 0x401002 \<and>
     delete_break_point sample [''delete'', dec 0] t = Inr u \<and>
     0x401002 \<notin> bp_addrs u \<and> tracee_mem (kern u) (pid running2) 0x401002 = Some 0xcc"
  by (rule break_twice_loses_code [OF sample_memory sample_pokes consistent_running2, where b = bp2])
    (simp_all add: at_idx_def run_simps in_text_running2 text0_def mapped_word_tracee mapped8_def nop_mem_def upt8)

end
