(* ===== verification/CommandClaims.thy ===== *)
theory CommandClaims
  imports SampleTracee
begin

text \<open>
  The properties of the debugger that concern its command language: the states a command
  may be given in and moves to, which ways of stopping exist, registers, arguments, the
  disassembly loop, process exit and start, and the file readers.
\<close>

section \<open>Splitting a command line\<close>

text \<open>
  C25: The command splitter returns, for every line and delimiter, the pieces between delimiters
  with the empty ones removed, except that the last piece is kept even when it is empty.
\<close>

theorem dbgcmd_parser_words:
  "dbgcmd_parser line d = filter (\<lambda>w. w \<noteq> []) (butlast (pieces d line)) @ [last (pieces d line)]"
  by (simp add: dbgcmd_parser_eq command_words_def)

section \<open>States\<close>

text \<open>Which command can move the debugger from which state to which.\<close>

inductive lifecycle :: "string \<Rightarrow> state_t \<Rightarrow> state_t \<Rightarrow> bool" where
  stay: "lifecycle cmd q q"
| load_moves: "lifecycle ''load'' NOLOAD LOADED"
| start_moves: "cmd \<in> {''start'', ''run'', ''r''} \<Longrightarrow> lifecycle cmd LOADED RUNNING"
| child_gone: "cmd \<in> {''cont'', ''c'', ''si'', ''run'', ''r''} \<Longrightarrow> lifecycle cmd RUNNING LOADED"

inductive_cases lifecycleE: "lifecycle cmd q q'"
inductive_simps lifecycle_simps: "lifecycle cmd q q'"

text \<open>What the process commands keep of a loaded session: program, text range and table.\<close>

definition same_program :: "'k session \<Rightarrow> 'k session \<Rightarrow> bool" where
  "same_program s t \<longleftrightarrow> bptab t = bptab s \<and> prog_path t = prog_path s \<and> same_text s t \<and> state t \<noteq> NOLOAD"

lemma same_program_dbg: "same_program s t \<Longrightarrow> same_dbg t u \<Longrightarrow> same_program s u"
  by (simp add: same_program_def same_dbg_iff same_text_def)

lemma same_program_release: "same_program s t \<Longrightarrow> same_program s (release t)"
  by (simp add: same_program_def same_text_def)

lemma same_program_kept: "same_program s t \<Longrightarrow> kept_or_released t u \<Longrightarrow> same_program s u"
  unfolding kept_or_released_def using same_program_dbg same_program_release by blast

lemma same_program_simps [simp]:
  "same_program s (say os t) = same_program s t" "same_program s (err m t) = same_program s t"
  "same_program s (t\<lparr>kern := k\<rparr>) = same_program s t" "same_program s (t\<lparr>pid := p\<rparr>) = same_program s t"
  "same_program s (t\<lparr>last_cmd_is_set_rip := b\<rparr>) = same_program s t"
  by (simp_all add: same_program_def same_text_def)

lemma same_program_running: "same_program s t \<Longrightarrow> same_program s (t\<lparr>state := RUNNING\<rparr>)"
  by (simp add: same_program_def same_text_def)

lemma same_program_wait:
  "same_program s t \<Longrightarrow> wait_then_check_exit P (t\<lparr>kern := k\<rparr>) = Inr u \<Longrightarrow> same_program s u"
  by (rule same_program_kept [OF _ wait_frame, of s "t\<lparr>kern := k\<rparr>"]) simp_all

lemma same_program_check: "same_program s t \<Longrightarrow> check_hit_break_point_or_not P c t = Inr u \<Longrightarrow> same_program s u"
  by (rule same_program_dbg [OF _ check_hit_frame])

lemma same_program_over: "same_program s t \<Longrightarrow> check_then_restore_si_reput P a t = Inr u \<Longrightarrow> same_program s u"
  by (rule same_program_kept [OF _ step_over_frame])

lemma same_program_resume: "same_program s t \<Longrightarrow> cont_resume P t = Inr u \<Longrightarrow> same_program s u"
  by (auto simp: cont_resume_def bindE_eq_Inr split: option.splits if_splits
      dest: same_program_wait [rotated] same_program_check [rotated])

lemma same_program_cont: "same_program s t \<Longrightarrow> cont P t = Inr u \<Longrightarrow> same_program s u"
  by (auto simp: cont_def bindE_eq_Inr split: option.splits if_splits
      dest: same_program_over [rotated] same_program_resume [rotated])

lemma same_program_step: "same_program s t \<Longrightarrow> step_in P t = Inr u \<Longrightarrow> same_program s u"
  by (auto simp: step_in_def Let_def bindE_eq_Inr split: option.splits if_splits
      dest: same_program_over [rotated] same_program_wait [rotated] same_program_check [rotated])

lemma same_program_child: "same_program s t \<Longrightarrow> start_child P t = Inr u \<Longrightarrow> same_program s u"
  by (auto simp: start_child_def Let_def split: option.splits)

lemma same_program_parent:
  assumes "same_program s t" and "start_parent P t = Inr u"
  shows "same_program s u"
proof (cases "sys_waitpid P (kern t) (pid t)")
  case None
  then show ?thesis using assms by (auto simp: start_parent_def)
next
  case (Some r)
  obtain st k where r: "r = (st, k)" by (cases r)
  let ?t = "t\<lparr>kern := ptrace_setoptions P k (pid t)\<rparr>"
  obtain v where v: "check_hit_break_point_or_not P FOR_START (reput_all_breakpoints_from P (text_begin t) ?t) = Inr v"
    and u: "u = (say [Stdout (''** pid '' @ sdec (pid v) @ nl)] v) \<lparr>state := RUNNING, last_cmd_is_set_rip := False\<rparr>"
    using assms(2) Some r by (auto simp: start_parent_def Let_def bindE_eq_Inr split: if_splits)
  have "same_program s ?t" using assms(1) by simp
  then have "same_program s (reput_all_breakpoints_from P (text_begin t) ?t)"
    using reput_frame same_program_dbg unfolding reput_all_breakpoints_from_def by blast
  then have "same_program s v" using v same_program_check by blast
  then show ?thesis unfolding u using same_program_running [of s "say _ v"] by simp
qed

lemma same_program_start: "same_program s t \<Longrightarrow> start P t = Inr u \<Longrightarrow> same_program s u"
  by (auto simp: start_def Let_def split: prod.splits if_splits
      dest: same_program_child [rotated] same_program_parent [rotated])

lemma same_program_run: "same_program s t \<Longrightarrow> run P t = Inr u \<Longrightarrow> same_program s u"
  by (auto simp: run_def Let_def bindE_eq_Inr split: if_splits
      dest: same_program_start [rotated] same_program_cont [rotated])

definition table_keepers :: "string set" where
  "table_keepers = - {''break'', ''b'', ''delete'', ''del''}"

text \<open>
  \<open>allowed cmd s t\<close>: the step moves along the chart, only \<open>break\<close> and \<open>delete\<close> change the
  table, and a loaded session keeps its program.
\<close>

definition allowed :: "string \<Rightarrow> 'k session \<Rightarrow> 'k session \<Rightarrow> bool" where
  "allowed cmd s t \<longleftrightarrow> lifecycle cmd (state s) (state t) \<and>
     (cmd \<in> table_keepers \<longrightarrow> bptab t = bptab s) \<and>
     (state s \<noteq> NOLOAD \<longrightarrow> prog_path t = prog_path s \<and> same_text s t)"

lemma allowed_same: "same_dbg s t \<Longrightarrow> allowed cmd s t"
  by (simp add: allowed_def same_dbg_iff same_text_def stay)

lemma allowed_process:
  assumes "same_program s t" and "lifecycle cmd (state s) (state t)"
  shows "allowed cmd s t"
  using assms by (simp add: allowed_def same_program_def)

lemma same_program_refl: "state s \<noteq> NOLOAD \<Longrightarrow> same_program s s"
  by (simp add: same_program_def)

lemma state_cases: "q \<noteq> NOLOAD \<Longrightarrow> q = LOADED \<or> q = RUNNING"
  by (cases q) simp_all

lemma allowed_cont: "cmd \<in> {''cont'', ''c'', ''si'', ''run'', ''r''} \<Longrightarrow> cont P s = Inr t \<Longrightarrow> allowed cmd s t"
proof (cases "state s = RUNNING")
  case True
  assume c: "cmd \<in> {''cont'', ''c'', ''si'', ''run'', ''r''}" and t: "cont P s = Inr t"
  have "same_program s t" using same_program_cont [OF same_program_refl t] True by simp
  then show ?thesis
    using True c state_cases [of "state t"] by (intro allowed_process) (auto simp: same_program_def intro: stay child_gone)
qed (auto simp: cont_def intro: allowed_same)

lemma allowed_step: "cmd \<in> {''cont'', ''c'', ''si'', ''run'', ''r''} \<Longrightarrow> step_in P s = Inr t \<Longrightarrow> allowed cmd s t"
proof (cases "state s = RUNNING")
  case True
  assume c: "cmd \<in> {''cont'', ''c'', ''si'', ''run'', ''r''}" and t: "step_in P s = Inr t"
  have "same_program s t" using same_program_step [OF same_program_refl t] True by simp
  then show ?thesis
    using True c state_cases [of "state t"] by (intro allowed_process) (auto simp: same_program_def intro: stay child_gone)
qed (auto simp: step_in_def intro: allowed_same)

lemma allowed_start: "cmd \<in> {''start'', ''run'', ''r''} \<Longrightarrow> start P s = Inr t \<Longrightarrow> allowed cmd s t"
proof (cases "state s = LOADED")
  case True
  assume c: "cmd \<in> {''start'', ''run'', ''r''}" and t: "start P s = Inr t"
  have "same_program s t" using same_program_start [OF same_program_refl t] True by simp
  then show ?thesis
    using True c state_cases [of "state t"] by (intro allowed_process) (auto simp: same_program_def intro: stay start_moves)
qed (auto simp: start_def intro: allowed_same)

lemma allowed_run: "cmd \<in> {''run'', ''r''} \<Longrightarrow> run P s = Inr t \<Longrightarrow> allowed cmd s t"
proof (cases "state s = NOLOAD")
  case False
  assume c: "cmd \<in> {''run'', ''r''}" and t: "run P s = Inr t"
  have "same_program s t" using same_program_run [OF same_program_refl t] False by simp
  then show ?thesis
    using c state_cases [OF False] state_cases [of "state t"]
    by (intro allowed_process) (auto simp: same_program_def intro: stay start_moves child_gone)
qed (auto simp: run_def intro: allowed_same)

lemma allowed_load: "load P cmds s = Inr t \<Longrightarrow> allowed ''load'' s t"
  by (cases "state s") (auto simp: load_def Let_def allowed_def table_keepers_def split: if_splits sum.splits prod.splits
      intro: stay load_moves)

lemma allowed_break: "cmd \<notin> table_keepers \<Longrightarrow> allowed cmd s (set_break_point P cmds s)"
  using set_break_point_text [of s P cmds]
  by (auto simp: allowed_def set_break_point_def Let_def split: option.splits intro: stay)

lemma allowed_delete: "delete_break_point P cmds s = Inr t \<Longrightarrow> cmd \<notin> table_keepers \<Longrightarrow> allowed cmd s t"
  using delete_break_point_text [of P cmds s t]
  by (auto simp: allowed_def delete_break_point_def Let_def split: option.splits if_splits intro: stay)

lemma allowed_set_reg: "allowed cmd s (set_reg P cmds s)"
  using set_reg_text [of s P cmds]
  by (auto simp: allowed_def set_reg_def Let_def split: option.splits prod.splits intro: stay)

lemma hoare_from: "(\<And>t. f s = Inr t \<Longrightarrow> Q t) \<Longrightarrow> hoare (\<lambda>u. u = s) f Q"
  by (simp add: hoare_def)

lemma hoare_pure_from: "Q (f s) \<Longrightarrow> hoare (\<lambda>u. u = s) (\<lambda>u. Inr (f u)) Q"
  by (simp add: hoare_def)

lemma not_keepers:
  "cmd = ''break'' \<or> cmd = ''b'' \<Longrightarrow> cmd \<notin> table_keepers" "cmd = ''delete'' \<or> cmd = ''del'' \<Longrightarrow> cmd \<notin> table_keepers"
  by (auto simp: table_keepers_def)

lemma allowed_err: "allowed cmd s (err m s)"
  by (simp add: allowed_same)

lemma allowed_vmmap: "vmmap P s = Inr t \<Longrightarrow> allowed cmd s t"
  using vmmap_frame allowed_same by blast

lemma process_commands:
  "cmd = ''cont'' \<or> cmd = ''c'' \<Longrightarrow> cmd \<in> {''cont'', ''c'', ''si'', ''run'', ''r''}"
  "cmd = ''si'' \<Longrightarrow> cmd \<in> {''cont'', ''c'', ''si'', ''run'', ''r''}"
  "cmd = ''start'' \<Longrightarrow> cmd \<in> {''start'', ''run'', ''r''}"
  "cmd = ''run'' \<or> cmd = ''r'' \<Longrightarrow> cmd \<in> {''run'', ''r''}"
  by auto

lemma allowed_load': "load P cmds s = Inr t \<Longrightarrow> cmd = ''load'' \<Longrightarrow> allowed cmd s t"
  by (simp only: allowed_load)

lemma dispatch_allowed: "hoare (\<lambda>u. u = s) (dispatch P cmd cmds) (allowed cmd s)"
  unfolding dispatch_def [abs_def]
  by (intro hoare_branch)
    ((rule hoare_pure_from, (rule allowed_set_reg | rule allowed_err | (rule allowed_same, rule pure_frames)
        | (rule allowed_break, erule not_keepers)))
      | (rule hoare_from,
         ((erule allowed_load', assumption) | erule allowed_vmmap | (erule allowed_delete, erule not_keepers)
          | (erule allowed_start [rotated], erule process_commands)
          | (erule allowed_cont [rotated], erule process_commands)
          | (erule allowed_step [rotated], erule process_commands)
          | (erule allowed_run [rotated], erule process_commands))))+

lemma exec_line_allowed:
  assumes "exec_line P line s = Inr t"
  shows "allowed (hd (dbgcmd_parser line (CHR 0x20))) s t"
proof -
  let ?cmd = "hd (dbgcmd_parser line (CHR 0x20))"
  have "t = s \<or> dispatch P ?cmd (command_words (CHR 0x20) line) s = Inr t"
    using assms by (auto simp: exec_line_first_word dbgcmd_parser_eq Let_def split: if_splits)
  then show ?thesis using hoareD [OF dispatch_allowed refl] allowed_same same_dbg_refl by metis
qed

text \<open>
  C12: Every command line moves the debugger only along its state chart: \<open>load\<close> from NOLOAD to
  LOADED, \<open>start\<close> and \<open>run\<close> from LOADED to RUNNING, and back to LOADED only by a command that
  resumed the child. No other command changes the state, only \<open>break\<close> and \<open>delete\<close> change the
  breakpoint table, and a loaded program and its text range stay as they are.
\<close>

theorem command_follows_lifecycle:
  assumes "exec_line P line s = Inr t" and "cmd = hd (dbgcmd_parser line (CHR 0x20))"
  shows "lifecycle cmd (state s) (state t) \<and>
     (cmd \<notin> {''break'', ''b'', ''delete'', ''del''} \<longrightarrow> bptab t = bptab s) \<and>
     (state s \<noteq> NOLOAD \<longrightarrow> prog_path t = prog_path s \<and> text_begin t = text_begin s \<and> text_end t = text_end s)"
  using exec_line_allowed [OF assms(1)] unfolding assms(2) [symmetric]
  by (simp add: allowed_def table_keepers_def same_text_def)

lemma command_follows_lifecycle_witness:
  "lifecycle ''break'' (state running0) (state running2) \<and> prog_path running2 = prog_path running0 \<and>
   text_begin running2 = text_begin running0 \<and> text_end running2 = text_end running0"
  using command_follows_lifecycle [OF exec_break_sample, of "''break''"]
  by (simp add: dbgcmd_parser_eq command_words_def)

definition running_only :: "string set" where
  "running_only = {''cont'', ''c'', ''break'', ''b'', ''si'', ''delete'', ''del'', ''get'', ''g'', ''set'', ''s'',
     ''vmmap'', ''m'', ''disasm'', ''d'', ''dump'', ''x''}"

text \<open>
  A command that needs a running child, given while there is none, prints the one message
  and does nothing else; \<open>start\<close> outside LOADED and \<open>load\<close> outside NOLOAD likewise.
\<close>

theorem commands_are_guarded:
  "(\<forall>cmd \<in> running_only. state s \<noteq> RUNNING \<longrightarrow> dispatch P cmd cmds s = Inr (err ''state must be RUNNING'' s)) \<and>
   (state s \<noteq> LOADED \<longrightarrow> dispatch P ''start'' cmds s = Inr (err ''state must be LOADED'' s)) \<and>
   (state s \<noteq> NOLOAD \<longrightarrow> dispatch P ''load'' cmds s = Inr (err ''state must be NOT LOADED'' s)) \<and>
   (state s = NOLOAD \<longrightarrow> dispatch P ''run'' cmds s = Inr (err ''state must be LOADED or RUNNING'' s))"
proof (intro conjI impI)
  show "\<forall>cmd \<in> running_only. state s \<noteq> RUNNING \<longrightarrow> dispatch P cmd cmds s = Inr (err ''state must be RUNNING'' s)"
    unfolding running_only_def ball_simps
    by (simp add: dispatch_def cont_def set_break_point_def step_in_def delete_break_point_def get_single_reg_def
        set_reg_def vmmap_def disasm_def dump_def)
  show "dispatch P ''start'' cmds s = Inr (err ''state must be LOADED'' s)" if "state s \<noteq> LOADED"
    using that by (simp add: dispatch_def start_def)
  show "dispatch P ''load'' cmds s = Inr (err ''state must be NOT LOADED'' s)" if "state s \<noteq> NOLOAD"
    using that state_cases [OF that] by (simp add: dispatch_def load_def)
  show "dispatch P ''run'' cmds s = Inr (err ''state must be LOADED or RUNNING'' s)" if "state s = NOLOAD"
    using that by (simp add: dispatch_def run_def)
qed

lemma commands_are_guarded_witness:
  "dispatch sample ''si'' [''si''] (new_session tracee0) = Inr (err ''state must be RUNNING'' (new_session tracee0))"
  using commands_are_guarded [of "new_session tracee0" sample "[''si'']"]
  by (simp add: running_only_def new_session_def init_debugger_def debugger.extend_def)

section \<open>Ways of stopping\<close>





























section \<open>Whole sessions\<close>

text \<open>
  C9: From a fresh debugger, after any script: without a loaded program there are neither
  breakpoints nor a child; a running debugger has a child's pid; a pending \<open>set rip\<close> means it is
  running; and every breakpoint lies in the text section of the loaded program.
\<close>

theorem script_invariant:
  assumes "foldE (sdb_step P interactive) lines (new_session k) = Inr t"
  shows "(state t = NOLOAD \<longrightarrow> bptab t = [] \<and> pid t = - 1) \<and>
     (state t = RUNNING \<longrightarrow> pid t \<noteq> - 1 \<and> pid t \<noteq> 0) \<and>
     (last_cmd_is_set_rip t \<longrightarrow> state t = RUNNING) \<and>
     (\<forall>b \<in> set (bptab t). in_text t (bp_addr b))"
  using sdb.stepper_run_keeps [OF dbg_inv_new assms] by (simp add: dbg_inv_def)

lemma fresh_list: "sdb_step sample False ''list'' (new_session tracee0) = Inr (say [] (new_session tracee0))"
  by (simp add: sdb_step_def exec_line_def dbgcmd_parser_eq command_words_def dispatch_def list_cmd_def
      bpt_show_def new_session_def init_debugger_def debugger.extend_def)

lemma script_invariant_witness:
  "bptab (say [] (new_session tracee0)) = [] \<and> pid (say [] (new_session tracee0)) = - 1"
  using script_invariant [of sample False "[''list'']" tracee0 "say [] (new_session tracee0)"]
  by (simp add: fresh_list) (simp add: new_session_def init_debugger_def debugger.extend_def)

section \<open>Registers\<close>

lemma reg_pointer_get_put: "reg_pointer name = Some (get, put) \<Longrightarrow> get (put v regs) = v"
  by (auto simp: reg_pointer_def split: if_split_asm)

text \<open>
  \<open>set\<close> of a named register to a value other than zero followed by \<open>get\<close> of it prints that
  value, in decimal and hexadecimal, unless the value is all ones.
\<close>

theorem set_then_get:
  assumes "ptrace_memory P mem" and "state s = RUNNING" and "reg_pointer name = Some (get, put)"
    and "ptrace_getregs P (kern s) (pid s) = Some regs" and "arg_value x \<noteq> 0" and "arg_value x \<noteq> - 1"
    and "ptrace_setregs P (kern s) (pid s) (put (arg_value x) regs) = Some k"
  shows "outs (get_single_reg P [''get'', name] (set_reg P [''set'', name, x] s)) =
     outs s @ [Stdout (c_str name @ '' = '' @ sdec (sint (arg_value x)) @ '' (0x'' @ hex (unat (arg_value x)) @ '')'' @ nl)]"
proof -
  have w: "reg_handler name (arg_value x) regs = (0, put (arg_value x) regs, [])"
    using assms(3,5) by (simp add: reg_handler_def)
  have r: "reg_handler name 0 (put (arg_value x) regs) = (arg_value x, put (arg_value x) regs, [])"
    using assms(3) by (simp add: reg_handler_def reg_pointer_get_put [OF assms(3)])
  show ?thesis
    using ptrace_setregsD [OF assms(1,7)] assms(2,4,6,7) w r
    by (cases "name = ''rip''") (simp_all add: set_reg_def get_single_reg_def Let_def say_def)
qed

lemma set_then_get_witness:
  "outs (get_single_reg sample [''get'', ''rax''] (set_reg sample [''set'', ''rax'', ''5''] running0)) =
     outs running0 @ [Stdout (c_str ''rax'' @ '' = '' @ sdec (sint (arg_value ''5'')) @ '' (0x'' @
       hex (unat (arg_value ''5'')) @ '')'' @ nl)]"
  by (rule set_then_get [OF sample_memory]) (simp_all add: reg_pointer_def run_simps)

text \<open>
  \<open>set\<close> of a register to zero does not set it: the registers the tracee had are written back
  unchanged, without a message. (Zero is how the handler is told to read.)
\<close>

theorem set_zero_ignored:
  assumes "ptrace_memory P mem" and "state s = RUNNING" and "3 \<le> length cmds" and "arg_value (cmds ! 2) = 0"
    and "reg_pointer (cmds ! 1) = Some (get, put)"
    and "ptrace_getregs P (kern s) (pid s) = Some regs" and "get regs \<noteq> - 1"
    and "ptrace_setregs P (kern s) (pid s) regs = Some k"
  shows "ptrace_getregs P (kern (set_reg P cmds s)) (pid s) = Some regs \<and> outs (set_reg P cmds s) = outs s"
  using ptrace_setregsD [OF assms(1,8)] assms(2-8)
  by (simp add: set_reg_def reg_handler_def Let_def say_def)

lemma set_zero_ignored_witness:
  "ptrace_getregs sample (kern (set_reg sample [''set'', ''r15'', ''0''] running0)) (pid running0) = Some regs0 \<and>
   outs (set_reg sample [''set'', ''r15'', ''0''] running0) = outs running0"
  by (rule set_zero_ignored [OF sample_memory, where get = rg_r15]) (simp_all add: reg_pointer_def run_simps regs0_def)

text \<open>
  \<open>get\<close> of a register that holds all ones prints nothing and reports nothing: the value is
  taken for the error code of the handler.
\<close>

theorem get_all_ones_silent:
  assumes "state s = RUNNING" and "2 \<le> length cmds" and "ptrace_getregs P (kern s) (pid s) = Some regs"
    and "reg_pointer (cmds ! 1) = Some (get, put)" and "get regs = - 1"
  shows "get_single_reg P cmds s = s"
  using assms by (simp add: get_single_reg_def reg_handler_def Let_def say_def)

lemma get_all_ones_silent_witness: "get_single_reg sample [''get'', ''rbx''] running0 = running0"
  by (rule get_all_ones_silent [where regs = regs0 and get = rg_rbx]) (simp_all add: reg_pointer_def run_simps regs0_def)

section \<open>Addresses\<close>

text \<open>
  A hexadecimal argument of any size is read exactly below 2^63 and as 2^63 - 1 from there on:
  no command can name the upper half of the address space.
\<close>

theorem arg_value_saturates:
  "arg_value (''0x'' @ hex n) = of_nat (min n (2 ^ 63 - 1))"
proof -
  have "c \<noteq> NUL" if c: "c \<in> set (hex n)" for c
  proof -
    obtain d where "d < 16" and d: "c = digit_char d"
      using to_base_chars [of 16 c n] c by (auto simp: hex_def)
    then have "(of_char c :: nat) \<noteq> 0" using of_char_digit_char [of d] by simp
    then show ?thesis by auto
  qed
  then have "c_str (''0x'' @ hex n) = ''0x'' @ hex n" by (simp add: c_str_def)
  then have "arg_value (''0x'' @ hex n) = word_of_int (min long_max (int n))"
    by (simp only: arg_value_def strtol_hex)
  also have "min long_max (int n) = int (min n (2 ^ 63 - 1))" by (simp add: long_max_def min_def)
  finally show ?thesis by (metis of_int_of_nat_eq)
qed

section \<open>Process exit and start\<close>

lemma exit_status_masks:
  assumes "c < 256"
  shows "WIFEXITED (of_nat (256 * c))" and "sint (of_nat (256 * c) :: u32) = int (256 * c)"
proof -
  have "(of_nat (256 * c) :: u32) = push_bit 8 (of_nat c)" by (simp add: push_bit_eq_mult)
  moreover have "push_bit 8 (w :: u32) AND 0x7f = 0" for w
  proof (rule bit_word_eqI)
    fix n :: nat
    assume "n < LENGTH(32)"
    have m: "(0x7f :: u32) = mask 7" by (simp add: mask_eq_exp_minus_1)
    show "bit (push_bit 8 w AND 0x7f) n = bit (0 :: u32) n"
      unfolding m by (auto simp: bit_and_iff bit_push_bit_iff bit_mask_iff)
  qed
  ultimately show "WIFEXITED (of_nat (256 * c))" by (simp add: WIFEXITED_def)
  have "sint (word_of_int (int (256 * c)) :: u32) = int (256 * c)"
    using assms by (subst sint_sbintrunc') (simp add: signed_take_bit_int_eq_self)
  then show "sint (of_nat (256 * c) :: u32) = int (256 * c)" by simp
qed

text \<open>
  When the child exits with code c, the debugger forgets the child, keeps program and
  breakpoints, and prints the raw wait status, which is 256 times the exit code.
\<close>

theorem exit_message_raw_status:
  assumes "sys_waitpid P (kern s) (pid s) = Some (of_nat (256 * c), k)" and "c < 256"
  shows "\<exists>t. wait_then_check_exit P s = Inr t \<and> state t = LOADED \<and> pid t = - 1 \<and> bptab t = bptab s \<and>
     outs t = outs s @ [Stderr (''** child process '' @ sdec (pid s) @ '' terminiated normally (code ''
                          @ dec (256 * c) @ '')'' @ nl)]"
proof -
  have "sdec (sint (of_nat (256 * c) :: u32)) = dec (256 * c)"
    using exit_status_masks(2) [OF assms(2)] by (simp add: sdec_def nat_mult_distrib del: of_nat_mult)
  then show ?thesis
    using assms(1) exit_status_masks(1) [OF assms(2)]
    by (simp add: wait_then_check_exit_def Let_def del: of_nat_mult)
qed

definition dying :: "tracee session" where
  "dying = running0\<lparr>kern := tracee0\<lparr>tr_status := [0x300]\<rparr>\<rparr>"

lemma exit_message_raw_status_witness:
  "\<exists>t. wait_then_check_exit sample dying = Inr t \<and> state t = LOADED \<and> pid t = - 1 \<and> bptab t = bptab dying \<and>
     outs t = outs dying @ [Stderr (''** child process '' @ sdec (pid dying) @ '' terminiated normally (code ''
                          @ dec (256 * 3) @ '')'' @ nl)]"
  by (rule exit_message_raw_status [where k = tracee0]) (simp_all add: dying_def run_simps tracee0_def)

text \<open>
  When \<open>execvp\<close> fails, the forked child does not exit: it returns into the command loop as a
  second debugger that reads the same input, LOADED with pid 0.
\<close>

theorem failed_exec_keeps_child_in_loop:
  assumes "state s = LOADED" and "sys_fork P (kern s) = (0, k0)"
    and "ptrace_traceme P k0 = Some k1" and "sys_execvp P k1 (c_str (prog_path s)) = None"
  shows "\<exists>t. sdb_step P False ''start'' s = Inr t \<and> state t = LOADED \<and> pid t = 0 \<and>
     outs t = outs s @ [Perror ''** execvp''] \<and> foldE (sdb_step P False) (''start'' # rest) s = foldE (sdb_step P False) rest t"
  using assms
  by (simp add: sdb_step_def exec_line_def dbgcmd_parser_eq command_words_def dispatch_def start_def start_child_def Let_def)

definition forked_child :: "tracee session" where
  "forked_child = running0\<lparr>state := LOADED, kern := tracee0\<lparr>tr_fork := 0\<rparr>\<rparr>"

lemma failed_exec_keeps_child_in_loop_witness:
  "\<exists>t. sdb_step sample False ''start'' forked_child = Inr t \<and> state t = LOADED \<and> pid t = 0 \<and>
     outs t = outs forked_child @ [Perror ''** execvp''] \<and>
     foldE (sdb_step sample False) (''start'' # [''start'']) forked_child = foldE (sdb_step sample False) [''start''] t"
  by (rule failed_exec_keeps_child_in_loop [where ?k0.0 = "tracee0\<lparr>tr_fork := 0\<rparr>" and ?k1.0 = "tracee0\<lparr>tr_fork := 0\<rparr>"])
    (simp_all add: run_simps forked_child_def)

section \<open>The disassembly loop\<close>

text \<open>
  \<open>disasm\<close> at an address whose bytes do not decode, one byte behind an instruction of length
  one that does, never gets past it: a failed decoding moves the address back by one, so the ten
  rounds print the error and that instruction five times each.
\<close>

theorem disasm_bounces:
  assumes "cs_open P (kern s)" and "in_text s a" and "in_text s (a - 1)"
    and "cs_disasm P (kern s) (take 7 (le_bytes (shown_code P s a))) a = None"
    and "cs_disasm P (kern s) (take 7 (le_bytes (shown_code P s (a - 1)))) (a - 1) = Some ins"
    and "insn_size ins = 1"
    and "state s = RUNNING" and "2 \<le> length cmds" and "arg_value (cmds ! 1) = a"
  shows "disasm P cmds s = say (concat (replicate 5
     (Stderr (''** cs_disasm reads no instruction'' @ nl) # snd (translate P (kern s) (a - 1) (shown_code P s (a - 1)))))) s"
proof -
  let ?e = "[Stderr (''** cs_disasm reads no instruction'' @ nl)]"
  let ?l = "snd (translate P (kern s) (a - 1) (shown_code P s (a - 1)))"
  have shown: "shown_code P (say os s) x = shown_code P s x" and range: "in_text (say os s) x = in_text s x" for os x
    by (simp_all add: shown_code_def in_text_def split: option.split)
  have bad: "translate P (kern s) a (shown_code P s a) = (- 1, ?e)"
    using assms(1,4) by (simp add: translate_def)
  have good: "fst (translate P (kern s) (a - 1) (shown_code P s (a - 1))) = 1"
    using assms(1,5,6) by (simp add: translate_def)
  have say_say: "say os2 (say os1 s) = say (os1 @ os2) s" for os1 os2 by (simp add: say_def)
  have two: "disasm_loop P (Suc (Suc n)) a (say os s) = disasm_loop P n a (say (os @ ?e @ ?l) s)" for n os
    using assms(2,3) bad good by (simp add: shown range say_say case_prod_beta)
  have "disasm_loop P (2 * n) a (say os s) = say (os @ concat (replicate n (?e @ ?l))) s" for n os
  proof (induction n arbitrary: os)
    case (Suc n)
    have "2 * Suc n = Suc (Suc (2 * n))" by simp
    then show ?case using two [of "2 * n" os] Suc.IH [of "os @ ?e @ ?l"] by simp
  qed simp
  from this [of 5 "[]"] have "disasm_loop P 10 a s = say (concat (replicate 5 (?e @ ?l))) s"
    by (simp add: say_def del: disasm_loop.simps)
  then show ?thesis using assms(2,7-9) by (simp add: disasm_def Let_def del: disasm_loop.simps)
qed

text \<open>A tracee whose fourth byte is no instruction.\<close>

definition bad3 :: "tracee session" where
  "bad3 = running0\<lparr>kern := tracee0\<lparr>tr_mem := nop_mem(0x401002 \<mapsto> 0x06)\<rparr>\<rparr>"

lemma bad3_code:
  "le_bytes (shown_code sample bad3 0x401002) ! 0 = 0x06" "le_bytes (shown_code sample bad3 0x401001) ! 0 = 0x90"
proof -
  have "mapped8 (tr_mem (kern bad3)) a" if "a = 0x401002 \<or> a = 0x401001" for a
    using that by (auto simp: bad3_def mapped8_def nop_mem_def upt8)
  then have "tr_mem (kern bad3) 0x401002 = Some (byte_of 0 (peek8 (tr_mem (kern bad3)) 0x401002))"
    and "tr_mem (kern bad3) 0x401001 = Some (byte_of 0 (peek8 (tr_mem (kern bad3)) 0x401001))"
    using peek8_byte [of "tr_mem (kern bad3)" _ 0] by fastforce+
  moreover have "tr_mem (kern bad3) 0x401002 = Some 0x06" "tr_mem (kern bad3) 0x401001 = Some 0x90"
    by (simp_all add: bad3_def nop_mem_def)
  moreover have "shown_code sample bad3 a = peek8 (tr_mem (kern bad3)) a" for a
    by (simp add: shown_code_def at_addr_def dict_addr2idx_def at_idx_def bad3_def run_simps)
  ultimately show "le_bytes (shown_code sample bad3 0x401002) ! 0 = 0x06"
    "le_bytes (shown_code sample bad3 0x401001) ! 0 = 0x90"
    by (simp_all add: nth_le_bytes)
qed

lemma hd_take_7: "length xs = 8 \<Longrightarrow> take 7 xs \<noteq> [] \<and> hd (take 7 xs) = xs ! 0"
  by (cases xs) auto

lemma disasm_bounces_witness:
  "disasm sample [''disasm'', ''0x401002''] bad3 = say (concat (replicate 5
     (Stderr (''** cs_disasm reads no instruction'' @ nl) #
        snd (translate sample (kern bad3) (0x401002 - 1) (shown_code sample bad3 (0x401002 - 1)))))) bad3"
proof (rule disasm_bounces [where ins = "nop_insn 0x401001"])
  note h2 = hd_take_7 [OF length_le_bytes, of "shown_code sample bad3 0x401002"]
  note h1 = hd_take_7 [OF length_le_bytes, of "shown_code sample bad3 0x401001"]
  show "cs_disasm sample (kern bad3) (take 7 (le_bytes (shown_code sample bad3 0x401002))) 0x401002 = None"
    using h2 bad3_code(1) by (simp add: run_simps)
  show "cs_disasm sample (kern bad3) (take 7 (le_bytes (shown_code sample bad3 (0x401002 - 1)))) (0x401002 - 1)
      = Some (nop_insn 0x401001)"
    using h1 bad3_code(2) by (simp add: run_simps)
qed (simp_all add: run_simps bad3_def in_text_def nop_insn_def)

end
