(* ===== verification/FileClaims.thy ===== *)
theory FileClaims
  imports SampleTracee
begin

text \<open>
  The properties of the debugger's file readers and of its breakpoint table: the ELF reader on
  well-formed files, the reader of the memory map, and the table as a finite map.
\<close>

section \<open>The ELF reader\<close>

text \<open>
  C24: On a well-formed ELF file whose first section named .text is section i, the reader returns the
  entry point of the header and the first and last address of that section, and prints nothing.
\<close>

theorem elf_reader_finds_text:
  assumes "wf_elf img" and "elf_text img = Some i"
  shows "elf64_parser (Some img) info =
           Inr (0, (e_entry img, sh_addr (elf_section img i),
                    sh_addr (elf_section img i) + sh_size (elf_section img i) - 1), []) \<and>
         i < e_shnum img \<and> elf_name img i = text_name \<and> (\<forall>j < i. elf_name img j \<noteq> text_name)"
proof -
  have "i < e_shnum img \<and> elf_name img i = text_name \<and> (\<forall>j < i. elf_name img j \<noteq> text_name)"
    using assms(2) by (auto simp: elf_text_def find_Some_iff)
  then show ?thesis using elf64_parser_wf [OF assms(1), of info] assms(2) by (simp add: text_range_def Let_def)
qed

text \<open>A file with two sections: the string table and .text.\<close>

definition sample_elf :: bytes where
  "sample_elf =
     ELFMAG @ replicate 20 0 @ [0x00, 0x10, 0x40, 0, 0, 0, 0, 0] @ replicate 8 0 @ [64, 0, 0, 0, 0, 0, 0, 0]
     @ replicate 10 0 @ [64, 0, 2, 0, 0, 0] @
     replicate 24 0 @ [192, 0, 0, 0, 0, 0, 0, 0, 7, 0, 0, 0, 0, 0, 0, 0] @ replicate 24 0 @
     [1, 0, 0, 0] @ replicate 12 0 @ [0x00, 0x10, 0x40, 0, 0, 0, 0, 0] @ replicate 8 0
     @ [16, 0, 0, 0, 0, 0, 0, 0] @ replicate 24 0 @
     [0] @ text_name @ [0]"

lemma le_value_zeros [simp]: "le_value (replicate n 0) = 0"
  by (induction n) simp_all

lemma sample_elf_header:
  "e_entry sample_elf = 0x401000" "e_shoff sample_elf = 64" "e_shentsize sample_elf = 64"
  "e_shnum sample_elf = 2" "e_shstrndx sample_elf = 0" "length sample_elf = 199" "take 4 sample_elf = ELFMAG"
  by (simp_all add: sample_elf_def e_entry_def e_shoff_def e_shentsize_def e_shnum_def e_shstrndx_def
      le_field_def ELFMAG_def text_name_def)

lemma sample_elf_sections:
  "elf_section sample_elf 0 =
     replicate 24 0 @ [192, 0, 0, 0, 0, 0, 0, 0, 7, 0, 0, 0, 0, 0, 0, 0] @ replicate 24 0"
  "elf_section sample_elf (Suc 0) =
     [1, 0, 0, 0] @ replicate 12 0 @ [0x00, 0x10, 0x40, 0, 0, 0, 0, 0] @ replicate 8 0
     @ [16, 0, 0, 0, 0, 0, 0, 0] @ replicate 24 0"
  by (simp_all add: elf_section_def sample_elf_header)
    (simp_all add: sample_elf_def fread_at_def ELFMAG_def text_name_def)

lemma sample_elf_strtab: "elf_strtab sample_elf = 0 # text_name @ [0]"
  by (simp add: elf_strtab_def sample_elf_header sample_elf_sections sh_offset_def sh_size_def le_field_def)
    (simp add: sample_elf_def fread_at_def ELFMAG_def text_name_def)

lemma sample_elf_wf: "wf_elf sample_elf"
proof -
  have "\<forall>i < 2. sh_name (elf_section sample_elf i) < length (elf_strtab sample_elf)"
    by (auto simp: less_2_cases_iff sample_elf_sections sample_elf_strtab sh_name_def le_field_def text_name_def)
  then show ?thesis
    by (simp add: wf_elf_def sample_elf_header sample_elf_sections(1) sample_elf_strtab sh_offset_def sh_size_def
        le_field_def Let_def)
qed

lemma sample_elf_names: "elf_name sample_elf 0 = []" "elf_name sample_elf (Suc 0) = text_name"
  by (simp_all add: elf_name_def sample_elf_sections sample_elf_strtab sh_name_def le_field_def text_name_def)

lemma sample_elf_text: "elf_text sample_elf = Some (Suc 0)"
  by (simp add: elf_text_def sample_elf_header sample_elf_names numeral_2_eq_2 text_name_def)

lemma elf_reader_finds_text_witness:
  "elf64_parser (Some sample_elf) (0, 0, 0) = Inr (0, (0x401000, 0x401000, 0x40100f), [])"
  using elf_reader_finds_text [OF sample_elf_wf sample_elf_text, of "(0, 0, 0)"]
  by (simp add: sample_elf_header sample_elf_sections sh_addr_def sh_size_def le_field_def)

section \<open>The memory map\<close>




lemma zero_pad_not_Nil [simp]: "zero_pad k (hex n) \<noteq> []"
  by (simp add: zero_pad_def hex_def)
















definition parsed_entry :: "string \<Rightarrow> map_entry option" where
  "parsed_entry buf = (case parse_map_line buf of Inr r \<Rightarrow> r | Inl _ \<Rightarrow> None)"

lemma maps_fold_prints:
  "foldE maps_step bufs (l, os) = Inr (l', os') \<Longrightarrow>
   os' = os @ map (\<lambda>m. Stdout (map_line m)) (List.map_filter parsed_entry bufs)"
proof (induction bufs arbitrary: l os)
  case Nil
  then show ?case by (simp add: map_filter_simps)
next
  case (Cons buf bufs)
  then obtain st where step: "maps_step buf (l, os) = Inr st" and rest: "foldE maps_step bufs st = Inr (l', os')"
    by (auto simp: bindE_eq_Inr)
  obtain r where r: "parse_map_line buf = Inr r" using step by (auto simp: maps_step_def bindE_eq_Inr)
  have "snd st = os @ map (\<lambda>m. Stdout (map_line m)) (List.map_filter parsed_entry [buf])"
    using step r by (cases r) (auto simp: maps_step_def parsed_entry_def map_filter_simps)
  moreover have "os' = snd st @ map (\<lambda>m. Stdout (map_line m)) (List.map_filter parsed_entry bufs)"
    using Cons.IH [of "fst st" "snd st"] rest by simp
  ultimately show ?case by (cases "parsed_entry buf") (simp_all add: map_filter_simps)
qed

text \<open>
  Reading a memory map that does not fault prints, in the order of the file, one line for every
  buffer of up to 255 characters that has six fields, and returns the number of distinct ranges.
\<close>

theorem maps_parser_prints:
  assumes "maps_parser (Some content) [] = Inr (n, loaded, os)"
  shows "os = map (\<lambda>m. Stdout (map_line m)) (List.map_filter parsed_entry (fgets_all 256 (map byte_char content))) \<and>
         n = int (length loaded) \<and> concat (fgets_all 256 (map byte_char content)) = map byte_char content"
  using assms maps_fold_prints [of "fgets_all 256 (map byte_char content)" "[]" "[]"]
  by (auto simp: maps_parser_def bindE_eq_Inr fgets_all_concat)

definition short_map :: string where
  "short_map = ''1-2 r-xp 0 08:01 7 /a''"

definition short_entry :: map_entry where
  "short_entry = \<lparr>me_range = Range 1 2, me_perm = ''r-x'', me_offset = 0, me_name = ''/a''\<rparr>"

lemma short_map_parsed:
  "parse_map_line short_map = Inr (Some short_entry)" "fgets_all 256 short_map = [short_map]"
  by (simp_all add: short_map_def short_entry_def parse_map_line_def tokens.simps c_str_def Let_def strtoul_def
      strtol_def scan_sign_def isspace_def scan_magnitude_def has_hex_prefix_def digit_val_def long_max_def
      fgets_all.simps fgets_one_def)

lemma map_chars [simp]: "map byte_char (map char_byte s) = s"
  by (simp add: comp_def)

lemma maps_parser_prints_witness:
  "[Stdout (map_line short_entry)] =
     map (\<lambda>m. Stdout (map_line m)) (List.map_filter parsed_entry (fgets_all 256 (map byte_char (map char_byte short_map)))) \<and>
   (1 :: int) = int (length [(me_range short_entry, short_entry)]) \<and>
   concat (fgets_all 256 (map byte_char (map char_byte short_map))) = map byte_char (map char_byte short_map)"
  by (rule maps_parser_prints) (simp add: maps_parser_def short_map_parsed maps_step_def del: map_map)

section \<open>The breakpoint table\<close>

text \<open>
  C8: As long as no address is entered twice the table is a finite map from addresses to saved
  code: a new entry extends it at the end, looking an address up finds its code, and deleting an
  index removes exactly the address listed there and closes the gap in the numbering.
\<close>

theorem table_is_finite_map:
  assumes "bpt_inv data" and "\<not> include_addr data a"
  shows "bpt_inv (bpt_add a c data) \<and> bpt_abs (bpt_add a c data) = (bpt_abs data)(a \<mapsto> c) \<and>
     map_option bp_code (at_addr (bpt_add a c data) x) = (if x = a then Some c else map_option bp_code (at_addr data x)) \<and>
     (\<forall>i b. at_idx data i = Some b \<longrightarrow> (\<exists>data' os. bpt_del i data = Some (data', os) \<and>
        bpt_inv data' \<and> bpt_abs data' = (bpt_abs data)(bp_addr b := None) \<and>
        (\<forall>k. 0 \<le> k \<longrightarrow> at_idx data' k = at_idx data (if k < i then k else k + 1))))"
proof -
  have new: "bpt_abs data a = None" using assms by (simp add: bpt_abs_None)
  have del: "\<exists>data' os. bpt_del i data = Some (data', os) \<and> bpt_inv data' \<and>
      bpt_abs data' = (bpt_abs data)(bp_addr b := None) \<and>
      (\<forall>k. 0 \<le> k \<longrightarrow> at_idx data' k = at_idx data (if k < i then k else k + 1))" if b: "at_idx data i = Some b" for i b
  proof -
    obtain data' os where d: "bpt_del i data = Some (data', os)"
      using bpt.del_defined [of i data] b by (cases "bpt_del i data") auto
    have i: "0 \<le> i" "nat i < length data" using at_idx_Some [OF b] by auto
    have data': "data' = take (nat i) data @ drop (Suc (nat i)) data" using d by (auto simp: bpt_del_Some)
    have "at_idx data' k = at_idx data (if k < i then k else k + 1)" if "0 \<le> k" for k
      using i that by (auto simp: data' at_idx_def nth_delete nat_less_iff nat_add_distrib)
    then show ?thesis using d bpt.del_inv [OF assms(1) d] bpt.del_abs [OF assms(1) b d] by blast
  qed
  show ?thesis
    using bpt.add_inv [OF assms(1) new] bpt.add_abs [OF assms(1) new] bpt.table_lookup_add [OF assms(1) new] del
    by blast
qed

lemma table_is_finite_map_witness:
  "bpt_abs (bpt_add 5 7 [bp2]) = (bpt_abs [bp2])(5 \<mapsto> 7) \<and>
   (\<exists>data' os. bpt_del 0 [bp2] = Some (data', os) \<and> bpt_abs data' = (bpt_abs [bp2])(0x401002 := None))"
proof -
  have b: "at_idx [bp2] 0 = Some bp2" by (simp add: at_idx_def)
  have all: "bpt_abs (bpt_add 5 7 [bp2]) = (bpt_abs [bp2])(5 \<mapsto> 7) \<and>
     (\<forall>i b. at_idx [bp2] i = Some b \<longrightarrow> (\<exists>data' os. bpt_del i [bp2] = Some (data', os) \<and>
        bpt_abs data' = (bpt_abs [bp2])(bp_addr b := None)))"
    using table_is_finite_map [of "[bp2]" 5 7 5] by (simp add: bpt_inv_def) blast
  with b show ?thesis using bp2_fields(2) by metis
qed

end
