(* ===== verification/SessionClaims.thy ===== *)
theory SessionClaims
  imports CommandClaims FileClaims
begin

text \<open>
  The properties of whole debugger sessions: which states a script can reach on the state chart, as
  paths of the step relation \<open>lifecycle\<close>, and what the ELF reader, the state chart and the class
  invariant give together for a program that has been loaded; what a program argument does.
\<close>

section \<open>Paths on the state chart\<close>

inductive chart_path :: "string list \<Rightarrow> state_t \<Rightarrow> state_t \<Rightarrow> bool" where
  here: "chart_path [] q q"
| move: "lifecycle cmd q q' \<Longrightarrow> chart_path cmds q' q'' \<Longrightarrow> chart_path (cmd # cmds) q q''"

inductive_cases chart_path_ConsE: "chart_path (cmd # cmds) q q''"

lemma chart_path_load: "chart_path cmds q q' \<Longrightarrow> q = NOLOAD \<Longrightarrow> q' \<noteq> NOLOAD \<Longrightarrow> ''load'' \<in> set cmds"
  by (induction rule: chart_path.induct) (auto elim: lifecycleE)

lemma chart_path_loaded: "chart_path cmds q q' \<Longrightarrow> q \<noteq> NOLOAD \<Longrightarrow> q' \<noteq> NOLOAD"
  by (induction rule: chart_path.induct) (auto elim: lifecycleE)

text \<open>A path into RUNNING enters it by \<open>start\<close> or \<open>run\<close>, from LOADED.\<close>

lemma chart_path_running:
  "chart_path cmds q q' \<Longrightarrow> q \<noteq> RUNNING \<Longrightarrow> q' = RUNNING \<Longrightarrow>
   \<exists>before cmd after. cmds = before @ cmd # after \<and> cmd \<in> {''start'', ''run'', ''r''} \<and> chart_path before q LOADED"
proof (induction rule: chart_path.induct)
  case (move cmd q q' cmds q'')
  show ?case
  proof (cases "q' = RUNNING")
    case True
    with move.hyps(1) move.prems(1) have "q = LOADED" "cmd \<in> {''start'', ''run'', ''r''}"
      by (auto elim: lifecycleE)
    then show ?thesis by (intro exI [of _ "[]"] exI [of _ cmd] exI [of _ cmds]) (simp add: here)
  next
    case False
    with move obtain before c after where "cmds = before @ c # after" "c \<in> {''start'', ''run'', ''r''}"
      "chart_path before q' LOADED" by blast
    with move.hyps(1) show ?thesis
      by (intro exI [of _ "cmd # before"] exI [of _ c] exI [of _ after]) (simp add: chart_path.move)
  qed
qed simp

section \<open>Scripts\<close>

definition first_word :: "string \<Rightarrow> string" where
  "first_word line = hd (dbgcmd_parser line (CHR 0x20))"

lemma step_allowed:
  assumes "sdb_step P interactive line s = Inr t"
  shows "allowed (first_word line) s t"
proof -
  from assms obtain u where u: "exec_line P line s = Inr u" and "t = u \<or> t = say [Stdout ''sdb> ''] u"
    by (auto simp: sdb_step_def bindE_eq_Inr split: if_splits)
  then show ?thesis
    using exec_line_allowed [OF u] by (auto simp: first_word_def allowed_def same_text_def say_def)
qed

lemma script_path:
  "foldE (sdb_step P interactive) lines s = Inr t \<Longrightarrow> chart_path (map first_word lines) (state s) (state t)"
proof (induction lines arbitrary: s)
  case (Cons line lines)
  then obtain u where u: "sdb_step P interactive line s = Inr u"
    and rest: "foldE (sdb_step P interactive) lines u = Inr t" by (auto simp: bindE_eq_Inr)
  from step_allowed [OF u] have "lifecycle (first_word line) (state s) (state u)" by (simp add: allowed_def)
  from chart_path.move [OF this Cons.IH [OF rest]] show ?case by simp
qed (simp add: here)

text \<open>A loaded program stays: its path and its text range.\<close>

definition keeps_program :: "'k session \<Rightarrow> 'k session \<Rightarrow> bool" where
  "keeps_program s t \<longleftrightarrow> state t \<noteq> NOLOAD \<and> prog_path t = prog_path s \<and> same_text s t"

interpretation loaded: stepper "keeps_program s" "sdb_step P interactive" for s P interactive
proof unfold_locales
  fix u v line
  assume "keeps_program s u" and "sdb_step P interactive line u = Inr v"
  then show "keeps_program s v"
    using step_allowed by (fastforce simp: keeps_program_def allowed_def same_text_def elim: lifecycleE)
qed

text \<open>
  C21: The debugger runs a child only after it was told to: if a script from a fresh debugger ends
  with a running child, some line of it is \<open>start\<close>, \<open>run\<close> or \<open>r\<close>, and a \<open>load\<close> stands before that line.
\<close>
theorem running_was_loaded_and_started:
  assumes "foldE (sdb_step P interactive) lines (new_session k) = Inr t" and "state t = RUNNING"
  shows "\<exists>before cmd after. map first_word lines = before @ cmd # after \<and>
    cmd \<in> {''start'', ''run'', ''r''} \<and> ''load'' \<in> set before"
proof -
  have "state (new_session k) = NOLOAD" by (simp add: new_session_def init_debugger_def debugger.extend_def)
  then have "chart_path (map first_word lines) NOLOAD RUNNING" using script_path [OF assms(1)] assms(2) by simp
  then show ?thesis using chart_path_running chart_path_load by blast
qed

section \<open>A loaded program\<close>

lemma words_load:
  assumes "path \<noteq> []" and "CHR 0x20 \<notin> set path"
  shows "dbgcmd_parser (''load '' @ path) (CHR 0x20) = [''load'', path]"
  using assms command_words_join [of "[''load'']" "CHR 0x20" path] by (simp add: dbgcmd_parser_eq)

lemma exec_load:
  assumes "path \<noteq> []" and "CHR 0x20 \<notin> set path"
  shows "exec_line P (''load '' @ path) s = load P [''load'', path] s"
proof -
  have "exec_line P (''load '' @ path) s = dispatch P ''load'' [''load'', path] s"
    unfolding exec_line_def words_load [OF assms] Let_def list.case by simp
  then show ?thesis by (simp add: dispatch_def)
qed

lemma load_wf:
  assumes "open_read P k (c_str path) = Some img" and "wf_elf img" and "elf_text img = Some i"
  shows "\<exists>t. load P [''load'', path] (new_session k) = Inr t \<and> state t = LOADED \<and>
    prog_path t = path \<and> entry_point t = e_entry img \<and>
    text_begin t = sh_addr (elf_section img i) \<and>
    text_end t = sh_addr (elf_section img i) + sh_size (elf_section img i) - 1"
proof -
  have fresh: "state (new_session k) = NOLOAD" "kern (new_session k) = k"
    by (simp_all add: new_session_def init_debugger_def debugger.extend_def)
  show ?thesis
    using assms(1,3) elf64_parser_wf [OF assms(2)]
    by (simp add: load_def fresh text_range_def say_def Let_def)
qed

text \<open>
  C16: A program loaded from a well-formed ELF file stays the debugger's program: after \<open>load\<close> and any
  further script the debugger is LOADED or RUNNING, its text range is the section .text of the file,
  and every breakpoint the script has set lies in that section.
\<close>
theorem session_stays_in_elf_text:
  assumes "path \<noteq> []" and "CHR 0x20 \<notin> set path"
    and "open_read P k (c_str path) = Some img" and "wf_elf img" and "elf_text img = Some i"
    and "foldE (sdb_step P False) ((''load '' @ path) # lines) (new_session k) = Inr t"
  shows "state t \<noteq> NOLOAD \<and> prog_path t = path \<and>
    text_begin t = sh_addr (elf_section img i) \<and>
    text_end t = sh_addr (elf_section img i) + sh_size (elf_section img i) - 1 \<and>
    (\<forall>b \<in> set (bptab t). sh_addr (elf_section img i) \<le> bp_addr b \<and>
       bp_addr b \<le> sh_addr (elf_section img i) + sh_size (elf_section img i) - 1)"
proof -
  from load_wf [OF assms(3-5)] obtain u where u: "load P [''load'', path] (new_session k) = Inr u"
    and st: "state u = LOADED" "prog_path u = path" "text_begin u = sh_addr (elf_section img i)"
      "text_end u = sh_addr (elf_section img i) + sh_size (elf_section img i) - 1" by blast
  have "sdb_step P False (''load '' @ path) (new_session k) = Inr u"
    unfolding sdb_step_def exec_load [OF assms(1,2)] u by simp
  with assms(6) have rest: "foldE (sdb_step P False) lines u = Inr t" by simp
  have "keeps_program u t"
    using st loaded.stepper_run_keeps [of u u P False lines t] rest by (simp add: keeps_program_def same_text_def)
  moreover have "dbg_inv t" by (rule sdb.stepper_run_keeps [OF dbg_inv_new assms(6)])
  ultimately show ?thesis
    using st by (auto simp: keeps_program_def same_text_def dbg_inv_def in_text_def)
qed

section \<open>A session on the sample tracee\<close>

text \<open>The tracee's file system holds one ELF file; \<open>load\<close> and \<open>start\<close> run the program in it.\<close>

definition tracee_elf :: tracee where
  "tracee_elf = tracee0\<lparr>tr_files := (\<lambda>path. if path = ''a.out'' then Some sample_elf else None)\<rparr>"

lemma load_elf:
  "\<exists>u. sdb_step sample False ''load a.out'' (new_session tracee_elf) = Inr u \<and> state u = LOADED \<and> bptab u = [] \<and>
     kern u = tracee_elf \<and> text_begin u = 0x401000"
proof -
  have "open_read sample tracee_elf ''a.out'' = Some sample_elf"
    by (simp add: sample_simps tracee_elf_def)
  then have "load sample [''load'', ''a.out''] (new_session tracee_elf) = Inr u \<Longrightarrow>
      state u = LOADED \<and> bptab u = [] \<and> kern u = tracee_elf \<and> text_begin u = 0x401000" for u
    using elf64_parser_wf [OF sample_elf_wf] sample_elf_text
    by (auto simp: load_def new_session_def init_debugger_def debugger.extend_def c_str_def text_range_def say_def
        sample_elf_sections sh_addr_def le_field_def Let_def)
  moreover obtain u where "load sample [''load'', ''a.out''] (new_session tracee_elf) = Inr u"
    using load_wf [of sample tracee_elf "''a.out''" sample_elf, OF _ sample_elf_wf sample_elf_text]
      \<open>open_read sample tracee_elf ''a.out'' = Some sample_elf\<close> by (auto simp: c_str_def)
  ultimately show ?thesis
    using exec_load [of "''a.out''" sample "new_session tracee_elf"] by (auto simp: sdb_step_def)
qed

lemma start_elf:
  "\<exists>t. foldE (sdb_step sample False) [''load a.out'', ''start''] (new_session tracee_elf) = Inr t \<and> state t = RUNNING"
proof -
  from load_elf obtain u where u: "sdb_step sample False ''load a.out'' (new_session tracee_elf) = Inr u"
    and st: "state u = LOADED" "bptab u = []" "kern u = tracee_elf" by blast
  have "\<exists>t. sdb_step sample False ''start'' u = Inr t \<and> state t = RUNNING"
    using st
    by (simp add: sdb_step_def exec_line_def dbgcmd_parser_eq command_words_def dispatch_def start_def
        start_parent_def sample_simps tracee_elf_def reput_all_breakpoints_from_def WIFSTOPPED_def
        check_hit_break_point_or_not_def include_addr_def include_idx_def dict_addr2idx_def say_def Let_def)
  with u show ?thesis by auto
qed

lemma running_was_loaded_and_started_witness:
  "\<exists>before cmd after. map first_word [''load a.out'', ''start''] = before @ cmd # after \<and>
     cmd \<in> {''start'', ''run'', ''r''} \<and> ''load'' \<in> set before"
proof -
  from start_elf obtain t where
    "foldE (sdb_step sample False) [''load a.out'', ''start''] (new_session tracee_elf) = Inr t" and "state t = RUNNING"
    by blast
  then show ?thesis by (rule running_was_loaded_and_started)
qed

lemma session_stays_in_elf_text_witness:
  "\<exists>t. foldE (sdb_step sample False) [''load a.out'', ''start''] (new_session tracee_elf) = Inr t \<and>
     state t \<noteq> NOLOAD \<and> text_begin t = 0x401000 \<and> text_end t = 0x40100f"
proof -
  from start_elf obtain t where
    t: "foldE (sdb_step sample False) ((''load '' @ ''a.out'') # [''start'']) (new_session tracee_elf) = Inr t"
    by auto
  have "open_read sample tracee_elf (c_str ''a.out'') = Some sample_elf"
    by (simp add: sample_simps tracee_elf_def c_str_def)
  from session_stays_in_elf_text [OF _ _ this sample_elf_wf sample_elf_text t]
  show ?thesis using t by (auto simp: sample_elf_sections sh_addr_def sh_size_def le_field_def)
qed

section \<open>The program argument\<close>

lemma getlines_line: "CHR 0x0A \<notin> set l \<Longrightarrow> getlines (l @ nl @ rest) = l # getlines rest"
proof -
  assume "CHR 0x0A \<notin> set l"
  then have "takeWhile (\<lambda>c. c \<noteq> CHR 0x0A) (l @ nl @ rest) = l"
    "dropWhile (\<lambda>c. c \<noteq> CHR 0x0A) (l @ nl @ rest) = nl @ rest"
    by (induction l) auto
  then show ?thesis by (subst getlines.simps) simp
qed

lemma c_str_plain: "NUL \<notin> set s \<Longrightarrow> c_str s = s"
  by (auto simp: c_str_def takeWhile_eq_all_conv)

text \<open>
  C22: A program named on the command line is the same as a \<open>load\<close> line in front of the script: for a
  path without blanks, newlines and NULs, \<open>main\<close> with a script and the program runs exactly as with
  the script that has this line before the others and no program, with the same result, the same
  session and the same output.
\<close>

theorem program_argument_is_load_line:
  assumes "path \<noteq> []" and "set path \<inter> {CHR 0x20, CHR 0x0A, NUL} = {}" and "f \<noteq> []" and "g \<noteq> []"
    and "open_read P k (c_str f) = Some script" and "open_read P k (c_str g) = Some script'"
    and "map byte_char script' = (''load '' @ path) @ nl @ map byte_char script"
  shows "sdb_main P [(CHR ''s'', f)] [path] input k = sdb_main P [(CHR ''s'', g)] [] input' k"
proof -
  have blank: "CHR 0x20 \<notin> set path" using assms(2) by auto
  have "NUL \<notin> set (''load '' @ path)" "CHR 0x0A \<notin> set (''load '' @ path)" using assms(2) by auto
  note lines = c_str_plain [OF this(1)] getlines_line [OF this(2), of "map byte_char script"]
  have "sdb_step P False (''load '' @ path) s = load P [''load'', path] s" for s
    unfolding sdb_step_def exec_load [OF assms(1) blank] by (cases "load P [''load'', path] s") simp_all
  then show ?thesis
    unfolding sdb_main_def arg_parser_def
    using assms(1,3,4,5,6,7) lines words_load [OF assms(1) blank]
    by (simp del: append.simps(2))
qed

definition tracee_scripts :: tracee where
  "tracee_scripts = tracee0\<lparr>tr_files := (\<lambda>path.
     if path = ''a.out'' then Some sample_elf
     else if path = ''s'' then Some (map char_byte (''start'' @ nl))
     else if path = ''t'' then Some (map char_byte (''load a.out'' @ nl @ ''start'' @ nl)) else None)\<rparr>"

lemma program_argument_is_load_line_witness:
  "sdb_main sample [(CHR ''s'', ''s'')] [''a.out''] [] tracee_scripts =
   sdb_main sample [(CHR ''s'', ''t'')] [] [] tracee_scripts"
proof (rule program_argument_is_load_line)
  show "open_read sample tracee_scripts (c_str ''s'') = Some (map char_byte (''start'' @ nl))"
    "open_read sample tracee_scripts (c_str ''t'') = Some (map char_byte (''load a.out'' @ nl @ ''start'' @ nl))"
    by (simp_all add: sample_simps tracee_scripts_def c_str_def)
qed (simp_all add: comp_def)

end
