(* ===== verification/Logger.thy ===== *)
theory Logger
  imports CText Platform
begin

text \<open>
  hw2: the library call logger. utils.hpp and inject_glibc.cpp as functions over a \<open>logging\<close>
  state (what the program and the kernel hold, errno, and the lines written so far with the
  descriptor they went to), hw2.cpp as the launcher. The C library the wrappers call into is
  the record \<open>libc\<close>: an original function maps the state to its result, the errno it sets if it
  sets one, and the next state; the queries (\<open>realpath\<close>, \<open>readlink\<close>, \<open>stat\<close>, \<open>fileno\<close>) do not change
  the state and give \<open>Inl\<close> of an errno when they fail.
\<close>

section \<open>State\<close>

type_synonym ('k, 'r) origin = "'k \<Rightarrow> 'r \<times> int option \<times> 'k"

text \<open>
  An argument of a function the logger does not wrap (\<open>o_other\<close>). \<open>o_store\<close> is the program's own write
  of a byte to its memory.
\<close>

datatype carg = Str string | Num u64

record 'k libc =
  dl_open :: "'k \<Rightarrow> bool"
  dl_sym :: "'k \<Rightarrow> string \<Rightarrow> bool"
  c_getenv :: "'k \<Rightarrow> string \<Rightarrow> string option"
  c_getpid :: "'k \<Rightarrow> int"
  c_realpath :: "'k \<Rightarrow> string \<Rightarrow> int + string"
  c_readlink :: "'k \<Rightarrow> string \<Rightarrow> int + string"
  c_stat :: "'k \<Rightarrow> string \<Rightarrow> int + u32"
  c_fileno :: "'k \<Rightarrow> u64 \<Rightarrow> int + int"
  c_mem :: "'k \<Rightarrow> u64 \<Rightarrow> u8 option"
  c_dprintf :: "'k \<Rightarrow> int \<Rightarrow> int option"
  o_chmod :: "string \<Rightarrow> u32 \<Rightarrow> ('k, int) origin"
  o_chown :: "string \<Rightarrow> u32 \<Rightarrow> u32 \<Rightarrow> ('k, int) origin"
  o_close :: "int \<Rightarrow> ('k, int) origin"
  o_creat :: "string \<Rightarrow> u32 \<Rightarrow> ('k, int) origin"
  o_fclose :: "u64 \<Rightarrow> ('k, int) origin"
  o_fopen :: "string \<Rightarrow> string \<Rightarrow> ('k, u64) origin"
  o_fread :: "u64 \<Rightarrow> u64 \<Rightarrow> u64 \<Rightarrow> u64 \<Rightarrow> ('k, u64) origin"
  o_fwrite :: "u64 \<Rightarrow> u64 \<Rightarrow> u64 \<Rightarrow> u64 \<Rightarrow> ('k, u64) origin"
  o_open :: "string \<Rightarrow> u32 \<Rightarrow> u32 option \<Rightarrow> ('k, int) origin"
  o_read :: "int \<Rightarrow> u64 \<Rightarrow> u64 \<Rightarrow> ('k, u64) origin"
  o_write :: "int \<Rightarrow> u64 \<Rightarrow> u64 \<Rightarrow> ('k, u64) origin"
  o_remove :: "string \<Rightarrow> ('k, int) origin"
  o_rename :: "string \<Rightarrow> string \<Rightarrow> ('k, int) origin"
  o_tmpfile :: "('k, u64) origin"
  o_other :: "string \<Rightarrow> carg list \<Rightarrow> ('k, u64) origin"
  o_store :: "u64 \<Rightarrow> u8 \<Rightarrow> ('k, u64) origin"

record 'k logging =
  lib :: 'k
  lerrno :: int
  llog :: "(int \<times> string) list"

text \<open>A call that may end the process, in the state it leaves.\<close>

type_synonym ('k, 'r) lcall = "'k logging \<Rightarrow> (halt \<times> 'k logging) + ('r \<times> 'k logging)"

definition return :: "'r \<Rightarrow> ('k, 'r) lcall" where
  "return r s = Inr (r, s)"

definition bindL :: "('k, 'a) lcall \<Rightarrow> ('a \<Rightarrow> ('k, 'r) lcall) \<Rightarrow> ('k, 'r) lcall" where
  "bindL m f s = bindE (m s) (\<lambda>(x, s). f x s)"

section \<open>utils.hpp\<close>

text \<open>Whether \<open>dlopen\<close> and \<open>dlsym\<close> find the function; otherwise the pointer is NULL.\<close>

definition get_origin_func :: "'k libc \<Rightarrow> 'k \<Rightarrow> string \<Rightarrow> bool" where
  "get_origin_func L k func_name = (if \<not> dl_open L k then False else dl_sym L k func_name)"

definition call_origin :: "'k libc \<Rightarrow> string \<Rightarrow> ('k, 'r) origin \<Rightarrow> ('k, 'r) lcall" where
  "call_origin L func_name f s =
     (if get_origin_func L (lib s) func_name then
        (let (r, e, k) = f (lib s)
         in Inr (r, s\<lparr>lib := k, lerrno := (case e of None \<Rightarrow> lerrno s | Some e \<Rightarrow> e)\<rparr>))
      else Inl (NullPointer, s))"

text \<open>A query that sets errno when it fails.\<close>

definition ask :: "(int + 'a) \<Rightarrow> ('a option \<Rightarrow> ('k, 'r) lcall) \<Rightarrow> ('k, 'r) lcall" where
  "ask q f s = (case q of Inl e \<Rightarrow> f None (s\<lparr>lerrno := e\<rparr>) | Inr x \<Rightarrow> f (Some x) s)"

text \<open>
  \<open>get_buffer\<close>: at most 32 rounds, stopped by \<open>i >= len\<close> with \<open>len\<close> a \<open>size_t\<close>; reading a byte
  outside any object is \<open>OutOfBounds\<close>.
\<close>

fun get_buffer_from :: "(u64 \<Rightarrow> u8 option) \<Rightarrow> u64 \<Rightarrow> u64 \<Rightarrow> nat \<Rightarrow> nat \<Rightarrow> halt + string" where
  "get_buffer_from mem bf_ptr len i 0 = Inr []"
| "get_buffer_from mem bf_ptr len i (Suc n) =
     (if of_nat i \<ge> len then Inr []
      else case mem (bf_ptr + of_nat i) of
        None \<Rightarrow> Inl OutOfBounds
      | Some b \<Rightarrow> bindE (get_buffer_from mem bf_ptr len (Suc i) n)
                   (\<lambda>msg. Inr ((if \<not> isprint b then CHR ''.'' else byte_char b) # msg)))"

definition get_buffer :: "'k libc \<Rightarrow> u64 \<Rightarrow> u64 \<Rightarrow> ('k, string) lcall" where
  "get_buffer L bf_ptr len s =
     (case get_buffer_from (c_mem L (lib s)) bf_ptr len 0 32 of
        Inl h \<Rightarrow> Inl (h, s)
      | Inr msg \<Rightarrow> Inr (msg, s))"

text \<open>\<open>realpath\<close> fills a buffer of 1024 characters.\<close>

definition abs_path_name :: "'k libc \<Rightarrow> string \<Rightarrow> ('k, string) lcall" where
  "abs_path_name L file_name s =
     ask (c_realpath L (lib s) file_name) (\<lambda>r.
       case r of
         None \<Rightarrow> return ''(null)''
       | Some p \<Rightarrow> if length p \<ge> 1024 then (\<lambda>s. Inl (OutOfBounds, s)) else return p) s"

definition S_IFMT :: u32 where "S_IFMT = 0xF000"
definition S_IFDIR :: u32 where "S_IFDIR = 0x4000"
definition S_IFREG :: u32 where "S_IFREG = 0x8000"

definition fd_link :: "int \<Rightarrow> int \<Rightarrow> string" where
  "fd_link p fd = ''/proc/'' @ sdec p @ ''/fd/'' @ sdec fd"

definition abs_path_fd :: "'k libc \<Rightarrow> int \<Rightarrow> ('k, string) lcall" where
  "abs_path_fd L fd s =
     (let link = fd_link (c_getpid L (lib s)) fd in
      ask (c_readlink L (lib s) link) (\<lambda>r.
        case r of
          None \<Rightarrow> return []
        | Some target \<Rightarrow>
            let len = min (length target) 1024 in
            if len \<ge> 1024 then (\<lambda>s. Inl (OutOfBounds, s))
            else
              let file_name = c_str (take len target) in
              (\<lambda>s. ask (c_stat L (lib s) link) (\<lambda>m.
                 case m of
                   None \<Rightarrow> return []
                 | Some mode \<Rightarrow>
                     if mode AND S_IFMT = S_IFDIR \<or> mode AND S_IFMT = S_IFREG
                     then abs_path_name L file_name
                     else return file_name) s)) s)"

definition abs_path_fp :: "'k libc \<Rightarrow> u64 \<Rightarrow> ('k, string) lcall" where
  "abs_path_fp L fp s =
     ask (c_fileno L (lib s) fp) (\<lambda>r. case r of None \<Rightarrow> return [] | Some fd \<Rightarrow> abs_path_fd L fd) s"

section \<open>inject_glibc.cpp\<close>

text \<open>
  \<open>dprintf (atoi (getenv ("OUT_FD")), ...)\<close>, with the formatted line. On a descriptor it cannot
  write to nothing is written and errno is set (\<open>c_dprintf\<close>).
\<close>

definition emit :: "'k libc \<Rightarrow> string \<Rightarrow> ('k, unit) lcall" where
  "emit L line s =
     (case c_getenv L (lib s) ''OUT_FD'' of
        None \<Rightarrow> Inl (NullPointer, s)
      | Some v \<Rightarrow>
          let out_fd = atoi (c_str v) in
          case c_dprintf L (lib s) out_fd of
            None \<Rightarrow> Inr ((), s\<lparr>llog := llog s @ [(out_fd, line)]\<rparr>)
          | Some e \<Rightarrow> Inr ((), s\<lparr>lerrno := e\<rparr>))"

definition in_quotes :: "string \<Rightarrow> string" where
  "in_quotes s = quote @ c_str s @ quote"

definition octal :: "u32 \<Rightarrow> string" where "octal m = oct (unat m)"
definition long_dec :: "u64 \<Rightarrow> string" where "long_dec n = sdec (sint n)"
definition pointer :: "u64 \<Rightarrow> string" where
  "pointer p = (if p = 0 then ''(nil)'' else ''0x'' @ hex (unat p))"

definition log_chmod :: "'k libc \<Rightarrow> string \<Rightarrow> u32 \<Rightarrow> ('k, int) lcall" where
  "log_chmod L path mode =
     bindL (call_origin L ''chmod'' (o_chmod L path mode)) (\<lambda>ret_val.
     bindL (abs_path_name L path) (\<lambda>abs_path.
     bindL (emit L (''[logger] chmod('' @ in_quotes abs_path @ '', '' @ octal mode @ '') = '' @ sdec ret_val @ nl))
       (\<lambda>_. return ret_val)))"

definition log_chown :: "'k libc \<Rightarrow> string \<Rightarrow> u32 \<Rightarrow> u32 \<Rightarrow> ('k, int) lcall" where
  "log_chown L path owner grp =
     bindL (call_origin L ''chown'' (o_chown L path owner grp)) (\<lambda>ret_val.
     bindL (abs_path_name L path) (\<lambda>abs_path.
     bindL (emit L (''[logger] chown('' @ in_quotes abs_path @ '', '' @ sdec (sint owner) @ '', '' @ sdec (sint grp)
                    @ '') = '' @ sdec ret_val @ nl))
       (\<lambda>_. return ret_val)))"

definition log_close :: "'k libc \<Rightarrow> int \<Rightarrow> ('k, int) lcall" where
  "log_close L fd =
     bindL (abs_path_fd L fd) (\<lambda>abs_path.
     bindL (call_origin L ''close'' (o_close L fd)) (\<lambda>ret_val.
     bindL (emit L (''[logger] close('' @ in_quotes abs_path @ '') = '' @ sdec ret_val @ nl))
       (\<lambda>_. return ret_val)))"

definition log_creat :: "'k libc \<Rightarrow> string \<Rightarrow> u32 \<Rightarrow> ('k, int) lcall" where
  "log_creat L path mode =
     bindL (call_origin L ''creat'' (o_creat L path mode)) (\<lambda>ret_val.
     bindL (abs_path_name L path) (\<lambda>abs_path.
     bindL (emit L (''[logger] creat('' @ in_quotes abs_path @ '', '' @ octal mode @ '') = '' @ sdec ret_val @ nl))
       (\<lambda>_. return ret_val)))"

definition log_fclose :: "'k libc \<Rightarrow> u64 \<Rightarrow> ('k, int) lcall" where
  "log_fclose L stream =
     bindL (abs_path_fp L stream) (\<lambda>abs_path.
     bindL (call_origin L ''fclose'' (o_fclose L stream)) (\<lambda>ret_val.
     bindL (emit L (''[logger] fclose('' @ in_quotes abs_path @ '') = '' @ sdec ret_val @ nl))
       (\<lambda>_. return ret_val)))"

definition log_fopen :: "'k libc \<Rightarrow> string \<Rightarrow> string \<Rightarrow> ('k, u64) lcall" where
  "log_fopen L pathname mode =
     bindL (call_origin L ''fopen'' (o_fopen L pathname mode)) (\<lambda>ret_fp.
     bindL (abs_path_name L pathname) (\<lambda>abs_path.
     bindL (emit L (''[logger] fopen('' @ in_quotes abs_path @ '', '' @ in_quotes mode @ '') = '' @ pointer ret_fp @ nl))
       (\<lambda>_. return ret_fp)))"

definition log_fread :: "'k libc \<Rightarrow> u64 \<Rightarrow> u64 \<Rightarrow> u64 \<Rightarrow> u64 \<Rightarrow> ('k, u64) lcall" where
  "log_fread L ptr sz nmemb stream =
     bindL (call_origin L ''fread'' (o_fread L ptr sz nmemb stream)) (\<lambda>ret_val.
     bindL (abs_path_fp L stream) (\<lambda>abs_path.
     bindL (get_buffer L ptr (sz * ret_val)) (\<lambda>msg.
     bindL (emit L (''[logger] fread('' @ in_quotes msg @ '', '' @ long_dec sz @ '', '' @ long_dec nmemb @ '', ''
                    @ in_quotes abs_path @ '') = '' @ long_dec ret_val @ nl))
       (\<lambda>_. return ret_val))))"

definition log_fwrite :: "'k libc \<Rightarrow> u64 \<Rightarrow> u64 \<Rightarrow> u64 \<Rightarrow> u64 \<Rightarrow> ('k, u64) lcall" where
  "log_fwrite L ptr sz nmemb stream =
     bindL (call_origin L ''fwrite'' (o_fwrite L ptr sz nmemb stream)) (\<lambda>ret_val.
     bindL (abs_path_fp L stream) (\<lambda>abs_path.
     bindL (get_buffer L ptr (sz * ret_val)) (\<lambda>msg.
     bindL (emit L (''[logger] fwrite('' @ in_quotes msg @ '', '' @ long_dec sz @ '', '' @ long_dec nmemb @ '', ''
                    @ in_quotes abs_path @ '') = '' @ long_dec ret_val @ nl))
       (\<lambda>_. return ret_val))))"

text \<open>
  \<open>__OPEN_NEEDS_MODE\<close>: \<open>O_CREAT\<close> or all bits of \<open>__O_TMPFILE\<close>. The original is called through a
  pointer with two parameters, so it gets no mode (\<open>None\<close>).
\<close>

definition open_needs_mode :: "u32 \<Rightarrow> bool" where
  "open_needs_mode flags \<longleftrightarrow> flags AND 0x40 \<noteq> 0 \<or> flags AND 0x410000 = 0x410000"

definition log_open :: "'k libc \<Rightarrow> string \<Rightarrow> u32 \<Rightarrow> u32 \<Rightarrow> ('k, int) lcall" where
  "log_open L pathname flags arg =
     (let mode = (if open_needs_mode flags then arg else 0) in
      bindL (call_origin L ''open'' (o_open L pathname flags None)) (\<lambda>ret_val.
      bindL (abs_path_name L pathname) (\<lambda>abs_path.
      bindL (emit L (''[logger] open('' @ in_quotes abs_path @ '', '' @ octal flags @ '', '' @ octal mode @ '') = ''
                     @ sdec ret_val @ nl))
        (\<lambda>_. return ret_val))))"

definition log_read :: "'k libc \<Rightarrow> int \<Rightarrow> u64 \<Rightarrow> u64 \<Rightarrow> ('k, u64) lcall" where
  "log_read L fd buf nbyte =
     bindL (call_origin L ''read'' (o_read L fd buf nbyte)) (\<lambda>ret_val.
     bindL (abs_path_fd L fd) (\<lambda>abs_path.
     bindL (get_buffer L buf ret_val) (\<lambda>msg.
     bindL (emit L (''[logger] read('' @ in_quotes abs_path @ '', '' @ in_quotes msg @ '', '' @ long_dec nbyte @ '') = ''
                    @ long_dec ret_val @ nl))
       (\<lambda>_. return ret_val))))"

definition log_write :: "'k libc \<Rightarrow> int \<Rightarrow> u64 \<Rightarrow> u64 \<Rightarrow> ('k, u64) lcall" where
  "log_write L fd buf nbyte =
     bindL (call_origin L ''write'' (o_write L fd buf nbyte)) (\<lambda>ret_val.
     bindL (abs_path_fd L fd) (\<lambda>abs_path.
     bindL (get_buffer L buf ret_val) (\<lambda>msg.
     bindL (emit L (''[logger] write('' @ in_quotes abs_path @ '', '' @ in_quotes msg @ '', '' @ long_dec nbyte @ '') = ''
                    @ long_dec ret_val @ nl))
       (\<lambda>_. return ret_val))))"

definition log_remove :: "'k libc \<Rightarrow> string \<Rightarrow> ('k, int) lcall" where
  "log_remove L pathname =
     bindL (abs_path_name L pathname) (\<lambda>abs_path.
     bindL (call_origin L ''remove'' (o_remove L pathname)) (\<lambda>ret_val.
     bindL (emit L (''[logger] remove('' @ in_quotes abs_path @ '') = '' @ sdec ret_val @ nl))
       (\<lambda>_. return ret_val)))"

definition log_rename :: "'k libc \<Rightarrow> string \<Rightarrow> string \<Rightarrow> ('k, int) lcall" where
  "log_rename L oldp newp =
     bindL (abs_path_name L oldp) (\<lambda>abs_oldp.
     bindL (call_origin L ''rename'' (o_rename L oldp newp)) (\<lambda>ret_val.
     bindL (abs_path_name L newp) (\<lambda>abs_newp.
     bindL (emit L (''[logger] rename('' @ in_quotes abs_oldp @ '', '' @ in_quotes abs_newp @ '') = ''
                    @ sdec ret_val @ nl))
       (\<lambda>_. return ret_val))))"

definition log_tmpfile :: "'k libc \<Rightarrow> ('k, u64) lcall" where
  "log_tmpfile L =
     bindL (call_origin L ''tmpfile'' (o_tmpfile L)) (\<lambda>ret_ptr.
     bindL (emit L (''[logger] tmpfile() = '' @ pointer ret_ptr @ nl))
       (\<lambda>_. return ret_ptr))"

section \<open>hw2.cpp\<close>

text \<open>
  \<open>main\<close>: the results of \<open>getopt (argc, argv, "o:p:")\<close> and the remaining arguments. \<open>Launch\<close> carries
  the environment set for the command and the arguments of \<open>execvp\<close>.
\<close>

datatype launch =
    Stop_printing string
  | Launch "(string \<times> string) list" "string list"

definition usage :: string where
  "usage = ''usage: ./logger [-o file] [-p sopath] [--] cmd [cmd args ...]'' @ nl
     @ tab @ ''-p: set the path to logger.so, default = ./logger.so'' @ nl
     @ tab @ ''-o: print output to file, print to '' @ quote @ ''stderr'' @ quote @ '' if no file specified'' @ nl
     @ tab @ ''--: separate the arguments for logger and for the command'' @ nl"

fun logger_options :: "(char \<times> string) list \<Rightarrow> string \<times> string \<Rightarrow> (string \<times> string) option" where
  "logger_options [] st = Some st"
| "logger_options ((opt, optarg) # rest) (path_libc, path_out) =
     (if opt = CHR ''o'' then logger_options rest (path_libc, optarg)
      else if opt = CHR ''p'' then logger_options rest (optarg, path_out)
      else None)"

text \<open>\<open>dup (STDERR_FILENO)\<close> and \<open>open\<close> give a descriptor or -1.\<close>

definition logger_main :: "int \<Rightarrow> (string \<Rightarrow> int) \<Rightarrow> (char \<times> string) list \<Rightarrow> string list \<Rightarrow> launch" where
  "logger_main dup_stderr open_trunc opts argv =
     (case logger_options opts (''./logger.so'', ''stderr'') of
        None \<Rightarrow> Stop_printing usage
      | Some (path_libc, path_out) \<Rightarrow>
          if argv = [] then Stop_printing (''no command given.'' @ nl)
          else
            let out_fd = (if path_out = ''stderr'' then dup_stderr else open_trunc path_out)
            in Launch [(''OUT_FD'', sdec out_fd), (''LD_PRELOAD'', path_libc)] argv)"

end
