(* ===== verification/LoggerRuns.thy ===== *)
theory LoggerRuns
  imports Logger
begin

text \<open>
  hw2: programs under the logger. A program is its sequence of library calls, each chosen from the
  results of the earlier ones; it may also call functions the logger does not wrap. The locale \<open>hooks\<close>
  states the contract of an interposed function (it gives the result and the kernel state of the function
  it stands for, and adds only the lines allowed for that call to the log) and derives the contract of a
  run. It is interpreted on the fourteen wrappers of inject_glibc.cpp.
\<close>

section \<open>The calls\<close>

datatype libcall =
    Chmod string u32
  | Chown string u32 u32
  | Close int
  | Creat string u32
  | Fclose u64
  | Fopen string string
  | Fread u64 u64 u64 u64
  | Fwrite u64 u64 u64 u64
  | Open string u32 u32
  | Read int u64 u64
  | Write int u64 u64
  | Remove string
  | Rename string string
  | Tmpfile
  | Unwrapped string "carg list"
  | Store u64 u8

datatype lvalue = Int_value int | Word_value u64

definition origin_value :: "('r \<Rightarrow> lvalue) \<Rightarrow> ('k, 'r) origin \<Rightarrow> ('k, lvalue) origin" where
  "origin_value g f k = (let (r, e, k') = f k in (g r, e, k'))"

definition wrapper_value :: "('r \<Rightarrow> lvalue) \<Rightarrow> ('k, 'r) lcall \<Rightarrow> ('k, lvalue) lcall" where
  "wrapper_value g m = bindL m (\<lambda>r. return (g r))"

text \<open>What the C library does on a call when nothing is preloaded.\<close>

fun original :: "'k libc \<Rightarrow> libcall \<Rightarrow> ('k, lvalue) origin" where
  "original L (Chmod p m) = origin_value Int_value (o_chmod L p m)"
| "original L (Chown p u g) = origin_value Int_value (o_chown L p u g)"
| "original L (Close fd) = origin_value Int_value (o_close L fd)"
| "original L (Creat p m) = origin_value Int_value (o_creat L p m)"
| "original L (Fclose fp) = origin_value Int_value (o_fclose L fp)"
| "original L (Fopen p m) = origin_value Word_value (o_fopen L p m)"
| "original L (Fread b z n fp) = origin_value Word_value (o_fread L b z n fp)"
| "original L (Fwrite b z n fp) = origin_value Word_value (o_fwrite L b z n fp)"
| "original L (Open p f m) =
     origin_value Int_value (o_open L p f (if open_needs_mode f then Some m else None))"
| "original L (Read fd b n) = origin_value Word_value (o_read L fd b n)"
| "original L (Write fd b n) = origin_value Word_value (o_write L fd b n)"
| "original L (Remove p) = origin_value Int_value (o_remove L p)"
| "original L (Rename p q) = origin_value Int_value (o_rename L p q)"
| "original L Tmpfile = origin_value Word_value (o_tmpfile L)"
| "original L (Unwrapped f args) = origin_value Word_value (o_other L f args)"
| "original L (Store a b) = origin_value Word_value (o_store L a b)"

text \<open>A call that reaches the C library itself.\<close>

definition direct :: "('k, 'r) origin \<Rightarrow> ('k, 'r) lcall" where
  "direct f s =
     (let (r, e, k) = f (lib s)
      in Inr (r, s\<lparr>lib := k, lerrno := (case e of None \<Rightarrow> lerrno s | Some e \<Rightarrow> e)\<rparr>))"

text \<open>The same call with the logger preloaded.\<close>

fun logged :: "'k libc \<Rightarrow> libcall \<Rightarrow> ('k, lvalue) lcall" where
  "logged L (Chmod p m) = wrapper_value Int_value (log_chmod L p m)"
| "logged L (Chown p u g) = wrapper_value Int_value (log_chown L p u g)"
| "logged L (Close fd) = wrapper_value Int_value (log_close L fd)"
| "logged L (Creat p m) = wrapper_value Int_value (log_creat L p m)"
| "logged L (Fclose fp) = wrapper_value Int_value (log_fclose L fp)"
| "logged L (Fopen p m) = wrapper_value Word_value (log_fopen L p m)"
| "logged L (Fread b z n fp) = wrapper_value Word_value (log_fread L b z n fp)"
| "logged L (Fwrite b z n fp) = wrapper_value Word_value (log_fwrite L b z n fp)"
| "logged L (Open p f m) = wrapper_value Int_value (log_open L p f m)"
| "logged L (Read fd b n) = wrapper_value Word_value (log_read L fd b n)"
| "logged L (Write fd b n) = wrapper_value Word_value (log_write L fd b n)"
| "logged L (Remove p) = wrapper_value Int_value (log_remove L p)"
| "logged L (Rename p q) = wrapper_value Int_value (log_rename L p q)"
| "logged L Tmpfile = wrapper_value Word_value (log_tmpfile L)"
| "logged L (Unwrapped f args) = wrapper_value Word_value (direct (o_other L f args))"
| "logged L (Store a b) = wrapper_value Word_value (direct (o_store L a b))"

text \<open>The name a call is logged under.\<close>

fun call_label :: "libcall \<Rightarrow> string option" where
  "call_label (Chmod _ _) = Some ''chmod''"
| "call_label (Chown _ _ _) = Some ''chown''"
| "call_label (Close _) = Some ''close''"
| "call_label (Creat _ _) = Some ''creat''"
| "call_label (Fclose _) = Some ''fclose''"
| "call_label (Fopen _ _) = Some ''fopen''"
| "call_label (Fread _ _ _ _) = Some ''fread''"
| "call_label (Fwrite _ _ _ _) = Some ''fwrite''"
| "call_label (Open _ _ _) = Some ''open''"
| "call_label (Read _ _ _) = Some ''read''"
| "call_label (Write _ _ _) = Some ''write''"
| "call_label (Remove _) = Some ''remove''"
| "call_label (Rename _ _) = Some ''rename''"
| "call_label Tmpfile = Some ''tmpfile''"
| "call_label (Unwrapped _ _) = None"
| "call_label (Store _ _) = None"

text \<open>
  What a call may add to the log: nothing if it is not wrapped, otherwise one line that starts with
  its name, which is lost only when the descriptor cannot be written to.
\<close>

definition writable_log :: "'k libc \<Rightarrow> bool" where
  "writable_log L \<longleftrightarrow> (\<forall>k fd. c_dprintf L k fd = None)"

definition tagged :: "string \<Rightarrow> string \<Rightarrow> bool" where
  "tagged nm line \<longleftrightarrow> take (length nm + 10) line = ''[logger] '' @ nm @ ''(''"

fun one_line :: "'k libc \<Rightarrow> string \<Rightarrow> (int \<times> string) list \<Rightarrow> bool" where
  "one_line L nm [] \<longleftrightarrow> \<not> writable_log L"
| "one_line L nm [(fd, line)] \<longleftrightarrow> tagged nm line"
| "one_line L nm (_ # _ # _) \<longleftrightarrow> False"

definition logs_call :: "'k libc \<Rightarrow> libcall \<Rightarrow> (int \<times> string) list \<Rightarrow> bool" where
  "logs_call L c = (case call_label c of None \<Rightarrow> (\<lambda>ls. ls = []) | Some nm \<Rightarrow> one_line L nm)"

text \<open>The library whose \<open>open\<close> never gets a mode.\<close>

definition without_mode :: "'k libc \<Rightarrow> 'k libc" where
  "without_mode L = L\<lparr>o_open := \<lambda>p f m. o_open L p f None\<rparr>"

section \<open>Programs\<close>

type_synonym ('c, 'r) program = "'r list \<Rightarrow> 'c option"

fun run_plain :: "('c \<Rightarrow> ('k, 'r) origin) \<Rightarrow> ('c, 'r) program \<Rightarrow> nat \<Rightarrow> 'r list \<Rightarrow> 'k \<Rightarrow> 'r list \<times> 'k" where
  "run_plain f P 0 vs k = (vs, k)"
| "run_plain f P (Suc n) vs k =
     (case P vs of
        None \<Rightarrow> (vs, k)
      | Some c \<Rightarrow> let (r, e, k') = f c k in run_plain f P n (vs @ [r]) k')"

fun run_hooked ::
  "('c \<Rightarrow> ('k, 'r) lcall) \<Rightarrow> ('c, 'r) program \<Rightarrow> nat \<Rightarrow> 'r list \<Rightarrow> ('k, 'r list) lcall" where
  "run_hooked w P 0 vs s = Inr (vs, s)"
| "run_hooked w P (Suc n) vs s =
     (case P vs of
        None \<Rightarrow> Inr (vs, s)
      | Some c \<Rightarrow> bindL (w c) (\<lambda>r. run_hooked w P n (vs @ [r])) s)"

text \<open>The calls behind the results of a run.\<close>

definition calls_made :: "('c, 'r) program \<Rightarrow> 'r list \<Rightarrow> 'c list" where
  "calls_made P vs = map (\<lambda>i. the (P (take i vs))) [0..<length vs]"

lemma run_hooked_extends:
  "run_hooked w P n vs s = Inr (vs', t) \<Longrightarrow> \<exists>us. vs' = vs @ us"
proof (induction n arbitrary: vs s)
  case (Suc n)
  show ?case
  proof (cases "P vs")
    case (Some c)
    with Suc.prems obtain r s1 where "run_hooked w P n (vs @ [r]) s1 = Inr (vs', t)"
      by (auto simp: bindL_def bindE_def split: sum.splits)
    from Suc.IH [OF this] show ?thesis by auto
  qed (use Suc.prems in simp)
qed simp

text \<open>Every result of a run answers a call.\<close>

lemma run_hooked_asked:
  "run_hooked w P n vs s = Inr (vs', t) \<Longrightarrow> length vs \<le> i \<Longrightarrow> i < length vs' \<Longrightarrow>
   P (take i vs') \<noteq> None"
proof (induction n arbitrary: vs s)
  case (Suc n)
  show ?case
  proof (cases "P vs")
    case (Some c)
    with Suc.prems(1) obtain r s1 where rest: "run_hooked w P n (vs @ [r]) s1 = Inr (vs', t)"
      by (auto simp: bindL_def bindE_def split: sum.splits)
    from run_hooked_extends [OF rest] have "take (length vs) vs' = vs" by auto
    then show ?thesis
      using Some Suc.IH [OF rest] Suc.prems(2,3) by (cases "length vs = i") auto
  qed (use Suc.prems in simp)
qed simp

section \<open>The contract of an interposed function\<close>

locale hooks =
  fixes origin :: "'c \<Rightarrow> ('k, 'r) origin"
    and wrapper :: "'c \<Rightarrow> ('k, 'r) lcall"
    and allowed :: "'c \<Rightarrow> (int \<times> string) list \<Rightarrow> bool"
  assumes transparent: "wrapper c s = Inr (r, t) \<Longrightarrow> \<exists>e. origin c (lib s) = (r, e, lib t)"
    and adds_lines: "wrapper c s = Inr (r, t) \<Longrightarrow> \<exists>ls. llog t = llog s @ ls \<and> allowed c ls"
begin

lemma run_step:
  assumes "run_hooked wrapper P (Suc n) vs s = Inr (vs', t)" and "P vs = Some c"
  obtains r e s1 where "wrapper c s = Inr (r, s1)" and "origin c (lib s) = (r, e, lib s1)"
    and "run_hooked wrapper P n (vs @ [r]) s1 = Inr (vs', t)"
proof -
  from assms obtain r s1 where w: "wrapper c s = Inr (r, s1)"
    and rest: "run_hooked wrapper P n (vs @ [r]) s1 = Inr (vs', t)"
    by (auto simp: bindL_def bindE_def split: sum.splits)
  with transparent [OF w] that show thesis by blast
qed

lemma run_transparent:
  "run_hooked wrapper P n vs s = Inr (vs', t) \<Longrightarrow> run_plain origin P n vs (lib s) = (vs', lib t)"
proof (induction n arbitrary: vs s)
  case (Suc n)
  show ?case
  proof (cases "P vs")
    case (Some c)
    from run_step [OF Suc.prems Some] obtain r e s1
      where w: "wrapper c s = Inr (r, s1)" and "origin c (lib s) = (r, e, lib s1)"
        and "run_hooked wrapper P n (vs @ [r]) s1 = Inr (vs', t)" .
    then show ?thesis using Some Suc.IH [of "vs @ [r]" s1] by simp
  qed (use Suc.prems in simp)
qed simp

lemma run_lines_from:
  "run_hooked wrapper P n vs s = Inr (vs', t) \<Longrightarrow>
   \<exists>lss. llog t = llog s @ concat lss \<and> take (length vs) vs' = vs \<and> length vs \<le> length vs' \<and>
     list_all2 allowed (map (\<lambda>i. the (P (take i vs'))) [length vs..<length vs']) lss"
proof (induction n arbitrary: vs s)
  case (Suc n)
  show ?case
  proof (cases "P vs")
    case (Some c)
    from run_step [OF Suc.prems Some] obtain r e s1
      where w: "wrapper c s = Inr (r, s1)" and rest: "run_hooked wrapper P n (vs @ [r]) s1 = Inr (vs', t)" .
    from adds_lines [OF w] obtain l where l: "llog s1 = llog s @ l" "allowed c l" by blast
    from Suc.IH [OF rest] obtain lss where lss: "llog t = llog s1 @ concat lss"
      and pre: "take (Suc (length vs)) vs' = vs @ [r]" "Suc (length vs) \<le> length vs'"
      and all: "list_all2 allowed (map (\<lambda>i. the (P (take i vs'))) [Suc (length vs)..<length vs']) lss" by auto
    have vs: "take (length vs) vs' = vs"
      using pre(1) by (metis append_take_drop_id butlast_snoc butlast_take diff_Suc_1 pre(2))
    then have "map (\<lambda>i. the (P (take i vs'))) [length vs..<length vs']
        = c # map (\<lambda>i. the (P (take i vs'))) [Suc (length vs)..<length vs']"
      using pre(2) Some by (simp add: upt_conv_Cons)
    then show ?thesis
      using l lss all vs pre(2) by (intro exI [of _ "l # lss"]) simp
  qed (use Suc.prems in simp)
qed simp

lemma run_lines:
  assumes "run_hooked wrapper P n [] s = Inr (vs, t)"
  shows "\<exists>lss. llog t = llog s @ concat lss \<and> list_all2 allowed (calls_made P vs) lss"
  using run_lines_from [OF assms] by (simp add: calls_made_def)

end

section \<open>The wrappers as compositions\<close>

text \<open>
  \<open>quiet\<close>: a step that leaves the kernel and the log alone. \<open>reports r\<close>: the end of a wrapper, which
  writes its line and returns \<open>r\<close>. \<open>hooked f\<close>: the whole wrapper of \<open>f\<close>. \<open>D\<close> says what is added to the log.
\<close>

definition quiet :: "('k, 'a) lcall \<Rightarrow> bool" where
  "quiet m \<longleftrightarrow> (\<forall>s x t. m s = Inr (x, t) \<longrightarrow> lib t = lib s \<and> llog t = llog s)"

definition reports :: "((int \<times> string) list \<Rightarrow> bool) \<Rightarrow> 'r \<Rightarrow> ('k, 'r) lcall \<Rightarrow> bool" where
  "reports D r m \<longleftrightarrow>
     (\<forall>s x t. m s = Inr (x, t) \<longrightarrow>
        x = r \<and> lib t = lib s \<and> (\<exists>ls. llog t = llog s @ ls \<and> D ls))"

definition hooked :: "((int \<times> string) list \<Rightarrow> bool) \<Rightarrow> ('k, 'r) origin \<Rightarrow> ('k, 'r) lcall \<Rightarrow> bool" where
  "hooked D f m \<longleftrightarrow>
     (\<forall>s x t. m s = Inr (x, t) \<longrightarrow>
        (\<exists>e. f (lib s) = (x, e, lib t)) \<and> (\<exists>ls. llog t = llog s @ ls \<and> D ls))"

named_theorems hook_intros

lemma bindL_cases:
  assumes "bindL m f s = Inr (y, u)"
  obtains x t where "m s = Inr (x, t)" and "f x t = Inr (y, u)"
  using assms by (auto simp: bindL_def bindE_def split: sum.splits)

lemma quiet_return [hook_intros]: "quiet (return x)"
  by (simp add: quiet_def return_def)

lemma quiet_halts [hook_intros]: "quiet (\<lambda>s. Inl (h, s))"
  by (simp add: quiet_def)

lemma quiet_ask [hook_intros]:
  assumes "\<And>s r. quiet (f s r)"
  shows "quiet (\<lambda>s. ask (q s) (f s) s)"
  unfolding quiet_def
proof (intro allI impI)
  fix s x t assume "ask (q s) (f s) s = Inr (x, t)"
  then obtain r u where "f s r u = Inr (x, t)" and "lib u = lib s" and "llog u = llog s"
    by (cases "q s") (auto simp: ask_def)
  with assms [of s r] show "lib t = lib s \<and> llog t = llog s"
    unfolding quiet_def by metis
qed

lemma quiet_option [hook_intros]:
  "quiet n \<Longrightarrow> (\<And>x. quiet (f x)) \<Longrightarrow> quiet (case r of None \<Rightarrow> n | Some x \<Rightarrow> f x)"
  by (cases r) simp_all

lemma quiet_if [hook_intros]: "quiet m \<Longrightarrow> quiet n \<Longrightarrow> quiet (if b then m else n)"
  by simp

lemma quiet_get_buffer [hook_intros]: "quiet (get_buffer L p n)"
  by (auto simp: quiet_def get_buffer_def split: sum.splits)

lemma quiet_abs_path_name [hook_intros]: "quiet (abs_path_name L p)"
  unfolding abs_path_name_def [abs_def] by (intro hook_intros)

lemma quiet_abs_path_fd [hook_intros]: "quiet (abs_path_fd L fd)"
  unfolding abs_path_fd_def [abs_def] Let_def by (intro hook_intros)

lemma quiet_abs_path_fp [hook_intros]: "quiet (abs_path_fp L fp)"
  unfolding abs_path_fp_def [abs_def] by (intro hook_intros)

lemma reports_emit [hook_intros]:
  assumes "tagged nm line"
  shows "reports (one_line L nm) r (bindL (emit L line) (\<lambda>_. return r))"
  unfolding reports_def
proof (intro allI impI)
  fix s x t assume "bindL (emit L line) (\<lambda>_. return r) s = Inr (x, t)"
  then obtain u where e: "emit L line s = Inr ((), u)" and x: "x = r" and t: "t = u"
    by (auto simp: return_def elim!: bindL_cases)
  from e obtain v where v: "c_getenv L (lib s) ''OUT_FD'' = Some v"
    by (cases "c_getenv L (lib s) ''OUT_FD''") (simp_all add: emit_def)
  show "x = r \<and> lib t = lib s \<and> (\<exists>ls. llog t = llog s @ ls \<and> one_line L nm ls)"
  proof (cases "c_dprintf L (lib s) (atoi (c_str v))")
    case None
    with e v have "u = s\<lparr>llog := llog s @ [(atoi (c_str v), line)]\<rparr>" by (simp add: emit_def Let_def)
    then show ?thesis using x t assms by (intro conjI exI [of _ "[(atoi (c_str v), line)]"]) simp_all
  next
    case (Some er)
    with e v have "u = s\<lparr>lerrno := er\<rparr>" by (simp add: emit_def Let_def)
    moreover have "\<not> writable_log L" using Some by (auto simp: writable_log_def)
    ultimately show ?thesis using x t by (intro conjI exI [of _ "[]"]) simp_all
  qed
qed

lemma reports_after [hook_intros]:
  assumes "quiet m" and "\<And>x. reports D r (f x)"
  shows "reports D r (bindL m f)"
  unfolding reports_def
proof (intro allI impI)
  fix s x t assume "bindL m f s = Inr (x, t)"
  then obtain y u where "m s = Inr (y, u)" and "f y u = Inr (x, t)" by (rule bindL_cases)
  with assms show "x = r \<and> lib t = lib s \<and> (\<exists>ls. llog t = llog s @ ls \<and> D ls)"
    unfolding quiet_def reports_def by metis
qed

lemma hooked_call [hook_intros]:
  assumes "\<And>r. reports D r (g r)"
  shows "hooked D f (bindL (call_origin L nm f) g)"
  unfolding hooked_def
proof (intro allI impI)
  fix s x t assume "bindL (call_origin L nm f) g s = Inr (x, t)"
  then obtain r u where c: "call_origin L nm f s = Inr (r, u)" and g: "g r u = Inr (x, t)"
    by (rule bindL_cases)
  from c obtain e where "f (lib s) = (r, e, lib u)" and "llog u = llog s"
    by (auto simp: call_origin_def split: if_splits prod.splits)
  with g assms [of r]
  show "(\<exists>e. f (lib s) = (x, e, lib t)) \<and> (\<exists>ls. llog t = llog s @ ls \<and> D ls)"
    unfolding reports_def by metis
qed

lemma hooked_after [hook_intros]:
  assumes "quiet m" and "\<And>x. hooked D f (g x)"
  shows "hooked D f (bindL m g)"
  unfolding hooked_def
proof (intro allI impI)
  fix s x t assume "bindL m g s = Inr (x, t)"
  then obtain y u where "m s = Inr (y, u)" and "g y u = Inr (x, t)" by (rule bindL_cases)
  with assms show "(\<exists>e. f (lib s) = (x, e, lib t)) \<and> (\<exists>ls. llog t = llog s @ ls \<and> D ls)"
    unfolding quiet_def hooked_def by metis
qed

lemma hooked_direct: "D [] \<Longrightarrow> hooked D f (direct f)"
  by (auto simp: hooked_def direct_def split: prod.splits)

lemma hooked_value:
  assumes "hooked D f m"
  shows "hooked D (origin_value g f) (wrapper_value g m)"
  unfolding hooked_def
proof (intro allI impI)
  fix s x t assume "wrapper_value g m s = Inr (x, t)"
  then obtain r where "m s = Inr (r, t)" and "x = g r"
    by (auto simp: wrapper_value_def return_def elim!: bindL_cases)
  with assms show "(\<exists>e. origin_value g f (lib s) = (x, e, lib t)) \<and>
      (\<exists>ls. llog t = llog s @ ls \<and> D ls)"
    unfolding hooked_def origin_value_def by fastforce
qed

lemmas wrapper_defs =
  log_chmod_def log_chown_def log_close_def log_creat_def log_fclose_def log_fopen_def log_fread_def
  log_fwrite_def log_open_def log_read_def log_write_def log_remove_def log_rename_def log_tmpfile_def

text \<open>Each of the fourteen wrappers has that shape.\<close>

lemma hooked_logged: "hooked (logs_call L c) (original (without_mode L) c) (logged L c)"
  by (cases c)
    (auto intro!: hooked_value hooked_direct hook_intros
       simp: without_mode_def wrapper_defs logs_call_def tagged_def Let_def)

interpretation injected: hooks "original (without_mode L)" "logged L" "logs_call L" for L
  by unfold_locales (use hooked_logged in \<open>unfold hooked_def, blast\<close>)+

end
