(* ===== verification/LoggerClaims.thy ===== *)
theory LoggerClaims
  imports LoggerRuns
begin

text \<open>
  hw2: what the logger guarantees to the program it is preloaded into, and what its lines show. The
  contract of a run is the one of \<open>hooks\<close>; \<open>usable_library\<close> says when every wrapper returns.
\<close>

section \<open>Lines and returns\<close>

text \<open>The character \<open>get_buffer\<close> puts for a byte.\<close>

definition shown :: "u8 \<Rightarrow> char" where
  "shown b = (if \<not> isprint b then CHR ''.'' else byte_char b)"

lemma get_buffer_from_bytes:
  "i + n < 2 ^ 64 \<Longrightarrow>
   (\<And>j. i \<le> j \<Longrightarrow> j < min (i + n) (unat len) \<Longrightarrow> mem (p + of_nat j) = Some (b j)) \<Longrightarrow>
   get_buffer_from mem p len i n = Inr (map (\<lambda>j. shown (b j)) [i..<min (i + n) (unat len)])"
proof (induction n arbitrary: i)
  case (Suc n)
  have i: "of_nat i \<ge> len \<longleftrightarrow> unat len \<le> i"
    using Suc.prems(1) by (simp add: word_le_nat_alt unat_of_nat)
  show ?case
  proof (cases "unat len \<le> i")
    case False
    with Suc.prems(2) [of i] have "mem (p + of_nat i) = Some (b i)" by simp
    moreover have "get_buffer_from mem p len (Suc i) n
        = Inr (map (\<lambda>j. shown (b j)) [Suc i..<min (Suc i + n) (unat len)])"
      using Suc.prems by (intro Suc.IH) auto
    ultimately show ?thesis
      using False i by (simp add: bindE_def shown_def upt_conv_Cons)
  qed (use i in simp)
qed simp

lemma get_buffer_bytes:
  assumes "\<And>j. j < min 32 (unat len) \<Longrightarrow> c_mem L (lib s) (p + of_nat j) = Some (b j)"
  shows "get_buffer L p len s = Inr (map (\<lambda>j. shown (b j)) [0..<min 32 (unat len)], s)"
proof -
  have "get_buffer_from (c_mem L (lib s)) p len 0 32 = Inr (map (\<lambda>j. shown (b j)) [0..<min (0 + 32) (unat len)])"
    by (rule get_buffer_from_bytes) (use assms in auto)
  then show ?thesis by (simp add: get_buffer_def)
qed

text \<open>
  A library the wrappers can run on: the originals are found, the launcher's environment is there,
  paths fit their buffers.
\<close>

definition usable_library :: "'k libc \<Rightarrow> bool" where
  "usable_library L \<longleftrightarrow>
     (\<forall>k. dl_open L k \<and> (\<forall>f. dl_sym L k f) \<and> c_getenv L k ''OUT_FD'' \<noteq> None \<and>
       (\<forall>p q. c_realpath L k p = Inr q \<longrightarrow> length q < 1024) \<and>
       (\<forall>p q. c_readlink L k p = Inr q \<longrightarrow> length q < 1024))"

definition bytes_readable :: "'k libc \<Rightarrow> 'k \<Rightarrow> u64 \<Rightarrow> u64 \<Rightarrow> bool" where
  "bytes_readable L k p len \<longleftrightarrow> (\<forall>j < min 32 (unat len). c_mem L k (p + of_nat j) \<noteq> None)"

text \<open>The bytes a wrapper looks at after the call: as many as the result says, 32 at most.\<close>

fun buffers_readable :: "'k libc \<Rightarrow> libcall \<Rightarrow> 'k \<Rightarrow> bool" where
  "buffers_readable L (Read fd b n) k = (let (r, e, k') = o_read L fd b n k in bytes_readable L k' b r)"
| "buffers_readable L (Write fd b n) k = (let (r, e, k') = o_write L fd b n k in bytes_readable L k' b r)"
| "buffers_readable L (Fread b z n fp) k =
     (let (r, e, k') = o_fread L b z n fp k in bytes_readable L k' b (z * r))"
| "buffers_readable L (Fwrite b z n fp) k =
     (let (r, e, k') = o_fwrite L b z n fp k in bytes_readable L k' b (z * r))"
| "buffers_readable L _ k = True"

lemma get_buffer_returns:
  assumes "bytes_readable L (lib s) p len"
  shows "\<exists>x. get_buffer L p len s = Inr (x, s)"
proof -
  have "c_mem L (lib s) (p + of_nat j) = Some (the (c_mem L (lib s) (p + of_nat j)))"
    if "j < min 32 (unat len)" for j
    using assms that unfolding bytes_readable_def by (metis option.collapse)
  from get_buffer_bytes [OF this] show ?thesis by blast
qed

text \<open>\<open>ends m s\<close>: the step returns from the state \<open>s\<close>.\<close>

definition ends :: "('k, 'a) lcall \<Rightarrow> 'k logging \<Rightarrow> bool" where
  "ends m s \<longleftrightarrow> (\<exists>x t. m s = Inr (x, t))"

lemma ends_return: "ends (return x) s"
  by (simp add: ends_def return_def)

lemma ends_bind:
  assumes "ends m s" and "\<And>x t. m s = Inr (x, t) \<Longrightarrow> ends (f x) t"
  shows "ends (bindL m f) s"
  using assms unfolding ends_def bindL_def bindE_def by fastforce

lemma ends_quiet:
  assumes "quiet m" and "ends m s" and "\<And>x t. lib t = lib s \<Longrightarrow> ends (f x) t"
  shows "ends (bindL m f) s"
  using assms(1,2) by (intro ends_bind assms(3)) (auto simp: quiet_def)

lemma ends_call:
  assumes "usable_library L" and "\<And>r e k t. f (lib s) = (r, e, k) \<Longrightarrow> lib t = k \<Longrightarrow> ends (g r) t"
  shows "ends (bindL (call_origin L nm f) g) s"
proof (rule ends_bind)
  show "ends (call_origin L nm f) s"
    using assms(1) by (simp add: ends_def usable_library_def call_origin_def get_origin_func_def split: prod.split)
next
  fix r t assume "call_origin L nm f s = Inr (r, t)"
  then show "ends (g r) t"
    using assms(2) by (auto simp: call_origin_def split: if_splits prod.splits)
qed

lemma ends_ask: "(\<And>r t. ends (f r) t) \<Longrightarrow> ends (ask q f) s"
  by (cases q) (simp_all add: ends_def ask_def)

lemma ends_abs_path_name:
  assumes "usable_library L"
  shows "ends (abs_path_name L p) s"
  using assms by (cases "c_realpath L (lib s) p")
    (auto simp: ends_def abs_path_name_def ask_def return_def usable_library_def not_le)

lemma ends_abs_path_fd:
  assumes "usable_library L"
  shows "ends (abs_path_fd L fd) s"
proof (cases "c_readlink L (lib s) (fd_link (c_getpid L (lib s)) fd)")
  case (Inr q)
  with assms have q: "length q < 1024" by (auto simp: usable_library_def)
  have *: "\<exists>x t. abs_path_name L nm s = Inr (x, t)" for nm s
    using ends_abs_path_name [OF assms] by (auto simp: ends_def)
  show ?thesis
    using Inr q *
    by (cases "c_stat L (lib s) (fd_link (c_getpid L (lib s)) fd)")
      (auto simp: ends_def abs_path_fd_def ask_def return_def Let_def)
qed (simp add: ends_def abs_path_fd_def ask_def return_def Let_def)

lemma ends_abs_path_fp:
  assumes "usable_library L"
  shows "ends (abs_path_fp L fp) s"
  using ends_abs_path_fd [OF assms]
  by (cases "c_fileno L (lib s) fp") (auto simp: ends_def abs_path_fp_def ask_def return_def)

lemma ends_emit:
  assumes "usable_library L"
  shows "ends (emit L line) s"
proof -
  from assms obtain v where "c_getenv L (lib s) ''OUT_FD'' = Some v"
    unfolding usable_library_def by blast
  then show ?thesis by (simp add: ends_def emit_def Let_def split: option.split)
qed

lemma ends_get_buffer: "bytes_readable L (lib s) p len \<Longrightarrow> ends (get_buffer L p len) s"
  using get_buffer_returns unfolding ends_def by blast

lemmas ends_path =
  ends_quiet [OF quiet_abs_path_name ends_abs_path_name]
  ends_quiet [OF quiet_abs_path_fd ends_abs_path_fd]
  ends_quiet [OF quiet_abs_path_fp ends_abs_path_fp]

lemmas ends_buffer = ends_quiet [OF quiet_get_buffer ends_get_buffer]

lemma ends_report: "usable_library L \<Longrightarrow> ends (bindL (emit L line) (\<lambda>_. return r)) s"
  by (intro ends_bind ends_emit ends_return)

lemma ends_direct: "ends (direct f) s"
  by (simp add: ends_def direct_def split: prod.split)

lemma ends_value: "ends m s \<Longrightarrow> ends (wrapper_value g m) s"
  unfolding wrapper_value_def by (intro ends_bind ends_return)

lemma ends_logged:
  assumes "usable_library L" and "buffers_readable L c (lib s)"
  shows "ends (logged L c) s"
  using assms
  by (cases c)
    (simp_all only: logged.simps buffers_readable.simps wrapper_defs Let_def split del: if_split,
     (rule ends_value,
      (assumption | rule ends_path ends_call ends_report ends_buffer ends_direct | fastforce)+)+)


section \<open>Numbers through the environment\<close>

lemma digits_not_NUL:
  assumes "c \<in> set (dec n)"
  shows "c \<noteq> NUL"
proof -
  from assms obtain d where "d < 10" and "c = digit_char d"
    using to_base_chars [of 10] by (auto simp: dec_def)
  then have "(of_char c :: nat) = 48 + d" by (simp add: of_char_digit_char)
  then show ?thesis by auto
qed

lemma c_str_digits: "c_str (dec n) = dec n"
  using digits_not_NUL by (auto simp: c_str_def takeWhile_eq_all_conv)

lemma atoi_sdec:
  assumes "- (2 ^ 31) \<le> i" and "i < 2 ^ 31"
  shows "atoi (c_str (sdec i)) = i"
proof (cases "i < 0")
  case True
  define n where "n = nat (- i)"
  have i: "i = - int n" and n: "n \<le> 2 ^ 31" using True assms by (auto simp: n_def)
  have "c_str (sdec i) = CHR ''-'' # dec n"
    using True c_str_digits [of n] by (simp add: sdec_def n_def c_str_def)
  moreover have "strtol (CHR ''-'' # dec n) 10 = - int n"
    using n by (simp add: strtol_def isspace_def scan_sign_def scan_dec long_min_def)
  moreover have "sint (word_of_int (- int n) :: 32 word) = - int n"
    using n by (subst sint_sbintrunc', simp, intro signed_take_bit_int_eq_self) simp_all
  ultimately show ?thesis by (simp add: atoi_def i)
next
  case False
  then show ?thesis
    using assms atoi_dec [of "nat i"] c_str_digits [of "nat i"] by (simp add: sdec_def nat_less_iff)
qed

section \<open>A library to run on\<close>

text \<open>
  A small C library for the witnesses: the kernel is the table of open descriptors, \<open>open\<close> adds a
  file and \<open>close\<close> removes one, a closed descriptor gives \<open>EBADF\<close> and an unknown path \<open>ENOENT\<close>;
  the process is 7, its 64 bytes of memory hold letters, the log goes to descriptor 9.
\<close>

definition sample_link :: "(int \<times> string) list \<Rightarrow> string \<Rightarrow> int + string" where
  "sample_link k p = (case find (\<lambda>(fd, q). fd_link 7 fd = p) k of None \<Rightarrow> Inl 2 | Some (fd, q) \<Rightarrow> Inr q)"

definition sample_io :: "int \<Rightarrow> u64 \<Rightarrow> ((int \<times> string) list, u64) origin" where
  "sample_io fd n k = (if fd \<in> fst ` set k then (n, None, k) else (- 1, Some 9, k))"

definition sample_libc :: "(int \<times> string) list libc" where
  "sample_libc =
     \<lparr>dl_open = \<lambda>k. True, dl_sym = \<lambda>k f. True,
      c_getenv = \<lambda>k v. if v = ''OUT_FD'' then Some ''9'' else None,
      c_getpid = \<lambda>k. 7,
      c_realpath = \<lambda>k p. if p \<in> {''a'', ''/w/a''} then Inr ''/w/a'' else Inl 2,
      c_readlink = \<lambda>k p. (case sample_link k p of Inl e \<Rightarrow> Inl e | Inr q \<Rightarrow> Inr (take 1000 q)),
      c_stat = \<lambda>k p. (case sample_link k p of Inl e \<Rightarrow> Inl e | Inr q \<Rightarrow> Inr 0x81A4),
      c_fileno = \<lambda>k fp. Inr (sint fp),
      c_mem = \<lambda>k a. if unat a < 64 then Some (of_nat (65 + unat a mod 26)) else None,
      c_dprintf = \<lambda>k fd. None,
      o_chmod = \<lambda>p m k. (0, None, k), o_chown = \<lambda>p u g k. (0, None, k),
      o_close = \<lambda>fd k. if fd \<in> fst ` set k then (0, None, filter (\<lambda>(x, p). x \<noteq> fd) k) else (- 1, Some 9, k),
      o_creat = \<lambda>p m k. (3, None, (3, p) # k),
      o_fclose = \<lambda>fp k. (0, None, k), o_fopen = \<lambda>p m k. (3, None, (3, p) # k),
      o_fread = \<lambda>b z n fp. sample_io (sint fp) n, o_fwrite = \<lambda>b z n fp. sample_io (sint fp) n,
      o_open = \<lambda>p f m k. (3, None, (3, p) # k),
      o_read = \<lambda>fd b n. sample_io fd n, o_write = \<lambda>fd b n. sample_io fd n,
      o_remove = \<lambda>p k. (0, None, k), o_rename = \<lambda>p q k. (0, None, k),
      o_tmpfile = \<lambda>k. (4, None, k), o_other = \<lambda>f a k. (0, None, k),
      o_store = \<lambda>a b k. (0, None, k)\<rparr>"

lemma usable_sample: "usable_library sample_libc"
  by (auto simp: usable_library_def sample_libc_def split: if_splits sum.splits)

section \<open>Properties\<close>

text \<open>
  C7: The logger is transparent and complete: a program run with the fourteen wrappers preloaded gets the
  same results, in the same order, and leaves the same kernel state as a run on the bare C library in
  which \<open>open\<close> gets no mode, and the log grows, call by call in the order of the calls, by one line that
  starts with the name of the call, unless the call is not wrapped or the log cannot be written to.
\<close>
theorem logger_transparent:
  assumes "run_hooked (logged L) P n [] s = Inr (vs, t)"
  shows "run_plain (original (without_mode L)) P n [] (lib s) = (vs, lib t) \<and>
    (\<exists>lss. llog t = llog s @ concat lss \<and> list_all2 (logs_call L) (calls_made P vs) lss)"
  using injected.run_transparent [OF assms] injected.run_lines [OF assms] by simp

theorem logger_transparent_witness:
  "run_plain (original (without_mode sample_libc))
       (\<lambda>vs. case vs of [] \<Rightarrow> Some (Open ''a'' 0x41 0x1A4) | [_] \<Rightarrow> Some (Close 3) | _ \<Rightarrow> None) 5 []
       [(0, ''/dev/tty'')] = ([Int_value 3, Int_value 0], [(0, ''/dev/tty'')])"
proof -
  let ?P = "\<lambda>vs. case vs of [] \<Rightarrow> Some (Open ''a'' 0x41 0x1A4) | [_] \<Rightarrow> Some (Close 3) | _ \<Rightarrow> None"
  let ?s = "\<lparr>lib = [(0 :: int, ''/dev/tty'')], lerrno = 0, llog = []\<rparr>"
  have "\<exists>t. run_hooked (logged sample_libc) ?P 5 [] ?s = Inr ([Int_value 3, Int_value 0], t) \<and>
      lib t = [(0, ''/dev/tty'')]"
    by (simp add: eval_nat_numeral wrapper_value_def log_open_def log_close_def bindL_def bindE_def
        call_origin_def get_origin_func_def sample_libc_def abs_path_name_def abs_path_fd_def ask_def
        return_def emit_def Let_def sample_link_def S_IFMT_def S_IFDIR_def S_IFREG_def c_str_def)
  then obtain t where t: "run_hooked (logged sample_libc) ?P 5 [] ?s = Inr ([Int_value 3, Int_value 0], t)"
    and k: "lib t = [(0, ''/dev/tty'')]" by blast
  from logger_transparent [OF t] k show ?thesis by simp
qed

text \<open>
  C19: a logged call returns: when the original functions are found, \<open>OUT_FD\<close> is set, paths fit the
  buffers of 1024 characters and the bytes that are shown can be read, every wrapper returns from
  every state.
\<close>
theorem logged_call_returns:
  assumes "usable_library L" and "buffers_readable L c (lib s)"
  shows "\<exists>r t. logged L c s = Inr (r, t)"
  using ends_logged [OF assms] by (simp add: ends_def)

theorem logged_call_returns_witness:
  "\<exists>r t. logged sample_libc (Write 1 0 5) \<lparr>lib = [(1, ''/w/a'')], lerrno = 0, llog = []\<rparr> = Inr (r, t)"
proof (rule logged_call_returns [OF usable_sample])
  have "c_mem sample_libc k (of_nat j) \<noteq> None" if "j < 5" for j k
    using that by (simp add: sample_libc_def unat_of_nat)
  then show "buffers_readable sample_libc (Write 1 0 5)
      (lib \<lparr>lib = [(1, ''/w/a'')], lerrno = 0, llog = []\<rparr>)"
    by (simp add: bytes_readable_def) (simp add: sample_libc_def sample_io_def)
qed


text \<open>
  What a logged call leaves: its result, the kernel \<open>k\<close>, and one more line in the log.
\<close>

definition wrote :: "'k logging \<Rightarrow> 'r \<Rightarrow> 'k \<Rightarrow> string \<Rightarrow> (halt \<times> 'k logging) + ('r \<times> 'k logging) \<Rightarrow> bool" where
  "wrote s r k line x =
     (case x of
        Inl _ \<Rightarrow> False
      | Inr (r', t) \<Rightarrow> r' = r \<and> lib t = k \<and> map snd (llog t) = map snd (llog s) @ [line])"

text \<open>The names the path functions find in a kernel state.\<close>

definition name_in :: "'k libc \<Rightarrow> 'k \<Rightarrow> string \<Rightarrow> string" where
  "name_in L k p = (case c_realpath L k p of Inl _ \<Rightarrow> ''(null)'' | Inr q \<Rightarrow> q)"

definition fd_name_in :: "'k libc \<Rightarrow> 'k \<Rightarrow> int \<Rightarrow> string" where
  "fd_name_in L k fd =
     (let link = fd_link (c_getpid L k) fd in
      case c_readlink L k link of
        Inl _ \<Rightarrow> []
      | Inr target \<Rightarrow>
          (case c_stat L k link of
             Inl _ \<Rightarrow> []
           | Inr mode \<Rightarrow>
               if mode AND S_IFMT = S_IFDIR \<or> mode AND S_IFMT = S_IFREG
               then name_in L k (c_str target) else c_str target))"

lemma abs_path_name_value:
  assumes "usable_library L"
  shows "\<exists>t. abs_path_name L p s = Inr (name_in L (lib s) p, t) \<and> lib t = lib s \<and> llog t = llog s"
  using assms
  by (cases "c_realpath L (lib s) p")
    (auto simp: abs_path_name_def name_in_def ask_def return_def usable_library_def not_le)

lemma abs_path_fd_value:
  assumes "usable_library L"
  shows "\<exists>t. abs_path_fd L fd s = Inr (fd_name_in L (lib s) fd, t) \<and> lib t = lib s \<and> llog t = llog s"
proof (cases "c_readlink L (lib s) (fd_link (c_getpid L (lib s)) fd)")
  case (Inr q)
  with assms have q: "length q < 1024" by (auto simp: usable_library_def)
  show ?thesis
    using Inr q abs_path_name_value [OF assms, of "c_str q" s]
    by (cases "c_stat L (lib s) (fd_link (c_getpid L (lib s)) fd)")
      (simp_all add: abs_path_fd_def fd_name_in_def ask_def return_def Let_def)
qed (simp add: abs_path_fd_def fd_name_in_def ask_def return_def Let_def)

lemma wrote_report:
  assumes "usable_library L" and "writable_log L" and "lib u = k" and "llog u = llog s"
  shows "wrote s r k line (bindL (emit L line) (\<lambda>_. return r) u)"
proof -
  from assms(1) obtain v where "c_getenv L (lib u) ''OUT_FD'' = Some v"
    unfolding usable_library_def by blast
  with assms show ?thesis
    by (simp add: bindL_def emit_def wrote_def return_def writable_log_def Let_def)
qed

lemma wrote_call:
  assumes "usable_library L" and "f (lib u) = (r, e, k)"
    and "\<And>t. lib t = k \<Longrightarrow> llog t = llog u \<Longrightarrow> wrote s r' k' line (g r t)"
  shows "wrote s r' k' line (bindL (call_origin L nm f) g u)"
  using assms by (simp add: bindL_def call_origin_def get_origin_func_def usable_library_def)

lemma wrote_name:
  assumes "usable_library L"
    and "\<And>t. lib t = lib u \<Longrightarrow> llog t = llog u \<Longrightarrow> wrote s r k line (g (name_in L (lib u) p) t)"
  shows "wrote s r k line (bindL (abs_path_name L p) g u)"
proof -
  from abs_path_name_value [OF assms(1), of p u] obtain t
    where "abs_path_name L p u = Inr (name_in L (lib u) p, t)" "lib t = lib u" "llog t = llog u" by blast
  then show ?thesis using assms(2) [of t] by (simp add: bindL_def)
qed

lemma wrote_fd_name:
  assumes "usable_library L"
    and "\<And>t. lib t = lib u \<Longrightarrow> llog t = llog u \<Longrightarrow> wrote s r k line (g (fd_name_in L (lib u) fd) t)"
  shows "wrote s r k line (bindL (abs_path_fd L fd) g u)"
proof -
  from abs_path_fd_value [OF assms(1), of fd u] obtain t
    where "abs_path_fd L fd u = Inr (fd_name_in L (lib u) fd, t)" "lib t = lib u" "llog t = llog u" by blast
  then show ?thesis using assms(2) [of t] by (simp add: bindL_def)
qed

lemma wrote_buffer:
  assumes "\<And>j. j < min 32 (unat len) \<Longrightarrow> c_mem L (lib u) (p + of_nat j) = Some (b j)"
    and "wrote s r k line (g (map (\<lambda>j. shown (b j)) [0..<min 32 (unat len)]) u)"
  shows "wrote s r k line (bindL (get_buffer L p len) g u)"
  using get_buffer_bytes [of len L u p b, OF assms(1)] assms(2) by (simp add: bindL_def)

text \<open>
  C30: \<open>rename\<close> and \<open>remove\<close> log the old name as it resolves before the call and \<open>rename\<close> the new
  one as it resolves after it; \<open>close\<close> logs the file the descriptor had.
\<close>
theorem names_before_and_after:
  assumes "usable_library L" and "writable_log L"
    and "o_rename L p q (lib s) = (r1, e1, k1)" and "o_remove L p (lib s) = (r2, e2, k2)"
    and "o_close L fd (lib s) = (r3, e3, k3)"
  shows "wrote s r1 k1 (''[logger] rename('' @ in_quotes (name_in L (lib s) p) @ '', ''
             @ in_quotes (name_in L k1 q) @ '') = '' @ sdec r1 @ nl) (log_rename L p q s) \<and>
         wrote s r2 k2 (''[logger] remove('' @ in_quotes (name_in L (lib s) p) @ '') = '' @ sdec r2 @ nl)
           (log_remove L p s) \<and>
         wrote s r3 k3 (''[logger] close('' @ in_quotes (fd_name_in L (lib s) fd) @ '') = '' @ sdec r3 @ nl)
           (log_close L fd s)"
  unfolding log_rename_def log_remove_def log_close_def
  by (intro conjI)
    ((rule wrote_name [OF assms(1)] wrote_fd_name [OF assms(1)] wrote_report [OF assms(1,2)]
       wrote_call [OF assms(1), where r = r1 and e = e1 and k = k1]
       wrote_call [OF assms(1), where r = r2 and e = e2 and k = k2]
       wrote_call [OF assms(1), where r = r3 and e = e3 and k = k3]
     | simp add: assms(3-5))+)


lemma writable_sample: "writable_log sample_libc"
  by (simp add: writable_log_def sample_libc_def)

theorem names_before_and_after_witness:
  "wrote \<lparr>lib = [(3, ''/w/a'')], lerrno = 0, llog = []\<rparr> 0 []
     (''[logger] close('' @ in_quotes ''/w/a'' @ '') = '' @ sdec 0 @ nl)
     (log_close sample_libc 3 \<lparr>lib = [(3, ''/w/a'')], lerrno = 0, llog = []\<rparr>)"
proof -
  let ?s = "\<lparr>lib = [(3 :: int, ''/w/a'')], lerrno = 0, llog = []\<rparr>"
  have "fd_name_in sample_libc (lib ?s) 3 = ''/w/a''"
    by (simp add: fd_name_in_def name_in_def sample_libc_def sample_link_def S_IFMT_def S_IFDIR_def
        S_IFREG_def c_str_def Let_def)
  moreover have "o_close sample_libc 3 (lib ?s) = (0, None, [])"
    and "o_rename sample_libc ''a'' ''b'' (lib ?s) = (0, None, lib ?s)"
    and "o_remove sample_libc ''a'' (lib ?s) = (0, None, lib ?s)"
    by (simp_all add: sample_libc_def)
  ultimately show ?thesis
    using names_before_and_after [OF usable_sample writable_sample, where s = ?s and fd = 3 and p = "''a''"
        and q = "''b''"] by simp
qed

text \<open>
  C38: \<open>read\<close> logs the file, the request, the result and the first bytes of the buffer, unprintable
  ones as dots: as many as the result says read as a \<open>size_t\<close>, 32 at most. A failed call returns
  -1, which is not less than 32 there, so 32 bytes that were never read are shown.
\<close>
theorem read_shows_buffer:
  assumes "usable_library L" and "writable_log L" and "o_read L fd buf n (lib s) = (r, e, k)"
    and "\<And>j. j < min 32 (unat r) \<Longrightarrow> c_mem L k (buf + of_nat j) = Some (b j)"
  shows "wrote s r k (''[logger] read('' @ in_quotes (fd_name_in L k fd) @ '', ''
      @ in_quotes (map (\<lambda>j. shown (b j)) [0..<min 32 (unat r)]) @ '', '' @ long_dec n @ '') = ''
      @ long_dec r @ nl) (log_read L fd buf n s)"
  unfolding log_read_def
  by (rule wrote_call [OF assms(1), where f = "o_read L fd buf n" and r = r and e = e and k = k]
      wrote_fd_name [OF assms(1)] wrote_buffer [where b = b] wrote_report [OF assms(1,2)]
    | simp add: assms(3,4))+

theorem read_shows_buffer_witness:
  "wrote \<lparr>lib = [], lerrno = 0, llog = []\<rparr> (- 1) []
     (''[logger] read('' @ in_quotes [] @ '', ''
      @ in_quotes (map (\<lambda>j. shown (of_nat (65 + j mod 26))) [0..<32]) @ '', '' @ long_dec 10 @ '') = ''
      @ long_dec (- 1) @ nl)
     (log_read sample_libc 5 0 10 \<lparr>lib = [], lerrno = 0, llog = []\<rparr>)"
proof -
  let ?s = "\<lparr>lib = [] :: (int \<times> string) list, lerrno = 0, llog = []\<rparr>"
  have m: "c_mem sample_libc [] (0 + of_nat j) = Some (of_nat (65 + j mod 26))"
    if "j < min 32 (unat (- 1 :: u64))" for j
    using that by (simp add: sample_libc_def unat_of_nat)
  have f: "fd_name_in sample_libc [] 5 = []"
    by (simp add: fd_name_in_def sample_libc_def sample_link_def Let_def)
  have r: "o_read sample_libc 5 0 10 (lib ?s) = (- 1, Some 9, [])"
    by (simp add: sample_libc_def sample_io_def)
  have "min 32 (unat (- 1 :: u64)) = 32" by (simp add: unsigned_minus_1_eq_mask mask_eq_exp_minus_1)
  with read_shows_buffer [OF usable_sample writable_sample r m] f show ?thesis
    by (simp only: simp_thms implies_True_equals)
qed

lemma without_mode_sel:
  "dl_open (without_mode L) = dl_open L" "dl_sym (without_mode L) = dl_sym L"
  "c_getenv (without_mode L) = c_getenv L" "c_realpath (without_mode L) = c_realpath L"
  "c_dprintf (without_mode L) = c_dprintf L" "o_open (without_mode L) p f None = o_open L p f None"
  by (simp_all add: without_mode_def)

lemma without_mode_simps:
  "emit (without_mode L) = emit L" "abs_path_name (without_mode L) = abs_path_name L"
  "call_origin (without_mode L) = call_origin L"
  unfolding emit_def [abs_def] abs_path_name_def [abs_def] call_origin_def [abs_def]
    get_origin_func_def [abs_def] without_mode_sel
  by (rule refl)+

text \<open>
  C32: the wrapper of \<open>open\<close> drops the mode: it never passes a third argument to the original, and
  neither its result, the kernel state nor errno depends on the mode it got; only the line does.
\<close>
theorem open_drops_mode:
  "log_open (without_mode L) p flags arg = log_open L p flags arg \<and>
   (case log_open L p flags arg s of Inl (h, t) \<Rightarrow> Inl h | Inr (r, t) \<Rightarrow> Inr (r, lib t, lerrno t)) =
   (case log_open L p flags arg' s of Inl (h, t) \<Rightarrow> Inl h | Inr (r, t) \<Rightarrow> Inr (r, lib t, lerrno t))"
proof (intro conjI)
  show "log_open (without_mode L) p flags arg = log_open L p flags arg"
    by (simp add: log_open_def without_mode_simps without_mode_sel)
next
  show "(case log_open L p flags arg s of Inl (h, t) \<Rightarrow> Inl h | Inr (r, t) \<Rightarrow> Inr (r, lib t, lerrno t)) =
   (case log_open L p flags arg' s of Inl (h, t) \<Rightarrow> Inl h | Inr (r, t) \<Rightarrow> Inr (r, lib t, lerrno t))"
    by (auto simp: log_open_def Let_def bindL_def emit_def return_def bindE_def split: sum.split option.split)
qed

text \<open>
  a failed call does not keep its errno: when the descriptor has no link under /proc, the errno
  a program sees after \<open>read\<close> is the one of \<open>readlink\<close> in the wrapper, whatever the call itself set.
\<close>
theorem logger_clobbers_errno:
  assumes "writable_log L" and "o_read L fd buf n (lib s) = (r, e, k)"
    and "c_readlink L k (fd_link (c_getpid L k) fd) = Inl e'" and "log_read L fd buf n s = Inr (r', t)"
  shows "r' = r \<and> lerrno t = e'"
  using assms
  by (auto simp: log_read_def call_origin_def abs_path_fd_def ask_def return_def get_buffer_def emit_def
      writable_log_def Let_def elim!: bindL_cases split: if_splits prod.splits sum.splits option.splits)

theorem logger_clobbers_errno_witness:
  "o_read sample_libc 5 0 10 [] = (- 1, Some 9, []) \<and>
   (case log_read sample_libc 5 0 10 \<lparr>lib = [], lerrno = 0, llog = []\<rparr> of Inl _ \<Rightarrow> None
    | Inr (r, t) \<Rightarrow> Some (r, lerrno t)) = Some (- 1, 2)"
proof -
  let ?s = "\<lparr>lib = [] :: (int \<times> string) list, lerrno = 0, llog = []\<rparr>"
  have r: "o_read sample_libc 5 0 10 (lib ?s) = (- 1, Some 9, [])"
    by (simp add: sample_libc_def sample_io_def)
  have "bytes_readable sample_libc [] 0 (- 1)"
    by (simp add: bytes_readable_def sample_libc_def unat_of_nat)
  with r ends_logged [OF usable_sample, of "Read 5 0 10" ?s]
  obtain r' t where "log_read sample_libc 5 0 10 ?s = Inr (r', t)"
    by (auto simp: ends_def wrapper_value_def elim!: bindL_cases)
  moreover have "c_readlink sample_libc [] (fd_link (c_getpid sample_libc []) 5) = Inl 2"
    by (simp add: sample_libc_def sample_link_def)
  ultimately show ?thesis
    using logger_clobbers_errno [OF writable_sample r] r by simp
qed

text \<open>
  C31: the descriptor the launcher opens reaches the injected library: the line of every call goes
  to the number \<open>dup\<close> or \<open>open\<close> gave, and if that was -1 nothing is ever logged.
\<close>
theorem out_fd_reaches_library:
  assumes "logger_main dup_stderr open_trunc opts argv = Launch env cmd"
    and "\<And>v. c_getenv L (lib s) v = map_of env v"
    and "- (2 ^ 31) \<le> dup_stderr" and "dup_stderr < 2 ^ 31"
    and "\<And>p. - (2 ^ 31) \<le> open_trunc p \<and> open_trunc p < 2 ^ 31"
    and "c_dprintf L (lib s) (- 1) = Some 9"
  shows "\<exists>fd. (fd = dup_stderr \<or> fd \<in> range open_trunc) \<and> cmd = argv \<and>
    emit L line s = (case c_dprintf L (lib s) fd of
        None \<Rightarrow> Inr ((), s\<lparr>llog := llog s @ [(fd, line)]\<rparr>)
      | Some e \<Rightarrow> Inr ((), s\<lparr>lerrno := e\<rparr>)) \<and>
    (fd = - 1 \<longrightarrow> emit L line s = Inr ((), s\<lparr>lerrno := 9\<rparr>))"
proof -
  from assms(1) obtain fd path where fd: "fd = dup_stderr \<or> fd \<in> range open_trunc" and "cmd = argv"
    and env: "env = [(''OUT_FD'', sdec fd), (''LD_PRELOAD'', path)]"
    using that [of dup_stderr] that [of "open_trunc _"]
    by (auto simp: logger_main_def Let_def split: option.splits if_splits)
  from fd assms(3-5) have "atoi (c_str (sdec fd)) = fd" by (intro atoi_sdec) auto
  with assms(2) [of "''OUT_FD''"] env have
    "emit L line s = (case c_dprintf L (lib s) fd of
        None \<Rightarrow> Inr ((), s\<lparr>llog := llog s @ [(fd, line)]\<rparr>)
      | Some e \<Rightarrow> Inr ((), s\<lparr>lerrno := e\<rparr>))"
    by (simp add: emit_def Let_def)
  with fd \<open>cmd = argv\<close> assms(6) show ?thesis by (intro exI [of _ fd]) simp
qed

theorem out_fd_reaches_library_witness:
  "emit (sample_libc\<lparr>c_getenv := \<lambda>k. map_of [(''OUT_FD'', sdec (- 1)), (''LD_PRELOAD'', ''./logger.so'')],
       c_dprintf := \<lambda>k fd. if fd = - 1 then Some 9 else None\<rparr>) ''x''
     \<lparr>lib = [], lerrno = 0, llog = []\<rparr> = Inr ((), \<lparr>lib = [], lerrno = 9, llog = []\<rparr>)"
proof -
  let ?L = "sample_libc\<lparr>c_getenv := \<lambda>k. map_of [(''OUT_FD'', sdec (- 1)), (''LD_PRELOAD'', ''./logger.so'')],
       c_dprintf := \<lambda>k fd. if fd = - 1 then Some 9 else None\<rparr>"
  let ?s = "\<lparr>lib = [] :: (int \<times> string) list, lerrno = 0, llog = []\<rparr>"
  have m: "logger_main (- 1) (\<lambda>p. - 1) [(CHR ''o'', ''/nowhere/x'')] [''ls'']
      = Launch [(''OUT_FD'', sdec (- 1)), (''LD_PRELOAD'', ''./logger.so'')] [''ls'']"
    by (simp add: logger_main_def)
  show ?thesis
    using out_fd_reaches_library [OF m, of ?L ?s "''x''"] by auto
qed

end
