(* ===== verification/LoggerSample.thy ===== *)
theory LoggerSample
  imports LoggerClaims
begin

text \<open>
  hw2/sample.cpp, the program the assignment runs under the logger, as a client of the wrapped
  functions: a tree of calls that branches on their results. A function the logger does not wrap is
  an \<open>Unwrapped\<close> call with its arguments, a store to the program's buffer is \<open>Store\<close>. The lemmas say
  that a program of this form has the same calls in a run and on paper, and that one whose tree is
  bounded comes to its end.
\<close>

section \<open>Programs as trees\<close>

datatype 'a prog =
    Done 'a
  | Stop halt
  | Call libcall "lvalue \<Rightarrow> 'a prog"

fun strategy :: "'a prog \<Rightarrow> (libcall, lvalue) program" where
  "strategy (Call c k) [] = Some c"
| "strategy (Call c k) (v # vs) = strategy (k v) vs"
| "strategy _ _ = None"

text \<open>Where the program is after these results, and the calls it has made.\<close>

fun outcome :: "'a prog \<Rightarrow> lvalue list \<Rightarrow> (halt + 'a) option" where
  "outcome (Done a) vs = Some (Inr a)"
| "outcome (Stop h) vs = Some (Inl h)"
| "outcome (Call c k) [] = None"
| "outcome (Call c k) (v # vs) = outcome (k v) vs"

fun calls_of :: "'a prog \<Rightarrow> lvalue list \<Rightarrow> libcall list" where
  "calls_of (Call c k) (v # vs) = c # calls_of (k v) vs"
| "calls_of _ _ = []"

section \<open>sample.cpp\<close>



fun word_of :: "lvalue \<Rightarrow> u64" where
  "word_of (Word_value w) = w"
| "word_of (Int_value i) = word_of_int i"

definition perror_if :: "bool \<Rightarrow> string \<Rightarrow> 'a prog \<Rightarrow> 'a prog" where
  "perror_if failed msg p = (if failed then Call (Unwrapped ''perror'' [Str msg]) (\<lambda>_. p) else p)"

definition ferror_check :: "bool \<Rightarrow> u64 \<Rightarrow> string \<Rightarrow> 'a prog \<Rightarrow> 'a prog" where
  "ferror_check short fp msg p =
     (if short then
        Call (Unwrapped ''ferror'' [Num fp]) (\<lambda>e.
          if word_of e \<noteq> 0 then Call (Unwrapped ''fprintf'' [Str msg]) (\<lambda>_. p) else p)
      else p)"




section \<open>Bounded programs\<close>




lemma strategy_snoc: "strategy p vs = Some c \<Longrightarrow> outcome p vs = None"
  by (induction p vs rule: strategy.induct) auto


text \<open>The program left after these results.\<close>

fun left :: "'a prog \<Rightarrow> lvalue list \<Rightarrow> 'a prog" where
  "left (Call c k) (v # vs) = left (k v) vs"
| "left p vs = p"

lemma left_Nil [simp]: "left p [] = p"
  by (cases p) simp_all


lemma strategy_left: "strategy p (vs @ us) = strategy (left p vs) us"
proof (induction vs arbitrary: p)
  case (Cons v vs)
  then show ?case by (cases p) simp_all
qed (simp add: left_Nil)




section \<open>The calls of the sample program\<close>

text \<open>On every complete path the wrapped calls have these names.\<close>

definition labels_are :: "'a prog \<Rightarrow> string list \<Rightarrow> bool" where
  "labels_are p ns \<longleftrightarrow>
     (\<forall>vs a. outcome p vs = Some (Inr a) \<longrightarrow> List.map_filter call_label (calls_of p vs) = ns)"

named_theorems label_intros

lemma labels_done [label_intros]: "labels_are (Done a) []"
  by (simp add: labels_are_def map_filter_simps)

lemma labels_stop [label_intros]: "labels_are (Stop h) ns"
  by (simp add: labels_are_def)

lemma labels_wrapped [label_intros]:
  assumes "call_label c = Some nm" and "\<And>v. labels_are (k v) ns"
  shows "labels_are (Call c k) (nm # ns)"
  unfolding labels_are_def
proof (intro allI impI)
  fix vs a assume "outcome (Call c k) vs = Some (Inr a)"
  then show "List.map_filter call_label (calls_of (Call c k) vs) = nm # ns"
    using assms by (cases vs) (simp_all add: labels_are_def map_filter_simps)
qed

lemma labels_other:
  assumes "call_label c = None" and "\<And>v. labels_are (k v) ns"
  shows "labels_are (Call c k) ns"
  unfolding labels_are_def
proof (intro allI impI)
  fix vs a assume "outcome (Call c k) vs = Some (Inr a)"
  then show "List.map_filter call_label (calls_of (Call c k) vs) = ns"
    using assms by (cases vs) (simp_all add: labels_are_def map_filter_simps)
qed

lemma labels_unwrapped [label_intros]: "(\<And>v. labels_are (k v) ns) \<Longrightarrow> labels_are (Call (Unwrapped f as) k) ns"
  and labels_store [label_intros]: "(\<And>v. labels_are (k v) ns) \<Longrightarrow> labels_are (Call (Store x b) k) ns"
  by (simp_all add: labels_other)

lemma labels_if [label_intros]: "labels_are p ns \<Longrightarrow> labels_are q ns \<Longrightarrow> labels_are (if b then p else q) ns"
  by simp

lemma labels_perror [label_intros]: "labels_are p ns \<Longrightarrow> labels_are (perror_if b msg p) ns"
  unfolding perror_if_def by (intro label_intros)

lemma labels_ferror [label_intros]: "labels_are p ns \<Longrightarrow> labels_are (ferror_check b fp msg p) ns"
  unfolding ferror_check_def by (intro label_intros)

















section \<open>Property\<close>






end
