(* ===== verification/Libmini.thy ===== *)
theory Libmini
  imports CText Platform
begin

text \<open>
  hw3: the C library libmini (libmini.h, libmini.c, libmini64.asm). The \<open>syscall\<close> instruction is
  a parameter: a function from the kernel state, the call number and the argument registers to
  the value of rax and the next state. The process side is \<open>errno\<close>. Pointer arguments are
  addresses the library only passes on; the objects it reads or writes itself (signal sets,
  \<open>struct sigaction\<close>, strings) are passed as values, \<open>None\<close> for NULL. A local variable the C code
  leaves uninitialised is an argument of the definition.
\<close>

section \<open>System calls\<close>

type_synonym i64 = "64 word"
type_synonym i32 = "32 word"
type_synonym 'k kernel = "'k \<Rightarrow> nat \<Rightarrow> u64 list \<Rightarrow> i64 \<times> 'k"

record 'k mini =
  mkern :: 'k
  errno :: i64

datatype sysname =
    Sys_read | Sys_write | Sys_open | Sys_close | Sys_mmap | Sys_mprotect | Sys_munmap
  | Sys_rt_sigaction | Sys_rt_sigprocmask | Sys_pipe | Sys_dup | Sys_dup2 | Sys_pause | Sys_nanosleep
  | Sys_alarm | Sys_fork | Sys_exit | Sys_getcwd | Sys_chdir | Sys_rename | Sys_mkdir | Sys_rmdir
  | Sys_creat | Sys_link | Sys_unlink | Sys_readlink | Sys_chmod | Sys_chown | Sys_umask
  | Sys_gettimeofday | Sys_getuid | Sys_getgid | Sys_setuid | Sys_setgid | Sys_geteuid | Sys_getegid
  | Sys_rt_sigpending

text \<open>The numbers given to the macro \<open>gensys\<close>.\<close>

primrec sysnr :: "sysname \<Rightarrow> nat" where
  "sysnr Sys_read = 0" | "sysnr Sys_write = 1" | "sysnr Sys_open = 2" | "sysnr Sys_close = 3"
| "sysnr Sys_mmap = 9" | "sysnr Sys_mprotect = 10" | "sysnr Sys_munmap = 11"
| "sysnr Sys_rt_sigaction = 13" | "sysnr Sys_rt_sigprocmask = 14" | "sysnr Sys_pipe = 22"
| "sysnr Sys_dup = 32" | "sysnr Sys_dup2 = 33" | "sysnr Sys_pause = 34" | "sysnr Sys_nanosleep = 35"
| "sysnr Sys_alarm = 37" | "sysnr Sys_fork = 57" | "sysnr Sys_exit = 60" | "sysnr Sys_getcwd = 79"
| "sysnr Sys_chdir = 80" | "sysnr Sys_rename = 82" | "sysnr Sys_mkdir = 83" | "sysnr Sys_rmdir = 84"
| "sysnr Sys_creat = 85" | "sysnr Sys_link = 86" | "sysnr Sys_unlink = 88" | "sysnr Sys_readlink = 89"
| "sysnr Sys_chmod = 90" | "sysnr Sys_chown = 92" | "sysnr Sys_umask = 95" | "sysnr Sys_gettimeofday = 96"
| "sysnr Sys_getuid = 102" | "sysnr Sys_getgid = 104" | "sysnr Sys_setuid = 105" | "sysnr Sys_setgid = 106"
| "sysnr Sys_geteuid = 107" | "sysnr Sys_getegid = 108" | "sysnr Sys_rt_sigpending = 127"

definition gensys :: "'k kernel \<Rightarrow> sysname \<Rightarrow> u64 list \<Rightarrow> 'k \<Rightarrow> i64 \<times> 'k" where
  "gensys K name args k = K k (sysnr name) args"

section \<open>The wrapper macros\<close>

text \<open>
  \<open>WRAPPER_RETval (type)\<close> and \<open>WRAPPER_RETptr (type)\<close>: \<open>errno = 0\<close>, then a negative result is
  turned into \<open>errno\<close> and the error value (-1, or NULL), any other one is cast to the type.
\<close>

definition wrapper_ret :: "(i64 \<Rightarrow> 'r) \<Rightarrow> 'r \<Rightarrow> i64 \<Rightarrow> 'k mini \<Rightarrow> 'r \<times> 'k mini" where
  "wrapper_ret cast fail ret m =
     (let m = m\<lparr>errno := 0\<rparr> in
      if sint ret < 0 then (fail, m\<lparr>errno := - ret\<rparr>) else (cast ret, m))"

definition wrapped :: "(i64 \<Rightarrow> 'r) \<Rightarrow> 'r \<Rightarrow> ('k \<Rightarrow> i64 \<times> 'k) \<Rightarrow> 'k mini \<Rightarrow> 'r \<times> 'k mini" where
  "wrapped cast fail call m =
     (let (ret, k) = call (mkern m) in wrapper_ret cast fail ret (m\<lparr>mkern := k\<rparr>))"

definition to_int :: "i64 \<Rightarrow> i32" where "to_int = ucast"

abbreviation ret_int :: "('k \<Rightarrow> i64 \<times> 'k) \<Rightarrow> 'k mini \<Rightarrow> i32 \<times> 'k mini" where
  "ret_int \<equiv> wrapped to_int (- 1)"
abbreviation ret_ssize :: "('k \<Rightarrow> i64 \<times> 'k) \<Rightarrow> 'k mini \<Rightarrow> i64 \<times> 'k mini" where
  "ret_ssize \<equiv> wrapped id (- 1)"
abbreviation ret_ptr :: "('k \<Rightarrow> i64 \<times> 'k) \<Rightarrow> 'k mini \<Rightarrow> u64 \<times> 'k mini" where
  "ret_ptr \<equiv> wrapped id 0"

section \<open>The wrappers\<close>

definition int_arg :: "i32 \<Rightarrow> u64" where "int_arg x = ucast x"

definition mini_read :: "'k kernel \<Rightarrow> i32 \<Rightarrow> u64 \<Rightarrow> i64 \<Rightarrow> 'k mini \<Rightarrow> i64 \<times> 'k mini" where
  "mini_read K fd buf cnt = ret_ssize (gensys K Sys_read [int_arg fd, buf, cnt])"

definition mini_write :: "'k kernel \<Rightarrow> i32 \<Rightarrow> u64 \<Rightarrow> i64 \<Rightarrow> 'k mini \<Rightarrow> i64 \<times> 'k mini" where
  "mini_write K fd buf cnt = ret_ssize (gensys K Sys_write [int_arg fd, buf, cnt])"

definition mini_close :: "'k kernel \<Rightarrow> i32 \<Rightarrow> 'k mini \<Rightarrow> i32 \<times> 'k mini" where
  "mini_close K fd = ret_int (gensys K Sys_close [int_arg fd])"

definition mini_mmap :: "'k kernel \<Rightarrow> u64 \<Rightarrow> i64 \<Rightarrow> i32 \<Rightarrow> i32 \<Rightarrow> i32 \<Rightarrow> i64 \<Rightarrow> 'k mini \<Rightarrow> u64 \<times> 'k mini" where
  "mini_mmap K addr len prot flags fd off =
     ret_ptr (gensys K Sys_mmap [addr, len, int_arg prot, int_arg flags, int_arg fd, off])"

definition mini_mprotect :: "'k kernel \<Rightarrow> u64 \<Rightarrow> i64 \<Rightarrow> i32 \<Rightarrow> 'k mini \<Rightarrow> i32 \<times> 'k mini" where
  "mini_mprotect K addr len prot = ret_int (gensys K Sys_mprotect [addr, len, int_arg prot])"

definition mini_munmap :: "'k kernel \<Rightarrow> u64 \<Rightarrow> i64 \<Rightarrow> 'k mini \<Rightarrow> i32 \<times> 'k mini" where
  "mini_munmap K addr len = ret_int (gensys K Sys_munmap [addr, len])"

definition mini_pipe :: "'k kernel \<Rightarrow> u64 \<Rightarrow> 'k mini \<Rightarrow> i32 \<times> 'k mini" where
  "mini_pipe K filedes = ret_int (gensys K Sys_pipe [filedes])"

definition mini_dup :: "'k kernel \<Rightarrow> i32 \<Rightarrow> 'k mini \<Rightarrow> i32 \<times> 'k mini" where
  "mini_dup K filedes = ret_int (gensys K Sys_dup [int_arg filedes])"

definition mini_dup2 :: "'k kernel \<Rightarrow> i32 \<Rightarrow> i32 \<Rightarrow> 'k mini \<Rightarrow> i32 \<times> 'k mini" where
  "mini_dup2 K oldfd newfd = ret_int (gensys K Sys_dup2 [int_arg oldfd, int_arg newfd])"

definition mini_pause :: "'k kernel \<Rightarrow> 'k mini \<Rightarrow> i32 \<times> 'k mini" where
  "mini_pause K = ret_int (gensys K Sys_pause [])"

definition mini_nanosleep :: "'k kernel \<Rightarrow> u64 \<Rightarrow> u64 \<Rightarrow> 'k mini \<Rightarrow> i32 \<times> 'k mini" where
  "mini_nanosleep K rqtp rmtp = ret_int (gensys K Sys_nanosleep [rqtp, rmtp])"

definition mini_alarm :: "'k kernel \<Rightarrow> u32 \<Rightarrow> 'k mini \<Rightarrow> u32 \<times> 'k mini" where
  "mini_alarm K sec = ret_int (gensys K Sys_alarm [int_arg sec])"

definition mini_fork :: "'k kernel \<Rightarrow> 'k mini \<Rightarrow> i32 \<times> 'k mini" where
  "mini_fork K = ret_int (gensys K Sys_fork [])"

definition mini_exit :: "'k kernel \<Rightarrow> i32 \<Rightarrow> 'k mini \<Rightarrow> 'k mini" where
  "mini_exit K error_code m = m\<lparr>mkern := snd (gensys K Sys_exit [int_arg error_code] (mkern m))\<rparr>"

definition mini_getcwd :: "'k kernel \<Rightarrow> u64 \<Rightarrow> i64 \<Rightarrow> 'k mini \<Rightarrow> u64 \<times> 'k mini" where
  "mini_getcwd K buf cap = ret_ptr (gensys K Sys_getcwd [buf, cap])"

definition mini_chdir :: "'k kernel \<Rightarrow> u64 \<Rightarrow> 'k mini \<Rightarrow> i32 \<times> 'k mini" where
  "mini_chdir K pathname = ret_int (gensys K Sys_chdir [pathname])"

definition mini_rename :: "'k kernel \<Rightarrow> u64 \<Rightarrow> u64 \<Rightarrow> 'k mini \<Rightarrow> i32 \<times> 'k mini" where
  "mini_rename K oldname newname = ret_int (gensys K Sys_rename [oldname, newname])"

definition mini_mkdir :: "'k kernel \<Rightarrow> u64 \<Rightarrow> i32 \<Rightarrow> 'k mini \<Rightarrow> i32 \<times> 'k mini" where
  "mini_mkdir K pathname mode = ret_int (gensys K Sys_mkdir [pathname, int_arg mode])"

definition mini_rmdir :: "'k kernel \<Rightarrow> u64 \<Rightarrow> 'k mini \<Rightarrow> i32 \<times> 'k mini" where
  "mini_rmdir K pathname = ret_int (gensys K Sys_rmdir [pathname])"

definition mini_creat :: "'k kernel \<Rightarrow> u64 \<Rightarrow> i32 \<Rightarrow> 'k mini \<Rightarrow> i32 \<times> 'k mini" where
  "mini_creat K pathname mode = ret_int (gensys K Sys_creat [pathname, int_arg mode])"

definition mini_link :: "'k kernel \<Rightarrow> u64 \<Rightarrow> u64 \<Rightarrow> 'k mini \<Rightarrow> i32 \<times> 'k mini" where
  "mini_link K oldname newname = ret_int (gensys K Sys_link [oldname, newname])"

definition mini_unlink :: "'k kernel \<Rightarrow> u64 \<Rightarrow> 'k mini \<Rightarrow> i32 \<times> 'k mini" where
  "mini_unlink K pathname = ret_int (gensys K Sys_unlink [pathname])"

definition mini_readlink :: "'k kernel \<Rightarrow> u64 \<Rightarrow> u64 \<Rightarrow> i64 \<Rightarrow> 'k mini \<Rightarrow> i64 \<times> 'k mini" where
  "mini_readlink K path buf bufsz = ret_ssize (gensys K Sys_readlink [path, buf, bufsz])"

definition mini_chmod :: "'k kernel \<Rightarrow> u64 \<Rightarrow> i32 \<Rightarrow> 'k mini \<Rightarrow> i32 \<times> 'k mini" where
  "mini_chmod K filename mode = ret_int (gensys K Sys_chmod [filename, int_arg mode])"

definition mini_chown :: "'k kernel \<Rightarrow> u64 \<Rightarrow> i32 \<Rightarrow> i32 \<Rightarrow> 'k mini \<Rightarrow> i32 \<times> 'k mini" where
  "mini_chown K filename user grp = ret_int (gensys K Sys_chown [filename, int_arg user, int_arg grp])"

definition mini_umask :: "'k kernel \<Rightarrow> i32 \<Rightarrow> 'k mini \<Rightarrow> i32 \<times> 'k mini" where
  "mini_umask K msk = ret_int (gensys K Sys_umask [int_arg msk])"

definition mini_gettimeofday :: "'k kernel \<Rightarrow> u64 \<Rightarrow> u64 \<Rightarrow> 'k mini \<Rightarrow> i32 \<times> 'k mini" where
  "mini_gettimeofday K tv tz = ret_int (gensys K Sys_gettimeofday [tv, tz])"

definition mini_getuid :: "'k kernel \<Rightarrow> 'k mini \<Rightarrow> i32 \<times> 'k mini" where
  "mini_getuid K = ret_int (gensys K Sys_getuid [])"

definition mini_getgid :: "'k kernel \<Rightarrow> 'k mini \<Rightarrow> i32 \<times> 'k mini" where
  "mini_getgid K = ret_int (gensys K Sys_getgid [])"

definition mini_setuid :: "'k kernel \<Rightarrow> i32 \<Rightarrow> 'k mini \<Rightarrow> i32 \<times> 'k mini" where
  "mini_setuid K uid = ret_int (gensys K Sys_setuid [int_arg uid])"

definition mini_setgid :: "'k kernel \<Rightarrow> i32 \<Rightarrow> 'k mini \<Rightarrow> i32 \<times> 'k mini" where
  "mini_setgid K gid = ret_int (gensys K Sys_setgid [int_arg gid])"

definition mini_geteuid :: "'k kernel \<Rightarrow> 'k mini \<Rightarrow> i32 \<times> 'k mini" where
  "mini_geteuid K = ret_int (gensys K Sys_geteuid [])"

definition mini_getegid :: "'k kernel \<Rightarrow> 'k mini \<Rightarrow> i32 \<times> 'k mini" where
  "mini_getegid K = ret_int (gensys K Sys_getegid [])"

definition mini_sigpending :: "'k kernel \<Rightarrow> u64 \<Rightarrow> 'k mini \<Rightarrow> i32 \<times> 'k mini" where
  "mini_sigpending K sset = ret_int (gensys K Sys_rt_sigpending [sset, 8])"

definition mini_sigprocmask :: "'k kernel \<Rightarrow> i32 \<Rightarrow> u64 \<Rightarrow> u64 \<Rightarrow> 'k mini \<Rightarrow> i32 \<times> 'k mini" where
  "mini_sigprocmask K how sset oldset = ret_int (gensys K Sys_rt_sigprocmask [int_arg how, sset, oldset, 8])"

section \<open>open and sleep (assembly)\<close>

definition mini_open :: "'k kernel \<Rightarrow> u64 \<Rightarrow> i32 \<Rightarrow> i32 \<Rightarrow> 'k mini \<Rightarrow> i64 \<times> 'k mini" where
  "mini_open K filename flags mode m =
     (let (rax, k) = gensys K Sys_open [filename, int_arg flags, int_arg mode] (mkern m); m = m\<lparr>mkern := k\<rparr> in
      if sint rax \<ge> 0 then (rax, m\<lparr>errno := 0\<rparr>)
      else (- 1, m\<lparr>errno := - rax\<rparr>))"

text \<open>
  \<open>sleep\<close> keeps both \<open>timespec\<close> values on its stack; the kernel's side is a function that also
  gives the seconds it leaves in the second one.
\<close>

definition mini_sleep :: "('k \<Rightarrow> u64 \<Rightarrow> i64 \<times> i64 \<times> 'k) \<Rightarrow> u64 \<Rightarrow> 'k mini \<Rightarrow> i64 \<times> 'k mini" where
  "mini_sleep nanosleep rdi m =
     (let (rax, rem_sec, k) = nanosleep (mkern m) rdi; m = m\<lparr>mkern := k\<rparr> in
      if sint rax \<ge> 0 then (rax, m)
      else if - rax = 4 then (rem_sec, m)
      else (0, m))"

section \<open>Memory and strings\<close>

text \<open>
  \<open>memset (s, c, n)\<close> on the bytes of the object at \<open>s\<close>. The loop counter is declared without a
  value, so its first value is an argument; \<open>size_t\<close> is \<open>long long\<close> in libmini.h, so it is signed.
  Writing outside the object is \<open>OutOfBounds\<close>.
\<close>

function memset_from :: "int \<Rightarrow> u8 \<Rightarrow> int \<Rightarrow> bytes \<Rightarrow> halt + bytes" where
  "memset_from i c n bs =
     (if i < n then
        (if 0 \<le> i \<and> i < int (length bs) then memset_from (i + 1) c n (bs[nat i := c])
         else Inl OutOfBounds)
      else Inr bs)"
  by pat_completeness auto
termination
  by (relation "measure (\<lambda>(i, c, n, bs). nat (n - i))") auto

declare memset_from.simps [simp del]

definition mini_memset :: "int \<Rightarrow> bytes \<Rightarrow> i32 \<Rightarrow> i64 \<Rightarrow> halt + bytes" where
  "mini_memset i0 bs c n = memset_from i0 (ucast c) (sint n) bs"

text \<open>\<open>bzero\<close> and \<open>strlen\<close> on the bytes from the pointer to the end of its object.\<close>

fun mini_bzero :: "bytes \<Rightarrow> nat \<Rightarrow> halt + bytes" where
  "mini_bzero bs 0 = Inr bs"
| "mini_bzero [] (Suc n) = Inl OutOfBounds"
| "mini_bzero (b # bs) (Suc n) = bindE (mini_bzero bs n) (\<lambda>r. Inr (0 # r))"

fun strlen_from :: "bytes \<Rightarrow> nat \<Rightarrow> halt + nat" where
  "strlen_from [] cnt = Inl OutOfBounds"
| "strlen_from (b # bs) cnt = (if b = 0 then Inr cnt else strlen_from bs (Suc cnt))"

definition mini_strlen :: "bytes \<Rightarrow> halt + nat" where
  "mini_strlen s = strlen_from s 0"

section \<open>Signal sets\<close>

type_synonym sigset = "64 word"

definition EINVAL :: i64 where "EINVAL = 22"

definition sigmask :: "int \<Rightarrow> sigset" where
  "sigmask sig = push_bit (nat ((sig - 1) mod (8 * 8))) 1"

definition einval :: "'k mini \<Rightarrow> i32 \<times> 'k mini" where
  "einval = wrapper_ret to_int (- 1) (- EINVAL)"

definition sigismember :: "sigset option \<Rightarrow> int \<Rightarrow> 'k mini \<Rightarrow> i32 \<times> 'k mini" where
  "sigismember sset sig m =
     (case sset of
        None \<Rightarrow> einval m
      | Some w \<Rightarrow> if sig \<le> 0 \<or> sig \<ge> 32 then einval m
                 else (if w AND sigmask sig \<noteq> 0 then 1 else 0, m))"

text \<open>The result, the object at \<open>set\<close> afterwards, the state.\<close>

definition sigaddset :: "sigset option \<Rightarrow> int \<Rightarrow> 'k mini \<Rightarrow> i32 \<times> sigset option \<times> 'k mini" where
  "sigaddset sset sig m =
     (case sset of
        None \<Rightarrow> (let (r, m) = einval m in (r, None, m))
      | Some w \<Rightarrow>
          if sig \<le> 0 \<or> sig \<ge> 32 then (let (r, m) = einval m in (r, Some w, m))
          else let (r, m) = wrapper_ret to_int (- 1) 0 m in (r, Some (w OR sigmask sig), m))"

definition sigdelset :: "sigset option \<Rightarrow> int \<Rightarrow> 'k mini \<Rightarrow> i32 \<times> sigset option \<times> 'k mini" where
  "sigdelset sset sig m =
     (case sset of
        None \<Rightarrow> (let (r, m) = einval m in (r, None, m))
      | Some w \<Rightarrow>
          if sig \<le> 0 \<or> sig \<ge> 32 then (let (r, m) = einval m in (r, Some w, m))
          else let (r, m) = wrapper_ret to_int (- 1) 0 m in (r, Some (w AND NOT (sigmask sig)), m))"

definition bytes_word :: "bytes \<Rightarrow> u64" where
  "bytes_word bs = of_nat (le_value bs)"

text \<open>\<open>i0\<close> is what \<open>memset\<close> finds in its loop counter.\<close>

definition sigset_memset :: "int \<Rightarrow> i32 \<Rightarrow> sigset option \<Rightarrow> 'k mini \<Rightarrow> halt + i32 \<times> sigset option \<times> 'k mini" where
  "sigset_memset i0 c sset m =
     (case sset of
        None \<Rightarrow> (let (r, m) = einval m in Inr (r, None, m))
      | Some w \<Rightarrow>
          bindE (mini_memset i0 (le_bytes w) c 8)
            (\<lambda>bs. let (r, m) = wrapper_ret to_int (- 1) 0 m in Inr (r, Some (bytes_word bs), m)))"

definition sigemptyset :: "int \<Rightarrow> sigset option \<Rightarrow> 'k mini \<Rightarrow> halt + i32 \<times> sigset option \<times> 'k mini" where
  "sigemptyset i0 = sigset_memset i0 0"

definition sigfillset :: "int \<Rightarrow> sigset option \<Rightarrow> 'k mini \<Rightarrow> halt + i32 \<times> sigset option \<times> 'k mini" where
  "sigfillset i0 = sigset_memset i0 0xff"

section \<open>sigaction and signal\<close>

record sigaction_t =
  sa_handler :: u64
  sa_flags :: u64
  sa_restorer :: u64
  sa_mask :: sigset

definition SA_RESTORER :: u64 where "SA_RESTORER = 0x04000000"
definition SA_RESTART :: u64 where "SA_RESTART = 0x10000000"
definition SIG_ERR :: u64 where "SIG_ERR = - 1"
definition SIGINT :: int where "SIGINT = 2"

text \<open>
  The kernel's side of \<open>rt_sigaction\<close> with both pointers not NULL, as this library always calls
  it: the signal, the new action, what the buffer for the old one holds; it returns the result,
  the buffer and the next state. \<open>sigreturn_addr\<close> is where \<open>sys_rt_sigreturn\<close> was linked.
\<close>

record 'k signals =
  rt_sigaction :: "'k \<Rightarrow> int \<Rightarrow> sigaction_t \<Rightarrow> sigaction_t \<Rightarrow> i64 \<times> sigaction_t \<times> 'k"
  sigreturn_addr :: u64

text \<open>\<open>kact0\<close> and \<open>koldact0\<close> are what the two local structs hold before they are assigned.\<close>

definition mini_sigaction :: "'k signals \<Rightarrow> sigaction_t \<Rightarrow> sigaction_t \<Rightarrow> int \<Rightarrow> sigaction_t option
    \<Rightarrow> sigaction_t option \<Rightarrow> 'k mini \<Rightarrow> i32 \<times> sigaction_t option \<times> 'k mini" where
  "mini_sigaction S kact0 koldact0 signum act oldact m =
     (let kact = (case act of
            None \<Rightarrow> kact0
          | Some a \<Rightarrow> \<lparr>sa_handler = sa_handler a, sa_flags = sa_flags a OR SA_RESTORER,
                       sa_restorer = sigreturn_addr S, sa_mask = sa_mask a\<rparr>);
          (ret, koldact, k) = rt_sigaction S (mkern m) signum kact koldact0;
          m = m\<lparr>mkern := k\<rparr>;
          oldact = (if ret = 0 \<and> oldact \<noteq> None
                    then Some \<lparr>sa_handler = sa_handler koldact, sa_flags = sa_flags koldact,
                               sa_restorer = sa_restorer koldact, sa_mask = sa_mask koldact\<rparr>
                    else oldact);
          (r, m) = wrapper_ret to_int (- 1) ret m
      in (r, oldact, m))"

text \<open>\<open>act0\<close> and \<open>oact0\<close>: the two local structs of \<open>signal\<close>; \<open>i0\<close>, \<open>kact0\<close>, \<open>koldact0\<close> as above.\<close>

definition mini_signal :: "'k signals \<Rightarrow> int \<Rightarrow> sigaction_t \<Rightarrow> sigaction_t \<Rightarrow> sigaction_t \<Rightarrow> sigaction_t
    \<Rightarrow> int \<Rightarrow> u64 \<Rightarrow> 'k mini \<Rightarrow> halt + u64 \<times> 'k mini" where
  "mini_signal S i0 kact0 koldact0 act0 oact0 signum handler m =
     (if handler = SIG_ERR \<or> signum < 1 \<or> signum \<ge> 32 then Inr (SIG_ERR, m\<lparr>errno := EINVAL\<rparr>)
      else
        let act = act0\<lparr>sa_handler := handler\<rparr> in
        bindE (sigemptyset i0 (Some (sa_mask act)) m) (\<lambda>(_, empty, m).
          let (_, msk, m) = sigaddset empty signum m;
              act = act\<lparr>sa_mask := the msk, sa_flags := (if signum = SIGINT then 0 else SA_RESTART)\<rparr>;
              (r, oact, m) = mini_sigaction S kact0 koldact0 signum (Some act) (Some oact0) m
          in if sint r < 0 then Inr (SIG_ERR, m) else Inr (sa_handler (the oact), m)))"

section \<open>perror\<close>

definition errmsg :: "string list" where
  "errmsg = [
     ''Success'', ''Operation not permitted'', ''No such file or directory'', ''No such process'',
     ''Interrupted system call'', ''I/O error'', ''No such device or address'', ''Argument list too long'',
     ''Exec format error'', ''Bad file number'', ''No child processes'', ''Try again'', ''Out of memory'',
     ''Permission denied'', ''Bad address'', ''Block device required'', ''Device or resource busy'',
     ''File exists'', ''Cross-device link'', ''No such device'', ''Not a directory'', ''Is a directory'',
     ''Invalid argument'', ''File table overflow'', ''Too many open files'', ''Not a typewriter'',
     ''Text file busy'', ''File too large'', ''No space left on device'', ''Illegal seek'',
     ''Read-only file system'', ''Too many links'', ''Broken pipe'',
     ''Math argument out of domain of func'', ''Math result not representable'']"

text \<open>\<open>write (2, text, strlen (text))\<close>: the kernel's side as a function of the text.\<close>

type_synonym 'k writer = "'k \<Rightarrow> string \<Rightarrow> i64 \<times> 'k"

definition write2 :: "'k writer \<Rightarrow> string \<Rightarrow> 'k mini \<Rightarrow> 'k mini" where
  "write2 W t m = snd (ret_ssize (\<lambda>k. W k t) m)"

definition mini_perror :: "'k writer \<Rightarrow> string option \<Rightarrow> 'k mini \<Rightarrow> halt + 'k mini" where
  "mini_perror W prefix m =
     (let backup = errno m;
          m = (case prefix of None \<Rightarrow> m | Some p \<Rightarrow> write2 W '': '' (write2 W p m))
      in bindE (if sint (errno m) < 0 \<or> sint (errno m) > 34 then Inr (write2 W ''Unknown'' m)
                else if 0 \<le> sint backup \<and> sint backup \<le> 34
                then Inr (write2 W (errmsg ! nat (sint backup)) m)
                else Inl OutOfBounds)
           (\<lambda>m. Inr (write2 W nl m)))"

section \<open>setjmp and longjmp (assembly)\<close>

text \<open>The registers the two routines touch, and the words of the stack.\<close>

record cpu =
  rax :: u64
  rbx :: u64
  rsp :: u64
  rbp :: u64
  r12 :: u64
  r13 :: u64
  r14 :: u64
  r15 :: u64
  rsi :: u64
  rip :: u64
  stack :: "u64 \<Rightarrow> u64"

record jmp_buf =
  jb_rbx :: u64
  jb_rsp :: u64
  jb_rbp :: u64
  jb_r12 :: u64
  jb_r13 :: u64
  jb_r14 :: u64
  jb_r15 :: u64
  jb_rip :: u64
  jb_mask :: sigset

text \<open>
  \<open>pop rsi\<close>, save, \<open>push rsi\<close> (before the return address is stored, which does not change rsi),
  \<open>ret\<close>.
\<close>

definition mini_setjmp :: "jmp_buf \<Rightarrow> cpu \<Rightarrow> jmp_buf \<times> cpu" where
  "mini_setjmp env c =
     (let c = c\<lparr>rsi := stack c (rsp c), rsp := rsp c + 8\<rparr>;
          c = c\<lparr>rax := 0\<rparr>;
          env = env\<lparr>jb_rbx := rbx c, jb_rsp := rsp c\<rparr>;
          c = c\<lparr>rsp := rsp c - 8, stack := (stack c)(rsp c - 8 := rsi c)\<rparr>;
          env = env\<lparr>jb_rbp := rbp c, jb_r12 := r12 c, jb_r13 := r13 c, jb_r14 := r14 c, jb_r15 := r15 c,
                    jb_rip := rsi c\<rparr>
      in (env, c\<lparr>rip := stack c (rsp c), rsp := rsp c + 8\<rparr>))"

definition mini_longjmp :: "jmp_buf \<Rightarrow> i32 \<Rightarrow> cpu \<Rightarrow> cpu" where
  "mini_longjmp env val c =
     c\<lparr>rax := ucast val, rbx := jb_rbx env, rsp := jb_rsp env, rbp := jb_rbp env, r12 := jb_r12 env,
       r13 := jb_r13 env, r14 := jb_r14 env, r15 := jb_r15 env, rip := jb_rip env\<rparr>"

end
