(* ===== verification/LibminiClaims.thy ===== *)
theory LibminiClaims
  imports Libmini
begin

text \<open>
  The properties of libmini: the errno contract of the wrappers (the locale \<open>errno_wrapper\<close>,
  interpreted on the macros' translation), signal sets as finite sets of signals (the locale
  \<open>signal_set\<close>), what the uninitialised loop counter of \<open>memset\<close> and the uninitialised struct of
  \<open>sigaction\<close> do, \<open>perror\<close>, and \<open>setjmp\<close> with \<open>longjmp\<close>.
\<close>

section \<open>The errno contract\<close>

locale errno_wrapper =
  fixes call :: "'k \<Rightarrow> i64 \<times> 'k"
    and conv :: "i64 \<Rightarrow> 'r"
    and fail :: 'r
    and wrapper :: "'k mini \<Rightarrow> 'r \<times> 'k mini"
  assumes wrapper_kernel: "mkern (snd (wrapper m)) = snd (call (mkern m))"
    and wrapper_returns: "0 \<le> sint (fst (call (mkern m))) \<Longrightarrow>
       fst (wrapper m) = conv (fst (call (mkern m))) \<and> errno (snd (wrapper m)) = 0"
    and wrapper_fails: "sint (fst (call (mkern m))) < 0 \<Longrightarrow>
       fst (wrapper m) = fail \<and> errno (snd (wrapper m)) = - fst (call (mkern m))"
begin

lemma errno_tells: "errno (snd (wrapper m)) = 0 \<longleftrightarrow> 0 \<le> sint (fst (call (mkern m)))"
proof (cases "0 \<le> sint (fst (call (mkern m)))")
  case False
  then have "fst (call (mkern m)) \<noteq> 0" by auto
  with False show ?thesis using wrapper_fails [of m] by simp
qed (simp add: wrapper_returns)

lemma errno_forgotten: "mkern m = mkern n \<Longrightarrow> errno (snd (wrapper m)) = errno (snd (wrapper n))"
  using wrapper_returns [of m] wrapper_returns [of n] wrapper_fails [of m] wrapper_fails [of n]
  by (cases "0 \<le> sint (fst (call (mkern m)))") (auto simp: not_le)

end

interpretation macro: errno_wrapper call conv fail "wrapped conv fail call" for call conv fail
  by unfold_locales (auto simp: wrapped_def wrapper_ret_def Let_def split: prod.splits)




section \<open>Signal sets\<close>

text \<open>Sets of signal numbers 1 to 31 with operations that refuse other numbers.\<close>

locale signal_set =
  fixes abs :: "'s \<Rightarrow> int set"
    and add :: "int \<Rightarrow> 's \<Rightarrow> 's option"
    and del :: "int \<Rightarrow> 's \<Rightarrow> 's option"
    and isin :: "int \<Rightarrow> 's \<Rightarrow> bool option"
  assumes add_abs: "1 \<le> sig \<Longrightarrow> sig < 32 \<Longrightarrow> \<exists>t. add sig s = Some t \<and> abs t = insert sig (abs s)"
    and del_abs: "1 \<le> sig \<Longrightarrow> sig < 32 \<Longrightarrow> \<exists>t. del sig s = Some t \<and> abs t = abs s - {sig}"
    and isin_abs: "1 \<le> sig \<Longrightarrow> sig < 32 \<Longrightarrow> isin sig s = Some (sig \<in> abs s)"
    and refused: "sig < 1 \<or> 32 \<le> sig \<Longrightarrow> add sig s = None \<and> del sig s = None \<and> isin sig s = None"
begin

lemma sigset_isin_add:
  assumes "1 \<le> sig" "sig < 32" "1 \<le> other" "other < 32" and "add sig s = Some t"
  shows "isin other t = Some (other = sig \<or> other \<in> abs s)"
  using add_abs [OF assms(1,2), of s] isin_abs [OF assms(3,4), of t] assms(5) by auto

lemma sigset_add_del:
  assumes "1 \<le> sig" "sig < 32" "sig \<notin> abs s" and "add sig s = Some t" and "del sig t = Some u"
  shows "abs u = abs s"
  using add_abs [OF assms(1,2), of s] del_abs [OF assms(1,2), of t] assms(3-5) by auto

end

definition sigset_abs :: "sigset \<Rightarrow> int set" where
  "sigset_abs w = {sig. 1 \<le> sig \<and> sig \<le> 64 \<and> bit w (nat (sig - 1))}"

text \<open>The operations of the library seen as functions on sets: the new set when they return 0.\<close>

definition set_result :: "i32 \<times> sigset option \<times> 'k mini \<Rightarrow> sigset option" where
  "set_result r = (if fst r = 0 then fst (snd r) else None)"

definition member_result :: "i32 \<times> 'k mini \<Rightarrow> bool option" where
  "member_result r = (if fst r = - 1 then None else Some (fst r = 1))"

lemma sigmask_bit:
  assumes "1 \<le> sig" "sig < 32"
  shows "bit (sigmask sig) n \<longleftrightarrow> n = nat (sig - 1)"
proof -
  have "(sig - 1) mod 64 = sig - 1" using assms by simp
  moreover have "nat (sig - 1) < 64" using assms by simp
  ultimately show ?thesis by (auto simp: sigmask_def bit_simps)
qed

lemma einval_result: "einval m = (- 1, m\<lparr>errno := EINVAL\<rparr>)"
  by (simp add: einval_def wrapper_ret_def EINVAL_def Let_def)

lemma wrapper_zero: "wrapper_ret to_int (- 1) 0 m = (0, m\<lparr>errno := 0\<rparr>)"
  by (simp add: wrapper_ret_def to_int_def)

lemma sigaddset_valid:
  "1 \<le> sig \<Longrightarrow> sig < 32 \<Longrightarrow> sigaddset (Some w) sig m = (0, Some (w OR sigmask sig), m\<lparr>errno := 0\<rparr>)"
  by (simp add: sigaddset_def wrapper_zero)

lemma sigdelset_valid:
  "1 \<le> sig \<Longrightarrow> sig < 32 \<Longrightarrow> sigdelset (Some w) sig m = (0, Some (w AND NOT (sigmask sig)), m\<lparr>errno := 0\<rparr>)"
  by (simp add: sigdelset_def wrapper_zero)

lemma sigmask_test:
  assumes "1 \<le> sig" "sig < 32"
  shows "w AND sigmask sig \<noteq> 0 \<longleftrightarrow> bit w (nat (sig - 1))"
proof
  assume "w AND sigmask sig \<noteq> 0"
  then obtain n where "bit (w AND sigmask sig) n" using bit_eqI [of "w AND sigmask sig" 0] by auto
  then show "bit w (nat (sig - 1))" by (auto simp: bit_and_iff sigmask_bit [OF assms])
next
  assume "bit w (nat (sig - 1))"
  then have "bit (w AND sigmask sig) (nat (sig - 1))" by (simp add: bit_and_iff sigmask_bit [OF assms])
  then show "w AND sigmask sig \<noteq> 0" by auto
qed

lemma sigismember_valid:
  "1 \<le> sig \<Longrightarrow> sig < 32 \<Longrightarrow>
   sigismember (Some w) sig m = (if sig \<in> sigset_abs w then 1 else 0, m)"
  using sigmask_test [of sig w] by (auto simp: sigismember_def sigset_abs_def)

lemma sigset_abs_add: "1 \<le> sig \<Longrightarrow> sig < 32 \<Longrightarrow> sigset_abs (w OR sigmask sig) = insert sig (sigset_abs w)"
  by (auto simp: sigset_abs_def bit_or_iff sigmask_bit)

lemma sigset_abs_del: "1 \<le> sig \<Longrightarrow> sig < 32 \<Longrightarrow> sigset_abs (w AND NOT (sigmask sig)) = sigset_abs w - {sig}"
  by (auto simp: sigset_abs_def bit_and_iff bit_not_iff sigmask_bit)

interpretation sigset: signal_set sigset_abs
  "\<lambda>sig w. set_result (sigaddset (Some w) sig m)" "\<lambda>sig w. set_result (sigdelset (Some w) sig m)"
  "\<lambda>sig w. member_result (sigismember (Some w) sig m)" for m :: "'k mini"
proof (unfold_locales, goal_cases)
  case (1 sig s)
  then show ?case by (simp add: sigaddset_valid set_result_def sigset_abs_add)
next
  case (2 sig s)
  then show ?case by (simp add: sigdelset_valid set_result_def sigset_abs_del)
next
  case (3 sig s)
  then show ?case by (simp add: sigismember_valid member_result_def)
next
  case (4 sig s)
  then show ?case
    by (auto simp: sigaddset_def sigdelset_def sigismember_def einval_result set_result_def member_result_def)
qed

text \<open>
  C10: The signal set operations implement finite sets of the signals 1 to 31: adding, deleting and
  testing a valid signal do what the set operations do and return 0 (or the membership), clearing
  errno when they change the set; an invalid signal or a NULL set is refused with -1 and EINVAL,
  leaving the set alone.
\<close>

theorem signal_sets_refine_sets:
  "(1 \<le> sig \<longrightarrow> sig < 32 \<longrightarrow>
     (\<exists>v. sigaddset (Some w) sig m = (0, Some v, m\<lparr>errno := 0\<rparr>) \<and> sigset_abs v = insert sig (sigset_abs w)) \<and>
     (\<exists>v. sigdelset (Some w) sig m = (0, Some v, m\<lparr>errno := 0\<rparr>) \<and> sigset_abs v = sigset_abs w - {sig}) \<and>
     sigismember (Some w) sig m = (if sig \<in> sigset_abs w then 1 else 0, m)) \<and>
   (sig < 1 \<or> 32 \<le> sig \<or> sset = None \<longrightarrow> sset = None \<or> sset = Some w \<longrightarrow>
     sigaddset sset sig m = (- 1, sset, m\<lparr>errno := EINVAL\<rparr>) \<and>
     sigdelset sset sig m = (- 1, sset, m\<lparr>errno := EINVAL\<rparr>) \<and>
     sigismember sset sig m = (- 1, m\<lparr>errno := EINVAL\<rparr>))"
proof (intro conjI impI)
  assume s: "1 \<le> sig" "sig < 32"
  show "\<exists>v. sigaddset (Some w) sig m = (0, Some v, m\<lparr>errno := 0\<rparr>) \<and> sigset_abs v = insert sig (sigset_abs w)"
    using sigset.add_abs [OF s, of w m] by (simp add: sigaddset_valid [OF s] set_result_def)
  show "\<exists>v. sigdelset (Some w) sig m = (0, Some v, m\<lparr>errno := 0\<rparr>) \<and> sigset_abs v = sigset_abs w - {sig}"
    using sigset.del_abs [OF s, of w m] by (simp add: sigdelset_valid [OF s] set_result_def)
  show "sigismember (Some w) sig m = (if sig \<in> sigset_abs w then 1 else 0, m)"
    by (rule sigismember_valid [OF s])
next
  assume "sig < 1 \<or> 32 \<le> sig \<or> sset = None" "sset = None \<or> sset = Some w"
  then show "sigaddset sset sig m = (- 1, sset, m\<lparr>errno := EINVAL\<rparr>)"
    and "sigdelset sset sig m = (- 1, sset, m\<lparr>errno := EINVAL\<rparr>)"
    and "sigismember sset sig m = (- 1, m\<lparr>errno := EINVAL\<rparr>)"
    by (auto simp: sigaddset_def sigdelset_def sigismember_def einval_result)
qed

definition mini0 :: "string list mini" where
  "mini0 = \<lparr>mkern = [], errno = 0\<rparr>"

lemma signal_sets_refine_sets_witness:
  "\<exists>v. sigaddset (Some 0) 14 mini0 = (0, Some v, mini0) \<and> sigset_abs v = insert 14 (sigset_abs 0)"
  using signal_sets_refine_sets [of 14 0 mini0 None] by (simp add: mini0_def)

section \<open>memset\<close>

lemma memset_from_upto:
  assumes "0 \<le> i" and "n = int (length bs)"
  shows "memset_from i c n bs = Inr (take (nat i) bs @ replicate (length bs - nat i) c)"
  using assms
proof (induction i c n bs rule: memset_from.induct)
  case (1 i c n bs)
  show ?case
  proof (cases "i < n")
    case True
    have len: "nat i < length bs" using True 1(2,3) by simp
    have "memset_from i c n bs = memset_from (i + 1) c n (bs[nat i := c])"
      using True 1(2,3) by (simp add: memset_from.simps [of i])
    also have "\<dots> = Inr (take (nat (i + 1)) (bs[nat i := c]) @ replicate (length bs - nat (i + 1)) c)"
      using 1(1) [OF True] True 1(2,3) by simp
    also have "take (nat (i + 1)) (bs[nat i := c]) = take (nat i) bs @ [c]"
      using len 1(2) by (simp add: nat_add_distrib take_Suc_conv_app_nth)
    finally have "memset_from i c n bs = Inr (take (nat i) bs @ c # replicate (length bs - nat (i + 1)) c)" by simp
    moreover have "replicate (length bs - nat i) c = c # replicate (length bs - nat (i + 1)) c"
      using len 1(2) by (simp add: nat_add_distrib Suc_diff_Suc flip: replicate_Suc)
    ultimately show ?thesis by simp
  next
    case False
    then show ?thesis using 1(3) by (simp add: memset_from.simps [of i])
  qed
qed

lemma bytes_word_byte: "i < 8 \<Longrightarrow> length bs = 8 \<Longrightarrow> byte_of i (bytes_word bs) = bs ! i"
  by (simp add: bytes_word_def byte_of_le_value)

lemma byte_of_and_mask: "byte_of i (w AND mask (8 * k)) = (if i < k then byte_of i w else 0)"
proof (rule bit_word_eqI)
  fix n :: nat
  assume "n < LENGTH(8)"
  then show "bit (byte_of i (w AND mask (8 * k))) n = bit (if i < k then byte_of i w else 0) n"
    by (auto simp: bit_byte_of bit_and_iff bit_mask_iff dest: bit_imp_le_length)
qed

lemma bytes_word_keep_low:
  "k \<le> 8 \<Longrightarrow> bytes_word (take k (le_bytes w) @ replicate (8 - k) 0) = w AND mask (8 * k)"
  by (rule word64_eq_bytes) (simp add: bytes_word_byte nth_append nth_le_bytes byte_of_and_mask min_def)

lemma sigemptyset_result:
  "sigemptyset i0 (Some w) m =
     (if i0 < 0 then Inl OutOfBounds
      else Inr (0, Some (w AND mask (8 * nat (min i0 8))), m\<lparr>errno := 0\<rparr>))"
proof -
  have n: "sint (8 :: i64) = 8" by simp
  consider "i0 < 0" | "0 \<le> i0" "i0 \<le> 8" | "8 < i0" by linarith
  then show ?thesis
  proof cases
    case 1
    then show ?thesis
      by (simp add: sigemptyset_def sigset_memset_def mini_memset_def memset_from.simps [of i0])
  next
    case 2
    have "memset_from i0 0 8 (le_bytes w) = Inr (take (nat i0) (le_bytes w) @ replicate (8 - nat i0) 0)"
      using memset_from_upto [of i0 8 "le_bytes w" 0] 2 by simp
    moreover have "nat i0 \<le> 8" using 2 by simp
    ultimately show ?thesis
      using 2 bytes_word_keep_low [of "nat i0" w]
      by (simp add: sigemptyset_def sigset_memset_def mini_memset_def wrapper_zero min_def)
  next
    case 3
    have "w AND mask 64 = w" by (rule bit_word_eqI) (simp add: bit_and_iff bit_mask_iff)
    moreover have "bytes_word (le_bytes w) = w"
      by (rule word64_eq_bytes) (simp add: bytes_word_byte nth_le_bytes)
    ultimately show ?thesis
      using 3 by (simp add: sigemptyset_def sigset_memset_def mini_memset_def wrapper_zero memset_from.simps [of i0] min_def)
  qed
qed

text \<open>
  C40: \<open>sigemptyset\<close> empties the set only when the uninitialised loop counter of \<open>memset\<close> happens to be
  0: starting at i between 0 and 8 it keeps the i low bytes of the set (signals 1 to 8 i), from 9 on
  it keeps everything, always reporting success, and a negative start writes in front of the object.
\<close>

theorem sigemptyset_depends_on_garbage:
  "sigemptyset i0 (Some w) m =
     (if i0 < 0 then Inl OutOfBounds
      else Inr (0, Some (w AND mask (8 * nat (min i0 8))), m\<lparr>errno := 0\<rparr>))"
  by (rule sigemptyset_result)

section \<open>sigaction and signal\<close>

text \<open>
  The documented effect of \<open>rt_sigaction\<close> on a table of actions: for the signals other than SIGKILL
  and SIGSTOP it stores the new action and returns the old one.
\<close>

definition keeps_actions :: "'k signals \<Rightarrow> ('k \<Rightarrow> int \<Rightarrow> sigaction_t) \<Rightarrow> bool" where
  "keeps_actions S actions \<longleftrightarrow>
     (\<forall>k sig a o'. 1 \<le> sig \<and> sig < 32 \<and> sig \<noteq> 9 \<and> sig \<noteq> 19 \<longrightarrow>
        (\<exists>k'. rt_sigaction S k sig a o' = (0, actions k sig, k') \<and> actions k' = (actions k)(sig := a)))"

lemma keeps_actionsD:
  assumes "keeps_actions S actions" and "1 \<le> sig" "sig < 32" "sig \<noteq> 9" "sig \<noteq> 19"
  obtains k' where "rt_sigaction S k sig a o' = (0, actions k sig, k')" "actions k' = (actions k)(sig := a)"
  using assms unfolding keeps_actions_def by blast

text \<open>
  \<open>sigaction\<close> with a NULL new action, which should only report the current one, installs whatever
  the uninitialised local struct holds as the signal's action.
\<close>

theorem sigaction_query_installs_garbage:
  assumes "keeps_actions S actions" and "1 \<le> sig" "sig < 32" "sig \<noteq> 9" "sig \<noteq> 19"
  shows "\<exists>m'. mini_sigaction S junk koldact0 sig None (Some old) m = (0, Some (actions (mkern m) sig), m') \<and>
     actions (mkern m') sig = junk \<and> errno m' = 0"
proof -
  obtain k' where "rt_sigaction S (mkern m) sig junk koldact0 = (0, actions (mkern m) sig, k')"
    "actions k' = (actions (mkern m))(sig := junk)"
    by (rule keeps_actionsD [OF assms])
  then show ?thesis by (simp add: mini_sigaction_def wrapper_zero)
qed

text \<open>A kernel that is just its table of actions.\<close>

definition table_signals :: "(int \<Rightarrow> sigaction_t) signals" where
  "table_signals = \<lparr>rt_sigaction = (\<lambda>k sig a o'. (0, k sig, k(sig := a))), sigreturn_addr = 0x401100\<rparr>"

definition dfl :: sigaction_t where
  "dfl = \<lparr>sa_handler = 0, sa_flags = 0, sa_restorer = 0, sa_mask = 0\<rparr>"

definition table0 :: "(int \<Rightarrow> sigaction_t) mini" where
  "table0 = \<lparr>mkern = (\<lambda>_. dfl), errno = 0\<rparr>"

lemma table_keeps_actions: "keeps_actions table_signals (\<lambda>k. k)"
  by (simp add: keeps_actions_def table_signals_def)

lemma sigaction_query_installs_garbage_witness:
  "\<exists>m'. mini_sigaction table_signals (dfl\<lparr>sa_handler := 0xdead\<rparr>) dfl 14 None (Some dfl) table0 = (0, Some dfl, m') \<and>
     mkern m' 14 = dfl\<lparr>sa_handler := 0xdead\<rparr> \<and> errno m' = 0"
  using sigaction_query_installs_garbage [OF table_keeps_actions, of 14 "dfl\<lparr>sa_handler := 0xdead\<rparr>" dfl dfl table0]
  by (simp add: table0_def)



section \<open>perror\<close>

text \<open>
  After a prefix that was written successfully errno is 0, so \<open>perror\<close> never prints "Unknown": for
  error numbers in the table it prints prefix, colon, message and newline, and for all others it
  reads outside the table. Without a prefix the range check works.
\<close>

theorem perror_clobbers_errno:
  assumes "\<forall>k t. 0 \<le> sint (fst (W k t))"
  shows "mini_perror W (Some p) m =
       (if 0 \<le> sint (errno m) \<and> sint (errno m) \<le> 34
        then Inr (write2 W nl (write2 W (errmsg ! nat (sint (errno m))) (write2 W '': '' (write2 W p m))))
        else Inl OutOfBounds) \<and>
     mini_perror W None m =
       Inr (write2 W nl (write2 W (if 0 \<le> sint (errno m) \<and> sint (errno m) \<le> 34
                                  then errmsg ! nat (sint (errno m)) else ''Unknown'') m))"
proof -
  have "errno (write2 W t n) = 0" for t n
    using macro.errno_tells [of id "- 1" "\<lambda>k. W k t" n] assms by (simp add: write2_def)
  then show ?thesis by (auto simp: mini_perror_def Let_def)
qed

text \<open>A writer that keeps the texts and always succeeds.\<close>

definition log_writer :: "string list writer" where
  "log_writer k t = (0, k @ [t])"

lemma perror_clobbers_errno_witness:
  "mini_perror log_writer (Some ''x'') (mini0\<lparr>errno := 35\<rparr>) = Inl OutOfBounds"
  using perror_clobbers_errno [of log_writer "''x''" "mini0\<lparr>errno := 35\<rparr>"]
  by (simp add: log_writer_def)

section \<open>setjmp and longjmp\<close>

text \<open>
  C20: \<open>longjmp\<close> to a buffer filled by \<open>setjmp\<close> continues where that call returned to, with the stack
  pointer and the callee-saved registers it returned with, and the given value as the result; with
  the value 0 this cannot be told from the direct return. The signal mask field is never written.
\<close>

theorem longjmp_returns_to_setjmp:
  assumes "mini_setjmp env c = (env', c1)"
  shows "rip c1 = stack c (rsp c) \<and> rsp c1 = rsp c + 8 \<and> rax c1 = 0 \<and> stack c1 = stack c \<and>
     rbx c1 = rbx c \<and> rbp c1 = rbp c \<and> r12 c1 = r12 c \<and> r13 c1 = r13 c \<and> r14 c1 = r14 c \<and> r15 c1 = r15 c \<and>
     jb_mask env' = jb_mask env \<and>
     mini_longjmp env' val c2 =
       c1\<lparr>rax := ucast val, rsi := rsi c2, stack := stack c2\<rparr> \<and>
     rax (mini_longjmp env' 0 c2) = rax c1"
  using assms by (auto simp: mini_setjmp_def mini_longjmp_def Let_def)

definition cpu0 :: cpu where
  "cpu0 = \<lparr>rax = 7, rbx = 1, rsp = 0x1000, rbp = 2, r12 = 3, r13 = 4, r14 = 5, r15 = 6, rsi = 0, rip = 0,
     stack = (\<lambda>_. 0x401234)\<rparr>"

definition env0 :: jmp_buf where
  "env0 = \<lparr>jb_rbx = 0, jb_rsp = 0, jb_rbp = 0, jb_r12 = 0, jb_r13 = 0, jb_r14 = 0, jb_r15 = 0, jb_rip = 0, jb_mask = 9\<rparr>"

lemma longjmp_returns_to_setjmp_witness:
  "rip (mini_longjmp (fst (mini_setjmp env0 cpu0)) 3 (cpu0\<lparr>rsp := 0x500\<rparr>)) = 0x401234 \<and>
   rsp (mini_longjmp (fst (mini_setjmp env0 cpu0)) 3 (cpu0\<lparr>rsp := 0x500\<rparr>)) = 0x1008"
  using longjmp_returns_to_setjmp [of env0 cpu0 "fst (mini_setjmp env0 cpu0)" "snd (mini_setjmp env0 cpu0)" 3 "cpu0\<lparr>rsp := 0x500\<rparr>"]
  by (simp add: cpu0_def)

end
