(* ===== verification/MiniHeader.thy ===== *)
theory MiniHeader
  imports LibminiClaims
begin

text \<open>
  hw3: the names libmini.h gives to error numbers, signals, \<open>open\<close> flags and the ways of
  \<open>sigprocmask\<close>, as enumerations with their values, and the comments behind the error numbers;
  that \<open>perror\<close> prints the comment of the header for each of its error numbers, that every named
  signal is one the signal sets accept, and that the flags of \<open>open\<close> are independent bits.
\<close>

section \<open>Error numbers\<close>

datatype errno_name =
    Eperm | Enoent | Esrch | Eintr | Eio | Enxio | E2big | Enoexec | Ebadf | Echild | Eagain | Enomem
  | Eacces | Efault | Enotblk | Ebusy | Eexist | Exdev | Enodev | Enotdir | Eisdir | Einval | Enfile
  | Emfile | Enotty | Etxtbsy | Efbig | Enospc | Espipe | Erofs | Emlink | Epipe | Edom | Erange

primrec errno_num :: "errno_name \<Rightarrow> nat" where
  "errno_num Eperm = 1" | "errno_num Enoent = 2" | "errno_num Esrch = 3" | "errno_num Eintr = 4"
  | "errno_num Eio = 5" | "errno_num Enxio = 6" | "errno_num E2big = 7" | "errno_num Enoexec = 8"
  | "errno_num Ebadf = 9" | "errno_num Echild = 10" | "errno_num Eagain = 11" | "errno_num Enomem = 12"
  | "errno_num Eacces = 13" | "errno_num Efault = 14" | "errno_num Enotblk = 15"
  | "errno_num Ebusy = 16" | "errno_num Eexist = 17" | "errno_num Exdev = 18" | "errno_num Enodev = 19"
  | "errno_num Enotdir = 20" | "errno_num Eisdir = 21" | "errno_num Einval = 22"
  | "errno_num Enfile = 23" | "errno_num Emfile = 24" | "errno_num Enotty = 25"
  | "errno_num Etxtbsy = 26" | "errno_num Efbig = 27" | "errno_num Enospc = 28"
  | "errno_num Espipe = 29" | "errno_num Erofs = 30" | "errno_num Emlink = 31" | "errno_num Epipe = 32"
  | "errno_num Edom = 33" | "errno_num Erange = 34"

text \<open>The comment behind each number in the header.\<close>

primrec errno_comment :: "errno_name \<Rightarrow> string" where
  "errno_comment Eperm = ''Operation not permitted''"
  | "errno_comment Enoent = ''No such file or directory''" | "errno_comment Esrch = ''No such process''"
  | "errno_comment Eintr = ''Interrupted system call''" | "errno_comment Eio = ''I/O error''"
  | "errno_comment Enxio = ''No such device or address''"
  | "errno_comment E2big = ''Argument list too long''" | "errno_comment Enoexec = ''Exec format error''"
  | "errno_comment Ebadf = ''Bad file number''" | "errno_comment Echild = ''No child processes''"
  | "errno_comment Eagain = ''Try again''" | "errno_comment Enomem = ''Out of memory''"
  | "errno_comment Eacces = ''Permission denied''" | "errno_comment Efault = ''Bad address''"
  | "errno_comment Enotblk = ''Block device required''"
  | "errno_comment Ebusy = ''Device or resource busy''" | "errno_comment Eexist = ''File exists''"
  | "errno_comment Exdev = ''Cross-device link''" | "errno_comment Enodev = ''No such device''"
  | "errno_comment Enotdir = ''Not a directory''" | "errno_comment Eisdir = ''Is a directory''"
  | "errno_comment Einval = ''Invalid argument''" | "errno_comment Enfile = ''File table overflow''"
  | "errno_comment Emfile = ''Too many open files''" | "errno_comment Enotty = ''Not a typewriter''"
  | "errno_comment Etxtbsy = ''Text file busy''" | "errno_comment Efbig = ''File too large''"
  | "errno_comment Enospc = ''No space left on device''" | "errno_comment Espipe = ''Illegal seek''"
  | "errno_comment Erofs = ''Read-only file system''" | "errno_comment Emlink = ''Too many links''"
  | "errno_comment Epipe = ''Broken pipe''"
  | "errno_comment Edom = ''Math argument out of domain of func''"
  | "errno_comment Erange = ''Math result not representable''"

section \<open>Signals\<close>

datatype signal_name =
    Sighup | Sigint | Sigquit | Sigill | Sigtrap | Sigabrt | Sigiot | Sigbus | Sigfpe | Sigkill
  | Sigusr1 | Sigsegv | Sigusr2 | Sigpipe | Sigalrm | Sigterm | Sigstkflt | Sigchld | Sigcont | Sigstop
  | Sigtstp | Sigttin | Sigttou | Sigurg | Sigxcpu | Sigxfsz | Sigvtalrm | Sigprof | Sigwinch | Sigio
  | Sigpwr | Sigsys

primrec signum :: "signal_name \<Rightarrow> int" where
  "signum Sighup = 1" | "signum Sigint = 2" | "signum Sigquit = 3" | "signum Sigill = 4"
  | "signum Sigtrap = 5" | "signum Sigabrt = 6" | "signum Sigiot = 6" | "signum Sigbus = 7"
  | "signum Sigfpe = 8" | "signum Sigkill = 9" | "signum Sigusr1 = 10" | "signum Sigsegv = 11"
  | "signum Sigusr2 = 12" | "signum Sigpipe = 13" | "signum Sigalrm = 14" | "signum Sigterm = 15"
  | "signum Sigstkflt = 16" | "signum Sigchld = 17" | "signum Sigcont = 18" | "signum Sigstop = 19"
  | "signum Sigtstp = 20" | "signum Sigttin = 21" | "signum Sigttou = 22" | "signum Sigurg = 23"
  | "signum Sigxcpu = 24" | "signum Sigxfsz = 25" | "signum Sigvtalrm = 26" | "signum Sigprof = 27"
  | "signum Sigwinch = 28" | "signum Sigio = 29" | "signum Sigpwr = 30" | "signum Sigsys = 31"

text \<open>The ways of \<open>sigprocmask\<close> and the two special handlers.\<close>

definition SIG_BLOCK :: i32 where "SIG_BLOCK = 0"
definition SIG_UNBLOCK :: i32 where "SIG_UNBLOCK = 1"
definition SIG_SETMASK :: i32 where "SIG_SETMASK = 2"
definition SIG_DFL :: u64 where "SIG_DFL = 0"
definition SIG_IGN :: u64 where "SIG_IGN = 1"

section \<open>Flags of open\<close>

datatype open_flag =
    O_accmode | O_rdonly | O_wronly | O_rdwr | O_creat | O_excl | O_noctty | O_trunc | O_append | O_nonblock
  | O_dsync | O_fasync | O_direct | O_largefile | O_directory | O_nofollow | O_noatime | O_cloexec

text \<open>The octal numbers of the header.\<close>

primrec open_flag_bits :: "open_flag \<Rightarrow> i32" where
  "open_flag_bits O_accmode = 0x3"
| "open_flag_bits O_rdonly = 0x0"
| "open_flag_bits O_wronly = 0x1"
| "open_flag_bits O_rdwr = 0x2"
| "open_flag_bits O_creat = 0x40"
| "open_flag_bits O_excl = 0x80"
| "open_flag_bits O_noctty = 0x100"
| "open_flag_bits O_trunc = 0x200"
| "open_flag_bits O_append = 0x400"
| "open_flag_bits O_nonblock = 0x800"
| "open_flag_bits O_dsync = 0x1000"
| "open_flag_bits O_fasync = 0x2000"
| "open_flag_bits O_direct = 0x4000"
| "open_flag_bits O_largefile = 0x8000"
| "open_flag_bits O_directory = 0x10000"
| "open_flag_bits O_nofollow = 0x20000"
| "open_flag_bits O_noatime = 0x40000"
| "open_flag_bits O_cloexec = 0x80000"

lemma signum_valid: "1 \<le> signum s \<and> signum s < 32"
  by (cases s) simp_all

text \<open>The signals the library can put into a set are exactly the named ones.\<close>

lemma signum_surj: "1 \<le> n \<Longrightarrow> n < 32 \<Longrightarrow> \<exists>s. signum s = n"
proof -
  assume "1 \<le> n" "n < 32"
  then have "n \<in> signum ` {Sighup, Sigint, Sigquit, Sigill, Sigtrap, Sigabrt, Sigiot, Sigbus, Sigfpe, Sigkill, Sigusr1, Sigsegv, Sigusr2, Sigpipe, Sigalrm, Sigterm, Sigstkflt, Sigchld, Sigcont, Sigstop, Sigtstp, Sigttin, Sigttou, Sigurg, Sigxcpu, Sigxfsz, Sigvtalrm, Sigprof, Sigwinch, Sigio, Sigpwr, Sigsys}" by simp presburger
  then show ?thesis by blast
qed

lemma open_flags_independent:
  assumes "f \<noteq> g" and "f \<notin> {O_accmode, O_rdonly, O_wronly, O_rdwr}"
  shows "open_flag_bits f AND open_flag_bits g = 0"
  using assms by (cases f; cases g) simp_all

text \<open>Every named signal can be put into a set and is then a member.\<close>

lemma named_signal_added:
  "\<exists>v. sigaddset (Some w) (signum s) m = (0, Some v, m\<lparr>errno := 0\<rparr>) \<and>
     sigismember (Some v) (signum t) m = (if signum t = signum s \<or> signum t \<in> sigset_abs w then 1 else 0, m)"
proof -
  have s: "1 \<le> signum s" "signum s < 32" and t: "1 \<le> signum t" "signum t < 32"
    using signum_valid by blast+
  show ?thesis
    using sigset_abs_add [OF s, of w] by (simp add: sigaddset_valid [OF s] sigismember_valid [OF t])
qed

section \<open>perror and the comments of the header\<close>

text \<open>The kernel after writing some texts to one descriptor, one \<open>write\<close> each.\<close>

abbreviation after_writes :: "'k writer \<Rightarrow> string list \<Rightarrow> 'k \<Rightarrow> 'k" where
  "after_writes W ts k \<equiv> foldl (\<lambda>k t. snd (W k t)) k ts"

lemma mkern_write2: "mkern (write2 W t m) = snd (W (mkern m) t)"
  using macro.wrapper_kernel [of id "- 1" "\<lambda>k. W k t" m] by (simp add: write2_def)

lemma errno_write2: "\<forall>k t. 0 \<le> sint (fst (W k t)) \<Longrightarrow> errno (write2 W t m) = 0"
  using macro.errno_tells [of id "- 1" "\<lambda>k. W k t" m] by (simp add: write2_def)

lemma errmsg_comment: "errmsg ! errno_num e = errno_comment e"
  by (cases e) (simp_all add: errmsg_def)

lemma errno_num_bounds: "1 \<le> errno_num e \<and> errno_num e \<le> 34"
  by (cases e) simp_all

text \<open>
  C33: For every error number libmini.h names, \<open>perror\<close> on a descriptor that takes its writes prints
  the prefix with a colon (when there is one), the text the header puts behind the number, and a
  newline, in this order and nothing else; errno is 0 afterwards.
\<close>

theorem perror_prints_header_message:
  assumes "\<forall>k t. 0 \<le> sint (fst (W k t))" and "sint (errno m) = int (errno_num e)"
  shows "\<exists>m'. mini_perror W prefix m = Inr m' \<and> errno m' = 0 \<and>
     mkern m' = after_writes W ((case prefix of None \<Rightarrow> [] | Some p \<Rightarrow> [p, '': '']) @ [errno_comment e, nl]) (mkern m)"
proof -
  have "0 \<le> sint (errno m)" "sint (errno m) \<le> 34" "nat (sint (errno m)) = errno_num e"
    using assms(2) errno_num_bounds [of e] by simp_all
  then show ?thesis
    using perror_clobbers_errno [OF assms(1), of _ m] errno_write2 [OF assms(1)]
    by (cases prefix) (simp_all add: errmsg_comment mkern_write2)
qed

lemma perror_prints_header_message_witness:
  "\<exists>m'. mini_perror log_writer (Some ''sigpending'') (mini0\<lparr>errno := 14\<rparr>) = Inr m' \<and>
     mkern m' = [''sigpending'', '': '', ''Bad address'', nl]"
  using perror_prints_header_message [of log_writer "mini0\<lparr>errno := 14\<rparr>" Efault "Some ''sigpending''"]
  by (auto simp: log_writer_def mini0_def)

section \<open>sleep in C\<close>



end
