(* ===== verification/MiniPrograms.thy ===== *)
theory MiniPrograms
  imports MiniHeader
begin

text \<open>
  hw3: the program entry (start.asm) and the programs of testcase/. The ones that wait for signals
  run on a record of system calls in which signal sets and texts are values; jmp1 runs on the
  registers and the stack words that \<open>setjmp\<close> and \<open>longjmp\<close> use. What a local variable or a
  struct holds before it is assigned is an argument, as in the theory Libmini.
\<close>

section \<open>Program entry\<close>

text \<open>
  \<open>_start\<close> finds argc on the stack and argv behind it, and passes the result of \<open>main\<close> to
  \<open>exit\<close>.
\<close>

definition program_start :: "'k kernel \<Rightarrow> (u64 \<Rightarrow> u64 \<Rightarrow> 'k mini \<Rightarrow> halt + i32 \<times> 'k mini) \<Rightarrow> cpu
    \<Rightarrow> 'k mini \<Rightarrow> halt + 'k mini" where
  "program_start K main c m =
     bindE (main (stack c (rsp c)) (rsp c + 8) m) (\<lambda>(rax, m). Inr (mini_exit K rax m))"

section \<open>alarm1\<close>

definition alarm1_main :: "'k kernel \<Rightarrow> 'k mini \<Rightarrow> halt + i32 \<times> 'k mini" where
  "alarm1_main K m =
     (let (_, m) = mini_alarm K 3 m;
          (_, m) = mini_pause K m
      in Inr (0, m))"

section \<open>The calls of the signal programs\<close>

text \<open>
  \<open>write (fd, text, strlen (text))\<close>, \<open>sigprocmask (how, set, NULL)\<close>, \<open>sigpending\<close> (the result,
  the set afterwards), \<open>nanosleep\<close> as for \<open>mini_sleep\<close>, and the calls whose arguments are numbers.
\<close>

record 'k sig_calls =
  sc_kernel :: "'k kernel"
  sc_signals :: "'k signals"
  sc_write :: "'k \<Rightarrow> i32 \<Rightarrow> string \<Rightarrow> i64 \<times> 'k"
  sc_sigprocmask :: "'k \<Rightarrow> i32 \<Rightarrow> sigset \<Rightarrow> i64 \<times> 'k"
  sc_sigpending :: "'k \<Rightarrow> sigset \<Rightarrow> i64 \<times> sigset \<times> 'k"
  sc_nanosleep :: "'k \<Rightarrow> u64 \<Rightarrow> i64 \<times> i64 \<times> 'k"

definition write_text :: "'k sig_calls \<Rightarrow> i32 \<Rightarrow> string \<Rightarrow> 'k mini \<Rightarrow> 'k mini" where
  "write_text S fd t m = snd (ret_ssize (\<lambda>k. sc_write S k fd t) m)"

definition set_mask :: "'k sig_calls \<Rightarrow> i32 \<Rightarrow> sigset \<Rightarrow> 'k mini \<Rightarrow> i32 \<times> 'k mini" where
  "set_mask S how s = ret_int (\<lambda>k. sc_sigprocmask S k how s)"

definition read_pending :: "'k sig_calls \<Rightarrow> sigset \<Rightarrow> 'k mini \<Rightarrow> i32 \<times> sigset \<times> 'k mini" where
  "read_pending S s m =
     (let (ret, s, k) = sc_sigpending S (mkern m) s;
          (r, m) = wrapper_ret to_int (- 1) ret (m\<lparr>mkern := k\<rparr>)
      in (r, s, m))"

text \<open>The end of alarm2 and alarm3, from \<open>sigpending\<close> on.\<close>

definition report_pending :: "'k sig_calls \<Rightarrow> sigset \<Rightarrow> 'k mini \<Rightarrow> halt + i32 \<times> 'k mini" where
  "report_pending S s m =
     (let (r, s, m) = read_pending S s m in
      bindE (if sint r < 0 then mini_perror (\<lambda>k. sc_write S k 2) (Some ''sigpending'') m else Inr m) (\<lambda>m.
        let (b, m) = sigismember (Some s) (signum Sigalrm) m in
        if b \<noteq> 0 then Inr (0, write_text S 1 (''sigalrm is pending.'' @ nl) m)
        else Inr (0, write_text S 1 (''sigalrm is not pending.'' @ nl) m)))"

text \<open>The start of both: a set with SIGALRM, blocked. \<open>s0\<close> is what the local set holds at first.\<close>

definition block_alarm :: "'k sig_calls \<Rightarrow> int \<Rightarrow> sigset \<Rightarrow> 'k mini \<Rightarrow> halt + sigset \<times> 'k mini" where
  "block_alarm S i0 s0 m =
     bindE (sigemptyset i0 (Some s0) m) (\<lambda>(_, s, m).
       let (_, s, m) = sigaddset s (signum Sigalrm) m;
           (_, m) = set_mask S SIG_BLOCK (the s) m
       in Inr (the s, m))"

section \<open>alarm2 and alarm3\<close>

definition alarm2_main :: "'k sig_calls \<Rightarrow> int \<Rightarrow> sigset \<Rightarrow> 'k mini \<Rightarrow> halt + i32 \<times> 'k mini" where
  "alarm2_main S i0 s0 m =
     bindE (block_alarm S i0 s0 m) (\<lambda>(s, m).
       let (_, m) = mini_alarm (sc_kernel S) 3 m;
           (_, m) = mini_sleep (sc_nanosleep S) 5 m
       in report_pending S s m)"

text \<open>
  \<open>handler\<close> is the address of the handler that does nothing. \<open>i0 n\<close> is the loop counter of the nth
  \<open>memset\<close>, \<open>j n\<close> a struct local to one of the two calls of \<open>signal\<close> before it is assigned.
\<close>

definition alarm3_main :: "'k sig_calls \<Rightarrow> (nat \<Rightarrow> int) \<Rightarrow> sigset \<Rightarrow> (nat \<Rightarrow> sigaction_t) \<Rightarrow> u64
    \<Rightarrow> 'k mini \<Rightarrow> halt + i32 \<times> 'k mini" where
  "alarm3_main S i0 s0 j handler m =
     bindE (block_alarm S (i0 0) s0 m) (\<lambda>(s, m).
     bindE (mini_signal (sc_signals S) (i0 1) (j 0) (j 1) (j 2) (j 3) (signum Sigalrm) SIG_IGN m) (\<lambda>(_, m).
     bindE (mini_signal (sc_signals S) (i0 2) (j 4) (j 5) (j 6) (j 7) (signum Sigint) handler m) (\<lambda>(_, m).
       let (_, m) = mini_alarm (sc_kernel S) 1 m;
           (_, m) = mini_pause (sc_kernel S) m
       in report_pending S s m)))"

section \<open>write1\<close>

definition hello_list :: "string list" where
  "hello_list = [''Hello'', '' '', ''world'', ''!'' @ nl]"

definition write1_main :: "'k sig_calls \<Rightarrow> 'k mini \<Rightarrow> halt + i32 \<times> 'k mini" where
  "write1_main S m = Inr (0, foldl (\<lambda>m i. write_text S 1 (hello_list ! i) m) m [0..<4])"

section \<open>Runs of alarm1 and write1\<close>

lemma mkern_wrapped [simp]: "mkern (snd (wrapped conv fail call m)) = snd (call (mkern m))"
  by (rule macro.wrapper_kernel)

lemma mkern_write_text: "mkern (write_text S fd t m) = snd (sc_write S (mkern m) fd t)"
  by (simp add: write_text_def)

text \<open>Started from the program entry, alarm1 asks the kernel for alarm, pause and exit, in this order.\<close>

lemma alarm1_runs:
  "program_start K (\<lambda>_ _. alarm1_main K) c m = Inr m' \<Longrightarrow>
   mkern m' = snd (K (snd (K (snd (K (mkern m) 37 [3])) 34 [])) 60 [0])"
  using mkern_wrapped [of to_int "- 1" "gensys K Sys_alarm [int_arg 3]" m]
    mkern_wrapped [of to_int "- 1" "gensys K Sys_pause []"]
  by (auto simp: program_start_def alarm1_main_def mini_alarm_def mini_pause_def mini_exit_def gensys_def int_arg_def
      split_beta Let_def)

lemma write1_writes:
  "\<exists>m'. write1_main S m = Inr (0, m') \<and> mkern m' = after_writes (\<lambda>k. sc_write S k 1) hello_list (mkern m)"
proof -
  have "[0..<4] = [0, 1, 2, 3 :: nat]" by (simp add: upt_rec)
  then show ?thesis
    by (simp add: write1_main_def hello_list_def mkern_write_text numeral_2_eq_2 numeral_3_eq_3)
qed

section \<open>alarm2\<close>

text \<open>
  The documented behaviour of the calls alarm2 makes, for the sets of blocked and pending signals,
  the seconds to the alarm and the texts written: blocking adds to the mask (but SIGKILL and
  SIGSTOP), alarm sets the timer, a sleep longer than the timer makes a blocked SIGALRM pending,
  sigpending reports the pending signals, write appends its text.
\<close>

definition delivers_alarms :: "'k sig_calls \<Rightarrow> ('k \<Rightarrow> int set) \<Rightarrow> ('k \<Rightarrow> int set) \<Rightarrow> ('k \<Rightarrow> nat option)
    \<Rightarrow> ('k \<Rightarrow> (i32 \<times> string) list) \<Rightarrow> bool" where
  "delivers_alarms S blocked pending timer out \<longleftrightarrow>
     (\<forall>k s. \<exists>k'. sc_sigprocmask S k SIG_BLOCK s = (0, k') \<and>
        blocked k' = blocked k \<union> (sigset_abs s - {signum Sigkill, signum Sigstop}) \<and> out k' = out k) \<and>
     (\<forall>k n. let k' = snd (gensys (sc_kernel S) Sys_alarm [int_arg n] k) in
        timer k' = (if n = 0 then None else Some (unat n)) \<and> blocked k' = blocked k \<and> out k' = out k) \<and>
     (\<forall>k n t. timer k = Some t \<longrightarrow> t < unat n \<longrightarrow> signum Sigalrm \<in> blocked k \<longrightarrow>
        (\<exists>k'. sc_nanosleep S k n = (0, 0, k') \<and> signum Sigalrm \<in> pending k' \<and> out k' = out k)) \<and>
     (\<forall>k s. \<exists>s' k'. sc_sigpending S k s = (0, s', k') \<and> sigset_abs s' = pending k \<and> out k' = out k) \<and>
     (\<forall>k fd t. out (snd (sc_write S k fd t)) = out k @ [(fd, t)])"

lemma block_alarm_blocks:
  assumes "delivers_alarms S blocked pending timer out" and "0 \<le> i0"
  shows "\<exists>s m'. block_alarm S i0 s0 m = Inr (s, m') \<and> signum Sigalrm \<in> blocked (mkern m') \<and>
    out (mkern m') = out (mkern m)"
proof -
  obtain s where s: "sigemptyset i0 (Some s0) m = Inr (0, Some s, m\<lparr>errno := 0\<rparr>)"
    using assms(2) by (simp add: sigemptyset_result)
  obtain v where v: "sigaddset (Some s) 14 (m\<lparr>errno := 0\<rparr>) = (0, Some v, m\<lparr>errno := 0\<rparr>)" "14 \<in> sigset_abs v"
    using sigset_abs_add [of 14 s] by (simp add: sigaddset_valid)
  obtain k' where k: "sc_sigprocmask S (mkern m) SIG_BLOCK v = (0, k')"
    "blocked k' = blocked (mkern m) \<union> (sigset_abs v - {signum Sigkill, signum Sigstop})" "out k' = out (mkern m)"
    using assms(1) unfolding delivers_alarms_def by meson
  have "mkern (snd (set_mask S SIG_BLOCK v (m\<lparr>errno := 0\<rparr>))) = k'"
    using k(1) by (simp add: set_mask_def)
  then show ?thesis using s v k by (simp add: block_alarm_def split_beta)
qed

lemma report_pending_prints:
  assumes "sc_sigpending S (mkern m) s = (0, s', k')"
  shows "\<exists>m'. report_pending S s m = Inr (0, m') \<and>
    mkern m' = snd (sc_write S k' 1 ((if 14 \<in> sigset_abs s' then ''sigalrm is pending.'' else ''sigalrm is not pending.'') @ nl))"
  using assms
  by (simp add: sigismember_valid report_pending_def read_pending_def wrapper_zero mkern_write_text)

lemma report_pending_alarm:
  assumes "delivers_alarms S blocked pending timer out" and "signum Sigalrm \<in> pending (mkern m)"
  shows "\<exists>m'. report_pending S s m = Inr (0, m') \<and> out (mkern m') = out (mkern m) @ [(1, ''sigalrm is pending.'' @ nl)]"
proof -
  obtain s' k' where p: "sc_sigpending S (mkern m) s = (0, s', k')" "sigset_abs s' = pending (mkern m)"
    "out k' = out (mkern m)"
    using assms(1) unfolding delivers_alarms_def by meson
  obtain m' where "report_pending S s m = Inr (0, m')" "mkern m' = snd (sc_write S k' 1 (''sigalrm is pending.'' @ nl))"
    using report_pending_prints [OF p(1)] assms(2) p(2) by auto
  then show ?thesis using assms(1) p(3) unfolding delivers_alarms_def by simp
qed

lemma alarm_sets_timer:
  assumes "delivers_alarms S blocked pending timer out" and "n \<noteq> 0"
  shows "timer (mkern (snd (mini_alarm (sc_kernel S) n m))) = Some (unat n) \<and>
    blocked (mkern (snd (mini_alarm (sc_kernel S) n m))) = blocked (mkern m) \<and>
    out (mkern (snd (mini_alarm (sc_kernel S) n m))) = out (mkern m)"
proof -
  have "let k' = snd (gensys (sc_kernel S) Sys_alarm [int_arg n] k) in
      timer k' = (if n = 0 then None else Some (unat n)) \<and> blocked k' = blocked k \<and> out k' = out k" for k
    using assms(1) unfolding delivers_alarms_def by blast
  from this [of "mkern m"] show ?thesis using assms(2) by (simp add: Let_def mini_alarm_def)
qed

text \<open>
  C29: alarm2 shows that a blocked signal stays pending: on a kernel that delivers alarms as documented,
  whatever non-negative number \<open>memset\<close> finds in its counter and whatever the local set holds, the
  program returns 0 having written exactly "sigalrm is pending." to descriptor 1.
\<close>

theorem alarm2_reports_blocked_alarm:
  assumes laws: "delivers_alarms S blocked pending timer out" and "0 \<le> i0"
  shows "\<exists>m'. alarm2_main S i0 s0 m = Inr (0, m') \<and>
     out (mkern m') = out (mkern m) @ [(1, ''sigalrm is pending.'' @ nl)]"
proof -
  obtain s n where n: "block_alarm S i0 s0 m = Inr (s, n)" "signum Sigalrm \<in> blocked (mkern n)"
    "out (mkern n) = out (mkern m)"
    using block_alarm_blocks [OF laws \<open>0 \<le> i0\<close>] by blast
  define a where "a = snd (mini_alarm (sc_kernel S) 3 n)"
  have a: "timer (mkern a) = Some 3" "blocked (mkern a) = blocked (mkern n)" "out (mkern a) = out (mkern n)"
    using alarm_sets_timer [OF laws, of 3 n] by (simp_all add: a_def)
  have "3 < unat (5 :: u64)" by simp
  moreover have "timer k = Some t \<Longrightarrow> t < unat n \<Longrightarrow> signum Sigalrm \<in> blocked k \<Longrightarrow>
      \<exists>k'. sc_nanosleep S k n = (0, 0, k') \<and> signum Sigalrm \<in> pending k' \<and> out k' = out k" for k n t
    using laws unfolding delivers_alarms_def by blast
  ultimately obtain k where k: "sc_nanosleep S (mkern a) 5 = (0, 0, k)" "signum Sigalrm \<in> pending k" "out k = out (mkern a)"
    using a n(2) by fastforce
  have sleep: "mini_sleep (sc_nanosleep S) 5 a = (0, a\<lparr>mkern := k\<rparr>)"
    by (simp add: mini_sleep_def k(1))
  have "signum Sigalrm \<in> pending (mkern (a\<lparr>mkern := k\<rparr>))" using k(2) by simp
  then obtain m' where "report_pending S s (a\<lparr>mkern := k\<rparr>) = Inr (0, m')"
    "out (mkern m') = out k @ [(1, ''sigalrm is pending.'' @ nl)]"
    using report_pending_alarm [OF laws, of "a\<lparr>mkern := k\<rparr>" s] by auto
  then show ?thesis
    using k(3) a(3) n(3) by (simp add: alarm2_main_def n(1) split_beta a_def [symmetric] sleep)
qed

text \<open>A kernel with one process and these calls.\<close>

record alarm_world =
  w_blocked :: sigset
  w_pending :: sigset
  w_timer :: "nat option"
  w_out :: "(i32 \<times> string) list"

definition sample_calls :: "alarm_world sig_calls" where
  "sample_calls = \<lparr>
     sc_kernel = (\<lambda>k nr args. if nr = 37 \<and> args \<noteq> []
        then (0, k\<lparr>w_timer := if hd args = 0 then None else Some (unat (ucast (hd args) :: u32))\<rparr>) else (0, k)),
     sc_signals = \<lparr>rt_sigaction = (\<lambda>k sig a o'. (0, o', k)), sigreturn_addr = 0x401100\<rparr>,
     sc_write = (\<lambda>k fd t. (of_nat (length t), k\<lparr>w_out := w_out k @ [(fd, t)]\<rparr>)),
     sc_sigprocmask = (\<lambda>k how s. (0, k\<lparr>w_blocked := w_blocked k OR (s AND NOT (sigmask 9) AND NOT (sigmask 19))\<rparr>)),
     sc_sigpending = (\<lambda>k s. (0, w_pending k, k)),
     sc_nanosleep = (\<lambda>k n. (0, 0, case w_timer k of None \<Rightarrow> k
        | Some t \<Rightarrow> if t < unat n then k\<lparr>w_timer := None, w_pending := w_pending k OR sigmask 14\<rparr> else k))\<rparr>"

lemma sample_calls_deliver:
  "delivers_alarms sample_calls (\<lambda>k. sigset_abs (w_blocked k)) (\<lambda>k. sigset_abs (w_pending k)) w_timer w_out"
proof -
  have block: "sigset_abs (w OR (s AND NOT (sigmask 9) AND NOT (sigmask 19))) = sigset_abs w \<union> (sigset_abs s - {9, 19})"
    for w s
    by (auto simp: sigset_abs_def bit_simps sigmask_bit)
  have low: "ucast (int_arg n) = n" for n
    by (rule bit_word_eqI) (simp add: int_arg_def bit_simps)
  have num: "int_arg n = 0 \<longleftrightarrow> n = 0" for n
    using low [of n] by (auto simp: int_arg_def)
  show ?thesis
    unfolding delivers_alarms_def
    by (intro conjI allI impI)
      (simp_all add: sample_calls_def gensys_def Let_def block low num sigset_abs_add)
qed

definition alarm_world0 :: "alarm_world mini" where
  "alarm_world0 = \<lparr>mkern = \<lparr>w_blocked = 0, w_pending = 0, w_timer = None, w_out = []\<rparr>, errno = 0\<rparr>"

lemma alarm2_reports_blocked_alarm_witness:
  "\<exists>m'. alarm2_main sample_calls 3 0xffff alarm_world0 = Inr (0, m') \<and> w_out (mkern m') = [(1, ''sigalrm is pending.'' @ nl)]"
  using alarm2_reports_blocked_alarm [OF sample_calls_deliver, of 3 "0xffff" alarm_world0]
  by (simp add: alarm_world0_def)

section \<open>alarm3\<close>

text \<open>
  What alarm3 needs in addition: \<open>rt_sigaction\<close> accepts the signals and touches neither mask nor
  output, and a pause during which the timer runs out leaves a blocked SIGALRM pending, even when it
  is ignored.
\<close>

definition keeps_ignored_pending :: "'k sig_calls \<Rightarrow> ('k \<Rightarrow> int set) \<Rightarrow> ('k \<Rightarrow> int set) \<Rightarrow> ('k \<Rightarrow> nat option)
    \<Rightarrow> ('k \<Rightarrow> (i32 \<times> string) list) \<Rightarrow> bool" where
  "keeps_ignored_pending S blocked pending timer out \<longleftrightarrow>
     (\<forall>k sig a o'. sig \<in> {2, 14} \<longrightarrow> (\<exists>r k'. rt_sigaction (sc_signals S) k sig a o' = (0, r, k') \<and>
        blocked k' = blocked k \<and> out k' = out k)) \<and>
     (\<forall>k t. timer k = Some t \<longrightarrow> 14 \<in> blocked k \<longrightarrow>
        (let k' = snd (gensys (sc_kernel S) Sys_pause [] k) in 14 \<in> pending k' \<and> out k' = out k))"

lemma mini_signal_keeps:
  assumes "keeps_ignored_pending S blocked pending timer out" and "0 \<le> i0" and "sig \<in> {2, 14}"
  shows "\<exists>r m'. mini_signal (sc_signals S) i0 j0 j1 j2 j3 sig h m = Inr (r, m') \<and>
    blocked (mkern m') = blocked (mkern m) \<and> out (mkern m') = out (mkern m)"
proof (cases "h = SIG_ERR")
  case False
  obtain w where w: "sigemptyset i0 (Some (sa_mask j2)) m = Inr (0, Some w, m\<lparr>errno := 0\<rparr>)"
    using assms(2) by (simp add: sigemptyset_result)
  have law: "\<exists>r k'. rt_sigaction (sc_signals S) k sig a o' = (0, r, k') \<and> blocked k' = blocked k \<and> out k' = out k"
    for k a o'
    using assms(1,3) unfolding keeps_ignored_pending_def by blast
  show ?thesis
  proof -
    let ?a = "\<lparr>sa_handler = h, sa_flags = (if sig = 2 then 0 else SA_RESTART) OR SA_RESTORER,
        sa_restorer = sigreturn_addr (sc_signals S), sa_mask = w OR sigmask sig\<rparr>"
    obtain r k' where "rt_sigaction (sc_signals S) (mkern m) sig ?a j1 = (0, r, k')"
      "blocked k' = blocked (mkern m)" "out k' = out (mkern m)"
      using law by blast
    then show ?thesis
      using False w assms(3)
      by (auto simp: mini_signal_def sigaddset_valid mini_sigaction_def wrapper_zero SIGINT_def Let_def)
  qed
qed (simp add: mini_signal_def)

lemma alarm3_reports_ignored_alarm:
  assumes laws: "delivers_alarms S blocked pending timer out"
    and more: "keeps_ignored_pending S blocked pending timer out" and nonneg: "\<forall>n. 0 \<le> i0 n"
  shows "\<exists>m'. alarm3_main S i0 s0 j handler m = Inr (0, m') \<and>
     out (mkern m') = out (mkern m) @ [(1, ''sigalrm is pending.'' @ nl)]"
proof -
  obtain s n where n: "block_alarm S (i0 0) s0 m = Inr (s, n)" "signum Sigalrm \<in> blocked (mkern n)"
    "out (mkern n) = out (mkern m)"
    using block_alarm_blocks [OF laws, of "i0 0"] nonneg by blast
  obtain r1 n1 where n1: "mini_signal (sc_signals S) (i0 1) (j 0) (j 1) (j 2) (j 3) (signum Sigalrm) SIG_IGN n = Inr (r1, n1)"
    "blocked (mkern n1) = blocked (mkern n)" "out (mkern n1) = out (mkern n)"
    using mini_signal_keeps [OF more, of "i0 1" 14 "j 0" "j 1" "j 2" "j 3" SIG_IGN n] nonneg by auto
  obtain r2 n2 where n2: "mini_signal (sc_signals S) (i0 2) (j 4) (j 5) (j 6) (j 7) (signum Sigint) handler n1 = Inr (r2, n2)"
    "blocked (mkern n2) = blocked (mkern n1)" "out (mkern n2) = out (mkern n1)"
    using mini_signal_keeps [OF more, of "i0 2" 2 "j 4" "j 5" "j 6" "j 7" handler n1] nonneg by auto
  define a where "a = snd (mini_alarm (sc_kernel S) 1 n2)"
  have a: "timer (mkern a) = Some 1" "blocked (mkern a) = blocked (mkern n2)" "out (mkern a) = out (mkern n2)"
    using alarm_sets_timer [OF laws, of 1 n2] by (simp_all add: a_def)
  define b where "b = snd (mini_pause (sc_kernel S) a)"
  have b: "signum Sigalrm \<in> pending (mkern b)" "out (mkern b) = out (mkern a)"
    using more a(1,2) n(2) n1(2) n2(2) unfolding keeps_ignored_pending_def Let_def b_def mini_pause_def by simp_all
  obtain m' where "report_pending S s b = Inr (0, m')" "out (mkern m') = out (mkern b) @ [(1, ''sigalrm is pending.'' @ nl)]"
    using report_pending_alarm [OF laws b(1)] by blast
  then show ?thesis
    using b(2) a(3) n(3) n1(1,3) n2(1,3)
    by (simp add: alarm3_main_def n(1) split_beta a_def [symmetric] b_def [symmetric])
qed

end
