(* ===== verification/MiniJump.thy ===== *)
theory MiniJump
  imports MiniPrograms
begin

text \<open>
  hw3: testcase/jmp1.c, in which ten functions return to \<open>main\<close> through one \<open>setjmp\<close>. Its static
  \<open>jb\<close>, the registers and stack words, and the process are passed along; the volatile \<open>i\<close> is a
  word of the frame of \<open>main\<close>, at a fixed distance \<open>off\<close> from its stack pointer. Every \<open>longjmp\<close>
  runs the code behind \<open>setjmp\<close> again, so that part is recursive, with fuel.
\<close>

section \<open>The program\<close>

text \<open>The texts the functions write and the values they jump with, in the order of \<open>funs\<close>.\<close>

definition funs :: "(string \<times> i32) list" where
  "funs = [
     (''This is function a().'' @ nl, 1), (''This is function b().'' @ nl, 2),
     (''This is function c().'' @ nl, 3), (''This is function d().'' @ nl, 4),
     (''This is function e().'' @ nl, 5), (''This is function f().'' @ nl, 6),
     (''This is function g().'' @ nl, 7), (''This is function h().'' @ nl, 8),
     (''This is function i().'' @ nl, 9), (''This is function j().'' @ nl, 10)]"

text \<open>
  \<open>FUNBODY\<close>: write the text, jump. \<open>g\<close> is what calling the function and its calls of \<open>write\<close> and
  \<open>longjmp\<close> leave in the registers and on the stack.
\<close>

definition FUNBODY :: "'k sig_calls \<Rightarrow> (cpu \<Rightarrow> cpu) \<Rightarrow> string \<times> i32 \<Rightarrow> jmp_buf \<Rightarrow> cpu \<Rightarrow> 'k mini \<Rightarrow> cpu \<times> 'k mini" where
  "FUNBODY S g f jb c m =
     (let (msg, from) = f; m = write_text S 1 msg m in (mini_longjmp jb from (g c), m))"

text \<open>The variable \<open>i\<close>.\<close>

definition get_i :: "u64 \<Rightarrow> cpu \<Rightarrow> i32" where
  "get_i off c = ucast (stack c (rsp c + off))"

definition set_i :: "u64 \<Rightarrow> i32 \<Rightarrow> cpu \<Rightarrow> cpu" where
  "set_i off i c = c\<lparr>stack := (stack c)(rsp c + off := ucast i)\<rparr>"

text \<open>
  \<open>main\<close> from the return of \<open>setjmp\<close> on, at the address \<open>ret\<close>; \<open>None\<close> when the fuel is used up. A
  jump to another address leaves the program.
\<close>

fun after_setjmp :: "'k sig_calls \<Rightarrow> (cpu \<Rightarrow> cpu) \<Rightarrow> u64 \<Rightarrow> u64 \<Rightarrow> nat \<Rightarrow> jmp_buf \<Rightarrow> cpu \<Rightarrow> 'k mini
    \<Rightarrow> (halt + i32 \<times> cpu \<times> 'k mini) option" where
  "after_setjmp S g off ret 0 jb c m = None"
| "after_setjmp S g off ret (Suc n) jb c m =
     (if rip c \<noteq> ret then Some (Inl OutOfBounds)
      else
        let c = (if (ucast (rax c) :: i32) \<noteq> 0 then set_i off (get_i off c + 1) c else c);
            i = sint (get_i off c)
        in if i < 10 then
             (if 0 \<le> i then
                let (c, m) = FUNBODY S g (funs ! nat i) jb c m in after_setjmp S g off ret n jb c m
              else Some (Inl OutOfBounds))
           else Some (Inr (0, c, m)))"

text \<open>\<open>call setjmp\<close> pushes the address behind it.\<close>

definition jmp1_main :: "'k sig_calls \<Rightarrow> (cpu \<Rightarrow> cpu) \<Rightarrow> u64 \<Rightarrow> u64 \<Rightarrow> nat \<Rightarrow> jmp_buf \<Rightarrow> cpu \<Rightarrow> 'k mini
    \<Rightarrow> (halt + i32 \<times> cpu \<times> 'k mini) option" where
  "jmp1_main S g off ret n jb c m =
     (let c = set_i off 0 c;
          c = c\<lparr>rsp := rsp c - 8, stack := (stack c)(rsp c - 8 := ret)\<rparr>;
          (jb, c) = mini_setjmp jb c
      in after_setjmp S g off ret n jb c m)"

section \<open>A run prints all ten texts\<close>

text \<open>The registers \<open>setjmp\<close> saved are those of the frame.\<close>

definition saved_frame :: "jmp_buf \<Rightarrow> u64 \<Rightarrow> cpu \<Rightarrow> bool" where
  "saved_frame jb ret c \<longleftrightarrow>
     jb_rip jb = ret \<and> jb_rsp jb = rsp c \<and> jb_rbx jb = rbx c \<and> jb_rbp jb = rbp c \<and> jb_r12 jb = r12 c \<and>
     jb_r13 jb = r13 c \<and> jb_r14 jb = r14 c \<and> jb_r15 jb = r15 c"

definition same_frame :: "cpu \<Rightarrow> cpu \<Rightarrow> bool" where
  "same_frame c d \<longleftrightarrow> rsp d = rsp c \<and> rbx d = rbx c \<and> rbp d = rbp c \<and> r12 d = r12 c \<and> r13 d = r13 c \<and>
     r14 d = r14 c \<and> r15 d = r15 c"

lemma saved_frame_same: "saved_frame jb ret c \<Longrightarrow> same_frame c d \<Longrightarrow> saved_frame jb ret d"
  by (simp add: saved_frame_def same_frame_def)

lemma same_frame_refl [simp]: "same_frame c c"
  by (simp add: same_frame_def)

lemma same_frame_trans: "same_frame a b \<Longrightarrow> same_frame b c \<Longrightarrow> same_frame a c"
  by (simp add: same_frame_def)

lemma get_set_i [simp]: "get_i off (set_i off i c) = i"
proof -
  have "ucast (ucast i :: u64) = i" by (rule bit_word_eqI) (simp add: bit_simps)
  then show ?thesis by (simp add: get_i_def set_i_def)
qed

lemma set_i_frame [simp]: "same_frame c (set_i off i c)" "rip (set_i off i c) = rip c" "rsp (set_i off i c) = rsp c"
  by (simp_all add: same_frame_def set_i_def)

text \<open>What a function leaves in the word of \<open>i\<close> when it does not touch the frame of \<open>main\<close>.\<close>

definition spares :: "(cpu \<Rightarrow> cpu) \<Rightarrow> u64 \<Rightarrow> bool" where
  "spares g off \<longleftrightarrow> (\<forall>c. stack (g c) (rsp c + off) = stack c (rsp c + off))"

lemma longjmp_resumes:
  assumes "saved_frame jb ret c" and "spares g off"
  shows "same_frame c (mini_longjmp jb v (g c)) \<and> rip (mini_longjmp jb v (g c)) = ret \<and>
    (ucast (rax (mini_longjmp jb v (g c))) :: i32) = v \<and> get_i off (mini_longjmp jb v (g c)) = get_i off c"
proof -
  have "ucast (ucast v :: u64) = v" by (rule bit_word_eqI) (simp add: bit_simps)
  then show ?thesis
    using assms by (simp add: same_frame_def saved_frame_def spares_def mini_longjmp_def get_i_def)
qed

lemma small_i: "k \<le> 10 \<Longrightarrow> sint (of_nat k :: i32) = int k"
  by (simp add: signed_of_nat signed_take_bit_int_eq_self)

lemma funs_values: "k < 10 \<Longrightarrow> snd (funs ! k) \<noteq> 0"
proof -
  have "\<forall>k\<in>set [0..<10]. snd (funs ! k) \<noteq> 0" by (simp add: funs_def upt_rec)
  then show "k < 10 \<Longrightarrow> snd (funs ! k) \<noteq> 0" by simp
qed

text \<open>The value of \<open>i\<close> after the test of the result of \<open>setjmp\<close>.\<close>

definition next_i :: "u64 \<Rightarrow> cpu \<Rightarrow> i32" where
  "next_i off c = (if (ucast (rax c) :: i32) \<noteq> 0 then get_i off c + 1 else get_i off c)"

lemma after_setjmp_prints:
  assumes "spares g off" and "k \<le> 10" and "10 - k < n" and "rip c = ret" and "saved_frame jb ret c"
    and "next_i off c = of_nat k"
  shows "\<exists>c' m'. after_setjmp S g off ret n jb c m = Some (Inr (0, c', m')) \<and> same_frame c c' \<and>
    mkern m' = after_writes (\<lambda>k. sc_write S k 1) (map fst (drop k funs)) (mkern m)"
  using assms
proof (induction "10 - k" arbitrary: k n c m)
  case (0 k n c m)
  define c1 where "c1 = (if (ucast (rax c) :: i32) \<noteq> 0 then set_i off (get_i off c + 1) c else c)"
  have "get_i off c1 = of_nat k" "same_frame c c1"
    using 0(7) by (simp_all add: c1_def next_i_def split: if_splits)
  moreover have "k = 10" using 0(1,3) by simp
  moreover have "length funs = 10" by (simp add: funs_def)
  moreover obtain n' where "n = Suc n'" using 0(4) by (cases n) auto
  ultimately show ?case using 0(5) small_i [of 10] by (simp add: c1_def [symmetric] Let_def)
next
  case (Suc d k n c m)
  define c1 where "c1 = (if (ucast (rax c) :: i32) \<noteq> 0 then set_i off (get_i off c + 1) c else c)"
  have c1: "get_i off c1 = of_nat k" "same_frame c c1"
    using Suc(8) by (simp_all add: c1_def next_i_def split: if_splits)
  have k: "k < 10" using Suc(2) by simp
  obtain n' where n: "n = Suc n'" using Suc(5) by (cases n) auto
  obtain t v where f: "funs ! k = (t, v)" "v \<noteq> 0" using funs_values [OF k] by (cases "funs ! k") auto
  define c2 m2 where "c2 = mini_longjmp jb v (g c1)" and "m2 = write_text S 1 t m"
  have c2: "same_frame c1 c2" "rip c2 = ret" "(ucast (rax c2) :: i32) = v" "get_i off c2 = of_nat k"
    using longjmp_resumes [OF saved_frame_same [OF Suc(7) c1(2)] Suc(3)] c1(1) by (simp_all add: c2_def)
  have "after_setjmp S g off ret n jb c m = after_setjmp S g off ret n' jb c2 m2"
    using Suc(6) k c1(1) small_i [of k]
    by (simp add: n c1_def [symmetric] Let_def FUNBODY_def f c2_def m2_def)
  moreover have "\<exists>c' m'. after_setjmp S g off ret n' jb c2 m2 = Some (Inr (0, c', m')) \<and> same_frame c2 c' \<and>
    mkern m' = after_writes (\<lambda>k. sc_write S k 1) (map fst (drop (Suc k) funs)) (mkern m2)"
  proof (rule Suc(1))
    show "saved_frame jb ret c2"
      by (rule saved_frame_same [OF saved_frame_same [OF Suc(7) c1(2)] c2(1)])
    show "next_i off c2 = of_nat (Suc k)" using c2(3,4) f(2) by (simp add: next_i_def add.commute)
  qed (use Suc(2,3,5) n c2(2) in auto)
  moreover have "drop k funs = (t, v) # drop (Suc k) funs"
    using k f(1) by (simp add: Cons_nth_drop_Suc [symmetric] funs_def)
  moreover have "mkern m2 = snd (sc_write S (mkern m) 1 t)" by (simp add: m2_def mkern_write_text)
  ultimately show ?case using same_frame_trans [OF same_frame_trans [OF c1(2) c2(1)]] by auto
qed

text \<open>
  C18: The jmp1 program ends: when the called functions leave the frame of \<open>main\<close> alone (and \<open>i\<close> is
  not kept where \<open>call\<close> pushes its return address), eleven passes behind \<open>setjmp\<close> are enough; it
  returns 0, the ten functions have each written their text once, in the order of the table, whatever
  they did to the registers, and \<open>main\<close> ends with the stack pointer and the callee-saved registers it
  had.
\<close>

theorem jmp1_prints_all:
  assumes "spares g off" and "off \<noteq> - 8" and "11 \<le> n"
  shows "\<exists>c' m'. jmp1_main S g off ret n jb c m = Some (Inr (0, c', m')) \<and> same_frame c c' \<and>
    mkern m' = after_writes (\<lambda>k. sc_write S k 1) (map fst funs) (mkern m)"
proof -
  obtain jb1 c1 where j: "mini_setjmp jb (let c = set_i off 0 c in
      c\<lparr>rsp := rsp c - 8, stack := (stack c)(rsp c - 8 := ret)\<rparr>) = (jb1, c1)"
    by fastforce
  have "rsp c + off \<noteq> rsp c - 8" using assms(2) by (simp add: eq_diff_eq add.assoc add_eq_0_iff2)
  then have c1: "same_frame c c1" "saved_frame jb1 ret c1" "rip c1 = ret" "next_i off c1 = of_nat 0"
    using j by (auto simp: mini_setjmp_def Let_def set_i_def same_frame_def saved_frame_def next_i_def get_i_def)
  have "jmp1_main S g off ret n jb c m = after_setjmp S g off ret n jb1 c1 m"
    using j by (simp add: jmp1_main_def Let_def)
  then show ?thesis
    using after_setjmp_prints [OF assms(1) _ _ c1(3,2,4), of n S m] assms(3) same_frame_trans [OF c1(1)] by auto
qed

text \<open>A called function that pushes its return address and loses every register.\<close>

definition clobber :: "cpu \<Rightarrow> cpu" where
  "clobber c = c\<lparr>rsp := rsp c - 8, stack := (stack c)(rsp c - 8 := 0xdead), rax := 99, rbx := 0, rbp := 0, r12 := 0,
     r13 := 0, r14 := 0, r15 := 0\<rparr>"

lemma clobber_spares: "spares clobber 16"
  by (simp add: spares_def clobber_def)

lemma jmp1_prints_all_witness:
  "\<exists>c' m'. jmp1_main sample_calls clobber 16 0x401234 11 env0 cpu0 alarm_world0 = Some (Inr (0, c', m')) \<and>
     rsp c' = 0x1000 \<and> rbx c' = 1 \<and> w_out (mkern m') = map (\<lambda>f. (1, fst f)) funs"
proof -
  have out: "w_out (after_writes (\<lambda>k. sc_write sample_calls k 1) ts k) = w_out k @ map (Pair 1) ts" for ts k
    by (induction ts arbitrary: k) (simp_all add: sample_calls_def)
  show ?thesis
    using jmp1_prints_all [OF clobber_spares, of 11 sample_calls "0x401234" env0 cpu0 alarm_world0]
    by (auto simp: out same_frame_def cpu0_def alarm_world0_def)
qed

end
