(* ===== verification/Lsof.thy ===== *)
theory Lsof
  imports CText Platform
begin

text \<open>
  hw1: the open file lister. argument_parser.hpp (options and the three filters), file.hpp (a row's
  fields), process.hpp (the stages that collect the rows of one process and print them) and hw1.cpp
  (the user table and the loop over /proc). The system calls are the record \<open>os\<close> of functions over a
  world \<open>'k\<close>, each giving its result and the next world, so that files may vanish between two of
  them; an errno is \<open>Inl\<close>. User patterns are compiled and run by \<open>rx\<close>, the parameter for
  \<open>std::regex\<close>; the fixed pattern for numbers is written out.
\<close>

section \<open>The platform\<close>

record stat_t =
  st_mode :: u32
  st_ino :: u64
  st_uid :: u32

text \<open>\<open>os_read_at\<close>: the bytes of one \<open>read\<close> of at most \<open>n\<close> from the start of a descriptor.\<close>

record 'k os =
  os_open :: "string \<Rightarrow> 'k \<Rightarrow> (int + int) \<times> 'k"
  os_read_at :: "int \<Rightarrow> nat \<Rightarrow> 'k \<Rightarrow> (int + string) \<times> 'k"
  os_close :: "int \<Rightarrow> 'k \<Rightarrow> 'k"
  os_stat :: "string \<Rightarrow> 'k \<Rightarrow> (int + stat_t) \<times> 'k"
  os_lstat :: "string \<Rightarrow> 'k \<Rightarrow> (int + stat_t) \<times> 'k"
  os_readlink :: "string \<Rightarrow> 'k \<Rightarrow> (int + string) \<times> 'k"
  os_fopen :: "string \<Rightarrow> 'k \<Rightarrow> (int + string) \<times> 'k"
  os_opendir :: "string \<Rightarrow> 'k \<Rightarrow> (int + string list) \<times> 'k"

record 'r rx =
  rx_assign :: "string \<Rightarrow> 'r option"
  rx_match :: "string \<Rightarrow> 'r \<Rightarrow> bool"
  rx_search :: "string \<Rightarrow> 'r \<Rightarrow> bool"

definition EACCES :: int where "EACCES = 13"

text \<open>\<open>regex_match (s, regex ("\\d+"))\<close>.\<close>

definition is_number :: "string \<Rightarrow> bool" where
  "is_number s \<longleftrightarrow> s \<noteq> [] \<and> list_all isdigit s"

section \<open>argument_parser.hpp\<close>

record 'r filters =
  filter_command :: 'r
  filter_type :: 'r
  filter_file_name :: 'r

text \<open>
  The loop over \<open>getopt (argc, argv, "c:t:f:")\<close>, given the options it yields; \<open>regex::assign\<close> throws
  on a bad pattern and nothing catches it.
\<close>

fun argument_parser ::
  "'r rx \<Rightarrow> (char \<times> string) list \<Rightarrow> 'r filters \<Rightarrow> halt + (bool \<times> string \<times> 'r filters)" where
  "argument_parser X [] fs = Inr (True, [], fs)"
| "argument_parser X ((option, optarg) # rest) fs =
     (if option = CHR ''c'' then
        (case rx_assign X optarg of
           None \<Rightarrow> Inl Uncaught
         | Some r \<Rightarrow> argument_parser X rest (fs\<lparr>filter_command := r\<rparr>))
      else if option = CHR ''t'' then
        if \<not> rx_match X optarg (filter_type fs) then Inr (False, ''Invalid TYPE option'' @ nl, fs)
        else
          (case rx_assign X optarg of
             None \<Rightarrow> Inl Uncaught
           | Some r \<Rightarrow> argument_parser X rest (fs\<lparr>filter_type := r\<rparr>))
      else if option = CHR ''f'' then
        (case rx_assign X optarg of
           None \<Rightarrow> Inl Uncaught
         | Some r \<Rightarrow> argument_parser X rest (fs\<lparr>filter_file_name := r\<rparr>))
      else argument_parser X rest fs)"

section \<open>file.hpp\<close>

record file_t =
  f_fd :: string
  f_type :: string
  f_inode :: string
  f_name :: string

definition mk_file :: "string \<Rightarrow> string \<Rightarrow> string \<Rightarrow> string \<Rightarrow> file_t" where
  "mk_file fd_field path inode_field type_field =
     \<lparr>f_fd = fd_field, f_type = type_field, f_inode = inode_field, f_name = path\<rparr>"

text \<open>A numeric descriptor whose link has no permission bit leaves the field as it was.\<close>

definition set_fd_field :: "string \<Rightarrow> u32 \<Rightarrow> file_t \<Rightarrow> file_t" where
  "set_fd_field fd_field mode f =
     (if \<not> is_number fd_field then f\<lparr>f_fd := fd_field\<rparr>
      else if mode AND 0x100 \<noteq> 0 \<and> mode AND 0x80 \<noteq> 0 then f\<lparr>f_fd := fd_field @ ''u''\<rparr>
      else if mode AND 0x100 \<noteq> 0 then f\<lparr>f_fd := fd_field @ ''r''\<rparr>
      else if mode AND 0x80 \<noteq> 0 then f\<lparr>f_fd := fd_field @ ''w''\<rparr>
      else f)"

definition set_type_field :: "u32 \<Rightarrow> file_t \<Rightarrow> file_t" where
  "set_type_field mode f =
     (let fmt = mode AND 0xF000 in
      if fmt = 0x4000 then f\<lparr>f_type := ''DIR''\<rparr>
      else if fmt = 0x8000 then f\<lparr>f_type := ''REG''\<rparr>
      else if fmt = 0x2000 then f\<lparr>f_type := ''CHR''\<rparr>
      else if fmt = 0x1000 then f\<lparr>f_type := ''FIFO''\<rparr>
      else if fmt = 0xC000 then f\<lparr>f_type := ''SOCK''\<rparr>
      else f\<lparr>f_type := ''unknown''\<rparr>)"

definition set_inode_field :: "u64 \<Rightarrow> file_t \<Rightarrow> file_t" where
  "set_inode_field inode_field f = f\<lparr>f_inode := dec (unat inode_field)\<rparr>"

definition set_name_field :: "string \<Rightarrow> file_t \<Rightarrow> file_t" where
  "set_name_field path f = f\<lparr>f_name := path\<rparr>"

text \<open>
  \<open>operator=\<close>: a file assigned to itself (\<open>same\<close>) is left alone. \<open>print_info\<close> is not called by the
  program.
\<close>

definition assign_file :: "bool \<Rightarrow> file_t \<Rightarrow> file_t \<Rightarrow> file_t" where
  "assign_file same this other =
     (if same then this
      else this\<lparr>f_fd := f_fd other, f_type := f_type other, f_inode := f_inode other, f_name := f_name other\<rparr>)"

definition print_info :: "file_t \<Rightarrow> string" where
  "print_info f =
     ''fd='' @ c_str (f_fd f) @ '', type='' @ c_str (f_type f) @ '', inode='' @ c_str (f_inode f)
       @ '', name='' @ c_str (f_name f) @ nl"

lemma assign_file_copies: "(same \<Longrightarrow> this = other) \<Longrightarrow> assign_file same this other = other"
  by (simp add: assign_file_def)

text \<open>The constructor that asks the system; \<open>None\<close> is its \<open>runtime_error\<close>.\<close>

definition stat_file :: "'k os \<Rightarrow> string \<Rightarrow> string \<Rightarrow> string \<Rightarrow> 'k \<Rightarrow> file_t option \<times> 'k" where
  "stat_file S fd_field path file_name k =
     (case os_stat S path k of
        (Inl _, k) \<Rightarrow> (None, k)
      | (Inr statbuf, k) \<Rightarrow>
          (case os_lstat S path k of
             (Inl _, k) \<Rightarrow> (None, k)
           | (Inr lstatbuf, k) \<Rightarrow>
               (Some (set_name_field file_name
                  (set_inode_field (st_ino statbuf)
                    (set_type_field (st_mode statbuf)
                      (set_fd_field fd_field (st_mode lstatbuf) (mk_file [] [] [] []))))), k)))"

section \<open>process.hpp\<close>

record process =
  alive :: bool
  p_path :: string
  command :: string
  p_pid :: string
  uid :: string
  user_name :: string
  hash :: "string set"
  file_list :: "file_t list"

type_synonym 'k stage = "process \<times> 'k \<Rightarrow> halt + (process \<times> 'k)"
type_synonym user_table = "u32 \<Rightarrow> string option"

definition new_process :: process where
  "new_process = \<lparr>alive = True, p_path = [], command = [], p_pid = [], uid = [], user_name = [],
     hash = {}, file_list = []\<rparr>"

abbreviation dead :: "process \<Rightarrow> process" where "dead p \<equiv> p\<lparr>alive := False\<rparr>"

definition push_back :: "file_t \<Rightarrow> process \<Rightarrow> process" where
  "push_back f p = p\<lparr>file_list := file_list p @ [f]\<rparr>"

definition remember :: "string \<Rightarrow> process \<Rightarrow> process" where
  "remember file_name p = p\<lparr>hash := insert file_name (hash p)\<rparr>"

text \<open>\<open>buffer[len-1]\<close> is before the buffer when nothing was read.\<close>

definition set_command :: "'k os \<Rightarrow> 'k stage" where
  "set_command S = (\<lambda>(p, k).
     if \<not> alive p then Inr (p, k)
     else case os_open S (p_path p @ ''/comm'') k of
       (Inl _, k) \<Rightarrow> Inr (dead p, k)
     | (Inr fd, k) \<Rightarrow>
         (case os_read_at S fd 1024 k of
            (Inl _, k) \<Rightarrow> Inr (dead p, k)
          | (Inr buffer, k) \<Rightarrow>
              if buffer = [] then Inl OutOfBounds
              else Inr (p\<lparr>command := c_str (butlast buffer)\<rparr>, os_close S fd k)))"

definition set_pid :: "string \<Rightarrow> 'k stage" where
  "set_pid dir_name = (\<lambda>(p, k).
     if \<not> alive p then Inr (p, k) else Inr (p\<lparr>p_pid := dir_name\<rparr>, k))"

text \<open>\<open>user_table[uid]\<close> inserts an empty name for an unknown user.\<close>

definition set_user_name :: "'k os \<Rightarrow> user_table \<Rightarrow> process \<times> 'k \<Rightarrow> user_table \<times> process \<times> 'k" where
  "set_user_name S tbl = (\<lambda>(p, k).
     if \<not> alive p then (tbl, p, k)
     else case os_stat S (p_path p) k of
       (Inl _, k) \<Rightarrow> (tbl, dead p, k)
     | (Inr statbuf, k) \<Rightarrow>
         let tbl = (if tbl (st_uid statbuf) = None then tbl(st_uid statbuf \<mapsto> []) else tbl)
         in (tbl, p\<lparr>uid := dec (unat (st_uid statbuf)), user_name := the (tbl (st_uid statbuf))\<rparr>, k))"

definition without_deleted :: "string \<Rightarrow> string" where
  "without_deleted file_name =
     (case find_sub '' (deleted)'' file_name of
        None \<Rightarrow> file_name
      | Some pos \<Rightarrow> erase_at pos 10 file_name)"

text \<open>
  The loop over cwd, root and exe. \<open>buffer[len] = 0\<close> is past the buffer when the link fills it.
\<close>

fun special_files_from :: "'k os \<Rightarrow> (string \<times> string) list \<Rightarrow> 'k stage" where
  "special_files_from S [] (p, k) = Inr (p, k)"
| "special_files_from S ((fd, link) # rest) (p, k) =
     (case os_readlink S link k of
        (Inl errsv, k) \<Rightarrow>
          if errsv = EACCES then
            special_files_from S rest
              (push_back (mk_file fd (link @ '' (Permission denied)'') [] ''unknown'') p, k)
          else Inr (dead p, k)
      | (Inr target, k) \<Rightarrow>
          if length target \<ge> 1024 then Inl OutOfBounds
          else
            let file_name = without_deleted (c_str target) in
            (case stat_file S fd link file_name k of
               (None, k) \<Rightarrow> Inr (dead p, k)
             | (Some f, k) \<Rightarrow> special_files_from S rest (remember file_name (push_back f p), k)))"

definition handle_special_files :: "'k os \<Rightarrow> 'k stage" where
  "handle_special_files S = (\<lambda>(p, k).
     if \<not> alive p then Inr (p, k)
     else special_files_from S
       [(''cwd'', p_path p @ ''/cwd''), (''rtd'', p_path p @ ''/root''), (''txt'', p_path p @ ''/exe'')] (p, k))"

text \<open>
  One line of /proc/[pid]/maps: a missing fifth or sixth token is a null pointer given to
  \<open>std::string\<close>, whose exception nothing catches.
\<close>

definition map_line_file :: "string \<Rightarrow> process \<Rightarrow> halt + process" where
  "map_line_file buffer p =
     (let ts = tokens ('' '' @ tab @ nl) (c_str buffer) in
      if length ts < 5 then Inl Uncaught
      else
        let inode = ts ! 4 in
        if inode = ''0'' then Inr p
        else if length ts < 6 then Inl Uncaught
        else
          let file_name = ts ! 5 in
          if file_name \<in> hash p then Inr p
          else
            let fd_field = (if find_sub ''deleted'' file_name \<noteq> None then ''DEL'' else ''mem'')
            in Inr (push_back (mk_file fd_field file_name inode ''REG'') (remember file_name p)))"

definition handle_memory_maps :: "'k os \<Rightarrow> 'k stage" where
  "handle_memory_maps S = (\<lambda>(p, k).
     if \<not> alive p then Inr (p, k)
     else case os_fopen S (p_path p @ ''/maps'') k of
       (Inl errsv, k) \<Rightarrow> if errsv = EACCES then Inr (p, k) else Inr (dead p, k)
     | (Inr content, k) \<Rightarrow>
         bindE (foldE map_line_file (fgets_all 1024 content) p) (\<lambda>p. Inr (p, k)))"

text \<open>The loop over the entries of /proc/[pid]/fd; what cannot be read is skipped.\<close>

fun file_descriptors_from :: "'k os \<Rightarrow> string list \<Rightarrow> 'k stage" where
  "file_descriptors_from S [] (p, k) = Inr (p, k)"
| "file_descriptors_from S (file_descriptor # rest) (p, k) =
     (if file_descriptor = ''.'' \<or> file_descriptor = ''..'' then file_descriptors_from S rest (p, k)
      else
        let link = p_path p @ ''/fd/'' @ file_descriptor in
        case os_readlink S link k of
          (Inl _, k) \<Rightarrow> file_descriptors_from S rest (p, k)
        | (Inr target, k) \<Rightarrow>
            if length target \<ge> 1024 then Inl OutOfBounds
            else
              let file_name = without_deleted (c_str target) in
              (case stat_file S file_descriptor link file_name k of
                 (None, k) \<Rightarrow> file_descriptors_from S rest (p, k)
               | (Some f, k) \<Rightarrow> file_descriptors_from S rest (remember file_name (push_back f p), k)))"

definition handle_file_descriptors :: "'k os \<Rightarrow> 'k stage" where
  "handle_file_descriptors S = (\<lambda>(p, k).
     if \<not> alive p then Inr (p, k)
     else case os_opendir S (p_path p @ ''/fd'') k of
       (Inl errsv, k) \<Rightarrow>
         if errsv = EACCES
         then Inr (push_back (mk_file ''NOFD'' (p_path p @ ''/fd'' @ '' (Permission denied)'') [] []) p, k)
         else Inr (dead p, k)
     | (Inr entries, k) \<Rightarrow> file_descriptors_from S entries (p, k))"

definition file_row :: "process \<Rightarrow> file_t \<Rightarrow> string" where
  "file_row p f =
     c_str (command p) @ tab @ tab @ c_str (p_pid p) @ tab @ tab @ c_str (user_name p) @ tab @ tab
       @ c_str (f_fd f) @ tab @ tab @ c_str (f_type f) @ tab @ tab @ c_str (f_inode f) @ tab @ tab
       @ c_str (f_name f) @ nl"

fun print_rows :: "'r rx \<Rightarrow> 'r filters \<Rightarrow> process \<Rightarrow> file_t list \<Rightarrow> string" where
  "print_rows X fs p [] = []"
| "print_rows X fs p (it # rest) =
     (if \<not> rx_search X (f_type it) (filter_type fs) \<or> \<not> rx_search X (f_name it) (filter_file_name fs)
      then print_rows X fs p rest
      else file_row p it @ print_rows X fs p rest)"

definition print_opening_files :: "'r rx \<Rightarrow> 'r filters \<Rightarrow> process \<Rightarrow> string" where
  "print_opening_files X fs p =
     (if \<not> alive p then []
      else if \<not> rx_search X (command p) (filter_command fs) then []
      else print_rows X fs p (file_list p))"

text \<open>The constructor: all stages in order, giving the table, what it printed and the process.\<close>

definition collect :: "'k os \<Rightarrow> user_table \<Rightarrow> string \<Rightarrow> 'k \<Rightarrow> halt + (user_table \<times> process \<times> 'k)" where
  "collect S tbl dir_name k =
     bindE (set_command S (new_process\<lparr>p_path := ''/proc/'' @ dir_name\<rparr>, k)) (\<lambda>pk.
     bindE (set_pid dir_name pk) (\<lambda>pk.
     let (tbl, pk) = set_user_name S tbl pk in
     bindE (handle_special_files S pk) (\<lambda>pk.
     bindE (handle_memory_maps S pk) (\<lambda>pk.
     bindE (handle_file_descriptors S pk) (\<lambda>pk. Inr (tbl, pk))))))"

definition mk_process ::
  "'k os \<Rightarrow> 'r rx \<Rightarrow> 'r filters \<Rightarrow> user_table \<Rightarrow> string \<Rightarrow> 'k \<Rightarrow> halt + (user_table \<times> string \<times> 'k)" where
  "mk_process S X fs tbl dir_name k =
     bindE (collect S tbl dir_name k) (\<lambda>(tbl, p, k). Inr (tbl, print_opening_files X fs p, k))"

section \<open>hw1.cpp\<close>

text \<open>One line of /etc/passwd.\<close>

definition passwd_line :: "string \<Rightarrow> user_table \<Rightarrow> halt + user_table" where
  "passwd_line buffer tbl =
     (let ts = tokens '':'' (c_str buffer) in
      if ts = [] then Inl Uncaught
      else if length ts < 3 then Inl NullPointer
      else Inr (tbl(word_of_int (atoi (ts ! 2)) \<mapsto> ts ! 0)))"

definition set_user_table :: "'k os \<Rightarrow> 'k \<Rightarrow> halt + (user_table \<times> 'k)" where
  "set_user_table S k =
     (case os_fopen S ''/etc/passwd'' k of
        (Inl _, k) \<Rightarrow> Inl NullPointer
      | (Inr content, k) \<Rightarrow>
          bindE (foldE passwd_line (fgets_all 1024 content) Map.empty) (\<lambda>tbl. Inr (tbl, k)))"

definition header :: string where
  "header = ''COMMAND'' @ tab @ tab @ ''PID'' @ tab @ tab @ ''USER'' @ tab @ tab @ ''FD'' @ tab @ tab
     @ ''TYPE'' @ tab @ tab @ ''NODE'' @ tab @ tab @ ''NAME'' @ nl"

fun list_processes ::
  "'k os \<Rightarrow> 'r rx \<Rightarrow> 'r filters \<Rightarrow> string list \<Rightarrow> user_table \<Rightarrow> 'k \<Rightarrow> halt + (string \<times> 'k)" where
  "list_processes S X fs [] tbl k = Inr ([], k)"
| "list_processes S X fs (d_name # rest) tbl k =
     (if \<not> is_number d_name then list_processes S X fs rest tbl k
      else
        bindE (mk_process S X fs tbl d_name k) (\<lambda>(tbl, out, k).
        bindE (list_processes S X fs rest tbl k) (\<lambda>(out', k). Inr (out @ out', k))))"

text \<open>
  \<open>main\<close>: the exit status and what was printed. The patterns of the three filters before any option;
  opening /proc can fail and the null result is given to \<open>readdir\<close>.
\<close>

definition type_pattern :: string where "type_pattern = ''REG|CHR|DIR|FIFO|SOCK|unknown|''"

definition lsof_main :: "'k os \<Rightarrow> 'r rx \<Rightarrow> (char \<times> string) list \<Rightarrow> 'k \<Rightarrow> halt + (int \<times> string)" where
  "lsof_main S X opts k =
     (case (rx_assign X ''.*'', rx_assign X type_pattern) of
        (Some any, Some types) \<Rightarrow>
          bindE (argument_parser X opts \<lparr>filter_command = any, filter_type = types, filter_file_name = any\<rparr>)
            (\<lambda>(ok, out, fs).
             if \<not> ok then Inr (1, out)
             else
               bindE (set_user_table S k) (\<lambda>(tbl, k).
               case os_opendir S ''/proc'' k of
                 (Inl _, k) \<Rightarrow> Inl NullPointer
               | (Inr entries, k) \<Rightarrow>
                   bindE (list_processes S X fs entries tbl k) (\<lambda>(rows, k). Inr (0, header @ rows))))
      | _ \<Rightarrow> Inl Uncaught)"

end
