(* ===== verification/LsofClaims.thy ===== *)
theory LsofClaims
  imports Lsof
begin

text \<open>
  hw1: what the file lister guarantees. The three stages that collect rows share a contract (the
  locale \<open>row_stage\<close>): a process found dead is passed on untouched, rows and seen names only grow,
  each new row has a TYPE of the list, and what identifies the process is kept. The mapped files
  are an invariant of a loop, by the \<open>stepper\<close> interface; the user table is read back from the
  lines of /etc/passwd; the last part says when the collection returns at all.
\<close>

section \<open>The contract of the stages\<close>

definition types :: "string list" where
  "types = [''DIR'', ''REG'', ''CHR'', ''FIFO'', ''SOCK'', ''unknown'']"

text \<open>A row: one of the six types, or the row of an unreadable fd directory, which has none.\<close>

definition typed_row :: "file_t \<Rightarrow> bool" where
  "typed_row f \<longleftrightarrow> f_type f \<in> set types \<or> (f_fd f = ''NOFD'' \<and> f_type f = [] \<and> f_inode f = [])"

text \<open>\<open>p'\<close> is \<open>p\<close> with more rows and more names.\<close>

definition extends :: "process \<Rightarrow> process \<Rightarrow> bool" where
  "extends p p' \<longleftrightarrow>
     (\<exists>fs. file_list p' = file_list p @ fs \<and> list_all typed_row fs) \<and> hash p \<subseteq> hash p' \<and>
     p_path p' = p_path p \<and> command p' = command p \<and> p_pid p' = p_pid p \<and>
     uid p' = uid p \<and> user_name p' = user_name p"

lemma extends_refl [simp]: "extends p p"
  by (simp add: extends_def)

lemma extends_trans: "extends p q \<Longrightarrow> extends q r \<Longrightarrow> extends p r"
  unfolding extends_def by (metis (no_types, lifting) append.assoc list_all_append subset_trans)

lemma extends_dead [simp]: "extends p (dead p)"
  by (simp add: extends_def)

lemma extends_row [simp]: "typed_row f \<Longrightarrow> extends p (push_back f p)"
  by (simp add: extends_def push_back_def)

lemma extends_remember [simp]: "extends p (remember n p)"
  by (auto simp: extends_def remember_def)

lemma extends_row_remember: "typed_row f \<Longrightarrow> extends p (remember n (push_back f p))"
  by (rule extends_trans [OF extends_row extends_remember])

lemma typed_mk_file [simp]: "ty \<in> set types \<Longrightarrow> typed_row (mk_file fd nm ino ty)"
  by (simp add: typed_row_def mk_file_def)

lemma type_field: "f_type (set_type_field mode f) \<in> set types"
  by (simp add: set_type_field_def types_def Let_def)

lemma name_inode_type [simp]:
  "f_type (set_inode_field i f) = f_type f" "f_type (set_name_field n f) = f_type f"
  "f_name (set_name_field n f) = n"
  by (simp_all add: set_inode_field_def set_name_field_def)

lemma typed_stat_file: "stat_file S fd path nm k = (Some f, k') \<Longrightarrow> typed_row f \<and> f_name f = nm"
  using type_field by (auto simp: stat_file_def typed_row_def split: sum.splits prod.splits)

locale row_stage =
  fixes stage :: "'k stage"
  assumes dead_untouched: "\<not> alive p \<Longrightarrow> stage (p, k) = Inr (p, k)"
    and rows_extend: "stage (p, k) = Inr (p', k') \<Longrightarrow> extends p p'"
begin

lemma rows_stay_typed:
  "list_all typed_row (file_list p) \<Longrightarrow> stage (p, k) = Inr (p', k') \<Longrightarrow> list_all typed_row (file_list p')"
  using rows_extend [of p k p' k'] by (auto simp: extends_def)

end

lemma special_files_extend: "special_files_from S ls (p, k) = Inr (p', k') \<Longrightarrow> extends p p'"
proof (induction ls arbitrary: p k)
  case (Cons l ls)
  obtain fd link where l: "l = (fd, link)" by (cases l)
  obtain res k1 where r: "os_readlink S link k = (res, k1)" by (cases "os_readlink S link k")
  show ?case
  proof (cases res)
    case (Inl e)
    let ?row = "mk_file fd (link @ '' (Permission denied)'') [] ''unknown''"
    have "extends p (push_back ?row p)" by (rule extends_row) (simp add: types_def)
    moreover have "extends (push_back ?row p) p'" if "e = EACCES"
      using Cons.prems l r Inl that by (intro Cons.IH [of _ k1]) simp
    moreover have "p' = dead p" if "e \<noteq> EACCES"
      using Cons.prems l r Inl that by simp
    ultimately show ?thesis using extends_trans [of p "push_back ?row p" p'] by (cases "e = EACCES") simp_all
  next
    case (Inr target)
    let ?nm = "without_deleted (c_str target)"
    obtain fo k2 where st: "stat_file S fd link ?nm k1 = (fo, k2)" by (cases "stat_file S fd link ?nm k1")
    have small: "\<not> length target \<ge> 1024" using Cons.prems l r Inr by (simp split: if_splits)
    show ?thesis
    proof (cases fo)
      case None
      then have "p' = dead p" using Cons.prems l r Inr small st by simp
      then show ?thesis by simp
    next
      case (Some f)
      then have "typed_row f" using st typed_stat_file [of S _ _ ?nm k1 f k2] by simp
      then have "extends p (remember ?nm (push_back f p))" by (rule extends_row_remember)
      moreover have "extends (remember ?nm (push_back f p)) p'"
        using Cons.prems l r Inr small st Some by (intro Cons.IH [of _ k2]) simp
      ultimately show ?thesis by (rule extends_trans)
    qed
  qed
qed simp

lemma map_line_extends: "map_line_file l p = Inr p' \<Longrightarrow> extends p p'"
  by (auto simp: map_line_file_def Let_def types_def split: if_splits
      intro: extends_trans [OF extends_remember extends_row])

lemma file_descriptors_extend: "file_descriptors_from S es (p, k) = Inr (p', k') \<Longrightarrow> extends p p'"
proof (induction es arbitrary: p k)
  case (Cons e es)
  let ?link = "p_path p @ ''/fd/'' @ e"
  obtain res k1 where r: "os_readlink S ?link k = (res, k1)" by (cases "os_readlink S ?link k")
  consider (dots) "e = ''.'' \<or> e = ''..''" | (error) n where "\<not> (e = ''.'' \<or> e = ''..'')" "res = Inl n"
    | (link) target where "\<not> (e = ''.'' \<or> e = ''..'')" "res = Inr target" by (cases res) auto
  then show ?case
  proof cases
    case dots
    then have "file_descriptors_from S es (p, k) = Inr (p', k')" using Cons.prems by auto
    then show ?thesis by (rule Cons.IH)
  next
    case error
    then have "file_descriptors_from S es (p, k1) = Inr (p', k')"
      using Cons.prems r by (simp del: disj_not1 de_Morgan_disj)
    then show ?thesis by (rule Cons.IH)
  next
    case (link target)
    let ?nm = "without_deleted (c_str target)"
    obtain fo k2 where st: "stat_file S e ?link ?nm k1 = (fo, k2)" by (cases "stat_file S e ?link ?nm k1")
    have small: "\<not> length target \<ge> 1024" using Cons.prems link r by (auto split: if_splits)
    show ?thesis
    proof (cases fo)
      case None
      then have "file_descriptors_from S es (p, k2) = Inr (p', k')"
        using Cons.prems link r small st by simp
      then show ?thesis by (rule Cons.IH)
    next
      case (Some f)
      then have "typed_row f" using st typed_stat_file [of S _ _ ?nm k1 f k2] by simp
      then have "extends p (remember ?nm (push_back f p))" by (rule extends_row_remember)
      moreover have "extends (remember ?nm (push_back f p)) p'"
        using Cons.prems link r small st Some by (intro Cons.IH [of _ k2]) simp
      ultimately show ?thesis by (rule extends_trans)
    qed
  qed
qed simp

interpretation map_lines: stepper "extends p" map_line_file for p
  by unfold_locales (rule extends_trans, assumption, rule map_line_extends)

interpretation special: row_stage "handle_special_files S" for S
  by unfold_locales
    (auto simp: handle_special_files_def split: if_splits dest: special_files_extend
      simp del: special_files_from.simps)

interpretation memory: row_stage "handle_memory_maps S" for S
  by unfold_locales
    (auto simp: handle_memory_maps_def bindE_eq_Inr split: if_splits sum.splits prod.splits
      intro: map_lines.stepper_run_keeps [OF extends_refl])

interpretation descriptors: row_stage "handle_file_descriptors S" for S
  by unfold_locales
    (auto simp: handle_file_descriptors_def typed_row_def mk_file_def split: if_splits sum.splits prod.splits
      dest: file_descriptors_extend intro!: extends_row)


section \<open>The whole collection\<close>

lemma set_command_fresh:
  "set_command S (p, k) = Inr (p', k') \<Longrightarrow>
   file_list p' = file_list p \<and> hash p' = hash p \<and> p_path p' = p_path p \<and> p_pid p' = p_pid p"
  by (auto simp: set_command_def split: if_splits sum.splits prod.splits)

lemma set_user_name_fresh:
  "set_user_name S tbl (p, k) = (tbl', p', k') \<Longrightarrow>
   file_list p' = file_list p \<and> hash p' = hash p \<and> p_path p' = p_path p \<and> p_pid p' = p_pid p \<and>
   (alive p' \<longrightarrow> alive p)"
  by (auto simp: set_user_name_def Let_def split: if_splits sum.splits prod.splits)

lemma collect_stages:
  assumes "collect S tbl dir_name k = Inr (tbl', p, k')"
  obtains p0 k0 p1 k1 p2 k2 where "file_list p0 = []" and "hash p0 = {}"
    and "p_path p0 = ''/proc/'' @ dir_name" and "alive p0 \<longrightarrow> p_pid p0 = dir_name"
    and "handle_special_files S (p0, k0) = Inr (p1, k1)"
    and "handle_memory_maps S (p1, k1) = Inr (p2, k2)"
    and "handle_file_descriptors S (p2, k2) = Inr (p, k')"
proof -
  let ?new = "new_process\<lparr>p_path := ''/proc/'' @ dir_name\<rparr>"
  from assms obtain pa ka where c: "set_command S (?new, k) = Inr (pa, ka)"
    by (auto simp: collect_def bindE_eq_Inr)
  obtain pb kb where d: "set_pid dir_name (pa, ka) = Inr (pb, kb)"
    by (cases "alive pa") (auto simp: set_pid_def)
  obtain tbl1 p0 k0 where u: "set_user_name S tbl (pb, kb) = (tbl1, p0, k0)"
    by (cases "set_user_name S tbl (pb, kb)")
  from assms c d u obtain p1 k1 p2 k2 where "handle_special_files S (p0, k0) = Inr (p1, k1)"
      and "handle_memory_maps S (p1, k1) = Inr (p2, k2)"
      and "handle_file_descriptors S (p2, k2) = Inr (p, k')"
    by (auto simp: collect_def bindE_eq_Inr)
  moreover from set_command_fresh [OF c] have a: "file_list pa = []" "hash pa = {}" "p_path pa = ''/proc/'' @ dir_name"
    by (simp_all add: new_process_def)
  moreover from d a have b: "file_list pb = []" "hash pb = {}" "p_path pb = ''/proc/'' @ dir_name"
      "alive pb \<longrightarrow> p_pid pb = dir_name"
    by (auto simp: set_pid_def split: if_splits)
  ultimately show thesis using that set_user_name_fresh [OF u] by auto
qed

section \<open>Mapped files\<close>






section \<open>A system to list\<close>

text \<open>
  A small system for the witnesses, which does not change: process 42 of user 1000 with two mapped
  files, one of them mapped twice, and two descriptors; every other path is missing.
\<close>

definition sample_maps :: string where
  "sample_maps = ''a r 0 0 7 /x'' @ nl @ ''b r 0 0 0'' @ nl @ ''c w 0 0 7 /x'' @ nl @ ''d w 0 0 9 /deleted'' @ nl"

definition sample_link_of :: "string \<Rightarrow> int + string" where
  "sample_link_of p =
     (if p = ''/proc/42/cwd'' then Inr ''/home'' else if p = ''/proc/42/root'' then Inr ''/''
      else if p = ''/proc/42/exe'' then Inr ''/bin/sh (deleted)''
      else if p = ''/proc/42/fd/0'' then Inr ''/dev/tty'' else if p = ''/proc/42/fd/1'' then Inr ''/tmp/o''
      else Inl 2)"

definition sample_stat_of :: "string \<Rightarrow> int + stat_t" where
  "sample_stat_of p =
     (if p = ''/proc/42'' then Inr \<lparr>st_mode = 0x416D, st_ino = 5, st_uid = 1000\<rparr>
      else if p = ''/proc/42/cwd'' \<or> p = ''/proc/42/root'' then Inr \<lparr>st_mode = 0x41ED, st_ino = 2, st_uid = 0\<rparr>
      else if p = ''/proc/42/exe'' then Inr \<lparr>st_mode = 0x81ED, st_ino = 3, st_uid = 0\<rparr>
      else if p = ''/proc/42/fd/0'' then Inr \<lparr>st_mode = 0x2180, st_ino = 4, st_uid = 0\<rparr>
      else if p = ''/proc/42/fd/1'' then Inr \<lparr>st_mode = 0x8180, st_ino = 6, st_uid = 0\<rparr>
      else Inl 2)"

definition sample_os :: "unit os" where
  "sample_os =
     \<lparr>os_open = \<lambda>p k. (if p = ''/proc/42/comm'' then Inr 3 else Inl 2, k),
      os_read_at = \<lambda>fd n k. (Inr (''sh'' @ nl), k),
      os_close = \<lambda>fd k. k,
      os_stat = \<lambda>p k. (sample_stat_of p, k),
      os_lstat = \<lambda>p k. (sample_stat_of p, k),
      os_readlink = \<lambda>p k. (sample_link_of p, k),
      os_fopen = \<lambda>p k. (if p = ''/proc/42/maps'' then Inr sample_maps
        else if p = ''/etc/passwd'' then Inr (''root:x:0:0'' @ nl @ ''ann:x:1000:7'' @ nl) else Inl 2, k),
      os_opendir = \<lambda>p k. (if p = ''/proc'' then Inr [''.'', ''..'', ''42'', ''43'', ''self'']
        else if p = ''/proc/42/fd'' then Inr [''.'', ''..'', ''0'', ''1''] else Inl 2, k)\<rparr>"

section \<open>Properties of the rows\<close>

lemma collect_rows:
  assumes "collect S tbl dir_name k = Inr (tbl', p, k')"
  shows "list_all typed_row (file_list p) \<and> p_path p = ''/proc/'' @ dir_name \<and> (alive p \<longrightarrow> p_pid p = dir_name)"
proof -
  from collect_stages [OF assms] obtain p0 k0 p1 k1 p2 k2 where new: "file_list p0 = []"
    "p_path p0 = ''/proc/'' @ dir_name" "alive p0 \<longrightarrow> p_pid p0 = dir_name"
    and s: "handle_special_files S (p0, k0) = Inr (p1, k1)" and m: "handle_memory_maps S (p1, k1) = Inr (p2, k2)"
    and f: "handle_file_descriptors S (p2, k2) = Inr (p, k')" .
  have "list_all typed_row (file_list p0)" using new by simp
  from descriptors.rows_stay_typed [OF memory.rows_stay_typed [OF special.rows_stay_typed [OF this s] m] f]
  have "list_all typed_row (file_list p)" .
  moreover have "extends p0 p"
    using special.rows_extend [OF s] memory.rows_extend [OF m] descriptors.rows_extend [OF f] extends_trans by blast
  moreover have "alive p \<longrightarrow> alive p0"
    using special.dead_untouched [of p0 S k0] memory.dead_untouched [of p1 S k1]
      descriptors.dead_untouched [of p2 S k2] s m f by auto
  ultimately show ?thesis using new by (auto simp: extends_def)
qed

text \<open>
  C27: every row collected for a process has one of the types DIR, REG, CHR, FIFO, SOCK and unknown,
  but for the row of an unreadable fd directory, which has neither type nor inode; the process keeps
  its directory and, as long as it lives, its pid.
\<close>
theorem rows_are_typed:
  assumes "collect S tbl dir_name k = Inr (tbl', p, k')"
  shows "list_all typed_row (file_list p) \<and> p_path p = ''/proc/'' @ dir_name \<and> (alive p \<longrightarrow> p_pid p = dir_name)"
  by (rule collect_rows [OF assms])



lemma sample_maps_lines:
  "fgets_all 1024 sample_maps =
     [''a r 0 0 7 /x'' @ nl, ''b r 0 0 0'' @ nl, ''c w 0 0 7 /x'' @ nl, ''d w 0 0 9 /deleted'' @ nl]"
  by (simp add: sample_maps_def fgets_all.simps fgets_one_def)

lemma sample_map_tokens:
  "tokens ('' '' @ tab @ nl) (c_str (''a r 0 0 7 /x'' @ nl)) = [''a'', ''r'', ''0'', ''0'', ''7'', ''/x'']"
  "tokens ('' '' @ tab @ nl) (c_str (''b r 0 0 0'' @ nl)) = [''b'', ''r'', ''0'', ''0'', ''0'']"
  "tokens ('' '' @ tab @ nl) (c_str (''c w 0 0 7 /x'' @ nl)) = [''c'', ''w'', ''0'', ''0'', ''7'', ''/x'']"
  "tokens ('' '' @ tab @ nl) (c_str (''d w 0 0 9 /deleted'' @ nl)) = [''d'', ''w'', ''0'', ''0'', ''9'', ''/deleted'']"
  by (simp_all add: tokens.simps c_str_def)

definition mapped_rows :: "file_t list" where
  "mapped_rows = [mk_file ''mem'' ''/x'' ''7'' ''REG'', mk_file ''DEL'' ''/deleted'' ''9'' ''REG'']"

lemma sample_maps_stage:
  assumes "alive p" and "p_path p = ''/proc/42''" and "''/x'' \<notin> hash p" and "''/deleted'' \<notin> hash p"
  shows "handle_memory_maps sample_os (p, k) =
    Inr (p\<lparr>file_list := file_list p @ mapped_rows, hash := {''/deleted'', ''/x''} \<union> hash p\<rparr>, k)"
proof -
  let ?x = "push_back (mk_file ''mem'' ''/x'' ''7'' ''REG'') (remember ''/x'' p)"
  have 1: "map_line_file (''a r 0 0 7 /x'' @ nl) p = Inr ?x"
    unfolding map_line_file_def sample_map_tokens using assms by (simp add: Let_def)
  have 2: "map_line_file (''b r 0 0 0'' @ nl) q = Inr q" for q
    unfolding map_line_file_def sample_map_tokens by simp
  have 3: "map_line_file (''c w 0 0 7 /x'' @ nl) ?x = Inr ?x"
    unfolding map_line_file_def sample_map_tokens by (simp add: push_back_def remember_def Let_def)
  have 4: "map_line_file (''d w 0 0 9 /deleted'' @ nl) ?x =
      Inr (push_back (mk_file ''DEL'' ''/deleted'' ''9'' ''REG'') (remember ''/deleted'' ?x))"
    unfolding map_line_file_def sample_map_tokens using assms by (simp add: push_back_def remember_def Let_def)
  have "foldE map_line_file (fgets_all 1024 sample_maps) p =
      Inr (push_back (mk_file ''DEL'' ''/deleted'' ''9'' ''REG'') (remember ''/deleted'' ?x))"
    unfolding sample_maps_lines foldE.simps 1 2 3 4 bindE_simps by (rule refl)
  then show ?thesis
    using assms by (simp add: handle_memory_maps_def sample_os_def push_back_def remember_def mapped_rows_def)
qed


text \<open>The rows of process 42.\<close>

definition sample_rows :: "file_t list" where
  "sample_rows =
     [mk_file ''cwd'' ''/home'' ''2'' ''DIR'', mk_file ''rtd'' ''/'' ''2'' ''DIR'',
      mk_file ''txt'' ''/bin/sh'' ''3'' ''REG''] @ mapped_rows @
     [mk_file ''0u'' ''/dev/tty'' ''4'' ''CHR'', mk_file ''1u'' ''/tmp/o'' ''6'' ''REG'']"

definition sample_process :: process where
  "sample_process =
     \<lparr>alive = True, p_path = ''/proc/42'', command = ''sh'', p_pid = ''42'', uid = ''1000'', user_name = ''ann'',
      hash = {''/tmp/o'', ''/dev/tty'', ''/bin/sh'', ''/'', ''/home'', ''/deleted'', ''/x''}, file_list = sample_rows\<rparr>"

lemma char_of_digits:
  "char_of (49 :: nat) = CHR ''1''" "char_of (50 :: nat) = CHR ''2''" "char_of (51 :: nat) = CHR ''3''"
  "char_of (52 :: nat) = CHR ''4''" "char_of (54 :: nat) = CHR ''6''"
  by code_simp+

lemma sample_collect:
  "collect sample_os [1000 \<mapsto> ''ann''] ''42'' () = Inr ([1000 \<mapsto> ''ann''], sample_process, ())"
proof -
  let ?S = sample_os and ?t = "[1000 \<mapsto> ''ann''] :: user_table"
  let ?a = "\<lparr>alive = True, p_path = ''/proc/42'', command = ''sh'', p_pid = [], uid = [], user_name = [],
     hash = {}, file_list = []\<rparr>"
  let ?b = "?a\<lparr>p_pid := ''42'', uid := ''1000'', user_name := ''ann''\<rparr>"
  let ?c = "?b\<lparr>hash := {''/bin/sh'', ''/'', ''/home''}, file_list := take 3 sample_rows\<rparr>"
  let ?d = "?c\<lparr>file_list := take 3 sample_rows @ mapped_rows,
     hash := {''/deleted'', ''/x''} \<union> {''/bin/sh'', ''/'', ''/home''}\<rparr>"
  have 1: "set_command ?S (new_process\<lparr>p_path := ''/proc/'' @ ''42''\<rparr>, ()) = Inr (?a, ())"
    by (simp add: set_command_def new_process_def sample_os_def c_str_def)
  have 2: "set_pid ''42'' (?a, ()) = Inr (?a\<lparr>p_pid := ''42''\<rparr>, ())"
    by (simp add: set_pid_def)
  have 3: "set_user_name ?S ?t (?a\<lparr>p_pid := ''42''\<rparr>, ()) = (?t, ?b, ())"
    by (simp add: set_user_name_def sample_os_def sample_stat_of_def dec_def to_base.simps digit_char_def char_of_digits Let_def)
  have 4: "handle_special_files ?S (?b, ()) = Inr (?c, ())"
    by (simp add: handle_special_files_def sample_os_def sample_link_of_def sample_stat_of_def stat_file_def
        without_deleted_def erase_at_def c_str_def Let_def push_back_def remember_def set_fd_field_def
        set_type_field_def set_inode_field_def set_name_field_def mk_file_def is_number_def isdigit_def
        dec_def to_base.simps digit_char_def char_of_digits sample_rows_def mapped_rows_def)
  have 5: "handle_memory_maps ?S (?c, ()) = Inr (?d, ())"
    using sample_maps_stage [of ?c "()"] by simp
  have 6: "handle_file_descriptors ?S (?d, ()) = Inr (sample_process, ())"
    by (simp add: handle_file_descriptors_def sample_os_def sample_link_of_def sample_stat_of_def stat_file_def
        without_deleted_def erase_at_def c_str_def Let_def push_back_def remember_def set_fd_field_def
        set_type_field_def set_inode_field_def set_name_field_def mk_file_def is_number_def isdigit_def
        dec_def to_base.simps digit_char_def char_of_digits sample_rows_def mapped_rows_def sample_process_def)
  show ?thesis
    unfolding collect_def 1 bindE_simps 2 3 Let_def prod.case 4 5 6 by (rule refl)
qed

theorem rows_are_typed_witness:
  "list_all typed_row (file_list sample_process) \<and> p_path sample_process = ''/proc/'' @ ''42''"
  using rows_are_typed [OF sample_collect] by blast


section \<open>Printing\<close>

definition row_matches :: "'r rx \<Rightarrow> 'r filters \<Rightarrow> file_t \<Rightarrow> bool" where
  "row_matches X fs f \<longleftrightarrow> rx_search X (f_type f) (filter_type fs) \<and> rx_search X (f_name f) (filter_file_name fs)"

lemma print_rows_filter: "print_rows X fs p rows = concat (map (file_row p) (filter (row_matches X fs) rows))"
  by (induction rows) (auto simp: row_matches_def)

text \<open>A process whose command cannot be read any more goes through all stages untouched.\<close>

lemma vanished_collect:
  assumes "os_open S (''/proc/'' @ dir_name @ ''/comm'') k = (Inl e, k')"
  shows "collect S tbl dir_name k = Inr (tbl, dead (new_process\<lparr>p_path := ''/proc/'' @ dir_name\<rparr>), k')"
proof -
  let ?p = "dead (new_process\<lparr>p_path := ''/proc/'' @ dir_name\<rparr>)"
  have dead: "\<not> alive ?p" by simp
  have "set_command S (new_process\<lparr>p_path := ''/proc/'' @ dir_name\<rparr>, k) = Inr (?p, k')"
    using assms by (simp add: set_command_def new_process_def)
  moreover have "set_pid dir_name (?p, k') = Inr (?p, k')" by (simp add: set_pid_def)
  moreover have "set_user_name S tbl (?p, k') = (tbl, ?p, k')" by (simp add: set_user_name_def)
  ultimately show ?thesis
    by (simp add: collect_def special.dead_untouched memory.dead_untouched descriptors.dead_untouched)
qed

text \<open>
  C28: what is printed for a process are exactly the collected rows whose TYPE and NAME match the
  filters, in the order of collection, if it stayed alive and its command matches; nothing otherwise,
  and nothing for a process that is gone before its command is read.
\<close>
theorem printed_rows_are_the_matching_rows:
  assumes "collect S tbl dir_name k = Inr (tbl', p, k')"
    and "os_open S (''/proc/'' @ gone @ ''/comm'') k = (Inl e, k'')"
  shows "mk_process S X fs tbl dir_name k =
      Inr (tbl', (if alive p \<and> rx_search X (command p) (filter_command fs)
         then concat (map (file_row p) (filter (row_matches X fs) (file_list p))) else []), k') \<and>
    mk_process S X fs tbl gone k = Inr (tbl, [], k'')"
  using assms vanished_collect [OF assms(2)]
  by (simp add: mk_process_def print_opening_files_def print_rows_filter)

text \<open>
  Patterns for the witnesses: \<open>.*\<close>, the default TYPE pattern and plain words, which match themselves.
\<close>

definition sample_rx :: "string list rx" where
  "sample_rx =
     \<lparr>rx_assign = \<lambda>s. Some (if s = ''.*'' then [] else if s = type_pattern then [] # types else [s]),
      rx_match = \<lambda>s r. r = [] \<or> s \<in> set r,
      rx_search = \<lambda>s r. r = [] \<or> list_ex (\<lambda>w. find_sub w s \<noteq> None) r\<rparr>"

theorem printed_rows_are_the_matching_rows_witness:
  "mk_process sample_os sample_rx \<lparr>filter_command = [], filter_type = [''CHR''], filter_file_name = []\<rparr>
     [1000 \<mapsto> ''ann''] ''42'' () =
     Inr ([1000 \<mapsto> ''ann''], file_row sample_process (mk_file ''0u'' ''/dev/tty'' ''4'' ''CHR''), ())"
proof -
  have "os_open sample_os (''/proc/'' @ ''43'' @ ''/comm'') () = (Inl 2, ())"
    by (simp add: sample_os_def)
  from printed_rows_are_the_matching_rows [OF sample_collect this, of sample_rx
      "\<lparr>filter_command = [], filter_type = [''CHR''], filter_file_name = []\<rparr>"]
  show ?thesis
    by (simp add: sample_process_def sample_rows_def mapped_rows_def sample_rx_def row_matches_def mk_file_def)
qed

section \<open>The TYPE option\<close>

text \<open>
  TYPE options do not accumulate and cannot be replaced: the second \<open>-t\<close> is checked against the
  pattern of the first instead of the list of valid types, so a different valid type is rejected
  as "Invalid TYPE option", although either alone is accepted. The hypothesis on the pattern
  library is that a plain word matches itself only.
\<close>
theorem second_type_option_rejected:
  assumes "rx_assign X a = Some ra" and "rx_assign X b = Some rb" and "\<And>s. rx_match X s ra \<longleftrightarrow> s = a"
    and "rx_match X a (filter_type fs)" and "rx_match X b (filter_type fs)" and "a \<noteq> b"
  shows "argument_parser X [(CHR ''t'', a), (CHR ''t'', b)] fs =
      Inr (False, ''Invalid TYPE option'' @ nl, fs\<lparr>filter_type := ra\<rparr>) \<and>
    argument_parser X [(CHR ''t'', b)] fs = Inr (True, [], fs\<lparr>filter_type := rb\<rparr>)"
  using assms by simp

theorem second_type_option_rejected_witness:
  "argument_parser sample_rx [(CHR ''t'', ''REG''), (CHR ''t'', ''DIR'')]
     \<lparr>filter_command = [], filter_type = [] # types, filter_file_name = []\<rparr> =
   Inr (False, ''Invalid TYPE option'' @ nl, \<lparr>filter_command = [], filter_type = [''REG''], filter_file_name = []\<rparr>)"
proof -
  have "rx_assign sample_rx ''REG'' = Some [''REG'']" "rx_assign sample_rx ''DIR'' = Some [''DIR'']"
    by (simp_all add: sample_rx_def type_pattern_def)
  moreover have "rx_match sample_rx s [''REG''] \<longleftrightarrow> s = ''REG''" for s by (simp add: sample_rx_def)
  ultimately show ?thesis
    using second_type_option_rejected [of sample_rx "''REG''" "[''REG'']" "''DIR''" "[''DIR'']"
        "\<lparr>filter_command = [], filter_type = [] # types, filter_file_name = []\<rparr>"]
    by (simp add: sample_rx_def types_def)
qed


section \<open>Deleted mappings\<close>

text \<open>A field of a line of /proc/[pid]/maps.\<close>

definition map_word :: "string \<Rightarrow> bool" where
  "map_word w \<longleftrightarrow> w \<noteq> [] \<and> list_all (\<lambda>c. c \<notin> set ('' '' @ tab @ nl) \<and> c \<noteq> NUL) w"

definition maps_text :: "string list \<Rightarrow> string" where
  "maps_text ws = concat (map (\<lambda>w. w @ '' '') (butlast ws)) @ last ws @ nl"

lemma c_str_id: "list_all (\<lambda>c. c \<noteq> NUL) s \<Longrightarrow> c_str s = s"
  by (auto simp: c_str_def list_all_iff takeWhile_eq_all_conv)

lemma c_str_maps_text: "list_all map_word ws \<Longrightarrow> ws \<noteq> [] \<Longrightarrow> c_str (maps_text ws) = maps_text ws"
  by (rule c_str_id)
    (auto simp: maps_text_def map_word_def list_all_iff dest: in_set_butlastD last_in_set)

lemma tokens_maps_text:
  assumes "list_all map_word ws" and "ws \<noteq> []"
  shows "tokens ('' '' @ tab @ nl) (maps_text ws) = ws"
  using assms(2,1)
proof (induction ws rule: list_nonempty_induct)
  case (single w)
  then have "tokens ('' '' @ tab @ nl) (w @ nl) = w # tokens ('' '' @ tab @ nl) nl"
    by (intro tokens_word) (auto simp: map_word_def list_all_iff)
  then show ?case by (simp add: maps_text_def tokens_delim)
next
  case (cons w ws)
  have "tokens ('' '' @ tab @ nl) (w @ ('' '' @ maps_text ws)) = w # tokens ('' '' @ tab @ nl) ('' '' @ maps_text ws)"
    using cons.prems by (intro tokens_word) (auto simp: map_word_def list_all_iff)
  then show ?case using cons by (simp add: maps_text_def tokens_delim)
qed

text \<open>
  a mapping of a deleted file is not marked: the kernel writes the name and " (deleted)" as two
  words, the row is decided on the first, so it is "mem" with the name of the file that is gone.
\<close>
theorem deleted_mapping_shown_as_mem:
  assumes "list_all map_word [rng, perms, offset, dev, inode, name]" and "inode \<noteq> ''0''"
    and "find_sub ''deleted'' name = None" and "name \<notin> hash p"
  shows "map_line_file (maps_text [rng, perms, offset, dev, inode, name, ''(deleted)'']) p =
    Inr (push_back (mk_file ''mem'' name inode ''REG'') (remember name p))"
proof -
  have "list_all map_word [rng, perms, offset, dev, inode, name, ''(deleted)'']"
    using assms(1) by (simp add: map_word_def)
  from c_str_maps_text [OF this] tokens_maps_text [OF this] show ?thesis
    using assms(2-4) by (simp add: map_line_file_def Let_def)
qed

theorem deleted_mapping_shown_as_mem_witness:
  "map_line_file (maps_text [''0-1'', ''r-xp'', ''0'', ''8:1'', ''77'', ''/lib/x'', ''(deleted)'']) new_process =
   Inr (push_back (mk_file ''mem'' ''/lib/x'' ''77'' ''REG'') (remember ''/lib/x'' new_process))"
  by (rule deleted_mapping_shown_as_mem) (simp_all add: map_word_def new_process_def)

section \<open>The user table\<close>

lemma fgets_one_line:
  assumes "CHR 0x0A \<notin> set b" and "length b + 1 < cap"
  shows "fgets_one cap (b @ nl @ rest) = b @ nl"
proof -
  have "\<forall>c\<in>set b. c \<noteq> CHR 0x0A" using assms(1) by auto
  with assms(2) show ?thesis by (simp add: fgets_one_def takeWhile_append Let_def)
qed

lemma fgets_all_lines:
  "list_all (\<lambda>b. CHR 0x0A \<notin> set b \<and> length b + 1 < cap) bs \<Longrightarrow>
   fgets_all cap (concat (map (\<lambda>b. b @ nl) bs)) = map (\<lambda>b. b @ nl) bs"
proof (induction bs)
  case (Cons b bs)
  then have b: "CHR 0x0A \<notin> set b" "length b + 1 < cap" by simp_all
  show ?case
    using Cons fgets_one_line [OF b] by (subst fgets_all.simps) simp
qed simp

text \<open>A user of /etc/passwd and its line; a line \<open>fgets\<close> reads whole.\<close>

record user =
  u_name :: string
  u_password :: string
  u_id :: u32
  u_rest :: string

definition passwd_text :: "user \<Rightarrow> string" where
  "passwd_text u = u_name u @ '':'' @ u_password u @ '':'' @ dec (unat (u_id u)) @ '':'' @ u_rest u"

definition passwd_word :: "string \<Rightarrow> bool" where
  "passwd_word w \<longleftrightarrow> w \<noteq> [] \<and> list_all (\<lambda>c. c \<noteq> CHR '':'' \<and> c \<noteq> CHR 0x0A \<and> c \<noteq> NUL) w"

definition valid_user :: "user \<Rightarrow> bool" where
  "valid_user u \<longleftrightarrow> passwd_word (u_name u) \<and> passwd_word (u_password u) \<and>
     list_all (\<lambda>c. c \<noteq> CHR 0x0A \<and> c \<noteq> NUL) (u_rest u) \<and> length (passwd_text u) < 1023"

lemma dec_plain: "c \<in> set (dec n) \<Longrightarrow> c \<noteq> CHR '':'' \<and> c \<noteq> CHR 0x0A \<and> c \<noteq> NUL"
proof -
  assume "c \<in> set (dec n)"
  then obtain d where "d < 10" and "c = digit_char d"
    using to_base_chars [of 10] by (auto simp: dec_def)
  then have "(of_char c :: nat) = 48 + d" by (simp add: of_char_digit_char)
  with \<open>d < 10\<close> show ?thesis by auto
qed

lemma dec_not_Nil: "dec n \<noteq> []"
  by (simp add: dec_def)

lemma atoi_uid: "(word_of_int (atoi (dec (unat u))) :: u32) = u"
proof -
  have "unat u < 2 ^ 32" using unsigned_less [of u, where ?'a = nat] by simp
  then have "strtol (dec (unat u)) 10 = int (unat u)" by (simp add: strtol_dec long_max_def del: of_nat_unat)
  then show ?thesis by (simp add: atoi_def)
qed

lemma passwd_line_user:
  assumes "valid_user u"
  shows "passwd_line (passwd_text u @ nl) tbl = Inr (tbl(u_id u \<mapsto> u_name u))"
proof -
  let ?rest = "u_rest u @ nl"
  have "c_str (passwd_text u @ nl) = passwd_text u @ nl"
    using assms dec_plain
    by (intro c_str_id) (auto simp: valid_user_def passwd_text_def passwd_word_def list_all_iff)
  moreover have "tokens '':'' (passwd_text u @ nl) =
      u_name u # u_password u # dec (unat (u_id u)) # tokens '':'' ?rest"
  proof -
    have w: "tokens '':'' (w @ '':'' @ r) = w # tokens '':'' r" if "passwd_word w" for w r
      using that tokens_word [of w "'':''" "'':'' @ r"] by (auto simp: passwd_word_def list_all_iff tokens_delim)
    have "passwd_word (dec (unat (u_id u)))"
      using dec_plain dec_not_Nil by (simp add: passwd_word_def list_all_iff)
    with w assms show ?thesis by (simp add: valid_user_def passwd_text_def)
  qed
  ultimately show ?thesis by (simp add: passwd_line_def Let_def atoi_uid)
qed

lemma passwd_fold:
  "list_all valid_user us \<Longrightarrow>
   foldE passwd_line (map (\<lambda>u. passwd_text u @ nl) us) tbl =
     Inr (tbl ++ map_of (rev (map (\<lambda>u. (u_id u, u_name u)) us)))"
  by (induction us arbitrary: tbl) (simp_all add: passwd_line_user map_add_assoc)

lemma passwd_table:
  assumes "list_all valid_user us"
    and "os_fopen S ''/etc/passwd'' k = (Inr (concat (map (\<lambda>b. b @ nl) (map passwd_text us))), k')"
  shows "set_user_table S k = Inr (map_of (rev (map (\<lambda>u. (u_id u, u_name u)) us)), k')"
proof -
  have "list_all (\<lambda>b. CHR 0x0A \<notin> set b \<and> length b + 1 < 1024) (map passwd_text us)"
    using assms(1) dec_plain
    by (fastforce simp: list_all_iff valid_user_def passwd_text_def passwd_word_def)
  from fgets_all_lines [OF this] assms show ?thesis
    by (simp add: set_user_table_def passwd_fold [OF assms(1), of Map.empty, simplified] comp_def)
qed

text \<open>
  C15: the user table read from /etc/passwd maps every uid of the file to its name, and to the one of
  its last line when it has several; no other uid has a name. The lines must have no empty name or
  password field (\<open>strtok\<close> skips empty fields) and fit the buffer.
\<close>
theorem user_table_of_passwd:
  assumes "list_all valid_user us"
    and "os_fopen S ''/etc/passwd'' k = (Inr (concat (map (\<lambda>b. b @ nl) (map passwd_text us))), k')"
  shows "set_user_table S k = Inr (map_of (rev (map (\<lambda>u. (u_id u, u_name u)) us)), k')"
  by (rule passwd_table [OF assms])

text \<open>With an empty password the group is taken for the user.\<close>

lemma empty_password_shifts_fields:
  "passwd_line (''ann::1000:7:'' @ nl) Map.empty = Inr [7 \<mapsto> ''ann'']"
proof -
  have "char_of (55 :: nat) = CHR ''7''" by code_simp
  then have "dec 7 = ''7''" by (simp add: dec_def to_base.simps digit_char_def)
  then have "atoi ''7'' = 7" using atoi_dec [of 7] by simp
  then show ?thesis
    by (simp add: passwd_line_def tokens.simps c_str_def Let_def)
qed


definition sample_users :: "user list" where
  "sample_users =
     [\<lparr>u_name = ''root'', u_password = ''x'', u_id = 0, u_rest = ''0''\<rparr>,
      \<lparr>u_name = ''ann'', u_password = ''x'', u_id = 1000, u_rest = ''7''\<rparr>]"

lemma sample_passwd:
  "list_all valid_user sample_users"
  "os_fopen sample_os ''/etc/passwd'' () = (Inr (concat (map (\<lambda>b. b @ nl) (map passwd_text sample_users))), ())"
proof -
  have d: "dec 0 = ''0''" "dec 1000 = ''1000''"
    by (simp_all add: dec_def to_base.simps digit_char_def char_of_digits)
  show "list_all valid_user sample_users"
    by (simp add: sample_users_def valid_user_def passwd_word_def passwd_text_def d)
  show "os_fopen sample_os ''/etc/passwd'' () = (Inr (concat (map (\<lambda>b. b @ nl) (map passwd_text sample_users))), ())"
    by (simp add: sample_os_def sample_users_def passwd_text_def d)
qed

theorem user_table_of_passwd_witness:
  "set_user_table sample_os () = Inr ([0 \<mapsto> ''root'', 1000 \<mapsto> ''ann''], ())"
  using user_table_of_passwd [OF sample_passwd] by (simp add: sample_users_def fun_upd_twist)

section \<open>When the lister returns\<close>

text \<open>
  A line of maps the lister can read: five words, and a sixth when the inode is not 0.
\<close>

definition readable_map_line :: "string \<Rightarrow> bool" where
  "readable_map_line l =
     (let ts = tokens ('' '' @ tab @ nl) (c_str l)
      in 5 \<le> length ts \<and> (if ts ! 4 = ''0'' then True else 6 \<le> length ts))"

definition readable_os :: "'k os \<Rightarrow> bool" where
  "readable_os S \<longleftrightarrow>
     (\<forall>p k k' target. os_readlink S p k = (Inr target, k') \<longrightarrow> length target < 1024) \<and>
     (\<forall>fd n k k'. os_read_at S fd n k \<noteq> (Inr [], k')) \<and>
     (\<forall>p k k' c. os_fopen S p k = (Inr c, k') \<longrightarrow> p \<noteq> ''/etc/passwd'' \<longrightarrow>
        list_all readable_map_line (fgets_all 1024 c))"

lemma readable_link: "readable_os S \<Longrightarrow> os_readlink S p k = (Inr target, k') \<Longrightarrow> \<not> 1024 \<le> length target"
  unfolding readable_os_def by (meson not_le)

lemma readable_maps:
  "readable_os S \<Longrightarrow> os_fopen S (p @ ''/maps'') k = (Inr c, k') \<Longrightarrow>
   list_all readable_map_line (fgets_all 1024 c)"
proof -
  have "p @ ''/maps'' \<noteq> ''/etc/passwd''"
  proof
    assume "p @ ''/maps'' = ''/etc/passwd''"
    then have "last (p @ ''/maps'') = last ''/etc/passwd''" by simp
    then show False by simp
  qed
  then show "readable_os S \<Longrightarrow> os_fopen S (p @ ''/maps'') k = (Inr c, k') \<Longrightarrow>
      list_all readable_map_line (fgets_all 1024 c)"
    unfolding readable_os_def by blast
qed

lemma set_command_returns: "readable_os S \<Longrightarrow> \<exists>q. set_command S pk = Inr q"
  by (auto simp: set_command_def readable_os_def split: prod.splits sum.splits)

lemma set_pid_returns: "\<exists>q. set_pid d pk = Inr q"
  by (auto simp: set_pid_def split: prod.splits)

lemma special_files_return: "readable_os S \<Longrightarrow> \<exists>q. special_files_from S ls pk = Inr q"
proof (induction S ls pk rule: special_files_from.induct)
  case (2 S fd link rest p k)
  then show ?case
    by (auto simp: Let_def dest: readable_link [OF "2.prems"] split: prod.split sum.split option.split)
qed simp

lemma map_lines_return:
  "list_all readable_map_line ls \<Longrightarrow> \<exists>q. foldE map_line_file ls p = Inr q"
proof (induction ls arbitrary: p)
  case (Cons l ls)
  then have "\<exists>q. map_line_file l p = Inr q"
    by (simp add: map_line_file_def readable_map_line_def Let_def not_less split: if_splits)
  with Cons show ?case by auto
qed simp

lemma file_descriptors_return: "readable_os S \<Longrightarrow> \<exists>q. file_descriptors_from S es pk = Inr q"
proof (induction S es pk rule: file_descriptors_from.induct)
  case (2 S e rest p k)
  then show ?case
    by (auto simp: Let_def dest: readable_link [OF "2.prems"] split: prod.split sum.split option.split)
qed simp

lemma stages_return:
  assumes "readable_os S"
  shows "\<exists>q. handle_special_files S pk = Inr q" "\<exists>q. handle_memory_maps S pk = Inr q"
    "\<exists>q. handle_file_descriptors S pk = Inr q"
proof -
  show "\<exists>q. handle_special_files S pk = Inr q"
    using special_files_return [OF assms] by (auto simp: handle_special_files_def simp del: special_files_from.simps split: prod.split)
  show "\<exists>q. handle_memory_maps S pk = Inr q"
  proof (cases pk)
    case (Pair p k)
    obtain res k1 where o: "os_fopen S (p_path p @ ''/maps'') k = (res, k1)"
      by (cases "os_fopen S (p_path p @ ''/maps'') k")
    show ?thesis
    proof (cases res)
      case (Inr c)
      with map_lines_return [OF readable_maps [OF assms o [unfolded Inr]], of p]
      show ?thesis using Pair o by (auto simp: handle_memory_maps_def)
    qed (use Pair o in \<open>auto simp: handle_memory_maps_def\<close>)
  qed
  show "\<exists>q. handle_file_descriptors S pk = Inr q"
    using file_descriptors_return [OF assms]
    by (auto simp: handle_file_descriptors_def split: prod.split sum.split)
qed

lemma collect_returns:
  assumes "readable_os S"
  shows "\<exists>tbl' p k'. collect S tbl d k = Inr (tbl', p, k')"
proof -
  obtain pa where a: "set_command S (new_process\<lparr>p_path := ''/proc/'' @ d\<rparr>, k) = Inr pa"
    using set_command_returns [OF assms] by blast
  obtain pb where b: "set_pid d pa = Inr pb" using set_pid_returns by blast
  obtain tbl' pc where c: "set_user_name S tbl pb = (tbl', pc)" by (cases "set_user_name S tbl pb")
  obtain pd where d: "handle_special_files S pc = Inr pd" using stages_return(1) [OF assms] by blast
  obtain pe where e: "handle_memory_maps S pd = Inr pe" using stages_return(2) [OF assms] by blast
  obtain p k' where f: "handle_file_descriptors S pe = Inr (p, k')" using stages_return(3) [OF assms] by fastforce
  have "collect S tbl d k = Inr (tbl', p, k')"
    unfolding collect_def a bindE_simps b c Let_def prod.case d e f by (rule refl)
  then show ?thesis by blast
qed

lemma process_returns: "readable_os S \<Longrightarrow> \<exists>tbl' out k'. mk_process S X fs tbl d k = Inr (tbl', out, k')"
  using collect_returns [of S tbl d k] by (auto simp: mk_process_def)

lemma readable_sample: "readable_os sample_os"
proof -
  have "list_all readable_map_line (fgets_all 1024 sample_maps)"
    unfolding sample_maps_lines readable_map_line_def by (simp add: sample_map_tokens [simplified] Let_def)
  then show ?thesis
    by (auto simp: readable_os_def sample_os_def sample_link_of_def split: if_splits)
qed

text \<open>
  C13: the listing returns: if links are shorter than the buffers, comm is never empty and every line
  of a maps file has its five words, and a name when its inode is not 0, then whatever appears,
  vanishes or is denied between the calls, the loop over /proc lists all entries without a crash.
\<close>
theorem listing_returns:
  assumes "readable_os S"
  shows "\<exists>out k'. list_processes S X fs entries tbl k = Inr (out, k')"
proof (induction entries arbitrary: tbl k)
  case (Cons e es)
  show ?case
  proof (cases "is_number e")
    case True
    from process_returns [OF assms, of X fs tbl e k] obtain tbl' out k' where "mk_process S X fs tbl e k = Inr (tbl', out, k')" by blast
    with True Cons.IH [of tbl' k'] show ?thesis by auto
  qed (use Cons in simp)
qed simp

theorem listing_returns_witness:
  "\<exists>out k'. list_processes sample_os sample_rx
     \<lparr>filter_command = [], filter_type = [], filter_file_name = []\<rparr> [''.'', ''42'', ''43''] Map.empty () = Inr (out, k')"
  by (rule listing_returns [OF readable_sample])

end
