(* ===== verification/LsofMain.thy ===== *)
theory LsofMain
  imports LsofClaims
begin

text \<open>
  hw1: the whole run of the lister, from the options to the last row, composed of the properties of
  its stages.
\<close>

section \<open>The loop over /proc\<close>





section \<open>Property\<close>



end
