(* ===== verification/Spec2Isabelle.thy ===== *)
theory Spec2Isabelle
  imports BreakClaims SessionClaims LoggerSample MiniJump LsofMain
begin

text \<open>
  A verification library for the four programs of the repository (src/hw1 to src/hw4), written in C,
  C++ and assembly. The definitions are translated from the sources branch by branch; the properties
  C1 to C40 stand in the theories whose names end in Claims and in \<open>LsofMain\<close>, \<open>LoggerSample\<close>, \<open>MiniHeader\<close>,
  \<open>MiniPrograms\<close> and \<open>MiniJump\<close>.

  The programs.

  hw1 is a file lister: for every process under /proc it collects rows for the working directory, root,
  program, mapped files and descriptors, and prints those that match three filters. hw2 is a library
  call logger: a launcher puts a shared object in front of the C library of a command, whose fourteen
  functions call the original and write a line. hw3 is a small C library on system calls, with signal
  sets, \<open>sigaction\<close>, \<open>perror\<close>, \<open>setjmp\<close> and \<open>longjmp\<close>, and the test programs that use it. hw4 is a debugger with an instruction level
  command language on top of \<open>ptrace\<close>. They share no code and interact with the system only.

  The theories, with the files they model.

  \<open>Prelude\<close>: results with errors as values (\<open>bindE\<close>, \<open>foldE\<close>), invariants of transformers that may fail
  (\<open>hoare\<close>), the locale \<open>stepper\<close> of a loop whose step keeps an invariant, words and bytes.
  \<open>CText\<close>: the text routines of the two standard libraries the sources use (printing and scanning of
  numbers, \<open>strtok\<close>, \<open>fgets\<close>, \<open>find\<close>, \<open>erase\<close>), with their lemmas.
  \<open>Platform\<close>: the ways a process stops (\<open>halt\<close>), and for hw4 the record of what \<open>ptrace\<close>, the process
  calls and the disassembler give, with the documented laws of a tracee's memory as the hypothesis
  \<open>ptrace_memory\<close>.

  \<open>Breakpoints\<close> (hw4/breakpoint.hpp), \<open>Parser\<close> and \<open>Elf\<close> (hw4/parser.hpp, hw4/utils.hpp), \<open>Debugger\<close>
  (hw4/command.hpp: the class \<open>debugger\<close> as a record, one definition per member function), \<open>Shell\<close>
  (hw4/hw4.cpp: the command loop, as a fold of \<open>sdb_step\<close> over the lines). \<open>DebuggerInv\<close> holds the class
  invariant, \<open>DebuggerMem\<close> what the commands do to the memory of the tracee: the specification is
  \<open>overlay\<close>, the program with 0xcc at the breakpoints. \<open>SampleTracee\<close> is a platform that satisfies the
  hypotheses, for the witnesses. \<open>BreakClaims\<close>, \<open>CommandClaims\<close> and \<open>FileClaims\<close> hold the properties, \<open>SessionClaims\<close> those of whole
  sessions, from the inductive paths on the state chart and what the ELF reader and the class invariant
  give together.

  \<open>Libmini\<close> (hw3/libmini.c, libmini.h, libmini64.asm): the state is \<open>errno\<close> and the kernel; each wrapper
  is the macro's translation around a numbered system call; signal sets are words; uninitialised local
  variables are arguments. \<open>LibminiClaims\<close>: the locale \<open>errno_wrapper\<close> is the contract of the wrappers,
  \<open>signal_set\<close> the refinement of sets of signals. \<open>MiniHeader\<close>: the names libmini.h gives to error numbers,
  signals and flags as enumerations, and the C text of \<open>sleep\<close> that libmini.c keeps beside the assembly.
  \<open>MiniPrograms\<close> (hw3/start.asm, hw3/testcase/alarm1.c to alarm3.c, write1.c): the entry point and the
  programs, on the record \<open>sig_calls\<close> of the system calls they make. \<open>MiniJump\<close> (hw3/testcase/jmp1.c): \<open>main\<close>
  on the registers and stack words of \<open>setjmp\<close>, run again from its return by every \<open>longjmp\<close>.

  \<open>Logger\<close> (hw2/utils.hpp, inject_glibc.cpp, hw2.cpp): the C library behind the wrappers is the record
  \<open>libc\<close>, a wrapper is a composition of steps that may end the process. \<open>LoggerRuns\<close>: the locale \<open>hooks\<close> is the
  contract of an interposed function and gives the one of a whole run, for programs that choose each
  call from the results of the earlier ones; it is interpreted on the fourteen wrappers. \<open>LoggerClaims\<close> holds
  the properties. \<open>LoggerSample\<close> (hw2/sample.cpp): the sample program as a tree of calls that branches on
  their results, run by the same locale.

  \<open>Lsof\<close> (hw1/argument_parser.hpp, file.hpp, process.hpp, hw1.cpp): the stages of a process over a world
  in which anything may change between two calls. \<open>LsofClaims\<close>: the locale \<open>row_stage\<close> is the contract
  of the three stages that collect rows; the loop over the memory map is a \<open>stepper\<close>. \<open>LsofMain\<close> composes the
  stages to the whole run of \<open>main\<close>.

  What is shown.

  hw4: any script keeps the tracee's text equal to the program with 0xcc exactly at the listed
  breakpoints, as long as no break is given twice and the tracee does not rewrite its own code; the
  commands \<open>break\<close>, \<open>delete\<close>, \<open>si\<close>, \<open>cont\<close>, \<open>start\<close>, \<open>dump\<close>, \<open>disasm\<close>, \<open>set\<close> and \<open>get\<close> have their intended effect;
  the table refines a finite map; the commands move along the state chart and stop the debugger only in
  the listed ways; the readers of ELF headers and memory maps read what is there; a session runs a child
  only after \<open>load\<close> and \<open>start\<close>, and keeps its breakpoints in the .text section of the loaded file;
  a program argument of \<open>main\<close> is a \<open>load\<close> line in front of the script.
  hw3: the wrappers keep the errno contract, signal sets are sets, \<open>signal\<close> installs handlers, \<open>longjmp\<close>
  returns to \<open>setjmp\<close>, \<open>perror\<close> prints the texts of the header, the assembly of \<open>sleep\<close> is the C text; alarm2
  and alarm3 report the blocked alarm, jmp1 ends after each of its ten functions has written once.
  hw2: the logger does not change results or kernel state but for the mode of \<open>open\<close>, it returns, and
  its lines show the names and bytes the sources mean to show; the sample program leaves one line for
  each of its sixteen wrapped calls, in order.
  hw1: the rows are typed, mapped files come once, the printed rows are the matching ones, the user table
  is the file's, the listing returns on every readable system, and \<open>main\<close> prints the rows of the processes
  of /proc in order.
  Some properties state what the code does where that differs from what it means to do: duplicate
  breakpoints, the uninitialised counter of \<open>memset\<close>, the buffer of a failed read. Other
  such facts are theorems beside the properties: a failed \<open>execvp\<close>, zero as a register value, saturating addresses, a query
  by \<open>sigaction\<close>, the mode of \<open>open\<close>, errno behind the logger, a second type filter, mappings of deleted files.

  Bounds and loops. Integers are words of their width where they can wrap (\<open>u8\<close> to \<open>u64\<close>), and \<open>int\<close> or
  \<open>nat\<close> where the code stays in range. The recursions are structural, or have a termination proof
  (\<open>tokens\<close>, \<open>fgets_all\<close>, \<open>getlines\<close>, \<open>memset_from\<close>, number printing). The two loops with a fixed number of rounds
  take it as an argument: ten instructions in \<open>disasm\<close>, 32 bytes in \<open>get_buffer\<close>. The length of a run of a
  logged program is the number of calls considered, and the property holds for every one; 60 calls are
  enough for the sample program on every path (\<open>within_sample\<close>). \<open>after_setjmp\<close> takes fuel, one unit for each
  return of \<open>setjmp\<close>; eleven are enough for jmp1.

  Not modelled. The system calls, the disassembler, \<open>std::regex\<close> and the C library behind the logger are
  parameters, with what a property needs of them as a hypothesis; \<open>getopt\<close> gives the list of options it
  finds. Scheduling and the delivery of signals are not modelled; the alarm programs run on a kernel of
  which the documented effect on masks, pending signals and the timer is assumed. The \<open>ret\<close> behind the
  call of \<open>exit\<close> in start.asm is left out. \<open>file::print_info\<close> is never called, so no property is about it.
  The effect of the C++ exceptions is the value \<open>Uncaught\<close>, undefined behaviour \<open>OutOfBounds\<close>, \<open>Uninitialised\<close> or \<open>NullPointer\<close>, after which nothing is
  claimed. What a program reads of errno between two logged calls is not part of the transparency of the
  logger, which clobbers it.
\<close>

end
